(* ===== verification/Prelude.thy ===== *)
theory Prelude
  imports
    Main
    "HOL-Library.Word"
    "HOL-Library.List_Lexorder"
    "HOL-Library.Char_ord"
    "HOL-Library.Product_Lexorder"
    "HOL-Library.Option_ord"
begin

text \<open>
  What every theory of the development shares: the machine integers of the Rust code, the
  standard-library operations on them that the code calls, the outcome of a call, and the
  operations on strings.

  The canisters are built by \<open>scripts/build.sh\<close> with \<open>cargo build --release\<close> and no
  \<open>overflow-checks\<close> setting, so \<open>+\<close>, \<open>-\<close>, \<open>*\<close> and \<open>pow\<close> wrap around.  That is word
  arithmetic: an integer of width \<open>w\<close> is a \<open>w word\<close>, signed or unsigned, and the signed ones
  are read with \<open>sint\<close> where the code compares them.  \<open>cast_signed\<close> and \<open>cast_unsigned\<close>
  keep the bits, so they are the identity here.  A division by zero panics in every build; a
  panic traps and the message is rolled back, so it is the value \<open>Trap\<close>.
\<close>

section \<open>Integers\<close>

type_synonym u8 = "8 word"
type_synonym u16 = "16 word"
type_synonym u32 = "32 word"
type_synonym u64 = "64 word"
type_synonym u128 = "128 word"
type_synonym i32 = "32 word"
type_synonym i64 = "64 word"
type_synonym i128 = "128 word"

named_theorems rust_int \<open>the definitions of the standard library's integer operations\<close>

definition saturating_sub :: "'a::len word \<Rightarrow> 'a word \<Rightarrow> 'a word" where
  [rust_int]: "saturating_sub a b = (if a < b then 0 else a - b)"

definition checked_sub :: "'a::len word \<Rightarrow> 'a word \<Rightarrow> 'a word option" where
  [rust_int]: "checked_sub a b = (if a < b then None else Some (a - b))"

definition unsigned_abs :: "'a::len word \<Rightarrow> 'a word" where
  [rust_int]: "unsigned_abs q = (if sint q < 0 then - q else q)"

definition saturating_add :: "'a::len word \<Rightarrow> 'a word \<Rightarrow> 'a word" where
  [rust_int]: "saturating_add a b =
     (if a + b < a then - 1 else a + b)"

definition i128_clamp :: "int \<Rightarrow> i128" where
  [rust_int]: "i128_clamp x =
     (if x < - (2 ^ 127) then word_of_int (- (2 ^ 127))
      else if 2 ^ 127 \<le> x then word_of_int (2 ^ 127 - 1)
      else word_of_int x)"

definition i128_saturating_add :: "i128 \<Rightarrow> i128 \<Rightarrow> i128" where
  [rust_int]: "i128_saturating_add a b = i128_clamp (sint a + sint b)"

definition i128_saturating_mul :: "i128 \<Rightarrow> i128 \<Rightarrow> i128" where
  [rust_int]: "i128_saturating_mul a b = i128_clamp (sint a * sint b)"

definition i128_saturating_pow :: "i128 \<Rightarrow> nat \<Rightarrow> i128" where
  [rust_int]: "i128_saturating_pow a n = i128_clamp (sint a ^ n)"

text \<open>Rust's signed \<open>/\<close> rounds towards zero; \<open>None\<close> is the panic on a zero divisor.\<close>

definition i128_div :: "i128 \<Rightarrow> i128 \<Rightarrow> i128 option" where
  [rust_int]: "i128_div a b =
     (if b = 0 then None
      else Some (word_of_int (sgn (sint a) * sgn (sint b) * (\<bar>sint a\<bar> div \<bar>sint b\<bar>))))"

definition u_div :: "'a::len word \<Rightarrow> 'a word \<Rightarrow> 'a word option" where
  [rust_int]: "u_div a b = (if b = 0 then None else Some (a div b))"

definition u_div_ceil :: "'a::len word \<Rightarrow> 'a word \<Rightarrow> 'a word option" where
  [rust_int]: "u_div_ceil a b =
     (if b = 0 then None else Some (if a mod b = 0 then a div b else a div b + 1))"

lemma saturating_add_no_overflow:
  "unat a + unat b < 2 ^ LENGTH('a) \<Longrightarrow> saturating_add a b = (a + b :: 'a::len word)"
  by (simp add: saturating_add_def word_less_nat_alt unat_word_ariths)

lemma saturating_sub_le [simp]: "saturating_sub a b \<le> a"
  by (auto simp: saturating_sub_def word_sub_le)

lemma saturating_sub_self [simp]: "saturating_sub a a = 0"
  by (simp add: saturating_sub_def)

lemma saturating_sub_0 [simp]: "saturating_sub a 0 = a" "saturating_sub 0 a = 0"
  by (auto simp: saturating_sub_def word_gt_0)

lemma saturating_sub_eq: "b \<le> a \<Longrightarrow> saturating_sub a b = a - b"
  by (auto simp: saturating_sub_def)

lemma unat_saturating_sub: "unat (saturating_sub a b) = unat a - unat b"
  by (auto simp: saturating_sub_def unat_sub word_less_nat_alt not_less word_le_nat_alt)

lemma checked_sub_Some: "checked_sub a b = Some c \<longleftrightarrow> b \<le> a \<and> c = a - b"
  by (auto simp: checked_sub_def)

lemma unsigned_abs_0 [simp]: "unsigned_abs 0 = 0"
  by (simp add: unsigned_abs_def)

lemma unsigned_abs_nonneg: "0 \<le> sint q \<Longrightarrow> unsigned_abs q = q"
  by (simp add: unsigned_abs_def)

lemma unsigned_abs_neg: "sint q < 0 \<Longrightarrow> unsigned_abs q = - q"
  by (simp add: unsigned_abs_def)

lemma sint_uint_nonneg: "0 \<le> sint q \<Longrightarrow> sint q = uint (q::i128)"
proof -
  assume q: "0 \<le> sint q"
  have u: "uint q < 2 ^ 128" using unsigned_less [of q, where 'a = int] by simp
  have s: "sint q = uint q - 2 ^ 128 * of_bool (bit (uint q) 127)"
    using u by (simp add: sint_uint signed_take_bit_eq_take_bit_minus take_bit_int_eq_self)
  with q u have "\<not> bit (uint q) 127" by (auto split: if_splits)
  with s show ?thesis by simp
qed

lemma uint_mult_nonneg:
  fixes q u :: "128 word"
  assumes "0 \<le> sint q" "sint q * uint u < 2 ^ 128"
  shows "uint (q * u) = sint q * uint u"
  using assms sint_uint_nonneg [OF assms(1)] by (simp add: uint_word_ariths)

text \<open>The values below a counter after it moves on.\<close>

lemma below_next: "n + 1 \<noteq> (0::u64) \<Longrightarrow> m \<le> n \<Longrightarrow> m < n + 1"
  using unatSuc [of n] by (simp add: word_less_nat_alt word_le_nat_alt add.commute)

section \<open>Outcomes of a call\<close>

text \<open>
  A call returns a value, returns an error of its error enum, or traps.  State that a call
  changed before it returned an error stays changed (Rust has no rollback on \<open>Err\<close>); a trap
  rolls the message back.
\<close>

datatype ('e, 'a) result = Ok 'a | Err 'e | Trap

definition obind :: "('e, 'a) result \<Rightarrow> ('a \<Rightarrow> ('e, 'b) result) \<Rightarrow> ('e, 'b) result" where
  "obind r f = (case r of Ok x \<Rightarrow> f x | Err e \<Rightarrow> Err e | Trap \<Rightarrow> Trap)"

definition or_trap :: "'a option \<Rightarrow> ('e, 'a) result" where
  "or_trap x = (case x of None \<Rightarrow> Trap | Some v \<Rightarrow> Ok v)"

definition ok_or :: "'e \<Rightarrow> 'a option \<Rightarrow> ('e, 'a) result" where
  "ok_or e x = (case x of None \<Rightarrow> Err e | Some v \<Rightarrow> Ok v)"

definition map_err :: "('e \<Rightarrow> 'f) \<Rightarrow> ('e, 'a) result \<Rightarrow> ('f, 'a) result" where
  "map_err f r = (case r of Ok x \<Rightarrow> Ok x | Err e \<Rightarrow> Err (f e) | Trap \<Rightarrow> Trap)"

lemma obind_simps [simp]:
  "obind (Ok x) f = f x" "obind (Err e) f = Err e" "obind Trap f = Trap"
  by (simp_all add: obind_def)

lemma or_trap_simps [simp]: "or_trap (Some v) = Ok v" "or_trap None = Trap"
  by (simp_all add: or_trap_def)

lemma ok_or_simps [simp]: "ok_or e (Some v) = Ok v" "ok_or e None = Err e"
  by (simp_all add: ok_or_def)

lemma map_err_simps [simp]:
  "map_err g (Ok x) = Ok x" "map_err g (Err e) = Err (g e)" "map_err g Trap = Trap"
  by (simp_all add: map_err_def)

lemma obind_Ok: "obind r f = Ok y \<longleftrightarrow> (\<exists>x. r = Ok x \<and> f x = Ok y)"
  by (cases r) auto

lemma obind_Err: "obind r f = Err e \<longleftrightarrow> r = Err e \<or> (\<exists>x. r = Ok x \<and> f x = Err e)"
  by (cases r) auto

lemma or_trap_Ok: "or_trap x = Ok v \<longleftrightarrow> x = Some v"
  by (cases x) auto

lemma or_trap_Err [simp]: "or_trap x \<noteq> Err e"
  by (cases x) auto

lemma ok_or_Ok: "ok_or e x = Ok v \<longleftrightarrow> x = Some v"
  by (cases x) auto

lemma map_err_Ok: "map_err g r = Ok v \<longleftrightarrow> r = Ok v"
  by (cases r) auto

section \<open>Strings\<close>

text \<open>
  A Rust \<open>String\<close> is its UTF-8 bytes, a \<open>string\<close> of HOL.  Its derived order compares bytes,
  as \<open>List_Lexorder\<close> over \<open>Char_ord\<close> does.  \<open>chars().count()\<close> counts the bytes that do not
  continue a character (bytes \<open>10xxxxxx\<close>).
\<close>

definition byte :: "char \<Rightarrow> nat" where
  "byte c = of_char c"

definition is_continuation :: "char \<Rightarrow> bool" where
  "is_continuation c = (128 \<le> byte c \<and> byte c < 192)"

definition char_count :: "string \<Rightarrow> nat" where
  "char_count s = length (filter (\<lambda>c. \<not> is_continuation c) s)"

lemma char_count_le_length: "char_count s \<le> length s"
  by (simp add: char_count_def)

text \<open>
  \<open>str::trim\<close> strips the characters of the Unicode property \<open>White_Space\<close>, listed by their
  UTF-8 encodings.
\<close>

definition utf8_whitespace :: "nat list list" where
  "utf8_whitespace =
     [[9], [10], [11], [12], [13], [32], [194, 133], [194, 160], [225, 154, 128],
      [226, 128, 128], [226, 128, 129], [226, 128, 130], [226, 128, 131], [226, 128, 132],
      [226, 128, 133], [226, 128, 134], [226, 128, 135], [226, 128, 136], [226, 128, 137],
      [226, 128, 138], [226, 128, 168], [226, 128, 169], [226, 128, 175], [226, 129, 159],
      [227, 128, 128]]"

fun strip_prefix :: "nat list \<Rightarrow> string \<Rightarrow> string option" where
  "strip_prefix [] s = Some s"
| "strip_prefix (b # bs) [] = None"
| "strip_prefix (b # bs) (c # s) = (if byte c = b then strip_prefix bs s else None)"

fun strip_any :: "nat list list \<Rightarrow> string \<Rightarrow> string option" where
  "strip_any [] s = None"
| "strip_any (p # ps) s = (case strip_prefix p s of Some r \<Rightarrow> Some r | None \<Rightarrow> strip_any ps s)"

fun trim_start_fuel :: "nat list list \<Rightarrow> nat \<Rightarrow> string \<Rightarrow> string" where
  "trim_start_fuel ps 0 s = s"
| "trim_start_fuel ps (Suc n) s =
     (case strip_any ps s of None \<Rightarrow> s | Some r \<Rightarrow> trim_start_fuel ps n r)"

definition trim :: "string \<Rightarrow> string" where
  "trim s =
     (let t = trim_start_fuel utf8_whitespace (length s) s
      in rev (trim_start_fuel (map rev utf8_whitespace) (length t) (rev t)))"

lemma strip_prefix_length: "strip_prefix p s = Some r \<Longrightarrow> length s = length p + length r"
  by (induction p s rule: strip_prefix.induct) (auto split: if_splits)

text \<open>The fuel \<open>length s\<close> is enough: more of it changes nothing.\<close>

lemma strip_any_length:
  "strip_any ps s = Some r \<Longrightarrow> [] \<notin> set ps \<Longrightarrow> length r < length s"
  by (induction ps s rule: strip_any.induct)
    (auto split: option.splits dest!: strip_prefix_length)

lemma trim_start_fuel_enough:
  "[] \<notin> set ps \<Longrightarrow> length s \<le> n \<Longrightarrow> length s \<le> m \<Longrightarrow>
   trim_start_fuel ps n s = trim_start_fuel ps m s"
proof (induction ps n s arbitrary: m rule: trim_start_fuel.induct)
  case (1 ps s)
  have "strip_any ps [] = None" using 1
    by (cases "strip_any ps []") (auto dest: strip_any_length)
  with 1 show ?case by (cases m) auto
next
  case (2 ps n s)
  show ?case
  proof (cases "strip_any ps s")
    case None
    then show ?thesis by (cases m) auto
  next
    case (Some r)
    have r: "length r < length s" using strip_any_length [OF Some] 2(2) by simp
    then obtain m' where "m = Suc m'" using 2(4) by (cases m) auto
    with Some r 2 show ?thesis by simp
  qed
qed

lemma trim_Nil [simp]: "trim [] = []"
  by (simp add: trim_def)

definition to_ascii_uppercase :: "string \<Rightarrow> string" where
  "to_ascii_uppercase = map (\<lambda>c. if 97 \<le> byte c \<and> byte c \<le> 122 then char_of (byte c - 32) else c)"

definition is_ascii_alphabetic :: "char \<Rightarrow> bool" where
  "is_ascii_alphabetic c =
     ((65 \<le> byte c \<and> byte c \<le> 90) \<or> (97 \<le> byte c \<and> byte c \<le> 122))"

definition is_ascii_alphanumeric :: "char \<Rightarrow> bool" where
  "is_ascii_alphanumeric c = (is_ascii_alphabetic c \<or> (48 \<le> byte c \<and> byte c \<le> 57))"

definition is_ascii :: "string \<Rightarrow> bool" where
  "is_ascii s = list_all (\<lambda>c. byte c < 128) s"

text \<open>\<open>str::contains\<close>: some suffix starts with the needle.\<close>

fun str_contains :: "string \<Rightarrow> string \<Rightarrow> bool" where
  "str_contains [] p = (p = [])"
| "str_contains (c # s) p = (take (length p) (c # s) = p \<or> str_contains s p)"

text \<open>Decimal digits, as \<open>format!\<close> prints an unsigned integer.\<close>

fun show_nat :: "nat \<Rightarrow> string" where
  "show_nat n =
     (if n < 10 then [char_of (48 + n)] else show_nat (n div 10) @ [char_of (48 + n mod 10)])"

declare show_nat.simps [simp del]

definition str_split :: "char \<Rightarrow> string \<Rightarrow> string list" where
  "str_split d s = foldr (\<lambda>c acc. if c = d then [] # acc
     else (case acc of [] \<Rightarrow> [[c]] | w # ws \<Rightarrow> (c # w) # ws)) s [[]]"

lemma str_split_Nil [simp]: "str_split d [] = [[]]"
  by (simp add: str_split_def)

lemma str_split_nonempty: "str_split d s \<noteq> []"
  by (induction s) (auto simp: str_split_def split: list.splits)

section \<open>Lists\<close>

lemma sum_list_map_filter_split:
  "(\<Sum>x\<leftarrow>xs. f x) = (\<Sum>x\<leftarrow>filter P xs. f x) + (\<Sum>x\<leftarrow>filter (\<lambda>x. \<not> P x) xs. f x :: 'a::comm_monoid_add)"
  by (induction xs) (auto simp: ac_simps)

lemma find_Some_mem: "List.find P xs = Some x \<Longrightarrow> x \<in> set xs \<and> P x"
  by (induction xs) (auto split: if_splits)

lemma fold_invariant_list:
  assumes "P s" and "\<And>x s. x \<in> set xs \<Longrightarrow> P s \<Longrightarrow> P (f x s)"
  shows "P (fold f xs s)"
  using assms by (induction xs arbitrary: s) auto

end
