(* ===== verification/Async.thy ===== *)
theory Async
  imports Prelude
begin

text \<open>
  Asynchronous handlers.  On the Internet Computer a handler runs without interruption up to an
  inter-canister call; there its state changes are committed, other messages may run, and it
  resumes with the reply and whatever state it then finds.  A \<open>proc\<close> is that: it returns with a
  final state, or awaits the reply to a request from a state and continues as a function of the
  reply and of the state at resumption.  \<open>run\<close> executes a handler in a world that answers each
  request and may change the state meanwhile.  A trap undoes the state changes since the last
  resumption, and no earlier ones.
\<close>

datatype ('q, 'p, 's, 'e, 'a) proc =
    Return "('e, 'a) result" 's
  | Await 'q 's "'p \<Rightarrow> 's \<Rightarrow> ('q, 'p, 's, 'e, 'a) proc"

lemma proc_induct [case_names Return Await]:
  assumes "\<And>r s. Q (Return r s)"
    and "\<And>q s k. (\<And>p s'. Q (k p s')) \<Longrightarrow> Q (Await q s k)"
  shows "Q pr"
proof (induction pr)
  case (Return r s)
  show ?case by (rule assms(1))
next
  case (Await q s k)
  show ?case by (rule assms(2)) (rule Await, auto)
qed

primrec pbind ::
  "('q, 'p, 's, 'e, 'a) proc \<Rightarrow> ('a \<Rightarrow> 's \<Rightarrow> ('q, 'p, 's, 'e, 'b) proc) \<Rightarrow> ('q, 'p, 's, 'e, 'b) proc"
where
  "pbind (Return r s) f =
     (case r of Ok x \<Rightarrow> f x s | Err e \<Rightarrow> Return (Err e) s | Trap \<Rightarrow> Return Trap s)"
| "pbind (Await q s k) f = Await q s (\<lambda>p s'. pbind (k p s') f)"

primrec pmap_err ::
  "('e \<Rightarrow> 'f) \<Rightarrow> ('q, 'p, 's, 'e, 'a) proc \<Rightarrow> ('q, 'p, 's, 'f, 'a) proc" where
  "pmap_err g (Return r s) = Return (map_err g r) s"
| "pmap_err g (Await q s k) = Await q s (\<lambda>p s'. pmap_err g (k p s'))"

text \<open>The caller of a \<open>proc\<close> that looks at its result, error or not.\<close>

primrec pcatch ::
  "('q, 'p, 's, 'e, 'a) proc \<Rightarrow> (('e, 'a) result \<Rightarrow> 's \<Rightarrow> ('q, 'p, 's, 'f, 'b) proc) \<Rightarrow>
     ('q, 'p, 's, 'f, 'b) proc"
where
  "pcatch (Return r s) f = (if r = Trap then Return Trap s else f r s)"
| "pcatch (Await q s k) f = Await q s (\<lambda>p s'. pcatch (k p s') f)"

primrec run_from ::
  "('q \<Rightarrow> 's \<Rightarrow> 'p \<times> 's) \<Rightarrow> ('q, 'p, 's, 'e, 'a) proc \<Rightarrow> 's \<Rightarrow> ('e, 'a) result \<times> 's" where
  "run_from w (Return r s) = (\<lambda>c. (r, if r = Trap then c else s))"
| "run_from w (Await q s k) = (\<lambda>c. case w q s of (p, s') \<Rightarrow> run_from w (k p s') s')"

definition run ::
  "('q \<Rightarrow> 's \<Rightarrow> 'p \<times> 's) \<Rightarrow> ('s \<Rightarrow> ('q, 'p, 's, 'e, 'a) proc) \<Rightarrow> 's \<Rightarrow> ('e, 'a) result \<times> 's" where
  "run w h s = run_from w (h s) s"

section \<open>Invariants\<close>

text \<open>Every state that the handler commits satisfies \<open>P\<close>, if the others keep it too.\<close>

primrec keeps :: "('s \<Rightarrow> bool) \<Rightarrow> ('q, 'p, 's, 'e, 'a) proc \<Rightarrow> bool" where
  "keeps P (Return r s) = (r \<noteq> Trap \<longrightarrow> P s)"
| "keeps P (Await q s k) = (P s \<and> (\<forall>p s'. P s' \<longrightarrow> keeps P (k p s')))"

lemma run_from_keeps:
  assumes "keeps P pr" "P c" "\<And>q s. P s \<Longrightarrow> P (snd (w q s))"
  shows "P (snd (run_from w pr c))"
  using assms(1,2)
proof (induction pr arbitrary: c rule: proc_induct)
  case (Return r s)
  then show ?case by auto
next
  case (Await q s k)
  obtain p s' where w: "w q s = (p, s')" by (cases "w q s")
  have "P s'" using assms(3) [of s q] Await.prems w by simp
  with w Await show ?case by (auto intro: Await.IH)
qed

lemma run_keeps:
  "keeps P (h s) \<Longrightarrow> P s \<Longrightarrow> (\<And>q s. P s \<Longrightarrow> P (snd (w q s))) \<Longrightarrow> P (snd (run w h s))"
  by (simp add: run_def run_from_keeps)

lemma keeps_pbind:
  assumes "keeps P pr" "\<And>x s. P s \<Longrightarrow> keeps P (f x s)"
  shows "keeps P (pbind pr f)"
  using assms(1)
proof (induction pr rule: proc_induct)
  case (Return r s)
  then show ?case using assms(2) by (cases r) auto
next
  case (Await q s k)
  then show ?case by auto
qed

lemma keeps_pmap_err: "keeps P pr \<Longrightarrow> keeps P (pmap_err g pr)"
proof (induction pr rule: proc_induct)
  case (Return r s)
  then show ?case by (cases r) auto
next
  case (Await q s k)
  then show ?case by auto
qed

lemma keeps_pcatch:
  assumes "keeps P pr" "\<And>r s. P s \<Longrightarrow> keeps P (f r s)"
  shows "keeps P (pcatch pr f)"
  using assms(1)
proof (induction pr rule: proc_induct)
  case (Return r s)
  then show ?case using assms(2) by auto
next
  case (Await q s k)
  then show ?case by auto
qed

section \<open>Running a sequence\<close>

text \<open>The state at the last resumption: where a trap would return to.\<close>

primrec resumed_at :: "('q \<Rightarrow> 's \<Rightarrow> 'p \<times> 's) \<Rightarrow> ('q, 'p, 's, 'e, 'a) proc \<Rightarrow> 's \<Rightarrow> 's" where
  "resumed_at w (Return r s) = (\<lambda>c. c)"
| "resumed_at w (Await q s k) = (\<lambda>c. case w q s of (p, s') \<Rightarrow> resumed_at w (k p s') s')"

lemma run_from_pbind:
  "run_from w (pbind pr f) c =
     (case run_from w pr c of
        (Ok x, s) \<Rightarrow> run_from w (f x s) (resumed_at w pr c)
      | (Err e, s) \<Rightarrow> (Err e, s)
      | (Trap, s) \<Rightarrow> (Trap, s))"
proof (induction pr arbitrary: c rule: proc_induct)
  case (Return r s)
  then show ?case by (cases r) auto
next
  case (Await q s k)
  then show ?case by (auto split: prod.splits result.splits)
qed

lemma run_from_pmap_err:
  "run_from w (pmap_err g pr) c =
     (case run_from w pr c of (r, s) \<Rightarrow> (map_err g r, s))"
proof (induction pr arbitrary: c rule: proc_induct)
  case (Return r s)
  then show ?case by (cases r) auto
next
  case (Await q s k)
  then show ?case by (auto split: prod.splits)
qed

end
