(* ===== verification/BTree.thy ===== *)
theory BTree
  imports Prelude
begin

text \<open>
  \<open>BTreeMap\<close> and \<open>BTreeSet\<close> of the Rust standard library: a map is its entries in ascending
  order of the keys, which is the order in which every iterator of the code visits them.  The
  interface \<open>ordered_map\<close> says what the components rely on; the operations below satisfy it.
\<close>

type_synonym ('k, 'v) btmap = "('k \<times> 'v) list"
type_synonym 'a btset = "'a list"

named_theorems bt_simps \<open>lookups after the operations of a map\<close>

section \<open>The interface\<close>

locale ordered_map =
  fixes get :: "'m \<Rightarrow> 'k::linorder \<Rightarrow> 'v option"
    and put :: "'k \<Rightarrow> 'v \<Rightarrow> 'm \<Rightarrow> 'm"
    and del :: "'k \<Rightarrow> 'm \<Rightarrow> 'm"
    and entries :: "'m \<Rightarrow> ('k \<times> 'v) list"
    and inv :: "'m \<Rightarrow> bool"
  assumes get_put: "get (put k v m) k' = (if k = k' then Some v else get m k')"
    and get_del: "get (del k m) k' = (if k = k' then None else get m k')"
    and get_entries: "inv m \<Longrightarrow> get m k = map_of (entries m) k"
    and entries_sorted: "inv m \<Longrightarrow> sorted_wrt (<) (map fst (entries m))"
    and inv_put: "inv m \<Longrightarrow> inv (put k v m)"
    and inv_del: "inv m \<Longrightarrow> inv (del k m)"
begin

definition total :: "('k \<Rightarrow> 'v \<Rightarrow> 'a::comm_monoid_add) \<Rightarrow> 'm \<Rightarrow> 'a" where
  "total f m = (\<Sum>(k, v)\<leftarrow>entries m. f k v)"

lemma distinct_keys: "inv m \<Longrightarrow> distinct (map fst (entries m))"
  using entries_sorted strict_sorted_iff by blast

lemma mem_entries: "inv m \<Longrightarrow> (k, v) \<in> set (entries m) \<longleftrightarrow> get m k = Some v"
  by (simp add: get_entries distinct_keys)

lemma keys_dom:
  assumes "inv m"
  shows "set (map fst (entries m)) = dom (get m)"
proof -
  have "get m = map_of (entries m)" using get_entries [OF assms] by blast
  then show ?thesis by (simp add: dom_map_of_conv_image_fst)
qed

lemma entries_ext:
  assumes "inv m" "inv n" "\<And>k. get m k = get n k"
  shows "entries m = entries n"
proof -
  have "set (entries m) = set (entries n)"
    using assms by (auto simp: mem_entries)
  moreover have "sorted_wrt (<) (map fst (entries m))" "sorted_wrt (<) (map fst (entries n))"
    using assms by (auto simp: entries_sorted)
  moreover have "inj_on fst (set (entries m) \<union> set (entries n))"
    using calculation distinct_keys [OF assms(1)] by (simp add: distinct_map)
  ultimately show ?thesis
    by (intro map_sorted_distinct_set_unique [of fst]) (simp_all add: strict_sorted_iff)
qed

lemma put_put: "inv m \<Longrightarrow> entries (put k v (put k w m)) = entries (put k v m)"
  by (rule entries_ext) (auto simp: inv_put get_put)

lemma put_commute:
  "inv m \<Longrightarrow> k \<noteq> k' \<Longrightarrow> entries (put k v (put k' v' m)) = entries (put k' v' (put k v m))"
  by (rule entries_ext) (auto simp: inv_put get_put)

lemma total_eq_sum:
  assumes "inv m"
  shows "total f m = (\<Sum>k\<in>dom (get m). f k (the (get m k)))"
proof -
  have "total f m = (\<Sum>k\<leftarrow>map fst (entries m). f k (the (get m k)))"
    unfolding total_def map_map
    by (rule arg_cong [where f = sum_list], rule map_cong)
      (auto simp: mem_entries [OF assms] split_beta
        dest!: mem_entries [OF assms, THEN iffD1])
  also have "\<dots> = (\<Sum>k\<in>set (map fst (entries m)). f k (the (get m k)))"
    using distinct_keys [OF assms] by (rule sum_list_distinct_conv_sum_set)
  finally show ?thesis by (simp only: keys_dom [OF assms])
qed

lemma finite_dom: "inv m \<Longrightarrow> finite (dom (get m))"
  using keys_dom [symmetric] by simp

text \<open>Replacing the value at a key changes a total by exactly that key's contribution.\<close>

lemma total_put:
  assumes "inv m"
  shows "total f (put k v m) + (case get m k of None \<Rightarrow> 0 | Some w \<Rightarrow> f k w) = total f m + f k v"
proof -
  let ?g = "\<lambda>k'. f k' (the (get m k'))"
  have dom: "dom (get (put k v m)) = insert k (dom (get m))"
    by (auto simp: get_put split: if_splits)
  have "total f (put k v m) = (\<Sum>k'\<in>insert k (dom (get m) - {k}). f k' (the (get (put k v m) k')))"
    by (simp add: total_eq_sum inv_put assms dom insert_absorb)
  also have "\<dots> = f k v + (\<Sum>k'\<in>dom (get m) - {k}. ?g k')"
    by (subst sum.insert)
      (auto simp: finite_dom assms get_put
        intro!: arg_cong [where f = "(+) (f k v)"] sum.cong split: if_splits)
  finally have put: "total f (put k v m) = f k v + (\<Sum>k'\<in>dom (get m) - {k}. ?g k')" .
  show ?thesis
  proof (cases "get m k")
    case None
    then have "dom (get m) - {k} = dom (get m)" by auto
    with put None show ?thesis by (simp add: total_eq_sum assms ac_simps)
  next
    case (Some w)
    have "total f m = f k w + (\<Sum>k'\<in>dom (get m) - {k}. ?g k')"
      using Some sum.remove [OF finite_dom [OF assms], of k ?g]
      by (simp add: total_eq_sum assms domI)
    with put Some show ?thesis by (simp add: ac_simps)
  qed
qed

lemma total_del:
  assumes "inv m"
  shows "total f (del k m) + (case get m k of None \<Rightarrow> 0 | Some w \<Rightarrow> f k w) = total f m"
proof -
  have dom: "dom (get (del k m)) = dom (get m) - {k}"
    by (auto simp: get_del split: if_splits)
  have "total f (del k m) = (\<Sum>k'\<in>dom (get m) - {k}. f k' (the (get m k')))"
    unfolding total_eq_sum [OF inv_del [OF assms]] dom
    by (rule sum.cong) (auto simp: get_del)
  then show ?thesis
    using sum.remove [OF finite_dom [OF assms], of k "\<lambda>k'. f k' (the (get m k'))"]
    by (cases "get m k") (auto simp: total_eq_sum assms domI ac_simps Diff_insert0 domIff)
qed

end

section \<open>The operations\<close>

definition bt_get :: "('k, 'v) btmap \<Rightarrow> 'k \<Rightarrow> 'v option" where
  "bt_get m k = map_of m k"

fun bt_insert :: "'k::linorder \<Rightarrow> 'v \<Rightarrow> ('k, 'v) btmap \<Rightarrow> ('k, 'v) btmap" where
  "bt_insert k v [] = [(k, v)]"
| "bt_insert k v ((k', v') # m) =
     (if k < k' then (k, v) # (k', v') # m
      else if k = k' then (k, v) # m
      else (k', v') # bt_insert k v m)"

definition bt_remove :: "'k \<Rightarrow> ('k, 'v) btmap \<Rightarrow> ('k, 'v) btmap" where
  "bt_remove k m = filter (\<lambda>(k', _). k' \<noteq> k) m"

definition bt_contains_key :: "('k, 'v) btmap \<Rightarrow> 'k \<Rightarrow> bool" where
  "bt_contains_key m k = (bt_get m k \<noteq> None)"

definition bt_keys :: "('k, 'v) btmap \<Rightarrow> 'k list" where
  "bt_keys m = map fst m"

definition bt_values :: "('k, 'v) btmap \<Rightarrow> 'v list" where
  "bt_values m = map snd m"

text \<open>\<open>get_mut\<close> and an update through the reference; a missing key changes nothing.\<close>

definition bt_modify :: "'k \<Rightarrow> ('v \<Rightarrow> 'v) \<Rightarrow> ('k, 'v) btmap \<Rightarrow> ('k, 'v) btmap" where
  "bt_modify k f m = map (\<lambda>(k', v). (k', if k' = k then f v else v)) m"

text \<open>\<open>entry(k).or_insert(d)\<close> (or \<open>or_default\<close>) and an update through the reference.\<close>

definition bt_entry :: "'k::linorder \<Rightarrow> 'v \<Rightarrow> ('v \<Rightarrow> 'v) \<Rightarrow> ('k, 'v) btmap \<Rightarrow> ('k, 'v) btmap" where
  "bt_entry k d f m = bt_insert k (f (case bt_get m k of None \<Rightarrow> d | Some v \<Rightarrow> v)) m"

text \<open>\<open>range((Excluded(k), Unbounded))\<close> and \<open>range(k..)\<close>.\<close>

definition bt_range_after :: "'k::linorder \<Rightarrow> ('k, 'v) btmap \<Rightarrow> ('k, 'v) btmap" where
  "bt_range_after k m = filter (\<lambda>(k', _). k < k') m"

definition bt_range_from :: "'k::linorder \<Rightarrow> ('k, 'v) btmap \<Rightarrow> ('k, 'v) btmap" where
  "bt_range_from k m = filter (\<lambda>(k', _). k \<le> k') m"

definition bt_of_list :: "('k::linorder \<times> 'v) list \<Rightarrow> ('k, 'v) btmap" where
  "bt_of_list xs = fold (\<lambda>(k, v). bt_insert k v) xs []"

text \<open>A pass over \<open>values_mut()\<close>.\<close>

definition bt_map_values :: "('v \<Rightarrow> 'w) \<Rightarrow> ('k, 'v) btmap \<Rightarrow> ('k, 'w) btmap" where
  "bt_map_values f m = map (\<lambda>(k, v). (k, f v)) m"

definition bt_inv :: "('k::linorder, 'v) btmap \<Rightarrow> bool" where
  "bt_inv m = sorted_wrt (<) (map fst m)"

fun bs_insert :: "'a::linorder \<Rightarrow> 'a btset \<Rightarrow> 'a btset" where
  "bs_insert x [] = [x]"
| "bs_insert x (y # ys) =
     (if x < y then x # y # ys else if x = y then y # ys else y # bs_insert x ys)"

definition bs_remove :: "'a \<Rightarrow> 'a btset \<Rightarrow> 'a btset" where
  "bs_remove x ys = filter (\<lambda>y. y \<noteq> x) ys"

definition bs_of_list :: "'a::linorder list \<Rightarrow> 'a btset" where
  "bs_of_list xs = fold bs_insert xs []"

section \<open>Lookups\<close>

lemma bt_get_Nil [simp]: "bt_get [] k = None"
  by (simp add: bt_get_def)

lemma bt_get_insert [simp, bt_simps]:
  "bt_get (bt_insert k v m) k' = (if k = k' then Some v else bt_get m k')"
  by (induction k v m rule: bt_insert.induct) (auto simp: bt_get_def)

lemma bt_get_remove [simp, bt_simps]:
  "bt_get (bt_remove k m) k' = (if k = k' then None else bt_get m k')"
  by (induction m) (auto simp: bt_get_def bt_remove_def)

lemma bt_get_modify [simp, bt_simps]:
  "bt_get (bt_modify k f m) k' = (if k = k' then map_option f (bt_get m k') else bt_get m k')"
  by (induction m) (auto simp: bt_get_def bt_modify_def)

lemma bt_get_entry [simp, bt_simps]:
  "bt_get (bt_entry k d f m) k' =
     (if k = k' then Some (f (case bt_get m k of None \<Rightarrow> d | Some v \<Rightarrow> v)) else bt_get m k')"
  by (simp add: bt_entry_def)

lemma bt_get_map_values [simp, bt_simps]:
  "bt_get (bt_map_values f m) k = map_option f (bt_get m k)"
  by (induction m) (auto simp: bt_get_def bt_map_values_def)

lemma bt_contains_key_iff [simp]: "bt_contains_key m k \<longleftrightarrow> (\<exists>v. bt_get m k = Some v)"
  by (auto simp: bt_contains_key_def)

section \<open>The invariant\<close>

lemma bt_inv_Nil [simp]: "bt_inv []"
  by (simp add: bt_inv_def)

lemma bt_inv_Cons:
  "bt_inv ((k, v) # m) \<longleftrightarrow> (\<forall>k'\<in>fst ` set m. k < k') \<and> bt_inv m"
  by (auto simp: bt_inv_def)

lemma fst_set_bt_insert: "fst ` set (bt_insert k v m) = insert k (fst ` set m)"
  by (induction k v m rule: bt_insert.induct) auto

lemma bt_inv_insert [simp]: "bt_inv m \<Longrightarrow> bt_inv (bt_insert k v m)"
  by (induction k v m rule: bt_insert.induct)
    (auto simp: bt_inv_Cons fst_set_bt_insert ball_conj_distrib)

lemma bt_inv_filter: "bt_inv m \<Longrightarrow> bt_inv (filter P m)"
  by (induction m) (auto simp: bt_inv_Cons)

lemma bt_inv_remove [simp]: "bt_inv m \<Longrightarrow> bt_inv (bt_remove k m)"
  by (simp add: bt_remove_def bt_inv_filter)

lemma fst_bt_modify [simp]: "map fst (bt_modify k f m) = map fst m"
  by (induction m) (auto simp: bt_modify_def)

lemma bt_inv_modify [simp]: "bt_inv (bt_modify k f m) = bt_inv m"
  by (simp add: bt_inv_def)

lemma bt_inv_map_values [simp]: "bt_inv (bt_map_values f m) = bt_inv m"
proof -
  have "map fst (bt_map_values f m) = map fst m"
    by (induction m) (auto simp: bt_map_values_def)
  then show ?thesis by (simp add: bt_inv_def)
qed

lemma bt_inv_entry [simp]: "bt_inv m \<Longrightarrow> bt_inv (bt_entry k d f m)"
  by (simp add: bt_entry_def)

lemma bt_inv_range_after [simp]: "bt_inv m \<Longrightarrow> bt_inv (bt_range_after k m)"
  by (simp add: bt_range_after_def bt_inv_filter)

interpretation bt: ordered_map bt_get bt_insert bt_remove "\<lambda>m. m" bt_inv
  by unfold_locales (auto simp: bt_get_def bt_inv_def bt_simps [unfolded bt_get_def]
      intro: bt_inv_insert [unfolded bt_inv_def] bt_inv_remove [unfolded bt_inv_def])

text \<open>The total of a quantity over the entries, as the interface defines it.\<close>

abbreviation bt_total :: "('k::linorder \<Rightarrow> 'v \<Rightarrow> 'a::comm_monoid_add) \<Rightarrow> ('k, 'v) btmap \<Rightarrow> 'a" where
  "bt_total \<equiv> bt.total"

lemma bt_total_Nil [simp]: "bt_total f [] = 0"
  by (simp add: bt.total_def)

lemma bt_total_Cons [simp]: "bt_total f ((k, v) # m) = f k v + bt_total f m"
  by (simp add: bt.total_def)

lemma bt_mem: "bt_inv m \<Longrightarrow> (k, v) \<in> set m \<longleftrightarrow> bt_get m k = Some v"
  by (rule bt.mem_entries)

lemma bt_get_mem: "bt_get m k = Some v \<Longrightarrow> (k, v) \<in> set m"
  by (simp add: bt_get_def map_of_SomeD)

lemma bt_ext: "bt_inv m \<Longrightarrow> bt_inv n \<Longrightarrow> (\<And>k. bt_get m k = bt_get n k) \<Longrightarrow> m = n"
  by (rule bt.entries_ext)

lemma bt_modify_insert:
  "bt_inv m \<Longrightarrow> bt_get m k = Some v \<Longrightarrow> bt_modify k f m = bt_insert k (f v) m"
  by (rule bt_ext) auto

lemma bt_modify_None: "bt_inv m \<Longrightarrow> bt_get m k = None \<Longrightarrow> bt_modify k f m = m"
  by (rule bt_ext) auto

lemma set_bt_insert_subset: "set (bt_insert k v m) \<subseteq> insert (k, v) (set m)"
  by (induction k v m rule: bt_insert.induct) auto

lemma bt_insert_values: "set (bt_values (bt_insert k v m)) \<subseteq> insert v (set (bt_values m))"
  using set_bt_insert_subset by (fastforce simp: bt_values_def)

lemma bt_length: "bt_inv m \<Longrightarrow> length m = card (dom (bt_get m))"
  using bt.keys_dom [of m] bt.distinct_keys [of m] distinct_card [of "map fst m"] by simp

lemma bt_range_after_get:
  "bt_inv m \<Longrightarrow> bt_get (bt_range_after k m) k' = (if k < k' then bt_get m k' else None)"
  by (induction m) (auto simp: bt_get_def bt_range_after_def bt_inv_Cons map_of_eq_None_iff)

lemma set_bs_insert [simp]: "set (bs_insert x ys) = insert x (set ys)"
  by (induction x ys rule: bs_insert.induct) auto

lemma set_bs_remove [simp]: "set (bs_remove x ys) = set ys - {x}"
  by (auto simp: bs_remove_def)

lemma set_fold_bs_insert [simp]: "set (fold bs_insert xs ys) = set xs \<union> set ys"
  by (induction xs arbitrary: ys) auto

lemma set_fold_bs_remove [simp]: "set (fold bs_remove xs ys) = set ys - set xs"
  by (induction xs arbitrary: ys) auto

lemma set_bs_of_list [simp]: "set (bs_of_list xs) = set xs"
  by (simp add: bs_of_list_def)

lemma sorted_bs_insert [simp]: "sorted_wrt (<) ys \<Longrightarrow> sorted_wrt (<) (bs_insert x ys)"
  by (induction x ys rule: bs_insert.induct) auto

lemma sorted_bs_remove [simp]: "sorted_wrt (<) ys \<Longrightarrow> sorted_wrt (<) (bs_remove x ys)"
  by (simp add: bs_remove_def sorted_wrt_filter)

lemma sorted_fold_bs_insert [simp]:
  "sorted_wrt (<) ys \<Longrightarrow> sorted_wrt (<) (fold bs_insert xs ys)"
  by (induction xs arbitrary: ys) auto

lemma sorted_bs_of_list [simp]: "sorted_wrt (<) (bs_of_list xs)"
  by (simp add: bs_of_list_def)

end
