(* ===== verification/SharedTypes.thy ===== *)
theory SharedTypes
  imports BTree
begin

text \<open>
  The data of the crate \<open>shared\<close> (\<open>src/src/shared/src/types\<close>): balance domains, prices, payout
  units, assets and collateral, descriptions, access policies, engines, and the series record.
  A struct is a record whose fields carry a short prefix, an enum a datatype with the source's
  constructors, and a newtype over \<open>String\<close> (\<open>SeriesId\<close>, \<open>OutcomeId\<close>, \<open>EngineId\<close>, \<open>GroupId\<close>) is
  its string, whose derived order and equality are those of the string.

  A principal is its byte string.  The anonymous principal is the one byte \<open>0x04\<close>.
\<close>

section \<open>Identifiers\<close>

type_synonym principal = string
type_synonym series_id = string
type_synonym outcome_id = string
type_synonym engine_id = string
type_synonym group_id = string
type_synonym asset_id = string
type_synonym chain_id = u64

definition anonymous :: principal where
  "anonymous = [char_of (4::nat)]"

definition management_canister :: principal where
  "management_canister = []"

section \<open>Constants\<close>

definition HOUR_NS :: u64 where "HOUR_NS = 3600000000000"
definition USD_DECIMALS :: u8 where "USD_DECIMALS = 4"
definition BPS_BASE :: u16 where "BPS_BASE = 10000"
definition MAX_SERIES_TITLE_LEN :: nat where "MAX_SERIES_TITLE_LEN = 128"
definition MAX_SERIES_DESCRIPTION_LEN :: nat where "MAX_SERIES_DESCRIPTION_LEN = 1024"
definition MAX_SERIES_RESOLUTION_CLAUSE_LEN :: nat where "MAX_SERIES_RESOLUTION_CLAUSE_LEN = 1024"
definition MAX_LOCALE_LEN :: nat where "MAX_LOCALE_LEN = 16"
definition MAX_REWARD_TITLE_LEN :: nat where "MAX_REWARD_TITLE_LEN = 64"
definition MAX_REWARD_DESCRIPTION_LEN :: nat where "MAX_REWARD_DESCRIPTION_LEN = 1024"
definition MAX_ICON_URL_LEN :: nat where "MAX_ICON_URL_LEN = 256"
definition MAX_FORKS_PER_SOURCE_PER_USER :: u64 where "MAX_FORKS_PER_SOURCE_PER_USER = 100"
definition DEFAULT_SOCIAL_MAX_PER_HOUR :: u64 where "DEFAULT_SOCIAL_MAX_PER_HOUR = 1000"
definition DEFAULT_SOCIAL_MAX_PER_USER :: u64 where "DEFAULT_SOCIAL_MAX_PER_USER = 50"

section \<open>Balance domains\<close>

datatype balance_domain = Playground | Settlement | ViciXp | Social

fun domain_rank :: "balance_domain \<Rightarrow> nat" where
  "domain_rank Playground = 0"
| "domain_rank Settlement = 1"
| "domain_rank ViciXp = 2"
| "domain_rank Social = 3"

lemma domain_rank_inj [simp]: "domain_rank a = domain_rank b \<longleftrightarrow> a = b"
  by (cases a; cases b) auto

text \<open>The derived \<open>Ord\<close> compares the variants in declaration order.\<close>

instantiation balance_domain :: linorder
begin

definition less_eq_balance_domain :: "balance_domain \<Rightarrow> balance_domain \<Rightarrow> bool" where
  "less_eq_balance_domain a b = (domain_rank a \<le> domain_rank b)"

definition less_balance_domain :: "balance_domain \<Rightarrow> balance_domain \<Rightarrow> bool" where
  "less_balance_domain a b = (domain_rank a < domain_rank b)"

instance
  by standard (auto simp: less_eq_balance_domain_def less_balance_domain_def)

end

text \<open>
  \<open>AllowedBalanceDomains::try_from\<close>: an empty list is rejected, any other is de-duplicated and
  sorted.
\<close>

definition allowed_balance_domains_try_from :: "balance_domain list \<Rightarrow> balance_domain list option" where
  "allowed_balance_domains_try_from domains =
     (if domains = [] then None else Some (bs_of_list domains))"

record domain_policy =
  dp_deposits_enabled :: bool
  dp_withdrawals_enabled :: bool
  dp_insurance_fund_fee_ratio_override :: "u16 option"
  dp_protocol_fee_ratio_override :: "u16 option"
  dp_label :: string

definition default_domain_policy :: domain_policy where
  "default_domain_policy =
     \<lparr> dp_deposits_enabled = True, dp_withdrawals_enabled = True,
       dp_insurance_fund_fee_ratio_override = None, dp_protocol_fee_ratio_override = None,
       dp_label = [] \<rparr>"

section \<open>Decimal values and prices\<close>

record decimal_value =
  dec_value :: u128
  dec_decimals :: u8

record price =
  price_decimal :: decimal_value
  price_timestamp :: "u64 option"
  price_oracle_id :: "string option"

definition price_new :: "u128 \<Rightarrow> u8 \<Rightarrow> price" where
  "price_new v d =
     \<lparr> price_decimal = \<lparr> dec_value = v, dec_decimals = d \<rparr>,
       price_timestamp = None, price_oracle_id = None \<rparr>"

definition price_value :: "price \<Rightarrow> u128" where
  "price_value p = dec_value (price_decimal p)"

definition price_decimals :: "price \<Rightarrow> u8" where
  "price_decimals p = dec_decimals (price_decimal p)"

lemma price_new_simps [simp]:
  "price_value (price_new v d) = v" "price_decimals (price_new v d) = d"
  by (simp_all add: price_new_def price_value_def price_decimals_def)

section \<open>Assets\<close>

record native_evm_asset =
  nat_chain_id :: chain_id
  nat_decimals :: u8

record erc_token =
  erc_token_address :: string
  erc_chain_id :: chain_id
  erc_decimals :: u8

datatype asset = Icrc principal | NativeEvm native_evm_asset | Erc20 erc_token

datatype asset_error =
    TransferError string
  | InvalidAssetForHandler
  | UnsupportedAsset
  | CallError string i32 string
  | InsufficientBalance u128 u128
  | AssetMathOverflow
  | InvalidAssetId string

fun as_icrc :: "asset \<Rightarrow> (asset_error, principal) result" where
  "as_icrc (Icrc ledger_id) = Ok ledger_id"
| "as_icrc (NativeEvm _) = Err InvalidAssetForHandler"
| "as_icrc (Erc20 _) = Err InvalidAssetForHandler"

datatype evm_asset_ref = EvmNative native_evm_asset | EvmErc20 erc_token

fun as_evm :: "asset \<Rightarrow> (asset_error, evm_asset_ref) result" where
  "as_evm (NativeEvm a) = Ok (EvmNative a)"
| "as_evm (Erc20 t) = Ok (EvmErc20 t)"
| "as_evm (Icrc _) = Err InvalidAssetForHandler"

datatype chain = Ethereum | Base | Bsc | Polygon

fun chain_to_id :: "chain \<Rightarrow> chain_id" where
  "chain_to_id Ethereum = 1"
| "chain_to_id Base = 8453"
| "chain_to_id Bsc = 56"
| "chain_to_id Polygon = 137"

definition chain_try_from :: "chain_id \<Rightarrow> chain option" where
  "chain_try_from i =
     (if i = 1 then Some Ethereum else if i = 8453 then Some Base
      else if i = 56 then Some Bsc else if i = 137 then Some Polygon else None)"

section \<open>Payout units\<close>

datatype fiat_unit = Usd | Eur | Gbp | Chf

fun fiat_as_str :: "fiat_unit \<Rightarrow> string" where
  "fiat_as_str Usd = ''USD''"
| "fiat_as_str Eur = ''EUR''"
| "fiat_as_str Gbp = ''GBP''"
| "fiat_as_str Chf = ''CHF''"

record social_reward =
  sr_title :: string
  sr_description :: "string option"
  sr_icon_url :: "string option"

datatype non_monetary_unit = Points | SocialUnit social_reward

datatype payout_unit = Fiat fiat_unit | PayAsset asset | NonMonetary non_monetary_unit

definition payout_usd :: payout_unit where
  "payout_usd = Fiat Usd"

fun is_non_monetary :: "payout_unit \<Rightarrow> bool" where
  "is_non_monetary (NonMonetary _) = True"
| "is_non_monetary (Fiat _) = False"
| "is_non_monetary (PayAsset _) = False"

section \<open>Series\<close>

record description =
  desc_plain :: string
  desc_markdown :: "string option"
  desc_html :: "string option"

record resolution =
  res_clause :: string

datatype payoff_type = Binary | Call | Put | Categorical

fun payoff_id_bytes :: "payoff_type \<Rightarrow> string" where
  "payoff_id_bytes Binary = ''BINARY''"
| "payoff_id_bytes Call = ''CALL''"
| "payoff_id_bytes Put = ''PUT''"
| "payoff_id_bytes Categorical = ''CATEGORICAL''"

datatype settlement_input = Price price | Outcome outcome_id

record outcome =
  out_id :: outcome_id
  out_title :: string
  out_description :: "description option"
  out_icon_url :: "string option"

datatype trading_access = Open | Restricted "group_id list"

record series =
  ser_series_id :: series_id
  ser_underlying :: string
  ser_expiry_ns :: u64
  ser_start_ns :: "u64 option"
  ser_payoff_type :: payoff_type
  ser_strike :: "price option"
  ser_price_precision :: u8
  ser_payout_unit :: payout_unit
  ser_outcomes :: "outcome list option"
  ser_oracle_source :: string
  ser_creator :: principal
  ser_created_at_ns :: u64
  ser_title :: string
  ser_description :: description
  ser_resolution :: resolution
  ser_icon_url :: "string option"
  ser_banner_url :: "string option"
  ser_balance_domain :: balance_domain
  ser_trading_access :: "trading_access list"
  ser_engine_id :: "engine_id option"
  ser_forked_from :: "series_id option"
  ser_locale :: "string option"

datatype series_error =
    SeriesAlreadyExists | TitleTooLong | DescriptionTooLong | ResolutionClauseEmpty
  | ResolutionClauseTooLong | SeriesUnauthorized | UnsupportedPayoutUnit | RewardTitleTooLong
  | RewardDescriptionTooLong | RewardIconUrlTooLong | SocialMarketMustBeRestricted
  | SocialMarketRequiresNonMonetaryPayout | SocialRateLimitExceeded | SocialMaxPerUserReached
  | SourceSeriesNotFound | ForkMustBeRestricted | ForkLimitReached | EngineRoleNotHeld
  | EngineIdRequired | InvalidLocale | SeriesNotFoundInRegistry | StartNotInFuture
  | StartNotBeforeExpiry

definition reward_validate :: "social_reward \<Rightarrow> (series_error, unit) result" where
  "reward_validate r =
     (if MAX_REWARD_TITLE_LEN < char_count (sr_title r) then Err RewardTitleTooLong
      else if (case sr_description r of Some d \<Rightarrow> MAX_REWARD_DESCRIPTION_LEN < char_count d
                                      | None \<Rightarrow> False) then Err RewardDescriptionTooLong
      else if (case sr_icon_url r of Some i \<Rightarrow> MAX_ICON_URL_LEN < char_count i
                                   | None \<Rightarrow> False) then Err RewardIconUrlTooLong
      else Ok ())"

record social_limits =
  sl_max_per_hour :: u64
  sl_max_per_user :: u64

definition default_social_limits :: social_limits where
  "default_social_limits =
     \<lparr> sl_max_per_hour = DEFAULT_SOCIAL_MAX_PER_HOUR,
       sl_max_per_user = DEFAULT_SOCIAL_MAX_PER_USER \<rparr>"

section \<open>Collateral\<close>

record collateral_asset_config =
  cac_asset_id :: asset_id
  cac_asset :: asset
  cac_symbol :: string
  cac_decimals :: u8
  cac_is_enabled :: bool
  cac_oracle_id :: "string option"
  cac_allowed_balance_domains :: "balance_domain list"

record asset_metrics =
  am_price_usd :: decimal_value
  am_haircut_bps :: u16
  am_latest_transfer_fee :: "u128 option"
  am_insurance_fee_ratio :: "u16 option"
  am_protocol_fee_ratio :: "u16 option"
  am_last_updated_ns :: "u64 option"

section \<open>Facts\<close>

lemma chain_roundtrip: "chain_try_from (chain_to_id c) = Some c"
  by (cases c) (simp_all add: chain_try_from_def)

lemma chain_try_from_Some: "chain_try_from i = Some c \<longleftrightarrow> i = chain_to_id c"
  by (cases c) (auto simp: chain_try_from_def)

lemma allowed_domains_Some:
  "allowed_balance_domains_try_from ds = Some xs \<Longrightarrow>
     xs \<noteq> [] \<and> set xs = set ds \<and> sorted_wrt (<) xs"
  by (auto simp: allowed_balance_domains_try_from_def split: if_splits)
    (metis empty_set set_bs_of_list set_empty)

end
