(* ===== verification/Margin.thy ===== *)
theory Margin
  imports SharedTypes
begin

text \<open>
  \<open>src/src/clearing/src/types/margin.rs\<close>: positions, account states with their three balance
  tables per domain, and the equity of an account.  The interface \<open>register\<close> is what the
  handlers rely on when they read and write a balance; each table of an account provides it.
\<close>

section \<open>Users and positions\<close>

type_synonym user = principal

type_synonym position_key = "user \<times> series_id \<times> outcome_id option"

record position =
  pos_user :: user
  pos_series_id :: series_id
  pos_outcome_id :: "outcome_id option"
  pos_net_qty :: i128
  pos_reserved_margin_usd :: u128

type_synonym positions_map = "(position_key, position) btmap"

section \<open>Account states\<close>

record account_state =
  acc_user :: user
  acc_balances :: "(balance_domain, (asset_id, u128) btmap) btmap"
  acc_cash_balances_usd :: "(balance_domain, i128) btmap"
  acc_reserved_margins_usd :: "(balance_domain, u128) btmap"

definition account_state_new :: "user \<Rightarrow> account_state" where
  "account_state_new u =
     \<lparr> acc_user = u, acc_balances = [], acc_cash_balances_usd = [],
       acc_reserved_margins_usd = [] \<rparr>"

definition or_zero :: "'a::zero option \<Rightarrow> 'a" where
  "or_zero x = (case x of None \<Rightarrow> 0 | Some v \<Rightarrow> v)"

lemma or_zero_simps [simp]: "or_zero None = 0" "or_zero (Some v) = v"
  by (simp_all add: or_zero_def)

definition get_balance :: "account_state \<Rightarrow> balance_domain \<Rightarrow> asset_id \<Rightarrow> u128" where
  "get_balance a d aid =
     (case bt_get (acc_balances a) d of None \<Rightarrow> 0 | Some m \<Rightarrow> or_zero (bt_get m aid))"

definition set_balance :: "balance_domain \<Rightarrow> asset_id \<Rightarrow> u128 \<Rightarrow> account_state \<Rightarrow> account_state" where
  "set_balance d aid amount a =
     (if amount = 0
      then (case bt_get (acc_balances a) d of
              None \<Rightarrow> a
            | Some m \<Rightarrow>
                let m' = bt_remove aid m
                in a\<lparr>acc_balances := (if m' = [] then bt_remove d (acc_balances a)
                                      else bt_insert d m' (acc_balances a))\<rparr>)
      else a\<lparr>acc_balances := bt_entry d [] (bt_insert aid amount) (acc_balances a)\<rparr>)"

definition get_cash_balance_usd :: "account_state \<Rightarrow> balance_domain \<Rightarrow> i128" where
  "get_cash_balance_usd a d = or_zero (bt_get (acc_cash_balances_usd a) d)"

definition set_cash_balance_usd :: "balance_domain \<Rightarrow> i128 \<Rightarrow> account_state \<Rightarrow> account_state" where
  "set_cash_balance_usd d amount a =
     a\<lparr>acc_cash_balances_usd :=
        (if amount = 0 then bt_remove d (acc_cash_balances_usd a)
         else bt_insert d amount (acc_cash_balances_usd a))\<rparr>"

definition get_reserved_margin_usd :: "account_state \<Rightarrow> balance_domain \<Rightarrow> u128" where
  "get_reserved_margin_usd a d = or_zero (bt_get (acc_reserved_margins_usd a) d)"

definition set_reserved_margin_usd :: "balance_domain \<Rightarrow> u128 \<Rightarrow> account_state \<Rightarrow> account_state" where
  "set_reserved_margin_usd d amount a =
     a\<lparr>acc_reserved_margins_usd :=
        (if amount = 0 then bt_remove d (acc_reserved_margins_usd a)
         else bt_insert d amount (acc_reserved_margins_usd a))\<rparr>"

section \<open>Equity\<close>

text \<open>
  The haircut value of a balance, in the unbounded arithmetic of \<open>candid::Nat\<close> (no value here is
  negative).  The powers of
  ten are \<open>u128\<close> powers and wrap, so the divisor can be zero; \<open>None\<close> is that panic.
\<close>

definition haircut_value :: "u128 \<Rightarrow> u128 \<Rightarrow> u8 \<Rightarrow> u8 \<Rightarrow> u16 \<Rightarrow> int option" where
  "haircut_value balance unit_price unit_decimals asset_decimals haircut_bps =
     (let target_decimals = unat USD_DECIMALS;
          haircut_multiplier = saturating_sub (ucast BPS_BASE :: u128) (ucast haircut_bps);
          numerator = uint balance * uint unit_price * uint haircut_multiplier;
          total_source_decimals = unat asset_decimals + unat unit_decimals
      in if target_decimals \<le> total_source_decimals
         then (let divisor = uint BPS_BASE *
                     uint ((10::u128) ^ (total_source_decimals - target_decimals))
               in if divisor = 0 then None else Some (numerator div divisor))
         else (let multiplier = uint ((10::u128) ^ (target_decimals - total_source_decimals))
               in Some (numerator * multiplier div uint BPS_BASE)))"

definition nat_to_u128_or_max :: "int \<Rightarrow> u128" where
  "nat_to_u128_or_max n = (if n < 2 ^ 128 then word_of_int n else - 1)"

definition asset_value_usd :: "collateral_asset_config \<Rightarrow> asset_metrics \<Rightarrow> u128 \<Rightarrow> u128 option" where
  "asset_value_usd config metric balance =
     map_option nat_to_u128_or_max
       (haircut_value balance (dec_value (am_price_usd metric))
          (dec_decimals (am_price_usd metric)) (cac_decimals config) (am_haircut_bps metric))"

fun sum_collateral ::
  "(asset_id, collateral_asset_config) btmap \<Rightarrow> (asset_id, asset_metrics) btmap \<Rightarrow>
     (asset_id \<times> u128) list \<Rightarrow> i128 \<Rightarrow> i128 option" where
  "sum_collateral configs metrics [] acc = Some acc"
| "sum_collateral configs metrics ((aid, balance) # rest) acc =
     (case (bt_get configs aid, bt_get metrics aid) of
        (Some config, Some metric) \<Rightarrow>
          if cac_is_enabled config
          then (case asset_value_usd config metric balance of
                  None \<Rightarrow> None
                | Some v \<Rightarrow> sum_collateral configs metrics rest (acc + v))
          else sum_collateral configs metrics rest acc
      | _ \<Rightarrow> sum_collateral configs metrics rest acc)"

definition calculate_raw_equity_i128 ::
  "account_state \<Rightarrow> balance_domain \<Rightarrow> (asset_id, collateral_asset_config) btmap \<Rightarrow>
     (asset_id, asset_metrics) btmap \<Rightarrow> i128 option" where
  "calculate_raw_equity_i128 a d configs metrics =
     (let cash = get_cash_balance_usd a d
      in case bt_get (acc_balances a) d of
           None \<Rightarrow> Some cash
         | Some m \<Rightarrow> sum_collateral configs metrics m cash)"

definition calculate_equity_usd ::
  "account_state \<Rightarrow> balance_domain \<Rightarrow> (asset_id, collateral_asset_config) btmap \<Rightarrow>
     (asset_id, asset_metrics) btmap \<Rightarrow> u128 option" where
  "calculate_equity_usd a d configs metrics =
     map_option (\<lambda>raw. if sint raw < 0 then 0 else raw)
       (calculate_raw_equity_i128 a d configs metrics)"

definition get_available_margin_usd ::
  "account_state \<Rightarrow> balance_domain \<Rightarrow> (asset_id, collateral_asset_config) btmap \<Rightarrow>
     (asset_id, asset_metrics) btmap \<Rightarrow> i128 option" where
  "get_available_margin_usd a d configs metrics =
     map_option (\<lambda>equity. equity - get_reserved_margin_usd a d)
       (calculate_equity_usd a d configs metrics)"

section \<open>The register interface\<close>

text \<open>
  A table of an account: reading after writing gives the written value at the written key and
  the old value elsewhere.
\<close>

locale register =
  fixes get :: "'s \<Rightarrow> 'k \<Rightarrow> 'v::{zero}"
    and set_at :: "'k \<Rightarrow> 'v \<Rightarrow> 's \<Rightarrow> 's"
  assumes get_set: "get (set_at k v s) k' = (if k = k' then v else get s k')"
begin

definition move :: "'k \<Rightarrow> 'k \<Rightarrow> 'v \<Rightarrow> ('v \<Rightarrow> 'v \<Rightarrow> 'v) \<Rightarrow> ('v \<Rightarrow> 'v \<Rightarrow> 'v) \<Rightarrow> 's \<Rightarrow> 's" where
  "move a b v sub add s =
     (let s1 = set_at a (sub (get s a) v) s in set_at b (add (get s1 b) v) s1)"

lemma get_same [simp]: "get (set_at k v s) k = v"
  by (simp add: get_set)

lemma get_other [simp]: "k \<noteq> k' \<Longrightarrow> get (set_at k v s) k' = get s k'"
  by (simp add: get_set)

lemma get_move:
  "a \<noteq> b \<Longrightarrow> get (move a b v sub add s) k =
     (if k = a then sub (get s a) v else if k = b then add (get s b) v else get s k)"
  by (simp add: move_def Let_def get_set)

end

lemma get_set_balance:
  "get_balance (set_balance d aid v a) d' aid' =
     (if d = d' \<and> aid = aid' then v else get_balance a d' aid')"
proof (cases "v = 0")
  case True
  show ?thesis
  proof (cases "bt_get (acc_balances a) d")
    case None
    with True show ?thesis by (auto simp: get_balance_def set_balance_def)
  next
    case (Some m)
    have "bt_remove aid m = [] \<Longrightarrow> aid \<noteq> k \<Longrightarrow> bt_get m k = None" for k
      using bt_get_remove [of aid m k] by simp
    with True Some show ?thesis
      by (auto simp: get_balance_def set_balance_def Let_def)
  qed
next
  case False
  then show ?thesis
    by (auto simp: get_balance_def set_balance_def split: option.splits)
qed

interpretation balance: register "\<lambda>a (d, aid). get_balance a d aid" "\<lambda>(d, aid). set_balance d aid"
  by unfold_locales (auto simp: get_set_balance split: if_splits)

interpretation cash: register get_cash_balance_usd set_cash_balance_usd
  by unfold_locales (auto simp: get_cash_balance_usd_def set_cash_balance_usd_def)

interpretation reserved: register get_reserved_margin_usd set_reserved_margin_usd
  by unfold_locales (auto simp: get_reserved_margin_usd_def set_reserved_margin_usd_def)

named_theorems account_frame \<open>writing one table of an account leaves the others\<close>

lemma set_cash_frame [simp, account_frame]:
  "get_balance (set_cash_balance_usd d v a) = get_balance a"
  "get_reserved_margin_usd (set_cash_balance_usd d v a) = get_reserved_margin_usd a"
  "acc_user (set_cash_balance_usd d v a) = acc_user a"
  "acc_balances (set_cash_balance_usd d v a) = acc_balances a"
  by (auto simp: get_balance_def get_reserved_margin_usd_def set_cash_balance_usd_def fun_eq_iff)

lemma set_reserved_frame [simp, account_frame]:
  "get_balance (set_reserved_margin_usd d v a) = get_balance a"
  "get_cash_balance_usd (set_reserved_margin_usd d v a) = get_cash_balance_usd a"
  "acc_user (set_reserved_margin_usd d v a) = acc_user a"
  "acc_balances (set_reserved_margin_usd d v a) = acc_balances a"
  by (auto simp: get_balance_def get_cash_balance_usd_def set_reserved_margin_usd_def fun_eq_iff)

lemma set_balance_frame [simp, account_frame]:
  "get_cash_balance_usd (set_balance d aid v a) = get_cash_balance_usd a"
  "get_reserved_margin_usd (set_balance d aid v a) = get_reserved_margin_usd a"
  "acc_user (set_balance d aid v a) = acc_user a"
  by (auto simp: get_cash_balance_usd_def get_reserved_margin_usd_def set_balance_def Let_def
      fun_eq_iff split: option.splits)

lemma new_account_zero [simp]:
  "get_balance (account_state_new u) d aid = 0"
  "get_cash_balance_usd (account_state_new u) d = 0"
  "get_reserved_margin_usd (account_state_new u) d = 0"
  by (simp_all add: account_state_new_def get_balance_def get_cash_balance_usd_def
      get_reserved_margin_usd_def)

text \<open>Equity reads the balances and the cash of its domain only.\<close>

lemma raw_equity_set_reserved [simp]:
  "calculate_raw_equity_i128 (set_reserved_margin_usd d' v a) d cfg met =
   calculate_raw_equity_i128 a d cfg met"
  by (simp add: calculate_raw_equity_i128_def)

lemma equity_set_reserved [simp]:
  "calculate_equity_usd (set_reserved_margin_usd d' v a) d cfg met =
   calculate_equity_usd a d cfg met"
  by (simp add: calculate_equity_usd_def)

lemma sum_collateral_offset:
  "sum_collateral cfg met bs (t + x) = map_option (\<lambda>e. e + x) (sum_collateral cfg met bs t)"
proof (induction cfg met bs t rule: sum_collateral.induct)
  case (1 cfg met t)
  then show ?case by simp
next
  case (2 cfg met aid b rest t)
  then show ?case by (auto simp: ac_simps split: option.splits)
qed

text \<open>A change of the cash balance moves the equity by the same amount.\<close>

lemma raw_equity_set_cash:
  "calculate_raw_equity_i128 (set_cash_balance_usd d (get_cash_balance_usd a d + x) a) d cfg met =
   map_option (\<lambda>e. e + x) (calculate_raw_equity_i128 a d cfg met)"
  by (auto simp: calculate_raw_equity_i128_def Let_def sum_collateral_offset split: option.splits)

lemma raw_equity_set_cash_other:
  "d \<noteq> d' \<Longrightarrow> calculate_raw_equity_i128 (set_cash_balance_usd d v a) d' cfg met =
   calculate_raw_equity_i128 a d' cfg met"
  by (simp add: calculate_raw_equity_i128_def)

lemma equity_le_raw:
  "calculate_equity_usd a d cfg met = Some e \<Longrightarrow>
   \<exists>r. calculate_raw_equity_i128 a d cfg met = Some r \<and> sint e = max 0 (sint r)"
  by (auto simp: calculate_equity_usd_def)

section \<open>Well-formed accounts\<close>

text \<open>
  What every write keeps: the tables are in key order, and hold no zero entry and no empty
  inner map.
\<close>

definition account_inv :: "account_state \<Rightarrow> bool" where
  "account_inv a \<longleftrightarrow>
     bt_inv (acc_balances a) \<and> bt_inv (acc_cash_balances_usd a) \<and>
     bt_inv (acc_reserved_margins_usd a) \<and>
     (\<forall>d m. bt_get (acc_balances a) d = Some m \<longrightarrow>
        m \<noteq> [] \<and> bt_inv m \<and> (\<forall>aid. bt_get m aid \<noteq> Some 0)) \<and>
     (\<forall>d. bt_get (acc_cash_balances_usd a) d \<noteq> Some 0) \<and>
     (\<forall>d. bt_get (acc_reserved_margins_usd a) d \<noteq> Some 0)"

lemma account_inv_new [simp]: "account_inv (account_state_new u)"
  by (simp add: account_inv_def account_state_new_def)

lemma account_inv_set_cash [simp]:
  "account_inv a \<Longrightarrow> account_inv (set_cash_balance_usd d v a)"
  by (auto simp: account_inv_def set_cash_balance_usd_def)

lemma account_inv_set_reserved [simp]:
  "account_inv a \<Longrightarrow> account_inv (set_reserved_margin_usd d v a)"
  by (auto simp: account_inv_def set_reserved_margin_usd_def)

lemma bt_insert_nonempty [simp]: "bt_insert k v m \<noteq> []"
  by (induction k v m rule: bt_insert.induct) auto

lemma account_inv_set_balance [simp]:
  "account_inv a \<Longrightarrow> account_inv (set_balance d aid v a)"
  by (auto simp: account_inv_def set_balance_def Let_def split: option.splits)

end
