(* ===== verification/Payoffs.thy ===== *)
theory Payoffs
  imports Margin
begin

text \<open>
  \<open>src/src/clearing/src/payoffs\<close>: scaling of prices, the unit payoff of a series, the settlement
  value and the required margin of a position, and the settlement fee.  \<open>full_collateral\<close> is
  the contract that the fully collateralised payoff types keep.
\<close>

section \<open>Scaling and fees\<close>

datatype rounding_mode = Floor | Ceil

text \<open>\<open>None\<close> is the panic of a division by a power of ten that wrapped to zero.\<close>

definition scale_price :: "u128 \<Rightarrow> nat \<Rightarrow> nat \<Rightarrow> rounding_mode \<Rightarrow> u128 option" where
  "scale_price v target_decimals source_precision mode =
     (if source_precision \<le> target_decimals
      then Some (v * 10 ^ (target_decimals - source_precision))
      else (let factor = 10 ^ (source_precision - target_decimals)
            in case mode of Floor \<Rightarrow> u_div v factor | Ceil \<Rightarrow> u_div_ceil v factor))"

definition calculate_settlement_fee :: "u128 \<Rightarrow> u16 \<Rightarrow> u128" where
  "calculate_settlement_fee payoff_usd fee_ratio_bps =
     (payoff_usd * ucast fee_ratio_bps) div ucast BPS_BASE"

section \<open>Payoffs and margins\<close>

datatype payoff_error = InvalidSettlementType | MissingStrike | MissingOutcomeId | MathError string

definition max_payoff :: u128 where
  "max_payoff = 10 ^ unat USD_DECIMALS"

definition scaled_strike :: "series \<Rightarrow> nat \<Rightarrow> rounding_mode \<Rightarrow> (payoff_error, u128) result" where
  "scaled_strike ser target mode =
     obind (ok_or MissingStrike (ser_strike ser))
       (\<lambda>p. or_trap (scale_price (price_value p) target (unat (price_decimals p)) mode))"

definition get_unit_payoff ::
  "series \<Rightarrow> outcome_id option \<Rightarrow> settlement_input \<Rightarrow> (payoff_error, u128) result" where
  "get_unit_payoff ser oid settlement =
     (if ser_balance_domain ser = Social then Ok 0
      else let asset_decimals = unat USD_DECIMALS
      in case ser_payoff_type ser of
        Categorical \<Rightarrow>
          (case settlement of
             Outcome resolved_id \<Rightarrow> Ok (if oid = Some resolved_id then max_payoff else 0)
           | Price _ \<Rightarrow> Err InvalidSettlementType)
      | pt \<Rightarrow>
          (case settlement of
             Outcome _ \<Rightarrow> Err InvalidSettlementType
           | Price settlement_price \<Rightarrow>
               let source_precision = unat (price_decimals settlement_price);
                   spot = price_value settlement_price
               in case pt of
                    Call \<Rightarrow>
                      obind (scaled_strike ser source_precision Floor) (\<lambda>strike.
                        or_trap (scale_price (saturating_sub spot strike)
                                   asset_decimals source_precision Floor))
                  | Put \<Rightarrow>
                      obind (scaled_strike ser source_precision Floor) (\<lambda>strike.
                        or_trap (scale_price (saturating_sub strike spot)
                                   asset_decimals source_precision Floor))
                  | _ \<Rightarrow> or_trap (scale_price spot asset_decimals source_precision Floor)))"

text \<open>The two sides of a fully collateralised position, as the code writes them.\<close>

definition full_payout :: "u128 \<Rightarrow> i128 \<Rightarrow> u128" where
  "full_payout unit_payoff qty =
     (if 0 \<le> sint qty then unsigned_abs qty * unit_payoff
      else unsigned_abs qty * saturating_sub max_payoff unit_payoff)"

definition full_margin :: "u128 \<Rightarrow> i128 \<Rightarrow> u128" where
  "full_margin scaled_price qty =
     (if 0 < sint qty then unsigned_abs qty * scaled_price
      else if sint qty < 0 then unsigned_abs qty * saturating_sub max_payoff scaled_price
      else 0)"

definition get_settlement_value ::
  "series \<Rightarrow> position \<Rightarrow> settlement_input \<Rightarrow> (payoff_error, u128) result" where
  "get_settlement_value ser pos settlement =
     obind (get_unit_payoff ser (pos_outcome_id pos) settlement) (\<lambda>unit_payoff.
       case ser_payoff_type ser of
         Binary \<Rightarrow> Ok (full_payout unit_payoff (pos_net_qty pos))
       | Categorical \<Rightarrow> Ok (full_payout unit_payoff (pos_net_qty pos))
       | _ \<Rightarrow> Ok (unsigned_abs (pos_net_qty pos) * unit_payoff))"

definition margin_price :: "price \<Rightarrow> u128 option" where
  "margin_price p =
     scale_price (price_value p) (unat USD_DECIMALS) (unat (price_decimals p)) Ceil"

definition get_required_margin ::
  "series \<Rightarrow> price \<Rightarrow> i128 \<Rightarrow> outcome_id option \<Rightarrow> (payoff_error, u128) result" where
  "get_required_margin ser p qty oid =
     (if ser_balance_domain ser = Social then Ok 0
      else obind (or_trap (margin_price p)) (\<lambda>scaled_price.
        case ser_payoff_type ser of
          Binary \<Rightarrow> Ok (full_margin scaled_price qty)
        | Categorical \<Rightarrow> Ok (full_margin scaled_price qty)
        | Call \<Rightarrow> Ok (unsigned_abs qty * scaled_price)
        | Put \<Rightarrow>
            (if sint qty < 0
             then obind (scaled_strike ser (unat USD_DECIMALS) Ceil)
                    (\<lambda>strike. Ok (unsigned_abs qty * strike))
             else Ok (unsigned_abs qty * scaled_price))))"

section \<open>The full-collateral contract\<close>

text \<open>
  A margin and a payout rule with the same fixed part: what a position earns when it is opened
  at price \<open>p\<close> and pays \<open>u\<close> per unit is its signed quantity times \<open>u - p\<close>.
\<close>

locale full_collateral =
  fixes margin :: "u128 \<Rightarrow> i128 \<Rightarrow> u128"
    and payout :: "u128 \<Rightarrow> i128 \<Rightarrow> u128"
    and slack :: "i128 \<Rightarrow> u128"
    and unit_max :: u128
  assumes margin_eq: "p \<le> unit_max \<Longrightarrow> margin p q = q * p + slack q"
    and payout_eq: "u \<le> unit_max \<Longrightarrow> payout u q = q * u + slack q"
    and slack_pair: "0 < sint q \<Longrightarrow> slack q + slack (- q) = q * unit_max"
begin

lemma gain: "p \<le> unit_max \<Longrightarrow> u \<le> unit_max \<Longrightarrow> payout u q - margin p q = q * (u - p)"
  by (simp add: margin_eq payout_eq algebra_simps)

lemma payout_zero_sum:
  assumes "0 < sint q" "u \<le> unit_max"
  shows "payout u q + payout u (- q) = q * unit_max"
proof -
  have "payout u q + payout u (- q) = slack q + slack (- q)"
    by (simp add: payout_eq assms algebra_simps)
  then show ?thesis by (simp add: slack_pair assms)
qed

lemma margin_zero_sum:
  assumes "0 < sint q" "p \<le> unit_max"
  shows "margin p q + margin p (- q) = q * unit_max"
proof -
  have "margin p q + margin p (- q) = slack q + slack (- q)"
    by (simp add: margin_eq assms algebra_simps)
  then show ?thesis by (simp add: slack_pair assms)
qed

text \<open>
  What a trade at price \<open>p\<close> does to one side: the position of quantity \<open>q\<close> with booked margin
  \<open>m\<close> is marked to \<open>p\<close>, then becomes \<open>q + n\<close> with the margin that \<open>p\<close> requires.
\<close>

lemma mark_to_market:
  assumes "p \<le> unit_max" "u \<le> unit_max"
  shows "(cash - (m - margin p q)) + payout u (q + n) - margin p (q + n) =
         cash + payout u q - m + n * (u - p)"
  using assms by (simp add: margin_eq payout_eq algebra_simps)

end

definition full_slack :: "i128 \<Rightarrow> u128" where
  "full_slack q = (if sint q < 0 then - q * max_payoff else 0)"

lemma sint_uminus_neg: "0 < sint (q::i128) \<Longrightarrow> sint (- q) < 0"
proof -
  assume q: "0 < sint q"
  have "sint q < 2 ^ 127" using sint_lt [of q] by simp
  with q have "sint (- q) = - sint q"
    by (simp add: sint_word_ariths signed_take_bit_int_eq_self)
  with q show ?thesis by simp
qed

interpretation full: full_collateral full_margin full_payout full_slack max_payoff
proof unfold_locales
  fix p q u :: "128 word"
  have zero: "q = 0" if "\<not> 0 < sint q" "\<not> sint q < 0"
    using that by (simp add: signed_eq_0_iff not_less order_antisym)
  show "full_margin p q = q * p + full_slack q" if "p \<le> max_payoff"
    using that zero
    by (auto simp: full_margin_def full_slack_def unsigned_abs_def saturating_sub_eq algebra_simps)
  show "full_payout u q = q * u + full_slack q" if "u \<le> max_payoff"
    using that
    by (auto simp: full_payout_def full_slack_def unsigned_abs_def saturating_sub_eq algebra_simps)
  show "full_slack q + full_slack (- q) = q * max_payoff" if "0 < sint q"
    using that sint_uminus_neg [OF that] by (simp add: full_slack_def)
qed

section \<open>Facts\<close>

lemma max_payoff_eq: "max_payoff = 10000"
  by (simp add: max_payoff_def USD_DECIMALS_def)

lemma full_margin_0 [simp]: "full_margin p 0 = 0"
  by (simp add: full_margin_def)

lemma full_payout_0 [simp]: "full_payout u 0 = 0"
  by (simp add: full_payout_def)

definition fully_collateralised :: "series \<Rightarrow> bool" where
  "fully_collateralised ser =
     ((ser_payoff_type ser = Binary \<or> ser_payoff_type ser = Categorical) \<and>
      ser_balance_domain ser \<noteq> Social)"

lemma required_margin_full:
  "fully_collateralised ser \<Longrightarrow> margin_price p = Some sp \<Longrightarrow>
   get_required_margin ser p q oid = Ok (full_margin sp q)"
  by (auto simp: get_required_margin_def fully_collateralised_def)

lemma required_margin_full_Ok:
  "fully_collateralised ser \<Longrightarrow> get_required_margin ser p q oid = Ok m \<Longrightarrow>
   \<exists>sp. margin_price p = Some sp \<and> m = full_margin sp q"
  by (cases "margin_price p") (auto simp: get_required_margin_def fully_collateralised_def)

lemma required_margin_Social [simp]:
  "ser_balance_domain ser = Social \<Longrightarrow> get_required_margin ser p q oid = Ok 0"
  by (simp add: get_required_margin_def)

lemma settlement_value_full:
  "fully_collateralised ser \<Longrightarrow> get_unit_payoff ser (pos_outcome_id pos) st = Ok u \<Longrightarrow>
   get_settlement_value ser pos st = Ok (full_payout u (pos_net_qty pos))"
  by (auto simp: get_settlement_value_def fully_collateralised_def)

lemma settlement_value_Ok:
  "get_settlement_value ser pos st = Ok v \<Longrightarrow>
   \<exists>u. get_unit_payoff ser (pos_outcome_id pos) st = Ok u"
  by (auto simp: get_settlement_value_def obind_Ok)

lemma categorical_unit_payoff:
  "ser_payoff_type ser = Categorical \<Longrightarrow> get_unit_payoff ser oid st = Ok u \<Longrightarrow>
   u = 0 \<or> u = max_payoff"
  by (auto simp: get_unit_payoff_def split: settlement_input.splits if_splits)

lemma categorical_unit_le:
  "ser_payoff_type ser = Categorical \<Longrightarrow> get_unit_payoff ser oid st = Ok u \<Longrightarrow> u \<le> max_payoff"
  using categorical_unit_payoff by fastforce

text \<open>Rounding down and rounding up bracket the exact quotient, and differ by at most one.\<close>

lemma div_add_full: "r < b \<Longrightarrow> (r + b * k) div b = (k::nat)"
proof -
  assume "r < b"
  then have "(r + b * k) div b = k + r div b" by (intro div_mult_self2) auto
  with \<open>r < b\<close> show ?thesis by simp
qed

lemma unat_u_div: "u_div a b = Some c \<Longrightarrow> unat c = unat a div unat b"
  by (auto simp: u_div_def unat_div split: if_splits)

lemma unat_u_div_ceil:
  assumes "u_div_ceil a b = Some c"
  shows "unat c = (unat a + unat b - 1) div unat b"
proof -
  have b: "b \<noteq> 0" "0 < unat b" using assms
    by (auto simp: u_div_ceil_def unat_gt_0 split: if_splits)
  show ?thesis
  proof (cases "a mod b = 0")
    case True
    then obtain k where k: "unat a = unat b * k"
      by (metis dvd_def mod_0_imp_dvd unat_0 unat_mod)
    have "c = a div b" using assms True b by (simp add: u_div_ceil_def)
    then have "unat c = unat a div unat b" by (simp add: unat_div)
    also have "\<dots> = k" using k b by simp
    moreover have "((unat b - 1) + unat b * k) div unat b = k"
      using b by (intro div_add_full) auto
    moreover have "unat a + unat b - 1 = (unat b - 1) + unat b * k" using k b by simp
    ultimately show ?thesis by simp
  next
    case False
    then have m: "unat a mod unat b \<noteq> 0" by (metis unat_eq_zero unat_mod)
    have one: "unat b \<noteq> 1" using m by auto
    have "unat a div unat b \<le> unat a div 2" using b one by (intro div_le_mono2) auto
    also have "unat a div 2 < unat a" using m by (cases "unat a = 0") auto
    also have "unat a < 2 ^ LENGTH('a)" by (rule unsigned_less)
    finally have "unat a div unat b + 1 < 2 ^ LENGTH('a)"
      using \<open>unat a div unat b \<le> unat a div 2\<close> \<open>unat a div 2 < unat a\<close>
        unsigned_less [of a, where 'a = nat] by linarith
    moreover have "c = a div b + 1" using assms False b by (simp add: u_div_ceil_def)
    ultimately have c: "unat c = unat a div unat b + 1"
      by (simp add: unat_word_ariths unat_div)
    have "unat a + unat b - 1 = (unat a mod unat b - 1) + unat b * (unat a div unat b + 1)"
      using m b by (cases "unat a") (auto simp: algebra_simps)
    moreover have "(unat a mod unat b - 1) < unat b"
      using b by (simp add: less_imp_diff_less)
    ultimately show ?thesis unfolding c by (metis div_add_full)
  qed
qed

end
