(* ===== verification/LeaderboardTypes.thy ===== *)
theory LeaderboardTypes
  imports Payoffs
begin

text \<open>
  \<open>src/src/clearing/src/types/leaderboard.rs\<close>, \<open>types/event.rs\<close> and \<open>types/price_history.rs\<close>:
  the calendar buckets of the leaderboard, the aggregate kept in a bucket, the events of the
  clearing canister and the points and volumes projected from them.
\<close>

section \<open>Events\<close>

datatype event_type = OrderPlaced | Executed | Settled | Liquidated

record event =
  ev_event_id :: u64
  ev_clearing_id :: principal
  ev_series_id :: series_id
  ev_user :: user
  ev_qty :: i128
  ev_price :: price
  ev_event_type :: event_type
  ev_timestamp :: u64

record series_trade_point =
  stp_event_id :: u64
  stp_price :: price
  stp_qty :: i128
  stp_timestamp :: u64

text \<open>
  \<open>i128::try_from(value)\<close> fails above the signed range.  The power of ten saturates and is at
  least one, so the division cannot panic.
\<close>

definition notional_usd_base :: "series_trade_point \<Rightarrow> i128" where
  "notional_usd_base point =
     (let v = price_value (stp_price point);
          value = (if sint v < 0 then word_of_int (2 ^ 127 - 1) else v);
          base = i128_saturating_mul (stp_qty point) value;
          delta = int (unat USD_DECIMALS) - int (unat (price_decimals (stp_price point)))
      in if 0 \<le> delta
         then i128_saturating_mul base (i128_saturating_pow 10 (nat delta))
         else the (i128_div base (i128_saturating_pow 10 (nat (- delta)))))"

record series_volume_aggregate =
  sva_notional_usd :: i128
  sva_trade_count :: u64

definition sva_default :: series_volume_aggregate where
  "sva_default = \<lparr> sva_notional_usd = 0, sva_trade_count = 0 \<rparr>"

definition sva_record :: "i128 \<Rightarrow> series_volume_aggregate \<Rightarrow> series_volume_aggregate" where
  "sva_record notional agg =
     \<lparr> sva_notional_usd = i128_saturating_add (sva_notional_usd agg) notional,
       sva_trade_count = saturating_add (sva_trade_count agg) 1 \<rparr>"

section \<open>Calendar windows\<close>

definition NANOS_PER_DAY :: u64 where "NANOS_PER_DAY = 86400000000000"
definition NANOS_PER_HOUR :: u64 where "NANOS_PER_HOUR = 3600000000000"

datatype leaderboard_window = Week | Month | AllTime

fun window_rank :: "leaderboard_window \<Rightarrow> nat" where
  "window_rank Week = 0"
| "window_rank Month = 1"
| "window_rank AllTime = 2"

lemma window_rank_inj [simp]: "window_rank a = window_rank b \<longleftrightarrow> a = b"
  by (cases a; cases b) auto

instantiation leaderboard_window :: linorder
begin

definition less_eq_leaderboard_window :: "leaderboard_window \<Rightarrow> leaderboard_window \<Rightarrow> bool" where
  "less_eq_leaderboard_window a b = (window_rank a \<le> window_rank b)"

definition less_leaderboard_window :: "leaderboard_window \<Rightarrow> leaderboard_window \<Rightarrow> bool" where
  "less_leaderboard_window a b = (window_rank a < window_rank b)"

instance
  by standard (auto simp: less_eq_leaderboard_window_def less_leaderboard_window_def)

end

definition all_windows :: "leaderboard_window list" where
  "all_windows = [Week, Month, AllTime]"

definition civil_from_days :: "u64 \<Rightarrow> u64 \<times> u64" where
  "civil_from_days days =
     (let z = days + 719468;
          era = z div 146097;
          doe = z - era * 146097;
          yoe = (doe - doe div 1460 + doe div 36524 - doe div 146096) div 365;
          year = yoe + era * 400;
          doy = doe - (365 * yoe + yoe div 4 - yoe div 100);
          mp = (5 * doy + 2) div 153;
          month = (if mp < 10 then mp + 3 else mp - 9);
          year = (if month \<le> 2 then year + 1 else year)
      in (year, month))"

definition period_id :: "leaderboard_window \<Rightarrow> u64 \<Rightarrow> u64" where
  "period_id w ts_ns =
     (let days = ts_ns div NANOS_PER_DAY
      in case w of
           Week \<Rightarrow> (days + 3) div 7
         | Month \<Rightarrow> (case civil_from_days days of (year, month) \<Rightarrow> year * 12 + (month - 1))
         | AllTime \<Rightarrow> 0)"

definition prior_period_id :: "leaderboard_window \<Rightarrow> u64 \<Rightarrow> u64 option" where
  "prior_period_id w ts_ns =
     (case w of AllTime \<Rightarrow> None | _ \<Rightarrow> checked_sub (period_id w ts_ns) 1)"

datatype price_history_interval = Hour | Day

fun bucket_ns :: "price_history_interval \<Rightarrow> u64" where
  "bucket_ns Hour = NANOS_PER_HOUR"
| "bucket_ns Day = NANOS_PER_DAY"

definition bucket_start :: "price_history_interval \<Rightarrow> u64 \<Rightarrow> u64" where
  "bucket_start i ts_ns = (ts_ns div bucket_ns i) * bucket_ns i"

section \<open>Aggregates\<close>

record pnl_aggregate =
  pnl_realized_pnl :: i128
  pnl_settled_count :: u64
  pnl_win_count :: u64

definition pnl_default :: pnl_aggregate where
  "pnl_default = \<lparr> pnl_realized_pnl = 0, pnl_settled_count = 0, pnl_win_count = 0 \<rparr>"

definition pnl_record :: "i128 \<Rightarrow> pnl_aggregate \<Rightarrow> pnl_aggregate" where
  "pnl_record cashflow agg =
     \<lparr> pnl_realized_pnl = pnl_realized_pnl agg + cashflow,
       pnl_settled_count = pnl_settled_count agg + 1,
       pnl_win_count = (if 0 < sint cashflow then pnl_win_count agg + 1 else pnl_win_count agg) \<rparr>"

section \<open>Facts\<close>

lemma i128_saturating_pow_10_nz: "i128_saturating_pow 10 n \<noteq> 0"
proof -
  have one: "(1::int) \<le> 10 ^ n" by simp
  have lo: "\<not> (10::int) ^ n < - (2 ^ 127)"
    using one order_trans [of "- (2 ^ 127)" "1::int" "10 ^ n"] by (simp add: not_less)
  show ?thesis
  proof (cases "(2::int) ^ 127 \<le> 10 ^ n")
    case True
    with lo show ?thesis by (simp add: i128_saturating_pow_def i128_clamp_def)
  next
    case False
    then have "(word_of_int (10 ^ n) :: i128) \<noteq> 0"
      using one zdvd_imp_le [of "2 ^ 128" "10 ^ n"] by (subst word_of_int_eq_0_iff) auto
    with lo False show ?thesis by (simp add: i128_saturating_pow_def i128_clamp_def)
  qed
qed

lemma bucket_start_le: "bucket_start i ts \<le> ts"
  by (simp add: bucket_start_def word_div_mult_le)

text \<open>The week buckets start on the Mondays: day 4 of the epoch and every seventh day after.\<close>

lemma week_period_unat:
  "unat (period_id Week ts) = (unat ts div 86400000000000 + 3) div 7"
proof -
  have d: "unat (ts div 86400000000000) = unat ts div 86400000000000"
    by (simp add: unat_div)
  moreover have "unat ts div 86400000000000 \<le> 2 ^ 64 div 86400000000000"
    using unsigned_less [of ts, where 'a = nat] by (intro div_le_mono) simp
  ultimately show ?thesis
    by (simp add: period_id_def NANOS_PER_DAY_def unat_div unat_word_ariths)
qed

end
