(* ===== verification/ClearingState.thy ===== *)
theory ClearingState
  imports LeaderboardTypes
begin

text \<open>
  The state of the clearing canister: \<open>types/trade.rs\<close>, \<open>types/payment.rs\<close>, \<open>types/plans.rs\<close>,
  \<open>types/state.rs\<close> and \<open>memory.rs\<close> under \<open>src/src/clearing/src\<close>.  The thread-locals of
  \<open>memory.rs\<close> are the fields of the record \<open>clearing\<close>; a function that reads or writes them
  takes the record and returns it.  The indices over the event log and their rebuild on upgrade
  are here too.
\<close>

section \<open>Errors, orders and payments\<close>

datatype common_error = Unauthorized | RegistryNotSet | Internal string | MathOverflow | InvalidInput string

datatype side = Buy | Sell

type_synonym order_id = string
type_synonym trade_id = string
type_synonym transfer_id = string
type_synonym deposit_id = string
type_synonym withdrawal_id = string

record limit_order =
  lo_order_id :: order_id
  lo_creator :: user
  lo_series_id :: series_id
  lo_outcome_id :: "outcome_id option"
  lo_side :: side
  lo_qty :: i128
  lo_price :: price
  lo_blocked_margin_usd :: u128
  lo_balance_domain :: balance_domain

datatype payment_idempotency = IcrcCreatedAtTimeNs u64

fun to_created_at_time_ns :: "payment_idempotency \<Rightarrow> u64 option" where
  "to_created_at_time_ns (IcrcCreatedAtTimeNs t) = Some t"

datatype payment_receipt = IcrcBlockIndex nat

fun block_index :: "payment_receipt \<Rightarrow> nat" where
  "block_index (IcrcBlockIndex i) = i"

section \<open>Plans\<close>

datatype plan_status = Planned | Executing | Finalised

datatype fund_type = Insurance | Treasury

record deposit_plan =
  dpl_deposit_id :: deposit_id
  dpl_user :: user
  dpl_asset_id :: asset_id
  dpl_amount :: nat
  dpl_status :: plan_status
  dpl_idempotency_ns :: payment_idempotency
  dpl_receipt :: "payment_receipt option"

record withdrawal_plan =
  wpl_withdrawal_id :: withdrawal_id
  wpl_user :: user
  wpl_asset_id :: asset_id
  wpl_amount :: nat
  wpl_to_account :: "principal \<times> string option"
  wpl_status :: plan_status
  wpl_idempotency_ns :: payment_idempotency
  wpl_receipt :: "payment_receipt option"
  wpl_reserved_amount :: "u128 option"
  wpl_reserved_cash_usd :: "i128 option"

record settlement_position =
  spos_user :: user
  spos_outcome_id :: "outcome_id option"
  spos_net_qty :: i128
  spos_reserved_margin_usd :: u128
  spos_cashflow_usd :: i128

record settlement_plan =
  spl_series_id :: series_id
  spl_settlement :: settlement_input
  spl_oracle_source :: string
  spl_fee_usd :: u128
  spl_insurance_fee_usd :: u128
  spl_positions :: "settlement_position list"
  spl_accounting_cursor :: nat
  spl_accounting_applied :: bool
  spl_status :: plan_status
  spl_idempotency_ns :: payment_idempotency
  spl_balance_domain :: balance_domain

record fund_withdrawal_plan =
  fpl_request_id :: string
  fpl_fund_type :: fund_type
  fpl_asset_id :: asset_id
  fpl_amount :: u128
  fpl_to :: principal
  fpl_status :: plan_status
  fpl_idempotency_ns :: payment_idempotency
  fpl_receipt :: "payment_receipt option"

record migrated_position =
  mp_series_id :: series_id
  mp_outcome_id :: "outcome_id option"
  mp_net_qty :: i128
  mp_reserved_margin_usd :: u128

record migrated_order =
  mo_order_id :: order_id
  mo_blocked_margin_usd :: u128

record migration_plan =
  mpl_migration_id :: string
  mpl_user :: user
  mpl_from_domain :: balance_domain
  mpl_to_domain :: balance_domain
  mpl_status :: plan_status
  mpl_idempotency_ns :: payment_idempotency
  mpl_positions :: "migrated_position list"
  mpl_orders :: "migrated_order list"
  mpl_balances :: "(asset_id \<times> u128) list"
  mpl_cash_balance_usd :: i128
  mpl_reserved_margin_usd :: u128

record custody_sweep =
  cs_asset_id :: asset_id
  cs_moved_amount :: "u128 option"
  cs_receipt :: "payment_receipt option"

record reassignment_plan =
  rpl_reassignment_id :: string
  rpl_old_owner :: user
  rpl_new_owner :: user
  rpl_status :: plan_status
  rpl_created_ns :: u64
  rpl_sweeps :: "custody_sweep list"

record settlement_status_view =
  ssv_series_id :: series_id
  ssv_settlement :: settlement_input
  ssv_oracle_source :: string
  ssv_fee_usd :: u128
  ssv_insurance_fee_usd :: u128
  ssv_accounting_cursor :: nat
  ssv_accounting_applied :: bool
  ssv_status :: plan_status
  ssv_total_positions :: nat
  ssv_balance_domain :: balance_domain

definition status_view_from :: "settlement_plan \<Rightarrow> settlement_status_view" where
  "status_view_from plan =
     \<lparr> ssv_series_id = spl_series_id plan, ssv_settlement = spl_settlement plan,
       ssv_oracle_source = spl_oracle_source plan, ssv_fee_usd = spl_fee_usd plan,
       ssv_insurance_fee_usd = spl_insurance_fee_usd plan,
       ssv_accounting_cursor = spl_accounting_cursor plan,
       ssv_accounting_applied = spl_accounting_applied plan, ssv_status = spl_status plan,
       ssv_total_positions = length (spl_positions plan),
       ssv_balance_domain = spl_balance_domain plan \<rparr>"

section \<open>The state\<close>

record position_proof =
  pp_transfer_id :: transfer_id
  pp_user :: user
  pp_series_id :: series_id
  pp_outcome_id :: "outcome_id option"
  pp_qty :: i128
  pp_clearing_id :: principal
  pp_signature :: string
  pp_valuation_price :: "price option"

record reassignment_mark =
  rm_generation :: u64
  rm_locked :: bool

definition default_mark :: reassignment_mark where
  "default_mark = \<lparr> rm_generation = 0, rm_locked = False \<rparr>"

record config =
  cfg_insurance_fund_fee_ratio :: u16
  cfg_protocol_fee_ratio :: u16
  cfg_evm_rpc :: principal
  cfg_signer_canister :: principal
  cfg_internal_ledger :: collateral_asset_config
  cfg_version :: u32

definition default_config :: config where
  "default_config =
     \<lparr> cfg_insurance_fund_fee_ratio = 10, cfg_protocol_fee_ratio = 5,
       cfg_evm_rpc = anonymous, cfg_signer_canister = anonymous,
       cfg_internal_ledger =
         \<lparr> cac_asset_id = [], cac_asset = Icrc anonymous, cac_symbol = [], cac_decimals = 0,
           cac_is_enabled = False, cac_oracle_id = None,
           cac_allowed_balance_domains = [Settlement, Playground] \<rparr>,
       cfg_version = 0 \<rparr>"

type_synonym leaderboard_index =
  "(leaderboard_window \<times> u64, (user, pnl_aggregate) btmap) btmap"

record clearing =
  cl_config :: config
  cl_positions :: positions_map
  cl_accounts :: "(user, account_state) btmap"
  cl_series :: "(series_id, series) btmap"
  cl_events :: "event list"
  cl_next_event_id :: u64
  cl_trade_history :: "(series_id, series_trade_point list) btmap"
  cl_traded_volume :: "(series_id, series_volume_aggregate) btmap"
  cl_leaderboard :: leaderboard_index
  cl_registry :: principal
  cl_deposit_plans :: "(user \<times> deposit_id, deposit_plan) btmap"
  cl_withdrawal_plans :: "(user \<times> withdrawal_id, withdrawal_plan) btmap"
  cl_fund_withdrawal_plans :: "(string, fund_withdrawal_plan) btmap"
  cl_executed_trades :: "(trade_id, u64) btmap"
  cl_limit_orders :: "(order_id, limit_order) btmap"
  cl_frozen_transfers :: "(transfer_id, position_proof) btmap"
  cl_accepted_transfers :: "(transfer_id, bool) btmap"
  cl_settlement_plans :: "(series_id, settlement_plan) btmap"
  cl_insurance_fund :: "(asset_id, u128) btmap"
  cl_treasury :: "(asset_id, u128) btmap"
  cl_collateral_assets :: "(asset_id, collateral_asset_config) btmap"
  cl_evm_addresses :: "(principal, string) btmap"
  cl_asset_metrics :: "(asset_id, asset_metrics) btmap"
  cl_domain_policies :: "(balance_domain, domain_policy) btmap"
  cl_migration_plans :: "(user \<times> string, migration_plan) btmap"
  cl_reassignment_plans :: "(user \<times> string, reassignment_plan) btmap"
  cl_reassignment_marks :: "(user, reassignment_mark) btmap"

definition clearing_empty :: clearing where
  "clearing_empty =
     \<lparr> cl_config = default_config, cl_positions = [], cl_accounts = [], cl_series = [],
       cl_events = [], cl_next_event_id = 0, cl_trade_history = [], cl_traded_volume = [],
       cl_leaderboard = [], cl_registry = anonymous, cl_deposit_plans = [],
       cl_withdrawal_plans = [], cl_fund_withdrawal_plans = [], cl_executed_trades = [],
       cl_limit_orders = [], cl_frozen_transfers = [], cl_accepted_transfers = [],
       cl_settlement_plans = [], cl_insurance_fund = [], cl_treasury = [],
       cl_collateral_assets = [], cl_evm_addresses = [], cl_asset_metrics = [],
       cl_domain_policies = [], cl_migration_plans = [], cl_reassignment_plans = [],
       cl_reassignment_marks = [] \<rparr>"

text \<open>
  What a message reads from outside: the time, the canister's own principal, whether
  \<open>instruction_counter()\<close> is positive (it is, on the Internet Computer), who is a controller,
  and the function of the crate \<open>sha2\<close>.
\<close>

record env =
  env_now :: u64
  env_self :: principal
  env_counting :: bool
  env_is_controller :: "principal \<Rightarrow> bool"
  env_sha256 :: "string \<Rightarrow> string"

definition clearing_init :: "config \<Rightarrow> clearing" where
  "clearing_init c = clearing_empty\<lparr>cl_config := c\<rparr>"

definition account_or_new :: "clearing \<Rightarrow> user \<Rightarrow> account_state" where
  "account_or_new s u =
     (case bt_get (cl_accounts s) u of None \<Rightarrow> account_state_new u | Some a \<Rightarrow> a)"

definition put_account :: "user \<Rightarrow> account_state \<Rightarrow> clearing \<Rightarrow> clearing" where
  "put_account u a s = s\<lparr>cl_accounts := bt_insert u a (cl_accounts s)\<rparr>"

definition cached_transfer_fee :: "clearing \<Rightarrow> asset_id \<Rightarrow> u128 option" where
  "cached_transfer_fee s aid =
     (case bt_get (cl_asset_metrics s) aid of
        None \<Rightarrow> None | Some m \<Rightarrow> am_latest_transfer_fee m)"

definition update_cached_transfer_fee :: "u64 \<Rightarrow> asset_id \<Rightarrow> u128 \<Rightarrow> clearing \<Rightarrow> clearing" where
  "update_cached_transfer_fee now aid fee s =
     s\<lparr>cl_asset_metrics :=
         bt_modify aid (\<lambda>m. m\<lparr>am_latest_transfer_fee := Some fee,
                              am_last_updated_ns := Some now\<rparr>) (cl_asset_metrics s)\<rparr>"

definition get_internal_asset_id :: "clearing \<Rightarrow> asset_id" where
  "get_internal_asset_id s = cac_asset_id (cfg_internal_ledger (cl_config s))"

definition is_internal_asset :: "clearing \<Rightarrow> asset_id \<Rightarrow> bool" where
  "is_internal_asset s aid = (get_internal_asset_id s = aid)"

definition is_internal_ledger :: "clearing \<Rightarrow> principal \<Rightarrow> bool" where
  "is_internal_ledger s ledger_id =
     (case cac_asset (cfg_internal_ledger (cl_config s)) of
        Icrc p \<Rightarrow> p = ledger_id | _ \<Rightarrow> False)"

definition caller_is_not_anonymous :: "principal \<Rightarrow> bool" where
  "caller_is_not_anonymous caller = (caller \<noteq> anonymous)"

definition caller_is_controller :: "env \<Rightarrow> principal \<Rightarrow> bool" where
  "caller_is_controller e caller = env_is_controller e caller"

definition next_event_id :: "clearing \<Rightarrow> u64 \<times> clearing" where
  "next_event_id s = (cl_next_event_id s, s\<lparr>cl_next_event_id := cl_next_event_id s + 1\<rparr>)"
end
