(* ===== verification/Memory.thy ===== *)
theory Memory
  imports ClearingState
begin

text \<open>
  \<open>src/src/clearing/src/memory.rs\<close> and the \<open>get_or_create\<close> constructors of \<open>types/plans.rs\<close>:
  plans are created once under their key, the price-history index, the traded volumes and the
  leaderboard are projections of the event log, and an upgrade saves the state, restores it and
  rebuilds the projections.  The interface \<open>plan_store\<close> is what every resumable operation
  relies on; \<open>projection\<close> is an index that can be rebuilt from its log.
\<close>

section \<open>Plan stores\<close>

locale plan_store =
  fixes lookup :: "'s \<Rightarrow> 'k \<Rightarrow> 'p option"
    and create :: "'x \<Rightarrow> 's \<Rightarrow> 'p \<times> 's"
    and key :: "'x \<Rightarrow> 'k"
  assumes create_existing: "lookup s (key x) = Some p \<Longrightarrow> create x s = (p, s)"
    and create_fresh: "lookup s (key x) = None \<Longrightarrow> create x s = (p, s') \<Longrightarrow>
      lookup s' k = (if k = key x then Some p else lookup s k)"
begin

lemma created:
  assumes "create x s = (p, s')"
  shows "lookup s' (key x) = Some p"
proof (cases "lookup s (key x)")
  case None
  show ?thesis using create_fresh [OF None assms, of "key x"] by simp
next
  case (Some q)
  show ?thesis using create_existing [OF Some] Some assms by simp
qed

lemma existing_kept:
  assumes "create x s = (p, s')" "lookup s k = Some q"
  shows "lookup s' k = Some q"
proof (cases "lookup s (key x)")
  case None
  then have "k \<noteq> key x" using assms by auto
  then show ?thesis using create_fresh [OF None assms(1), of k] assms by simp
next
  case (Some q')
  show ?thesis using create_existing [OF Some] assms by simp
qed

text \<open>A replay under the same key returns the first plan, whatever its parameters say.\<close>

lemma replay:
  "create x s = (p, s') \<Longrightarrow> key y = key x \<Longrightarrow> create y s' = (p, s')"
  using created create_existing by metis

end

definition get_or_create :: "'k::linorder \<Rightarrow> 'p \<Rightarrow> ('k, 'p) btmap \<Rightarrow> 'p \<times> ('k, 'p) btmap" where
  "get_or_create k fresh m =
     (case bt_get m k of Some existing \<Rightarrow> (existing, m) | None \<Rightarrow> (fresh, bt_insert k fresh m))"

record deposit_plan_params =
  dpp_deposit_id :: deposit_id
  dpp_user :: user
  dpp_asset_id :: asset_id
  dpp_amount :: nat

definition deposit_plan_key :: "deposit_plan_params \<Rightarrow> user \<times> deposit_id" where
  "deposit_plan_key x = (dpp_user x, dpp_deposit_id x)"

definition deposit_plan_get_or_create ::
  "u64 \<Rightarrow> deposit_plan_params \<Rightarrow> clearing \<Rightarrow> deposit_plan \<times> clearing" where
  "deposit_plan_get_or_create now x s =
     (case get_or_create (deposit_plan_key x)
             \<lparr> dpl_deposit_id = dpp_deposit_id x, dpl_user = dpp_user x,
               dpl_asset_id = dpp_asset_id x, dpl_amount = dpp_amount x, dpl_status = Planned,
               dpl_idempotency_ns = IcrcCreatedAtTimeNs now, dpl_receipt = None \<rparr>
             (cl_deposit_plans s)
      of (p, m) \<Rightarrow> (p, s\<lparr>cl_deposit_plans := m\<rparr>))"

record withdrawal_plan_params =
  wpp_withdrawal_id :: withdrawal_id
  wpp_user :: user
  wpp_asset_id :: asset_id
  wpp_amount :: nat
  wpp_to_account :: "principal \<times> string option"

definition withdrawal_plan_key :: "withdrawal_plan_params \<Rightarrow> user \<times> withdrawal_id" where
  "withdrawal_plan_key x = (wpp_user x, wpp_withdrawal_id x)"

definition withdrawal_plan_get_or_create ::
  "u64 \<Rightarrow> withdrawal_plan_params \<Rightarrow> clearing \<Rightarrow> withdrawal_plan \<times> clearing" where
  "withdrawal_plan_get_or_create now x s =
     (case get_or_create (withdrawal_plan_key x)
             \<lparr> wpl_withdrawal_id = wpp_withdrawal_id x, wpl_user = wpp_user x,
               wpl_asset_id = wpp_asset_id x, wpl_amount = wpp_amount x,
               wpl_to_account = wpp_to_account x, wpl_status = Planned,
               wpl_idempotency_ns = IcrcCreatedAtTimeNs now, wpl_receipt = None,
               wpl_reserved_amount = None, wpl_reserved_cash_usd = None \<rparr>
             (cl_withdrawal_plans s)
      of (p, m) \<Rightarrow> (p, s\<lparr>cl_withdrawal_plans := m\<rparr>))"

record settlement_plan_params =
  spp_series_id :: series_id
  spp_settlement :: settlement_input
  spp_oracle_source :: string
  spp_fee :: u128
  spp_insurance_fee :: u128
  spp_positions :: "settlement_position list"
  spp_balance_domain :: balance_domain

definition settlement_plan_get_or_create ::
  "u64 \<Rightarrow> settlement_plan_params \<Rightarrow> clearing \<Rightarrow> settlement_plan \<times> clearing" where
  "settlement_plan_get_or_create now x s =
     (case get_or_create (spp_series_id x)
             \<lparr> spl_series_id = spp_series_id x, spl_settlement = spp_settlement x,
               spl_oracle_source = spp_oracle_source x, spl_fee_usd = spp_fee x,
               spl_insurance_fee_usd = spp_insurance_fee x, spl_positions = spp_positions x,
               spl_accounting_cursor = 0, spl_accounting_applied = False,
               spl_status = Planned, spl_idempotency_ns = IcrcCreatedAtTimeNs now,
               spl_balance_domain = spp_balance_domain x \<rparr>
             (cl_settlement_plans s)
      of (p, m) \<Rightarrow> (p, s\<lparr>cl_settlement_plans := m\<rparr>))"

record fund_withdrawal_plan_params =
  fpp_request_id :: string
  fpp_fund_type :: fund_type
  fpp_asset_id :: asset_id
  fpp_amount :: u128
  fpp_to :: principal

definition fund_withdrawal_plan_get_or_create ::
  "u64 \<Rightarrow> fund_withdrawal_plan_params \<Rightarrow> clearing \<Rightarrow> fund_withdrawal_plan \<times> clearing" where
  "fund_withdrawal_plan_get_or_create now x s =
     (case get_or_create (fpp_request_id x)
             \<lparr> fpl_request_id = fpp_request_id x, fpl_fund_type = fpp_fund_type x,
               fpl_asset_id = fpp_asset_id x, fpl_amount = fpp_amount x, fpl_to = fpp_to x,
               fpl_status = Planned, fpl_idempotency_ns = IcrcCreatedAtTimeNs now,
               fpl_receipt = None \<rparr>
             (cl_fund_withdrawal_plans s)
      of (p, m) \<Rightarrow> (p, s\<lparr>cl_fund_withdrawal_plans := m\<rparr>))"

record migration_plan_params =
  mpp_migration_id :: string
  mpp_user :: user
  mpp_from_domain :: balance_domain
  mpp_to_domain :: balance_domain

definition migration_plan_key :: "migration_plan_params \<Rightarrow> user \<times> string" where
  "migration_plan_key x = (mpp_user x, mpp_migration_id x)"

definition migration_plan_get_or_create ::
  "u64 \<Rightarrow> migration_plan_params \<Rightarrow> clearing \<Rightarrow> migration_plan \<times> clearing" where
  "migration_plan_get_or_create now x s =
     (case get_or_create (migration_plan_key x)
             \<lparr> mpl_migration_id = mpp_migration_id x, mpl_user = mpp_user x,
               mpl_from_domain = mpp_from_domain x, mpl_to_domain = mpp_to_domain x,
               mpl_status = Planned, mpl_idempotency_ns = IcrcCreatedAtTimeNs now,
               mpl_positions = [], mpl_orders = [], mpl_balances = [],
               mpl_cash_balance_usd = 0, mpl_reserved_margin_usd = 0 \<rparr>
             (cl_migration_plans s)
      of (p, m) \<Rightarrow> (p, s\<lparr>cl_migration_plans := m\<rparr>))"

record reassignment_plan_params =
  rpp_reassignment_id :: string
  rpp_old_owner :: user
  rpp_new_owner :: user
  rpp_asset_ids :: "asset_id list"

definition reassignment_plan_key :: "reassignment_plan_params \<Rightarrow> user \<times> string" where
  "reassignment_plan_key x = (rpp_old_owner x, rpp_reassignment_id x)"

definition reassignment_plan_get_or_create ::
  "u64 \<Rightarrow> reassignment_plan_params \<Rightarrow> clearing \<Rightarrow> reassignment_plan \<times> clearing" where
  "reassignment_plan_get_or_create now x s =
     (case get_or_create (reassignment_plan_key x)
             \<lparr> rpl_reassignment_id = rpp_reassignment_id x, rpl_old_owner = rpp_old_owner x,
               rpl_new_owner = rpp_new_owner x, rpl_status = Planned, rpl_created_ns = now,
               rpl_sweeps = map (\<lambda>aid. \<lparr> cs_asset_id = aid, cs_moved_amount = None,
                                         cs_receipt = None \<rparr>) (rpp_asset_ids x) \<rparr>
             (cl_reassignment_plans s)
      of (p, m) \<Rightarrow> (p, s\<lparr>cl_reassignment_plans := m\<rparr>))"

interpretation deposit_store: plan_store
  "\<lambda>s. bt_get (cl_deposit_plans s)" "deposit_plan_get_or_create now" deposit_plan_key
  by unfold_locales (auto simp: deposit_plan_get_or_create_def get_or_create_def)

interpretation withdrawal_store: plan_store
  "\<lambda>s. bt_get (cl_withdrawal_plans s)" "withdrawal_plan_get_or_create now" withdrawal_plan_key
  by unfold_locales (auto simp: withdrawal_plan_get_or_create_def get_or_create_def)

interpretation settlement_store: plan_store
  "\<lambda>s. bt_get (cl_settlement_plans s)" "settlement_plan_get_or_create now" spp_series_id
  by unfold_locales (auto simp: settlement_plan_get_or_create_def get_or_create_def)

interpretation fund_withdrawal_store: plan_store
  "\<lambda>s. bt_get (cl_fund_withdrawal_plans s)" "fund_withdrawal_plan_get_or_create now" fpp_request_id
  by unfold_locales (auto simp: fund_withdrawal_plan_get_or_create_def get_or_create_def)

interpretation migration_store: plan_store
  "\<lambda>s. bt_get (cl_migration_plans s)" "migration_plan_get_or_create now" migration_plan_key
  by unfold_locales (auto simp: migration_plan_get_or_create_def get_or_create_def)

interpretation reassignment_store: plan_store
  "\<lambda>s. bt_get (cl_reassignment_plans s)" "reassignment_plan_get_or_create now" reassignment_plan_key
  by unfold_locales (auto simp: reassignment_plan_get_or_create_def get_or_create_def)

section \<open>Indices over the event log\<close>

locale projection =
  fixes empty :: 'i
    and extend :: "'e \<Rightarrow> 'i \<Rightarrow> 'i"
    and rebuild :: "'e list \<Rightarrow> 'i"
    and ok :: "'e list \<Rightarrow> bool"
  assumes rebuild_fold: "ok es \<Longrightarrow> rebuild es = fold extend es empty"
    and ok_prefix: "ok (es @ fs) \<Longrightarrow> ok es"
begin

text \<open>Indexing a batch as it is appended gives what a rebuild of the longer log gives.\<close>

lemma rebuild_append: "ok (es @ fs) \<Longrightarrow> rebuild (es @ fs) = fold extend fs (rebuild es)"
  using rebuild_fold [of "es @ fs"] rebuild_fold [of es] ok_prefix by simp

end

definition record_settled_pnl :: "user \<Rightarrow> i128 \<Rightarrow> u64 \<Rightarrow> leaderboard_index \<Rightarrow> leaderboard_index" where
  "record_settled_pnl u cashflow ts idx =
     fold (\<lambda>w. bt_entry (w, period_id w ts) []
                 (bt_entry u pnl_default (pnl_record cashflow))) all_windows idx"

definition leaderboard_extend :: "event \<Rightarrow> leaderboard_index \<Rightarrow> leaderboard_index" where
  "leaderboard_extend e idx =
     (if ev_event_type e = Settled
      then record_settled_pnl (ev_user e) (ev_qty e) (ev_timestamp e) idx else idx)"

definition index_settled_events :: "event list \<Rightarrow> clearing \<Rightarrow> clearing" where
  "index_settled_events es s = s\<lparr>cl_leaderboard := fold leaderboard_extend es (cl_leaderboard s)\<rparr>"

definition rebuilt_leaderboard :: "event list \<Rightarrow> leaderboard_index" where
  "rebuilt_leaderboard es = fold leaderboard_extend es []"

definition rebuild_leaderboard :: "clearing \<Rightarrow> clearing" where
  "rebuild_leaderboard s = s\<lparr>cl_leaderboard := rebuilt_leaderboard (cl_events s)\<rparr>"

type_synonym trade_index =
  "(series_id, series_volume_aggregate) btmap \<times> (series_id, series_trade_point list) btmap"

definition push_point :: "series_id \<Rightarrow> series_trade_point \<Rightarrow> trade_index \<Rightarrow> trade_index" where
  "push_point sid point idx =
     (bt_entry sid sva_default (sva_record (notional_usd_base point)) (fst idx),
      bt_entry sid [] (\<lambda>ps. ps @ [point]) (snd idx))"

definition index_executed_trade :: "series_id \<Rightarrow> series_trade_point \<Rightarrow> clearing \<Rightarrow> clearing" where
  "index_executed_trade sid point s =
     (case push_point sid point (cl_traded_volume s, cl_trade_history s) of
        (agg, idx) \<Rightarrow> s\<lparr>cl_traded_volume := agg, cl_trade_history := idx\<rparr>)"

definition is_trade_row :: "event \<Rightarrow> bool" where
  "is_trade_row e = (ev_event_type e = Executed \<and> 0 < sint (ev_qty e))"

definition point_of_event :: "event \<Rightarrow> series_trade_point" where
  "point_of_event e =
     \<lparr> stp_event_id = ev_event_id e, stp_price = ev_price e, stp_qty = ev_qty e,
       stp_timestamp = ev_timestamp e \<rparr>"

definition trade_index_extend :: "event \<Rightarrow> trade_index \<Rightarrow> trade_index" where
  "trade_index_extend e idx =
     (if is_trade_row e then push_point (ev_series_id e) (point_of_event e) idx else idx)"

definition rebuilt_trade_index :: "event list \<Rightarrow> trade_index" where
  "rebuilt_trade_index es =
     (case fold trade_index_extend es ([], []) of
        (agg, idx) \<Rightarrow> (agg, bt_map_values (sort_key stp_event_id) idx))"

definition rebuild_series_trade_history :: "clearing \<Rightarrow> clearing" where
  "rebuild_series_trade_history s =
     (case rebuilt_trade_index (cl_events s) of
        (agg, idx) \<Rightarrow> s\<lparr>cl_traded_volume := agg, cl_trade_history := idx\<rparr>)"

text \<open>The trade rows appear in the order of their event ids.\<close>

definition trades_ordered :: "event list \<Rightarrow> bool" where
  "trades_ordered es = sorted (map ev_event_id (filter is_trade_row es))"

lemma trades_ordered_prefix: "trades_ordered (es @ fs) \<Longrightarrow> trades_ordered es"
  by (simp add: trades_ordered_def sorted_append)

lemma push_point_get_history:
  "bt_get (snd (push_point sid p idx)) sid' =
     (if sid = sid'
      then Some ((case bt_get (snd idx) sid of None \<Rightarrow> [] | Some ps \<Rightarrow> ps) @ [p])
      else bt_get (snd idx) sid')"
  by (simp add: push_point_def)

definition series_points :: "series_id \<Rightarrow> event list \<Rightarrow> series_trade_point list" where
  "series_points sid es =
     map point_of_event (filter (\<lambda>e. is_trade_row e \<and> ev_series_id e = sid) es)"

lemma series_points_append [simp]:
  "series_points sid (es @ fs) = series_points sid es @ series_points sid fs"
  by (simp add: series_points_def)

text \<open>What the history of a series holds: its trade rows, in log order.\<close>

lemma fold_history_get:
  "bt_get (snd (fold trade_index_extend es ([], []))) sid =
     (if series_points sid es = [] then None else Some (series_points sid es))"
proof (induction es rule: rev_induct)
  case Nil
  then show ?case by (simp add: series_points_def)
next
  case (snoc e es)
  then show ?case
    by (auto simp: trade_index_extend_def push_point_get_history series_points_def)
qed

lemma inv_push_point:
  "bt_inv (fst idx) \<Longrightarrow> bt_inv (snd idx) \<Longrightarrow>
   bt_inv (fst (push_point sid p idx)) \<and> bt_inv (snd (push_point sid p idx))"
  by (simp add: push_point_def)

lemma inv_fold_history:
  "bt_inv (fst idx) \<Longrightarrow> bt_inv (snd idx) \<Longrightarrow>
   bt_inv (fst (fold trade_index_extend es idx)) \<and> bt_inv (snd (fold trade_index_extend es idx))"
  by (induction es arbitrary: idx) (auto simp: trade_index_extend_def inv_push_point)

lemma series_points_sorted:
  assumes "trades_ordered es"
  shows "sorted (map stp_event_id (series_points sid es))"
proof -
  have "filter (\<lambda>e. is_trade_row e \<and> ev_series_id e = sid) es =
        filter (\<lambda>e. ev_series_id e = sid) (filter is_trade_row es)"
    by (simp add: conj_commute)
  then have "map stp_event_id (series_points sid es) =
        map ev_event_id (filter (\<lambda>e. ev_series_id e = sid) (filter is_trade_row es))"
    by (simp add: series_points_def point_of_event_def comp_def)
  moreover have "sorted (map ev_event_id (filter (\<lambda>e. ev_series_id e = sid) (filter is_trade_row es)))"
    using assms unfolding trades_ordered_def by (rule sorted_filter)
  ultimately show ?thesis by (simp only:)
qed

lemma sort_key_sorted: "sorted (map f xs) \<Longrightarrow> sort_key f xs = xs"
  by (induction xs) (auto simp: insort_is_Cons)

lemma rebuilt_trade_index_fold:
  assumes "trades_ordered es"
  shows "rebuilt_trade_index es = fold trade_index_extend es ([], [])"
proof -
  obtain agg idx where f: "fold trade_index_extend es ([], []) = (agg, idx)"
    by (metis surj_pair)
  have "bt_inv idx" using inv_fold_history [of "([], [])" es] f by simp
  moreover have "bt_get (bt_map_values (sort_key stp_event_id) idx) sid = bt_get idx sid" for sid
    using fold_history_get [of es sid] f series_points_sorted [OF assms, of sid]
    by (simp add: sort_key_sorted)
  ultimately have "bt_map_values (sort_key stp_event_id) idx = idx"
    by (intro bt_ext) auto
  with f show ?thesis by (simp add: rebuilt_trade_index_def)
qed

interpretation trade_index: projection
  "([], [])" trade_index_extend rebuilt_trade_index trades_ordered
  by unfold_locales (simp_all add: rebuilt_trade_index_fold trades_ordered_prefix)

interpretation leaderboard: projection
  "[]" leaderboard_extend rebuilt_leaderboard "\<lambda>_. True"
  by unfold_locales (simp_all add: rebuilt_leaderboard_def)

end
