(* ===== verification/AssetHandlers.thy ===== *)
theory AssetHandlers
  imports Async Memory
begin

text \<open>
  The inter-canister calls of the clearing canister and its asset handlers:
  \<open>types/account.rs\<close>, \<open>utils/account.rs\<close>, \<open>traits.rs\<close> and \<open>assets/\<close> under
  \<open>src/src/clearing/src\<close>.  The canisters called (registry, ledgers, EVM RPC, signer) are not
  part of the repository's clearing crate: a call is a \<open>request\<close> and its answer a \<open>reply\<close>,
  and a reply of another kind than the request expects is one that does not decode.
\<close>

section \<open>Accounts\<close>

datatype external_asset_account =
    ExternalPrincipal principal
  | ExternalIcrc principal "string option"
  | ExternalEvm string

datatype asset_account = UserClearing user | CanisterMain | External external_asset_account

record icrc_account =
  ica_owner :: principal
  ica_subaccount :: "string option"

definition derive_user_subaccount_for_canister :: "env \<Rightarrow> principal \<Rightarrow> principal \<Rightarrow> string" where
  "derive_user_subaccount_for_canister e canister_id u =
     env_sha256 e (''collateral'' @ canister_id @ u)"

definition clearing_subaccount :: "env \<Rightarrow> user \<Rightarrow> string" where
  "clearing_subaccount e u = derive_user_subaccount_for_canister e (env_self e) u"

definition clearing_account :: "env \<Rightarrow> user \<Rightarrow> icrc_account" where
  "clearing_account e u =
     \<lparr> ica_owner = env_self e, ica_subaccount = Some (clearing_subaccount e u) \<rparr>"

fun resolve_account :: "env \<Rightarrow> asset_account \<Rightarrow> (asset_error, icrc_account) result" where
  "resolve_account e (UserClearing u) = Ok (clearing_account e u)"
| "resolve_account e CanisterMain = Ok \<lparr> ica_owner = env_self e, ica_subaccount = None \<rparr>"
| "resolve_account e (External (ExternalPrincipal p)) =
     Ok \<lparr> ica_owner = p, ica_subaccount = None \<rparr>"
| "resolve_account e (External (ExternalIcrc owner sub)) =
     Ok \<lparr> ica_owner = owner, ica_subaccount = sub \<rparr>"
| "resolve_account e (External (ExternalEvm _)) = Err InvalidAssetForHandler"

section \<open>Requests and replies\<close>

record transfer_arg =
  ta_from_subaccount :: "string option"
  ta_to :: icrc_account
  ta_amount :: nat
  ta_fee :: "nat option"
  ta_created_at_time :: "u64 option"

record transfer_from_args =
  tf_spender_subaccount :: "string option"
  tf_from :: icrc_account
  tf_to :: icrc_account
  tf_amount :: nat
  tf_created_at_time :: "u64 option"

text \<open>The variants of the ledger's error enums that the code distinguishes; the others are
  carried as the text that \<open>{e:?}\<close> prints.\<close>

datatype ledger_error = Duplicate nat | BadFee nat | OtherLedgerError string

text \<open>The networks of the EVM RPC canister, and a call to a contract.\<close>

datatype rpc_service =
    EthereumMainnet | EthereumSepolia | BaseMainnet | BaseSepolia | BscMainnet | PolygonMainnet

record transaction_request =
  trq_to :: string
  trq_data :: "string option"

datatype request =
    GetSeries principal series_id
  | IsTradingAuthorized principal principal series_id
  | IsOracleAuthorized principal string principal
  | Icrc1Transfer principal transfer_arg
  | Icrc2TransferFrom principal transfer_from_args
  | Icrc1BalanceOf principal icrc_account
  | Icrc1Fee principal
  | Icrc1Symbol principal
  | Icrc1Decimals principal
  | EthAddress principal principal
  | EthSignTransaction principal "u8 list" principal
  | EthGetBalance principal string string rpc_service
  | EthSendRawTransaction principal string rpc_service
  | EthCall principal transaction_request string rpc_service

datatype reply =
    CallRejected u32 string
  | CallNotSent string
  | RSeries "series option"
  | RBool bool
  | RTransfer "(ledger_error, nat) result"
  | RNat nat
  | RText string
  | RByte u8
  | RTextResult "(string, string) result"
  | RNatResult "(string, nat) result"
  | RBlobResult "(string, u8 list) result"

type_synonym ctx = "env \<times> clearing"
type_synonym ('e, 'a) cproc = "(request, reply, ctx, 'e, 'a) proc"

definition icall :: "request \<Rightarrow> (reply \<Rightarrow> ('e, 'a) result) \<Rightarrow> ctx \<Rightarrow> ('e, 'a) cproc" where
  "icall q decode s = Await q s (\<lambda>p s'. Return (decode p) s')"

definition preturn :: "('e, 'a) result \<Rightarrow> ctx \<Rightarrow> ('e, 'a) cproc" where
  "preturn r s = Return r s"

section \<open>The ICRC handler\<close>

definition LEDGER_CALL_CODE_NON_REJECT :: i32 where "LEDGER_CALL_CODE_NON_REJECT = - 1"
definition LEDGER_CALL_CODE_CANDID_DECODE :: i32 where "LEDGER_CALL_CODE_CANDID_DECODE = - 2"
definition LEDGER_CALL_REJECT_CODE_OVERFLOW :: i32 where
  "LEDGER_CALL_REJECT_CODE_OVERFLOW = 2147483647"

definition decode_message :: string where
  "decode_message = ''Candid decode failed''"

fun map_ledger_call_failed :: "string \<Rightarrow> reply \<Rightarrow> asset_error option" where
  "map_ledger_call_failed meth (CallRejected code msg) =
     Some (CallError meth
       (if sint code < 0 then LEDGER_CALL_REJECT_CODE_OVERFLOW else code) msg)"
| "map_ledger_call_failed meth (CallNotSent msg) =
     Some (CallError meth LEDGER_CALL_CODE_NON_REJECT msg)"
| "map_ledger_call_failed meth _ = None"

definition ledger_decode ::
  "string \<Rightarrow> (reply \<Rightarrow> 'a option) \<Rightarrow> reply \<Rightarrow> (asset_error, 'a) result" where
  "ledger_decode meth get p =
     (case map_ledger_call_failed meth p of
        Some e \<Rightarrow> Err e
      | None \<Rightarrow> ok_or (CallError meth LEDGER_CALL_CODE_CANDID_DECODE decode_message) (get p))"

fun as_transfer :: "reply \<Rightarrow> (ledger_error, nat) result option" where
  "as_transfer (RTransfer r) = Some r" | "as_transfer _ = None"

fun as_nat :: "reply \<Rightarrow> nat option" where
  "as_nat (RNat n) = Some n" | "as_nat _ = None"

fun as_text :: "reply \<Rightarrow> string option" where
  "as_text (RText t) = Some t" | "as_text _ = None"

fun as_byte :: "reply \<Rightarrow> u8 option" where
  "as_byte (RByte b) = Some b" | "as_byte _ = None"

definition to_u128 :: "nat \<Rightarrow> (asset_error, u128) result" where
  "to_u128 n = (if int n < 2 ^ 128 then Ok (of_nat n) else Err AssetMathOverflow)"

datatype settled_transfer = Block u128 | BadFeeExpected u128

fun settle_transfer :: "(ledger_error, nat) result \<Rightarrow> (asset_error, settled_transfer) result" where
  "settle_transfer (Ok block) = obind (to_u128 block) (\<lambda>b. Ok (Block b))"
| "settle_transfer (Err (Duplicate duplicate_of)) = obind (to_u128 duplicate_of) (\<lambda>b. Ok (Block b))"
| "settle_transfer (Err (BadFee expected_fee)) =
     obind (to_u128 expected_fee) (\<lambda>f. Ok (BadFeeExpected f))"
| "settle_transfer (Err (OtherLedgerError e)) = Err (TransferError e)"
| "settle_transfer Trap = Trap"

definition send_icrc1_transfer ::
  "principal \<Rightarrow> transfer_arg \<Rightarrow> ctx \<Rightarrow> (asset_error, (ledger_error, nat) result) cproc" where
  "send_icrc1_transfer ledger_id args =
     icall (Icrc1Transfer ledger_id args) (ledger_decode ''icrc1_transfer'' as_transfer)"

definition refresh_fee :: "asset_id \<Rightarrow> u128 \<Rightarrow> ctx \<Rightarrow> ctx" where
  "refresh_fee aid fee c =
     (case c of (e, s) \<Rightarrow> (e, update_cached_transfer_fee (env_now e) aid fee s))"

definition run_cached_fee_transfer ::
  "asset_id \<Rightarrow> u128 option \<Rightarrow> (u128 option \<Rightarrow> transfer_arg) \<Rightarrow>
     (transfer_arg \<Rightarrow> ctx \<Rightarrow> (asset_error, settled_transfer) cproc) \<Rightarrow>
     ctx \<Rightarrow> (asset_error, u128) cproc" where
  "run_cached_fee_transfer aid cached_fee build_args send c =
     pbind (send (build_args cached_fee) c) (\<lambda>settled c.
       case settled of
         Block block \<Rightarrow> preturn (Ok block) c
       | BadFeeExpected expected_fee \<Rightarrow>
           pbind (send (build_args (Some expected_fee)) (refresh_fee aid expected_fee c))
             (\<lambda>settled c.
               case settled of
                 Block block \<Rightarrow> preturn (Ok block) c
               | BadFeeExpected expected_fee \<Rightarrow>
                   preturn (Err (TransferError
                     (''BadFee: ledger expected fee '' @ show_nat (unat expected_fee))))
                     (refresh_fee aid expected_fee c)))"

definition send_settled ::
  "principal \<Rightarrow> transfer_arg \<Rightarrow> ctx \<Rightarrow> (asset_error, settled_transfer) cproc" where
  "send_settled ledger_id args c =
     pbind (send_icrc1_transfer ledger_id args c) (\<lambda>res. preturn (settle_transfer res))"

record asset_transfer_params =
  atp_asset :: asset
  atp_asset_id :: asset_id
  atp_from :: asset_account
  atp_to :: asset_account
  atp_amount :: u128
  atp_created_at_time_ns :: "u64 option"

record asset_transfer_from_params =
  atf_asset :: asset
  atf_spender :: asset_account
  atf_from :: asset_account
  atf_to :: asset_account
  atf_amount :: u128
  atf_created_at_time_ns :: "u64 option"

definition icrc_build_args ::
  "asset_transfer_params \<Rightarrow> icrc_account \<Rightarrow> icrc_account \<Rightarrow> u128 option \<Rightarrow> transfer_arg" where
  "icrc_build_args x from to fee =
     \<lparr> ta_from_subaccount = ica_subaccount from, ta_to = to, ta_amount = unat (atp_amount x),
       ta_fee = map_option unat fee, ta_created_at_time = atp_created_at_time_ns x \<rparr>"

definition pure_step :: "('e, 'a) result \<Rightarrow> ctx \<Rightarrow> ('a \<Rightarrow> ctx \<Rightarrow> ('e, 'b) cproc) \<Rightarrow> ('e, 'b) cproc" where
  "pure_step r c f = pbind (Return r c) f"

definition icrc_transfer :: "asset_transfer_params \<Rightarrow> ctx \<Rightarrow> (asset_error, u128) cproc" where
  "icrc_transfer x c =
     pure_step (as_icrc (atp_asset x)) c (\<lambda>ledger_id c.
     pure_step (resolve_account (fst c) (atp_from x)) c (\<lambda>from c.
     pure_step (resolve_account (fst c) (atp_to x)) c (\<lambda>to c.
       run_cached_fee_transfer (atp_asset_id x) (cached_transfer_fee (snd c) (atp_asset_id x))
         (icrc_build_args x from to) (send_settled ledger_id) c)))"

definition settle_transfer_from :: "(ledger_error, nat) result \<Rightarrow> (asset_error, u128) result" where
  "settle_transfer_from res =
     (case res of
        Ok block \<Rightarrow> to_u128 block
      | Err (Duplicate duplicate_of) \<Rightarrow> to_u128 duplicate_of
      | Err (BadFee f) \<Rightarrow> Err (TransferError (''BadFee { expected_fee: '' @ show_nat f @ '' }''))
      | Err (OtherLedgerError e) \<Rightarrow> Err (TransferError e)
      | Trap \<Rightarrow> Trap)"

definition icrc_transfer_from :: "asset_transfer_from_params \<Rightarrow> ctx \<Rightarrow> (asset_error, u128) cproc" where
  "icrc_transfer_from x c =
     pure_step (as_icrc (atf_asset x)) c (\<lambda>ledger_id c.
     pure_step (resolve_account (fst c) (atf_spender x)) c (\<lambda>spender c.
     pure_step (resolve_account (fst c) (atf_from x)) c (\<lambda>from c.
     pure_step (resolve_account (fst c) (atf_to x)) c (\<lambda>to c.
       pbind
         (icall (Icrc2TransferFrom ledger_id
            \<lparr> tf_spender_subaccount = ica_subaccount spender, tf_from = from, tf_to = to,
              tf_amount = unat (atf_amount x),
              tf_created_at_time = atf_created_at_time_ns x \<rparr>)
            (ledger_decode ''icrc2_transfer_from'' as_transfer) c)
         (\<lambda>res. preturn (settle_transfer_from res))))))"

definition icrc_balance_of :: "asset \<Rightarrow> asset_account \<Rightarrow> ctx \<Rightarrow> (asset_error, u128) cproc" where
  "icrc_balance_of a acct c =
     pure_step (as_icrc a) c (\<lambda>ledger_id c.
     pure_step (resolve_account (fst c) acct) c (\<lambda>account c.
       pbind (icall (Icrc1BalanceOf ledger_id account)
                (ledger_decode ''icrc1_balance_of'' as_nat) c)
         (\<lambda>n. preturn (to_u128 n))))"

definition icrc_get_fee :: "asset \<Rightarrow> ctx \<Rightarrow> (asset_error, u128) cproc" where
  "icrc_get_fee a c =
     pure_step (as_icrc a) c (\<lambda>ledger_id c.
       pbind (icall (Icrc1Fee ledger_id) (ledger_decode ''icrc1_fee'' as_nat) c)
         (\<lambda>n. preturn (to_u128 n)))"

definition icrc_get_symbol :: "asset \<Rightarrow> ctx \<Rightarrow> (asset_error, string) cproc" where
  "icrc_get_symbol a c =
     pure_step (as_icrc a) c (\<lambda>ledger_id.
       icall (Icrc1Symbol ledger_id) (ledger_decode ''icrc1_symbol'' as_text))"

definition icrc_get_decimals :: "asset \<Rightarrow> ctx \<Rightarrow> (asset_error, u8) cproc" where
  "icrc_get_decimals a c =
     pure_step (as_icrc a) c (\<lambda>ledger_id.
       icall (Icrc1Decimals ledger_id) (ledger_decode ''icrc1_decimals'' as_byte))"

record icrc_metadata =
  md_symbol :: string
  md_decimals :: u8
  md_fee :: u128

definition icrc_get_metadata :: "asset \<Rightarrow> ctx \<Rightarrow> (asset_error, icrc_metadata) cproc" where
  "icrc_get_metadata a c =
     pbind (icrc_get_symbol a c) (\<lambda>symbol c.
     pbind (icrc_get_decimals a c) (\<lambda>decimals c.
     pbind (icrc_get_fee a c) (\<lambda>fee.
       preturn (Ok \<lparr> md_symbol = symbol, md_decimals = decimals, md_fee = fee \<rparr>))))"

section \<open>The EVM handler\<close>

definition format_call_failed :: "reply \<Rightarrow> string option" where
  "format_call_failed p =
     (case p of
        CallRejected code msg \<Rightarrow> Some (''Call error: '' @ show_nat (unat code) @ '': '' @ msg)
      | CallNotSent msg \<Rightarrow> Some (''Call error: '' @ msg)
      | _ \<Rightarrow> None)"

definition client_decode :: "(reply \<Rightarrow> (string, 'a) result option) \<Rightarrow> reply \<Rightarrow> (string, 'a) result" where
  "client_decode get p =
     (case format_call_failed p of
        Some e \<Rightarrow> Err e
      | None \<Rightarrow> (case get p of None \<Rightarrow> Err decode_message | Some r \<Rightarrow> r))"

fun as_text_result :: "reply \<Rightarrow> (string, string) result option" where
  "as_text_result (RTextResult r) = Some r" | "as_text_result _ = None"

fun as_nat_result :: "reply \<Rightarrow> (string, nat) result option" where
  "as_nat_result (RNatResult r) = Some r" | "as_nat_result _ = None"

fun as_blob_result :: "reply \<Rightarrow> (string, u8 list) result option" where
  "as_blob_result (RBlobResult r) = Some r" | "as_blob_result _ = None"

text \<open>
  The clients of the signer and of the RPC canister.  Nothing calls \<open>eth_sign_transaction\<close> and
  \<open>send_raw_transaction\<close> yet; \<open>encode\<close> is the hexadecimal form that the crate \<open>hex\<close> gives.
\<close>

definition client_eth_address :: "principal \<Rightarrow> principal \<Rightarrow> ctx \<Rightarrow> (string, string) cproc" where
  "client_eth_address canister p = icall (EthAddress canister p) (client_decode as_text_result)"

definition client_eth_sign_transaction ::
  "principal \<Rightarrow> u8 list \<Rightarrow> principal \<Rightarrow> ctx \<Rightarrow> (string, u8 list) cproc" where
  "client_eth_sign_transaction canister transaction p =
     icall (EthSignTransaction canister transaction p) (client_decode as_blob_result)"

definition client_get_balance ::
  "principal \<Rightarrow> string \<Rightarrow> string \<Rightarrow> rpc_service \<Rightarrow> ctx \<Rightarrow> (string, nat) cproc" where
  "client_get_balance canister address block config =
     icall (EthGetBalance canister address block config) (client_decode as_nat_result)"

definition client_send_raw_transaction ::
  "(u8 list \<Rightarrow> string) \<Rightarrow> principal \<Rightarrow> u8 list \<Rightarrow> rpc_service \<Rightarrow> ctx \<Rightarrow> (string, string) cproc" where
  "client_send_raw_transaction encode canister raw_tx config =
     icall (EthSendRawTransaction canister (''0x'' @ encode raw_tx) config) (client_decode as_text_result)"

definition client_call ::
  "principal \<Rightarrow> string \<Rightarrow> string \<Rightarrow> string \<Rightarrow> rpc_service \<Rightarrow> ctx \<Rightarrow> (string, string) cproc" where
  "client_call canister to data block config =
     icall (EthCall canister \<lparr> trq_to = to, trq_data = Some data \<rparr> block config)
       (client_decode as_text_result)"

lemmas client_defs = client_eth_address_def client_get_balance_def client_call_def

fun get_rpc_config :: "chain \<Rightarrow> rpc_service" where
  "get_rpc_config Ethereum = EthereumMainnet"
| "get_rpc_config Base = BaseMainnet"
| "get_rpc_config Bsc = BscMainnet"
| "get_rpc_config Polygon = PolygonMainnet"

definition get_or_fetch_address :: "principal \<Rightarrow> ctx \<Rightarrow> (asset_error, string) cproc" where
  "get_or_fetch_address p c =
     (case bt_get (cl_evm_addresses (snd c)) p of
        Some addr \<Rightarrow> preturn (Ok addr) c
      | None \<Rightarrow>
          pbind (pmap_err (CallError ''eth_address'' 0)
                   (client_eth_address (cfg_signer_canister (cl_config (snd c))) p c))
            (\<lambda>address c. case c of (e, s) \<Rightarrow>
               preturn (Ok address)
                 (e, s\<lparr>cl_evm_addresses := bt_insert p address (cl_evm_addresses s)\<rparr>)))"

fun evm_resolve_account :: "asset_account \<Rightarrow> ctx \<Rightarrow> (asset_error, string) cproc" where
  "evm_resolve_account (UserClearing u) c = get_or_fetch_address u c"
| "evm_resolve_account CanisterMain c = get_or_fetch_address (env_self (fst c)) c"
| "evm_resolve_account (External (ExternalPrincipal p)) c = get_or_fetch_address p c"
| "evm_resolve_account (External (ExternalIcrc _ _)) c = preturn (Err InvalidAssetForHandler) c"
| "evm_resolve_account (External (ExternalEvm address)) c = preturn (Ok address) c"

definition hex_digit :: "char \<Rightarrow> nat option" where
  "hex_digit ch =
     (let b = byte ch
      in if 48 \<le> b \<and> b \<le> 57 then Some (b - 48)
         else if 97 \<le> b \<and> b \<le> 102 then Some (b - 87)
         else if 65 \<le> b \<and> b \<le> 70 then Some (b - 55) else None)"

fun hex_value :: "string \<Rightarrow> nat \<Rightarrow> nat option" where
  "hex_value [] acc = Some acc"
| "hex_value (c # cs) acc =
     (case hex_digit c of None \<Rightarrow> None | Some d \<Rightarrow> hex_value cs (16 * acc + d))"

text \<open>\<open>u128::from_str_radix(_, 16)\<close>: one leading \<open>+\<close> is allowed, no digits are an error.\<close>

definition u128_from_hex :: "string \<Rightarrow> u128 option" where
  "u128_from_hex t =
     (let ds = (case t of c # rest \<Rightarrow> if c = CHR ''+'' then rest else t | [] \<Rightarrow> t)
      in if ds = [] then None
         else case hex_value ds 0 of
                None \<Rightarrow> None | Some n \<Rightarrow> if int n < 2 ^ 128 then Some (of_nat n) else None)"

fun trim_0x :: "string \<Rightarrow> string" where
  "trim_0x (a # b # rest) = (if a = CHR ''0'' \<and> b = CHR ''x'' then trim_0x rest else a # b # rest)"
| "trim_0x t = t"

definition balance_call_data :: "string \<Rightarrow> string" where
  "balance_call_data address = ''0x70a08231000000000000000000000000'' @ trim_0x address"

definition chain_or_unsupported :: "chain_id \<Rightarrow> (asset_error, chain) result" where
  "chain_or_unsupported i = ok_or UnsupportedAsset (chain_try_from i)"

definition evm_balance_of :: "asset \<Rightarrow> asset_account \<Rightarrow> ctx \<Rightarrow> (asset_error, u128) cproc" where
  "evm_balance_of a acct c =
     (let rpc = cfg_evm_rpc (cl_config (snd c))
      in pbind (evm_resolve_account acct c) (\<lambda>address c.
         pure_step (as_evm a) c (\<lambda>ref c.
           case ref of
             EvmNative native \<Rightarrow>
               pure_step (chain_or_unsupported (nat_chain_id native)) c (\<lambda>ch c.
                 pbind (pmap_err (CallError ''eth_getBalance'' 0)
                          (client_get_balance rpc address ''latest'' (get_rpc_config ch) c))
                   (\<lambda>n. preturn (to_u128 n)))
           | EvmErc20 token \<Rightarrow>
               pure_step (chain_or_unsupported (erc_chain_id token)) c (\<lambda>ch c.
                 pbind (pmap_err (CallError ''eth_call'' 0)
                          (client_call rpc (erc_token_address token) (balance_call_data address)
                             ''latest'' (get_rpc_config ch) c))
                   (\<lambda>res. preturn (ok_or AssetMathOverflow (u128_from_hex (trim_0x res))))))))"

definition evm_transfer :: "asset_transfer_params \<Rightarrow> ctx \<Rightarrow> (asset_error, u128) cproc" where
  "evm_transfer x = preturn (Err (TransferError ''EVM transfer not fully implemented yet''))"

definition evm_transfer_from :: "asset_transfer_from_params \<Rightarrow> ctx \<Rightarrow> (asset_error, u128) cproc" where
  "evm_transfer_from x = preturn (Err (TransferError ''EVM transferFrom not fully implemented yet''))"

definition evm_get_fee :: "asset \<Rightarrow> ctx \<Rightarrow> (asset_error, u128) cproc" where
  "evm_get_fee a = preturn (Ok 21000)"

lemmas evm_stubs [simp] = evm_transfer_def evm_transfer_from_def evm_get_fee_def

section \<open>The unified handler\<close>

datatype asset_handler = IcrcHandler | EvmHandler

fun get_handler :: "asset \<Rightarrow> asset_handler" where
  "get_handler (Icrc _) = IcrcHandler"
| "get_handler (NativeEvm _) = EvmHandler"
| "get_handler (Erc20 _) = EvmHandler"

fun handler_balance_of :: "asset_handler \<Rightarrow> asset \<Rightarrow> asset_account \<Rightarrow> ctx \<Rightarrow> (asset_error, u128) cproc"
where
  "handler_balance_of IcrcHandler a acct c = icrc_balance_of a acct c"
| "handler_balance_of EvmHandler a acct c = evm_balance_of a acct c"

fun handler_transfer :: "asset_handler \<Rightarrow> asset_transfer_params \<Rightarrow> ctx \<Rightarrow> (asset_error, u128) cproc"
where
  "handler_transfer IcrcHandler x c = icrc_transfer x c"
| "handler_transfer EvmHandler x c = evm_transfer x c"

fun handler_transfer_from ::
  "asset_handler \<Rightarrow> asset_transfer_from_params \<Rightarrow> ctx \<Rightarrow> (asset_error, u128) cproc" where
  "handler_transfer_from IcrcHandler x c = icrc_transfer_from x c"
| "handler_transfer_from EvmHandler x c = evm_transfer_from x c"

fun handler_get_fee :: "asset_handler \<Rightarrow> asset \<Rightarrow> ctx \<Rightarrow> (asset_error, u128) cproc" where
  "handler_get_fee IcrcHandler a c = icrc_get_fee a c"
| "handler_get_fee EvmHandler a c = evm_get_fee a c"

end
