(* ===== verification/Upgrade.thy ===== *)
theory Upgrade
  imports Memory
begin

text \<open>
  The upgrade path of the clearing canister: \<open>StableState\<close> of \<open>types/state.rs\<close>, \<open>save_state\<close>,
  \<open>restore_state\<close> and \<open>rebuild_reassignment_marks\<close> of \<open>memory.rs\<close>.  The blob that stable
  storage carries is the record itself; restoring starts from the empty thread-locals.
\<close>

record stable_state =
  ss_config :: config
  ss_positions :: "position list"
  ss_accounts :: "(user, account_state) btmap"
  ss_series :: "(series_id, series) btmap"
  ss_events :: "event list"
  ss_next_id :: u64
  ss_registry :: principal
  ss_deposit_plans :: "(user \<times> deposit_id, deposit_plan) btmap"
  ss_withdrawal_plans :: "(user \<times> withdrawal_id, withdrawal_plan) btmap"
  ss_fund_withdrawal_plans :: "(string, fund_withdrawal_plan) btmap"
  ss_executed_trades :: "(trade_id, u64) btmap"
  ss_frozen_transfers :: "(transfer_id, position_proof) btmap"
  ss_accepted_transfers :: "(transfer_id, bool) btmap"
  ss_settlement_plans :: "(series_id, settlement_plan) btmap"
  ss_limit_orders :: "(order_id, limit_order) btmap"
  ss_insurance_fund :: "(asset_id, u128) btmap"
  ss_treasury :: "(asset_id, u128) btmap"
  ss_collateral_assets :: "(asset_id, collateral_asset_config) btmap"
  ss_evm_addresses :: "(principal, string) btmap"
  ss_asset_metrics :: "(asset_id, asset_metrics) btmap"
  ss_domain_policies :: "(balance_domain, domain_policy) btmap"
  ss_migration_plans :: "(user \<times> string, migration_plan) btmap"
  ss_reassignment_plans :: "(user \<times> string, reassignment_plan) btmap option"

definition save_state :: "clearing \<Rightarrow> stable_state" where
  "save_state s =
     \<lparr> ss_config = cl_config s, ss_positions = bt_values (cl_positions s),
       ss_accounts = cl_accounts s, ss_series = cl_series s, ss_events = cl_events s,
       ss_next_id = cl_next_event_id s, ss_registry = cl_registry s,
       ss_deposit_plans = cl_deposit_plans s, ss_withdrawal_plans = cl_withdrawal_plans s,
       ss_fund_withdrawal_plans = cl_fund_withdrawal_plans s,
       ss_executed_trades = cl_executed_trades s, ss_frozen_transfers = cl_frozen_transfers s,
       ss_accepted_transfers = cl_accepted_transfers s,
       ss_settlement_plans = cl_settlement_plans s, ss_limit_orders = cl_limit_orders s,
       ss_insurance_fund = cl_insurance_fund s, ss_treasury = cl_treasury s,
       ss_collateral_assets = cl_collateral_assets s, ss_evm_addresses = cl_evm_addresses s,
       ss_asset_metrics = cl_asset_metrics s, ss_domain_policies = cl_domain_policies s,
       ss_migration_plans = cl_migration_plans s,
       ss_reassignment_plans = Some (cl_reassignment_plans s) \<rparr>"

definition position_key_of :: "position \<Rightarrow> position_key" where
  "position_key_of pos = (pos_user pos, pos_series_id pos, pos_outcome_id pos)"

definition lock_mark :: "user \<Rightarrow> (user, reassignment_mark) btmap \<Rightarrow> (user, reassignment_mark) btmap" where
  "lock_mark u = bt_entry u default_mark (\<lambda>m. m\<lparr>rm_locked := True\<rparr>)"

definition rebuild_reassignment_marks :: "clearing \<Rightarrow> clearing" where
  "rebuild_reassignment_marks s =
     s\<lparr>cl_reassignment_marks :=
        fold (\<lambda>plan marks.
                if rpl_status plan = Finalised then marks
                else lock_mark (rpl_new_owner plan) (lock_mark (rpl_old_owner plan) marks))
          (bt_values (cl_reassignment_plans s)) []\<rparr>"

definition restore_state :: "stable_state \<Rightarrow> clearing" where
  "restore_state st =
     (let s = clearing_empty
          \<lparr> cl_positions := fold (\<lambda>pos. bt_insert (position_key_of pos) pos) (ss_positions st) [],
            cl_config := ss_config st, cl_accounts := ss_accounts st, cl_series := ss_series st,
            cl_events := ss_events st, cl_next_event_id := ss_next_id st \<rparr>;
          s = rebuild_leaderboard (rebuild_series_trade_history s);
          s = s\<lparr> cl_registry := ss_registry st, cl_deposit_plans := ss_deposit_plans st,
                 cl_withdrawal_plans := ss_withdrawal_plans st,
                 cl_fund_withdrawal_plans := ss_fund_withdrawal_plans st,
                 cl_executed_trades := ss_executed_trades st,
                 cl_frozen_transfers := ss_frozen_transfers st,
                 cl_accepted_transfers := ss_accepted_transfers st,
                 cl_settlement_plans := ss_settlement_plans st,
                 cl_limit_orders := ss_limit_orders st,
                 cl_insurance_fund := ss_insurance_fund st, cl_treasury := ss_treasury st,
                 cl_collateral_assets := ss_collateral_assets st,
                 cl_evm_addresses := ss_evm_addresses st,
                 cl_asset_metrics := ss_asset_metrics st,
                 cl_domain_policies := ss_domain_policies st,
                 cl_migration_plans := ss_migration_plans st,
                 cl_reassignment_plans :=
                   (case ss_reassignment_plans st of None \<Rightarrow> [] | Some m \<Rightarrow> m) \<rparr>
      in rebuild_reassignment_marks s)"

section \<open>What an upgrade keeps\<close>

text \<open>The positions are keyed by what they carry, and the indices agree with the log.\<close>

definition positions_keyed :: "clearing \<Rightarrow> bool" where
  "positions_keyed s =
     (bt_inv (cl_positions s) \<and> list_all (\<lambda>(k, p). position_key_of p = k) (cl_positions s))"

definition indices_current :: "clearing \<Rightarrow> bool" where
  "indices_current s =
     (cl_leaderboard s = rebuilt_leaderboard (cl_events s) \<and>
      (cl_traded_volume s, cl_trade_history s) = rebuilt_trade_index (cl_events s))"

lemma insert_last:
  "\<forall>k'\<in>fst ` set m. k' < k \<Longrightarrow> bt_insert k v m = m @ [(k, v)]"
  by (induction m) auto

lemma reinsert_positions:
  assumes "bt_inv m" "list_all (\<lambda>(k, p). f p = k) m"
  shows "fold (\<lambda>p. bt_insert (f p) p) (bt_values m) [] = m"
  using assms
proof (induction m rule: rev_induct)
  case Nil
  then show ?case by (simp add: bt_values_def)
next
  case (snoc e m)
  obtain k p where e: "e = (k, p)" by (cases e)
  have "bt_inv m" "\<forall>k'\<in>fst ` set m. k' < k"
    using snoc.prems(1) by (auto simp: bt_inv_def sorted_wrt_append e)
  with snoc e show ?case by (simp add: bt_values_def insert_last)
qed

lemma lock_mark_get:
  "bt_get (lock_mark u marks) v =
     (if u = v
      then Some ((case bt_get marks u of None \<Rightarrow> default_mark | Some m \<Rightarrow> m)\<lparr>rm_locked := True\<rparr>)
      else bt_get marks v)"
  by (auto simp: lock_mark_def split: option.splits)

text \<open>The principals that \<open>rebuild_reassignment_marks\<close> locks, with their generation at zero.\<close>

definition under_reassignment :: "reassignment_plan list \<Rightarrow> user \<Rightarrow> bool" where
  "under_reassignment plans u =
     list_ex (\<lambda>p. rpl_status p \<noteq> Finalised \<and> (rpl_old_owner p = u \<or> rpl_new_owner p = u)) plans"

lemma rebuilt_marks_get:
  "bt_get (cl_reassignment_marks (rebuild_reassignment_marks s)) u =
     (if under_reassignment (bt_values (cl_reassignment_plans s)) u
      then Some \<lparr> rm_generation = 0, rm_locked = True \<rparr> else None)"
proof -
  have "bt_get (fold (\<lambda>plan marks.
                if rpl_status plan = Finalised then marks
                else lock_mark (rpl_new_owner plan) (lock_mark (rpl_old_owner plan) marks))
          plans []) u =
     (if under_reassignment plans u then Some \<lparr> rm_generation = 0, rm_locked = True \<rparr> else None)"
    for plans
    by (induction plans rule: rev_induct)
      (auto simp: under_reassignment_def lock_mark_get default_mark_def)
  then show ?thesis by (simp add: rebuild_reassignment_marks_def)
qed

lemma restore_save:
  assumes "positions_keyed s" "indices_current s"
  shows "restore_state (save_state s) = rebuild_reassignment_marks s"
proof -
  have "fold (\<lambda>pos. bt_insert (position_key_of pos) pos) (bt_values (cl_positions s)) [] =
        cl_positions s"
    using assms(1) by (intro reinsert_positions) (auto simp: positions_keyed_def)
  then show ?thesis
    using assms(2)
    by (cases s) (auto simp: restore_state_def save_state_def indices_current_def Let_def
        rebuild_leaderboard_def rebuild_series_trade_history_def clearing_empty_def
        rebuild_reassignment_marks_def split: prod.splits)
qed

end
