(* ===== verification/Access.thy ===== *)
theory Access
  imports AssetHandlers Upgrade
begin

text \<open>
  What a trading call passes before it touches the books: the reassignment guard of
  \<open>account/reassignment.rs\<close>, the series gates of \<open>utils/series.rs\<close> and the trading-access check
  of \<open>api/trade/api.rs\<close>, with the errors of \<open>api/trade/errors.rs\<close> and the registry calls of
  \<open>utils/registry.rs\<close>.
\<close>

section \<open>Errors\<close>

datatype trade_error =
    CommonTrade common_error
  | SeriesNotFound series_id
  | InsufficientMargin user u128 u128
  | RegistryError string
  | OrderNotFound order_id
  | NotOrderCreator
  | ArbitrageLimitExceeded u128 u128
  | SelfTradingNotAllowed
  | NotAuthorizedToTrade
  | SeriesAlreadySettled series_id
  | SeriesNotStarted series_id u64
  | AccountUnderReassignment user
  | SeriesExpired series_id u64

section \<open>The reassignment guard\<close>

record reassignment_guard =
  rg_user :: user
  rg_generation :: u64

definition mark_of :: "clearing \<Rightarrow> user \<Rightarrow> reassignment_mark" where
  "mark_of s u = (case bt_get (cl_reassignment_marks s) u of None \<Rightarrow> default_mark | Some m \<Rightarrow> m)"

definition is_locked :: "clearing \<Rightarrow> user \<Rightarrow> bool" where
  "is_locked s u = rm_locked (mark_of s u)"

text \<open>The error is \<open>ReassignmentConflict\<close>, the principal.\<close>

definition guard_acquire :: "clearing \<Rightarrow> user \<Rightarrow> (user, reassignment_guard) result" where
  "guard_acquire s u =
     (if rm_locked (mark_of s u) then Err u
      else Ok \<lparr> rg_user = u, rg_generation = rm_generation (mark_of s u) \<rparr>)"

definition guard_revalidate :: "clearing \<Rightarrow> reassignment_guard \<Rightarrow> (user, unit) result" where
  "guard_revalidate s g =
     (let mark = mark_of s (rg_user g)
      in if rm_locked mark \<or> rm_generation mark \<noteq> rg_generation g then Err (rg_user g) else Ok ())"

definition lock_for_reassignment :: "user \<Rightarrow> user \<Rightarrow> clearing \<Rightarrow> clearing" where
  "lock_for_reassignment old_owner new_owner s =
     s\<lparr>cl_reassignment_marks :=
        fold (\<lambda>u. bt_entry u default_mark
                     (\<lambda>m. \<lparr> rm_generation = rm_generation m + 1, rm_locked = True \<rparr>))
          [old_owner, new_owner] (cl_reassignment_marks s)\<rparr>"

definition unlock_after_reassignment :: "user \<Rightarrow> user \<Rightarrow> clearing \<Rightarrow> clearing" where
  "unlock_after_reassignment old_owner new_owner s =
     s\<lparr>cl_reassignment_marks :=
        fold (\<lambda>u. bt_entry u default_mark (\<lambda>m. m\<lparr>rm_locked := False\<rparr>))
          [old_owner, new_owner] (cl_reassignment_marks s)\<rparr>"

definition acquire :: "user \<Rightarrow> ctx \<Rightarrow> (trade_error, reassignment_guard) cproc" where
  "acquire u c = preturn (map_err AccountUnderReassignment (guard_acquire (snd c) u)) c"

definition revalidate :: "reassignment_guard \<Rightarrow> ctx \<Rightarrow> (trade_error, unit) cproc" where
  "revalidate g c = preturn (map_err AccountUnderReassignment (guard_revalidate (snd c) g)) c"

section \<open>The series gates\<close>

datatype series_access = OpenExposure | ReduceExposure

definition assert_series_started :: "series \<Rightarrow> u64 \<Rightarrow> (trade_error, unit) result" where
  "assert_series_started ser now =
     (case ser_start_ns ser of
        Some start_ns \<Rightarrow>
          if now < start_ns then Err (SeriesNotStarted (ser_series_id ser) start_ns) else Ok ()
      | None \<Rightarrow> Ok ())"

definition assert_series_not_expired :: "series \<Rightarrow> u64 \<Rightarrow> (trade_error, unit) result" where
  "assert_series_not_expired ser now =
     (if ser_expiry_ns ser \<le> now
      then Err (SeriesExpired (ser_series_id ser) (ser_expiry_ns ser)) else Ok ())"

definition assert_series_not_settled :: "clearing \<Rightarrow> series_id \<Rightarrow> (trade_error, unit) result" where
  "assert_series_not_settled s sid =
     (if bt_contains_key (cl_settlement_plans s) sid then Err (SeriesAlreadySettled sid) else Ok ())"

definition registry_decode :: "(reply \<Rightarrow> 'a option) \<Rightarrow> reply \<Rightarrow> (string, 'a) result" where
  "registry_decode get p =
     (case p of
        CallRejected _ msg \<Rightarrow> Err (''Registry call failed: '' @ msg)
      | CallNotSent msg \<Rightarrow> Err (''Registry call failed: '' @ msg)
      | _ \<Rightarrow> ok_or (''Registry response decode failed: '' @ decode_message) (get p))"

fun as_series :: "reply \<Rightarrow> series option option" where
  "as_series (RSeries r) = Some r" | "as_series _ = None"

fun as_bool :: "reply \<Rightarrow> bool option" where
  "as_bool (RBool b) = Some b" | "as_bool _ = None"

definition is_oracle_authorized ::
  "principal \<Rightarrow> string \<Rightarrow> principal \<Rightarrow> ctx \<Rightarrow> (common_error, bool) cproc" where
  "is_oracle_authorized registry oracle_id p =
     icall (IsOracleAuthorized registry oracle_id p)
       (\<lambda>r. map_err Internal (registry_decode as_bool r))"

definition is_trading_authorized ::
  "principal \<Rightarrow> principal \<Rightarrow> series_id \<Rightarrow> ctx \<Rightarrow> (common_error, bool) cproc" where
  "is_trading_authorized registry p sid =
     icall (IsTradingAuthorized registry p sid)
       (\<lambda>r. map_err Internal (registry_decode as_bool r))"

definition cache_series :: "series \<Rightarrow> clearing \<Rightarrow> clearing" where
  "cache_series ser s = s\<lparr>cl_series := bt_insert (ser_series_id ser) ser (cl_series s)\<rparr>"

text \<open>The branch that asks the registry for an uncached series.\<close>

definition fetch_series :: "series_id \<Rightarrow> ctx \<Rightarrow> (trade_error, series) cproc" where
  "fetch_series sid c =
     (let registry = cl_registry (snd c)
      in if registry = anonymous then preturn (Err (CommonTrade RegistryNotSet)) c
         else pbind
           (pmap_err RegistryError (icall (GetSeries registry sid) (registry_decode as_series) c))
           (\<lambda>series_opt c.
              case series_opt of
                None \<Rightarrow> preturn (Err (SeriesNotFound sid)) c
              | Some ser \<Rightarrow>
                  if ser_payout_unit ser \<noteq> payout_usd
                  then preturn (Err (CommonTrade (Internal
                    ''Unsupported payout unit in series. Only USD is supported.''))) c
                  else preturn (Ok ser) (fst c, cache_series ser (snd c))))"

text \<open>
  The gates on the single exit read the clock after the await.  A series in settlement is
  rejected before the cache is read, on entry only.
\<close>

definition series_gates :: "series \<Rightarrow> series_access \<Rightarrow> u64 \<Rightarrow> (trade_error, unit) result" where
  "series_gates ser access now =
     obind (assert_series_started ser now) (\<lambda>_.
       if access = OpenExposure then assert_series_not_expired ser now else Ok ())"

definition ensure_series_registered ::
  "series_id \<Rightarrow> series_access \<Rightarrow> ctx \<Rightarrow> (trade_error, series) cproc" where
  "ensure_series_registered sid access c =
     pure_step (assert_series_not_settled (snd c) sid) c (\<lambda>_ c.
       pbind (case bt_get (cl_series (snd c)) sid of
                Some ser \<Rightarrow> preturn (Ok ser) c
              | None \<Rightarrow> fetch_series sid c)
         (\<lambda>ser c. pure_step (series_gates ser access (env_now (fst c))) c (\<lambda>_.
            preturn (Ok ser))))"

section \<open>Trading access\<close>

definition dominated_by_open :: "series \<Rightarrow> bool" where
  "dominated_by_open ser = list_ex (\<lambda>p. p = Open) (ser_trading_access ser)"

definition check_trading_access :: "series \<Rightarrow> principal \<Rightarrow> ctx \<Rightarrow> (trade_error, unit) cproc" where
  "check_trading_access ser p c =
     (if dominated_by_open ser then preturn (Ok ()) c
      else let registry = cl_registry (snd c)
      in if registry = anonymous then preturn (Err (CommonTrade RegistryNotSet)) c
         else pbind
           (pmap_err (\<lambda>_. RegistryError ''Trading access check failed'')
              (is_trading_authorized registry p (ser_series_id ser) c))
           (\<lambda>authorized. preturn (if authorized then Ok () else Err NotAuthorizedToTrade)))"

section \<open>Facts\<close>

named_theorems guard_simps \<open>what the guards and gates decide\<close>

lemma mark_of_lock:
  "mark_of (lock_for_reassignment old_owner new_owner s) u =
     (let m = mark_of s u;
          hits = (if u = old_owner then 1 else 0) + (if u = new_owner then 1 else 0 :: u64)
      in if hits = 0 then m else \<lparr> rm_generation = rm_generation m + hits, rm_locked = True \<rparr>)"
  by (auto simp: mark_of_def lock_for_reassignment_def Let_def split: option.splits)

lemma mark_of_unlock:
  "mark_of (unlock_after_reassignment old_owner new_owner s) u =
     (if u = old_owner \<or> u = new_owner then (mark_of s u)\<lparr>rm_locked := False\<rparr> else mark_of s u)"
  by (auto simp: mark_of_def unlock_after_reassignment_def default_mark_def split: option.splits)

lemma guard_acquire_Ok [guard_simps]:
  "guard_acquire s u = Ok g \<longleftrightarrow>
     \<not> rm_locked (mark_of s u) \<and> g = \<lparr> rg_user = u, rg_generation = rm_generation (mark_of s u) \<rparr>"
  by (auto simp: guard_acquire_def)

lemma guard_revalidate_Ok [guard_simps]:
  "guard_revalidate s g = Ok () \<longleftrightarrow>
     \<not> rm_locked (mark_of s (rg_user g)) \<and> rm_generation (mark_of s (rg_user g)) = rg_generation g"
  by (auto simp: guard_revalidate_def Let_def)

lemma series_gates_Ok [guard_simps]:
  "series_gates ser access now = Ok () \<longleftrightarrow>
     (\<forall>start. ser_start_ns ser = Some start \<longrightarrow> start \<le> now) \<and>
     (access = OpenExposure \<longrightarrow> now < ser_expiry_ns ser)"
  by (auto simp: series_gates_def assert_series_started_def assert_series_not_expired_def
      obind_def not_less not_le split: option.splits)

lemma assert_not_settled_Ok [guard_simps]:
  "assert_series_not_settled s sid = Ok () \<longleftrightarrow> bt_get (cl_settlement_plans s) sid = None"
  by (auto simp: assert_series_not_settled_def)

end
