(* ===== verification/Execution.thy ===== *)
theory Execution
  imports Access
begin

text \<open>
  \<open>src/src/clearing/src/trade/service.rs\<close>: the execution of a trade.  The calculation phase
  reads both positions, the validation phase checks both accounts, and only then the mutation
  phase writes the accounts, the positions, the events and the indices.
\<close>

section \<open>The parts of a trade\<close>

record execute_trade_params =
  etp_trade_id :: trade_id
  etp_series_id :: series_id
  etp_outcome_id :: "outcome_id option"
  etp_buyer :: user
  etp_seller :: user
  etp_qty :: i128
  etp_price :: price
  etp_buyer_unblock_amount :: "u128 option"
  etp_seller_unblock_amount :: "u128 option"

fun payoff_error_debug :: "payoff_error \<Rightarrow> string" where
  "payoff_error_debug InvalidSettlementType = ''InvalidSettlementType''"
| "payoff_error_debug MissingStrike = ''MissingStrike''"
| "payoff_error_debug MissingOutcomeId = ''MissingOutcomeId''"
| "payoff_error_debug (MathError m) = ''MathError('' @ m @ '')''"

definition payoff_failed :: "payoff_error \<Rightarrow> common_error" where
  "payoff_failed e = Internal (''Payoff calculation failed: '' @ payoff_error_debug e)"

definition required_margin ::
  "series \<Rightarrow> price \<Rightarrow> outcome_id option \<Rightarrow> i128 \<Rightarrow> (trade_error, u128) result" where
  "required_margin ser p oid qty =
     map_err (\<lambda>e. CommonTrade (payoff_failed e)) (get_required_margin ser p qty oid)"

definition pos_margin_at :: "clearing \<Rightarrow> position_key \<Rightarrow> u128" where
  "pos_margin_at s k =
     (case bt_get (cl_positions s) k of None \<Rightarrow> 0 | Some p \<Rightarrow> pos_reserved_margin_usd p)"

definition pos_qty_at :: "clearing \<Rightarrow> position_key \<Rightarrow> i128" where
  "pos_qty_at s k = (case bt_get (cl_positions s) k of None \<Rightarrow> 0 | Some p \<Rightarrow> pos_net_qty p)"

record trade_deltas =
  td_buyer_cash :: i128
  td_seller_cash :: i128
  td_buyer_reserved :: i128
  td_seller_reserved :: i128
  td_new_buyer_margin :: u128
  td_new_seller_margin :: u128

definition calculate_deltas ::
  "series \<Rightarrow> execute_trade_params \<Rightarrow> clearing \<Rightarrow> (trade_error, trade_deltas) result" where
  "calculate_deltas ser x s =
     (let bk = (etp_buyer x, etp_series_id x, etp_outcome_id x);
          sk = (etp_seller x, etp_series_id x, etp_outcome_id x);
          old_buyer_margin = pos_margin_at s bk;
          old_seller_margin = pos_margin_at s sk;
          old_buyer_qty = pos_qty_at s bk;
          old_seller_qty = pos_qty_at s sk;
          margin = required_margin ser (etp_price x) (etp_outcome_id x)
      in obind (margin (old_buyer_qty + etp_qty x)) (\<lambda>new_buyer_margin.
         obind (margin (old_seller_qty - etp_qty x)) (\<lambda>new_seller_margin.
         obind (margin old_buyer_qty) (\<lambda>old_buyer_margin_at_price.
         obind (margin old_seller_qty) (\<lambda>old_seller_margin_at_price.
           Ok \<lparr> td_buyer_cash = old_buyer_margin - old_buyer_margin_at_price,
                td_seller_cash = old_seller_margin - old_seller_margin_at_price,
                td_buyer_reserved = new_buyer_margin - old_buyer_margin
                                      - or_zero (etp_buyer_unblock_amount x),
                td_seller_reserved = new_seller_margin - old_seller_margin
                                      - or_zero (etp_seller_unblock_amount x),
                td_new_buyer_margin = new_buyer_margin,
                td_new_seller_margin = new_seller_margin \<rparr>)))))"

text \<open>A reserved total moved by a signed delta; a release saturates at zero.\<close>

definition apply_reserved_delta :: "i128 \<Rightarrow> u128 \<Rightarrow> u128" where
  "apply_reserved_delta delta current =
     (if 0 < sint delta then current + delta else saturating_sub current (unsigned_abs delta))"

definition validate_side ::
  "clearing \<Rightarrow> balance_domain \<Rightarrow> user \<Rightarrow> i128 \<Rightarrow> (trade_error, unit) result" where
  "validate_side s d u reserved_delta =
     (let acc = account_or_new s u;
          target = apply_reserved_delta reserved_delta (get_reserved_margin_usd acc d)
      in obind (or_trap (calculate_raw_equity_i128 acc d (cl_collateral_assets s) (cl_asset_metrics s)))
         (\<lambda>equity.
           if sint equity < sint target
           then obind (or_trap (calculate_equity_usd acc d (cl_collateral_assets s) (cl_asset_metrics s)))
                  (\<lambda>balance. Err (InsufficientMargin u balance target))
           else Ok ()))"

definition validate_trade ::
  "series \<Rightarrow> execute_trade_params \<Rightarrow> trade_deltas \<Rightarrow> clearing \<Rightarrow> (trade_error, unit) result" where
  "validate_trade ser x td s =
     (let d = ser_balance_domain ser
      in if d = Social then Ok ()
         else obind (validate_side s d (etp_buyer x) (td_buyer_reserved td))
                (\<lambda>_. validate_side s d (etp_seller x) (td_seller_reserved td)))"

definition update_side_account ::
  "balance_domain \<Rightarrow> user \<Rightarrow> i128 \<Rightarrow> i128 \<Rightarrow> clearing \<Rightarrow> clearing" where
  "update_side_account d u cash_delta reserved_delta s =
     (let acc = account_or_new s u;
          acc = set_cash_balance_usd d (get_cash_balance_usd acc d - cash_delta) acc;
          acc = set_reserved_margin_usd d
                  (apply_reserved_delta reserved_delta (get_reserved_margin_usd acc d)) acc
      in put_account u acc s)"

definition position_new :: "position_key \<Rightarrow> position" where
  "position_new k =
     (case k of (u, sid, oid) \<Rightarrow>
        \<lparr> pos_user = u, pos_series_id = sid, pos_outcome_id = oid, pos_net_qty = 0,
          pos_reserved_margin_usd = 0 \<rparr>)"

definition update_side_position :: "position_key \<Rightarrow> i128 \<Rightarrow> u128 \<Rightarrow> clearing \<Rightarrow> clearing" where
  "update_side_position k qty_delta margin s =
     s\<lparr>cl_positions :=
        bt_entry k (position_new k)
          (\<lambda>p. p\<lparr>pos_net_qty := pos_net_qty p + qty_delta, pos_reserved_margin_usd := margin\<rparr>)
          (cl_positions s)\<rparr>"

definition executed_event ::
  "env \<Rightarrow> u64 \<Rightarrow> execute_trade_params \<Rightarrow> user \<Rightarrow> i128 \<Rightarrow> event" where
  "executed_event e event_id x u qty =
     \<lparr> ev_event_id = event_id, ev_clearing_id = env_self e, ev_series_id = etp_series_id x,
       ev_user = u, ev_qty = qty, ev_price = etp_price x, ev_event_type = Executed,
       ev_timestamp = env_now e \<rparr>"

definition record_trade :: "env \<Rightarrow> execute_trade_params \<Rightarrow> clearing \<Rightarrow> clearing" where
  "record_trade e x s =
     (case next_event_id s of (event_id, s) \<Rightarrow>
        (let s = s\<lparr>cl_events := cl_events s @
                    [executed_event e event_id x (etp_buyer x) (etp_qty x),
                     executed_event e event_id x (etp_seller x) (- etp_qty x)]\<rparr>;
             s = index_executed_trade (etp_series_id x)
                   \<lparr> stp_event_id = event_id, stp_price = etp_price x, stp_qty = etp_qty x,
                     stp_timestamp = env_now e \<rparr> s
         in s\<lparr>cl_executed_trades := bt_insert (etp_trade_id x) event_id (cl_executed_trades s)\<rparr>))"

definition apply_trade ::
  "env \<Rightarrow> series \<Rightarrow> execute_trade_params \<Rightarrow> trade_deltas \<Rightarrow> clearing \<Rightarrow> clearing" where
  "apply_trade e ser x td s =
     (let d = ser_balance_domain ser;
          s = update_side_account d (etp_buyer x) (td_buyer_cash td) (td_buyer_reserved td) s;
          s = update_side_account d (etp_seller x) (td_seller_cash td) (td_seller_reserved td) s;
          s = update_side_position (etp_buyer x, etp_series_id x, etp_outcome_id x)
                (etp_qty x) (td_new_buyer_margin td) s;
          s = update_side_position (etp_seller x, etp_series_id x, etp_outcome_id x)
                (- etp_qty x) (td_new_seller_margin td) s
      in record_trade e x s)"

definition execute_trade_impl ::
  "env \<Rightarrow> series \<Rightarrow> execute_trade_params \<Rightarrow> clearing \<Rightarrow> (trade_error, bool) result \<times> clearing" where
  "execute_trade_impl e ser x s =
     (if bt_contains_key (cl_executed_trades s) (etp_trade_id x) then (Ok True, s)
      else if etp_buyer x = etp_seller x then (Err SelfTradingNotAllowed, s)
      else case calculate_deltas ser x s of
             Err err \<Rightarrow> (Err err, s)
           | Trap \<Rightarrow> (Trap, s)
           | Ok td \<Rightarrow>
               (case validate_trade ser x td s of
                  Err err \<Rightarrow> (Err err, s)
                | Trap \<Rightarrow> (Trap, s)
                | Ok _ \<Rightarrow> (Ok True, apply_trade e ser x td s)))"

section \<open>How a trade comes out\<close>

text \<open>Either nothing changed, or both phases passed and the trade was applied.\<close>

lemma execute_trade_cases:
  assumes "execute_trade_impl e ser x s = (r, s')"
  obtains (unchanged) "s' = s" "r = Ok True \<longrightarrow> bt_contains_key (cl_executed_trades s) (etp_trade_id x)"
      "r \<noteq> Ok False"
  | (applied) td where "r = Ok True" "\<not> bt_contains_key (cl_executed_trades s) (etp_trade_id x)"
      "etp_buyer x \<noteq> etp_seller x" "calculate_deltas ser x s = Ok td"
      "validate_trade ser x td s = Ok ()" "s' = apply_trade e ser x td s"
proof (cases "bt_contains_key (cl_executed_trades s) (etp_trade_id x) \<or> etp_buyer x = etp_seller x")
  case True
  then show ?thesis using assms unchanged
    by (auto simp: execute_trade_impl_def split: if_splits)
next
  case False
  then have new: "\<not> bt_contains_key (cl_executed_trades s) (etp_trade_id x)"
    and ne: "etp_buyer x \<noteq> etp_seller x" by auto
  show ?thesis
  proof (cases "calculate_deltas ser x s")
    case (Ok td)
    show ?thesis
    proof (cases "validate_trade ser x td s")
      case Ok': (Ok u)
      then show ?thesis using assms applied new ne Ok
        by (simp add: execute_trade_impl_def)
    qed (use assms unchanged new ne Ok in \<open>auto simp: execute_trade_impl_def\<close>)
  qed (use assms unchanged new ne in \<open>auto simp: execute_trade_impl_def\<close>)
qed

section \<open>What the mutation phase writes\<close>

named_theorems trade_frame \<open>what the steps of a trade leave alone\<close>

lemma record_trade_frame [simp, trade_frame]:
  "cl_accounts (record_trade e x s) = cl_accounts s"
  "cl_positions (record_trade e x s) = cl_positions s"
  "cl_limit_orders (record_trade e x s) = cl_limit_orders s"
  "cl_settlement_plans (record_trade e x s) = cl_settlement_plans s"
  "cl_collateral_assets (record_trade e x s) = cl_collateral_assets s"
  "cl_asset_metrics (record_trade e x s) = cl_asset_metrics s"
  "cl_reassignment_marks (record_trade e x s) = cl_reassignment_marks s"
  "cl_executed_trades (record_trade e x s) =
     bt_insert (etp_trade_id x) (cl_next_event_id s) (cl_executed_trades s)"
  by (auto simp: record_trade_def next_event_id_def index_executed_trade_def Let_def
      split: prod.splits)

lemma update_side_account_frame [simp, trade_frame]:
  "cl_positions (update_side_account d u c r s) = cl_positions s"
  "cl_limit_orders (update_side_account d u c r s) = cl_limit_orders s"
  "cl_settlement_plans (update_side_account d u c r s) = cl_settlement_plans s"
  "cl_collateral_assets (update_side_account d u c r s) = cl_collateral_assets s"
  "cl_asset_metrics (update_side_account d u c r s) = cl_asset_metrics s"
  "cl_reassignment_marks (update_side_account d u c r s) = cl_reassignment_marks s"
  "cl_executed_trades (update_side_account d u c r s) = cl_executed_trades s"
  "cl_events (update_side_account d u c r s) = cl_events s"
  "cl_next_event_id (update_side_account d u c r s) = cl_next_event_id s"
  "cl_leaderboard (update_side_account d u c r s) = cl_leaderboard s"
  "cl_trade_history (update_side_account d u c r s) = cl_trade_history s"
  "cl_traded_volume (update_side_account d u c r s) = cl_traded_volume s"
  by (simp_all add: update_side_account_def put_account_def Let_def)

lemma update_side_position_frame [simp, trade_frame]:
  "cl_accounts (update_side_position k q m s) = cl_accounts s"
  "cl_limit_orders (update_side_position k q m s) = cl_limit_orders s"
  "cl_settlement_plans (update_side_position k q m s) = cl_settlement_plans s"
  "cl_collateral_assets (update_side_position k q m s) = cl_collateral_assets s"
  "cl_asset_metrics (update_side_position k q m s) = cl_asset_metrics s"
  "cl_reassignment_marks (update_side_position k q m s) = cl_reassignment_marks s"
  "cl_executed_trades (update_side_position k q m s) = cl_executed_trades s"
  "cl_events (update_side_position k q m s) = cl_events s"
  "cl_next_event_id (update_side_position k q m s) = cl_next_event_id s"
  "cl_leaderboard (update_side_position k q m s) = cl_leaderboard s"
  "cl_trade_history (update_side_position k q m s) = cl_trade_history s"
  "cl_traded_volume (update_side_position k q m s) = cl_traded_volume s"
  by (simp_all add: update_side_position_def)

lemma account_or_new_put:
  "account_or_new (put_account u a s) v = (if v = u then a else account_or_new s v)"
  by (auto simp: account_or_new_def put_account_def)

lemma account_or_new_update:
  "account_or_new (update_side_account d u c r s) v =
     (if v = u
      then set_reserved_margin_usd d
             (apply_reserved_delta r (get_reserved_margin_usd (account_or_new s u) d))
             (set_cash_balance_usd d (get_cash_balance_usd (account_or_new s u) d - c)
                (account_or_new s u))
      else account_or_new s v)"
  by (simp add: update_side_account_def Let_def account_or_new_put)

lemma account_or_new_position [simp]:
  "account_or_new (update_side_position k q m s) = account_or_new s"
  "account_or_new (record_trade e x s) = account_or_new s"
  by (simp_all add: account_or_new_def fun_eq_iff)

lemma pos_at_update:
  "pos_qty_at (update_side_position k q m s) k' =
     (if k' = k then pos_qty_at s k + q else pos_qty_at s k')"
  "pos_margin_at (update_side_position k q m s) k' =
     (if k' = k then m else pos_margin_at s k')"
  by (auto simp: pos_qty_at_def pos_margin_at_def update_side_position_def position_new_def
      split: option.splits prod.splits)

lemma pos_at_frame [simp]:
  "pos_qty_at (update_side_account d u c r s) = pos_qty_at s"
  "pos_margin_at (update_side_account d u c r s) = pos_margin_at s"
  "pos_qty_at (record_trade e x s) = pos_qty_at s"
  "pos_margin_at (record_trade e x s) = pos_margin_at s"
  by (simp_all add: pos_qty_at_def pos_margin_at_def fun_eq_iff)

text \<open>Accounts and positions after a trade, by reader.\<close>

lemma apply_trade_account:
  assumes "etp_buyer x \<noteq> etp_seller x"
  shows "account_or_new (apply_trade e ser x td s) u =
     (if u = etp_buyer x
      then account_or_new (update_side_account (ser_balance_domain ser) u
             (td_buyer_cash td) (td_buyer_reserved td) s) u
      else if u = etp_seller x
      then account_or_new (update_side_account (ser_balance_domain ser) u
             (td_seller_cash td) (td_seller_reserved td) s) u
      else account_or_new s u)"
  using assms by (simp add: apply_trade_def Let_def account_or_new_update)

lemma apply_trade_positions:
  assumes "etp_buyer x \<noteq> etp_seller x"
  shows "pos_qty_at (apply_trade e ser x td s) (u, sid, oid) =
     (if sid = etp_series_id x \<and> oid = etp_outcome_id x \<and> u = etp_buyer x
      then pos_qty_at s (u, sid, oid) + etp_qty x
      else if sid = etp_series_id x \<and> oid = etp_outcome_id x \<and> u = etp_seller x
      then pos_qty_at s (u, sid, oid) - etp_qty x
      else pos_qty_at s (u, sid, oid))"
    and "pos_margin_at (apply_trade e ser x td s) (u, sid, oid) =
     (if sid = etp_series_id x \<and> oid = etp_outcome_id x \<and> u = etp_buyer x
      then td_new_buyer_margin td
      else if sid = etp_series_id x \<and> oid = etp_outcome_id x \<and> u = etp_seller x
      then td_new_seller_margin td
      else pos_margin_at s (u, sid, oid))"
  using assms by (auto simp: apply_trade_def Let_def pos_at_update)

lemma apply_trade_frame [simp, trade_frame]:
  "cl_limit_orders (apply_trade e ser x td s) = cl_limit_orders s"
  "cl_settlement_plans (apply_trade e ser x td s) = cl_settlement_plans s"
  "cl_collateral_assets (apply_trade e ser x td s) = cl_collateral_assets s"
  "cl_asset_metrics (apply_trade e ser x td s) = cl_asset_metrics s"
  "cl_reassignment_marks (apply_trade e ser x td s) = cl_reassignment_marks s"
  "bt_get (cl_executed_trades (apply_trade e ser x td s)) t =
     (if t = etp_trade_id x then Some (cl_next_event_id s) else bt_get (cl_executed_trades s) t)"
  by (auto simp: apply_trade_def Let_def)

section \<open>Terminal value\<close>

text \<open>
  What an account's cash becomes when a position that it holds is settled at \<open>u\<close> per unit,
  before fees: the payout comes in, the margin booked on the position is taken.
\<close>

definition terminal_value :: "clearing \<Rightarrow> balance_domain \<Rightarrow> u128 \<Rightarrow> position_key \<Rightarrow> i128" where
  "terminal_value s d u k =
     get_cash_balance_usd (account_or_new s (fst k)) d + full_payout u (pos_qty_at s k)
       - pos_margin_at s k"

lemma calculate_deltas_full:
  assumes "fully_collateralised ser" "margin_price (etp_price x) = Some p"
  defines "bk \<equiv> (etp_buyer x, etp_series_id x, etp_outcome_id x)"
    and "sk \<equiv> (etp_seller x, etp_series_id x, etp_outcome_id x)"
  shows "calculate_deltas ser x s = Ok
     \<lparr> td_buyer_cash = pos_margin_at s bk - full_margin p (pos_qty_at s bk),
       td_seller_cash = pos_margin_at s sk - full_margin p (pos_qty_at s sk),
       td_buyer_reserved = full_margin p (pos_qty_at s bk + etp_qty x) - pos_margin_at s bk
                             - or_zero (etp_buyer_unblock_amount x),
       td_seller_reserved = full_margin p (pos_qty_at s sk - etp_qty x) - pos_margin_at s sk
                             - or_zero (etp_seller_unblock_amount x),
       td_new_buyer_margin = full_margin p (pos_qty_at s bk + etp_qty x),
       td_new_seller_margin = full_margin p (pos_qty_at s sk - etp_qty x) \<rparr>"
  by (simp add: calculate_deltas_def required_margin_def required_margin_full [OF assms(1,2)]
      bk_def sk_def Let_def)

lemma apply_trade_terminal_value:
  assumes ne: "etp_buyer x \<noteq> etp_seller x"
    and full: "fully_collateralised ser" "margin_price (etp_price x) = Some p"
    and td: "calculate_deltas ser x s = Ok td"
    and le: "p \<le> max_payoff" "u \<le> max_payoff"
  shows "terminal_value (apply_trade e ser x td s) (ser_balance_domain ser) u
           (etp_buyer x, etp_series_id x, etp_outcome_id x) =
         terminal_value s (ser_balance_domain ser) u (etp_buyer x, etp_series_id x, etp_outcome_id x)
           + etp_qty x * (u - p)"
    and "terminal_value (apply_trade e ser x td s) (ser_balance_domain ser) u
           (etp_seller x, etp_series_id x, etp_outcome_id x) =
         terminal_value s (ser_balance_domain ser) u (etp_seller x, etp_series_id x, etp_outcome_id x)
           - etp_qty x * (u - p)"
proof -
  note td' = td [unfolded calculate_deltas_full [OF full], simplified]
  show "terminal_value (apply_trade e ser x td s) (ser_balance_domain ser) u
           (etp_buyer x, etp_series_id x, etp_outcome_id x) =
         terminal_value s (ser_balance_domain ser) u (etp_buyer x, etp_series_id x, etp_outcome_id x)
           + etp_qty x * (u - p)"
    using ne full.mark_to_market [OF le, of "get_cash_balance_usd (account_or_new s (etp_buyer x))
        (ser_balance_domain ser)" "pos_margin_at s (etp_buyer x, etp_series_id x, etp_outcome_id x)"
        "pos_qty_at s (etp_buyer x, etp_series_id x, etp_outcome_id x)" "etp_qty x"]
    by (simp add: terminal_value_def apply_trade_account apply_trade_positions
        account_or_new_update td' [symmetric] algebra_simps)
  show "terminal_value (apply_trade e ser x td s) (ser_balance_domain ser) u
           (etp_seller x, etp_series_id x, etp_outcome_id x) =
         terminal_value s (ser_balance_domain ser) u (etp_seller x, etp_series_id x, etp_outcome_id x)
           - etp_qty x * (u - p)"
    using ne full.mark_to_market [OF le, of "get_cash_balance_usd (account_or_new s (etp_seller x))
        (ser_balance_domain ser)" "pos_margin_at s (etp_seller x, etp_series_id x, etp_outcome_id x)"
        "pos_qty_at s (etp_seller x, etp_series_id x, etp_outcome_id x)" "- etp_qty x"]
    by (simp add: terminal_value_def apply_trade_account apply_trade_positions
        account_or_new_update td' [symmetric] algebra_simps)
qed

end
