(* ===== verification/Trading.thy ===== *)
theory Trading
  imports Execution
begin

text \<open>
  The order book and the trading calls of \<open>src/src/clearing/src/api/trade/api.rs\<close>: limit orders,
  market orders, cancellation, matched trades and complete sets.  The calls with an await are
  processes; their synchronous cores (\<open>submit_market_order_impl\<close>, \<open>mint_complete_set_logic\<close>,
  \<open>redeem_complete_set_logic\<close>, the placement of a limit order) are functions of the state.
\<close>

section \<open>Calls\<close>

text \<open>A call that its guard rejects runs no code; it is reported as a trap.\<close>

definition guarded :: "bool \<Rightarrow> (ctx \<Rightarrow> ('e, 'a) cproc) \<Rightarrow> ctx \<Rightarrow> ('e, 'a) cproc" where
  "guarded ok h c = (if ok then h c else preturn Trap c)"

definition sync :: "(env \<Rightarrow> clearing \<Rightarrow> ('e, 'a) result \<times> clearing) \<Rightarrow> ctx \<Rightarrow> ('e, 'a) cproc" where
  "sync f c = (case f (fst c) (snd c) of (r, s) \<Rightarrow> preturn r (fst c, s))"

definition invalid_input :: "string \<Rightarrow> trade_error" where
  "invalid_input m = CommonTrade (InvalidInput m)"

section \<open>Limit orders\<close>

record submit_limit_order_params =
  slo_order_id :: order_id
  slo_series_id :: series_id
  slo_outcome_id :: "outcome_id option"
  slo_side :: side
  slo_qty :: i128
  slo_price :: price

fun raise_bids ::
  "series_id \<Rightarrow> limit_order list \<Rightarrow> (outcome_id, u128) btmap \<Rightarrow> (outcome_id, u128) btmap option" where
  "raise_bids sid [] bids = Some bids"
| "raise_bids sid (o1 # os) bids =
     (if lo_series_id o1 = sid \<and> lo_side o1 = Buy
      then (case lo_outcome_id o1 of
              None \<Rightarrow> raise_bids sid os bids
            | Some oid \<Rightarrow>
                (case margin_price (lo_price o1) of
                   None \<Rightarrow> None
                 | Some p \<Rightarrow> raise_bids sid os (bt_modify oid (max p) bids)))
      else raise_bids sid os bids)"

definition best_bids :: "outcome list \<Rightarrow> (outcome_id, u128) btmap" where
  "best_bids outcomes = bt_of_list (map (\<lambda>o1. (out_id o1, 0)) outcomes)"

definition validate_no_arbitrage ::
  "series \<Rightarrow> submit_limit_order_params \<Rightarrow> clearing \<Rightarrow> (trade_error, unit) result" where
  "validate_no_arbitrage ser x s =
     (if slo_side x \<noteq> Buy then Ok ()
      else obind (or_trap (margin_price (slo_price x))) (\<lambda>price_usd.
        case ser_payoff_type ser of
          Binary \<Rightarrow>
            if max_payoff < price_usd then Err (ArbitrageLimitExceeded price_usd max_payoff)
            else Ok ()
        | Categorical \<Rightarrow>
            obind (ok_or (CommonTrade (Internal ''Categorical series has no outcomes''))
                     (ser_outcomes ser)) (\<lambda>outcomes.
            obind (or_trap (raise_bids (ser_series_id ser) (bt_values (cl_limit_orders s))
                     (best_bids outcomes))) (\<lambda>bids.
              let bids = (case slo_outcome_id x of
                            None \<Rightarrow> bids | Some oid \<Rightarrow> bt_modify oid (max price_usd) bids);
                  sum_usd = sum_list (bt_values bids)
              in if max_payoff < sum_usd then Err (ArbitrageLimitExceeded sum_usd max_payoff)
                 else Ok ()))
        | _ \<Rightarrow> Ok ()))"

definition signed_qty :: "side \<Rightarrow> i128 \<Rightarrow> i128" where
  "signed_qty sd q = (case sd of Sell \<Rightarrow> - q | Buy \<Rightarrow> q)"

definition new_order :: "user \<Rightarrow> series \<Rightarrow> submit_limit_order_params \<Rightarrow> u128 \<Rightarrow> limit_order" where
  "new_order caller ser x margin =
     \<lparr> lo_order_id = slo_order_id x, lo_creator = caller, lo_series_id = slo_series_id x,
       lo_outcome_id = slo_outcome_id x, lo_side = slo_side x, lo_qty = slo_qty x,
       lo_price = slo_price x, lo_blocked_margin_usd = margin,
       lo_balance_domain = ser_balance_domain ser \<rparr>"

text \<open>
  The last, synchronous part of \<open>submit_limit_order\<close>.  The account entry is created before the
  check, so it stays when the check fails.
\<close>

definition place_limit_order ::
  "user \<Rightarrow> series \<Rightarrow> submit_limit_order_params \<Rightarrow> clearing \<Rightarrow> (trade_error, bool) result \<times> clearing"
where
  "place_limit_order caller ser x s =
     (case required_margin ser (slo_price x) (slo_outcome_id x) (signed_qty (slo_side x) (slo_qty x)) of
        Err err \<Rightarrow> (Err err, s)
      | Trap \<Rightarrow> (Trap, s)
      | Ok margin \<Rightarrow>
          (let acc = account_or_new s caller;
               s = put_account caller acc s;
               d = ser_balance_domain ser
           in case calculate_equity_usd acc d (cl_collateral_assets s) (cl_asset_metrics s) of
                None \<Rightarrow> (Trap, s)
              | Some equity \<Rightarrow>
                  (let target_reserved = get_reserved_margin_usd acc d + margin
                   in if sint equity < sint target_reserved
                      then (Err (InsufficientMargin caller equity target_reserved), s)
                      else (Ok True,
                        (put_account caller (set_reserved_margin_usd d target_reserved acc) s)
                          \<lparr>cl_limit_orders :=
                             bt_insert (slo_order_id x) (new_order caller ser x margin)
                               (cl_limit_orders s)\<rparr>))))"

definition submit_limit_order ::
  "principal \<Rightarrow> submit_limit_order_params \<Rightarrow> ctx \<Rightarrow> (trade_error, bool) cproc" where
  "submit_limit_order caller x =
     guarded (caller_is_not_anonymous caller) (\<lambda>c.
       if sint (slo_qty x) \<le> 0 then preturn (Err (invalid_input ''Quantity must be positive'')) c
       else if price_value (slo_price x) = 0
       then preturn (Err (invalid_input ''Price must be positive'')) c
       else if bt_contains_key (cl_limit_orders (snd c)) (slo_order_id x) then preturn (Ok True) c
       else pbind (acquire caller c) (\<lambda>g c.
            pbind (ensure_series_registered (slo_series_id x) OpenExposure c) (\<lambda>ser c.
            pbind (check_trading_access ser caller c) (\<lambda>_ c.
            pure_step (validate_no_arbitrage ser x (snd c)) c (\<lambda>_ c.
            pbind (revalidate g c) (\<lambda>_.
              sync (\<lambda>_. place_limit_order caller ser x)))))))"

definition release_reserved :: "user \<Rightarrow> balance_domain \<Rightarrow> u128 \<Rightarrow> clearing \<Rightarrow> clearing" where
  "release_reserved u d amount s =
     (case bt_get (cl_accounts s) u of
        None \<Rightarrow> s
      | Some acc \<Rightarrow>
          put_account u
            (set_reserved_margin_usd d
               (saturating_sub (get_reserved_margin_usd acc d) amount) acc) s)"

definition remove_order :: "order_id \<Rightarrow> clearing \<Rightarrow> clearing" where
  "remove_order oid s = s\<lparr>cl_limit_orders := bt_remove oid (cl_limit_orders s)\<rparr>"

definition cancel_order :: "user \<Rightarrow> order_id \<Rightarrow> clearing \<Rightarrow> (trade_error, bool) result \<times> clearing" where
  "cancel_order caller oid s =
     (case bt_get (cl_limit_orders s) oid of
        None \<Rightarrow> (Err (OrderNotFound oid), s)
      | Some order \<Rightarrow>
          if lo_creator order \<noteq> caller then (Err NotOrderCreator, s)
          else (Ok True,
                release_reserved caller (lo_balance_domain order) (lo_blocked_margin_usd order)
                  (remove_order oid s)))"

definition cancel_limit_order :: "principal \<Rightarrow> order_id \<Rightarrow> ctx \<Rightarrow> (trade_error, bool) cproc" where
  "cancel_limit_order caller oid =
     guarded (caller_is_not_anonymous caller) (sync (\<lambda>_. cancel_order caller oid))"

section \<open>Market orders\<close>

text \<open>Everything of the order but its quantity and blocked margin, and what a fill leaves.\<close>

definition same_order :: "limit_order \<Rightarrow> limit_order \<Rightarrow> bool" where
  "same_order a b =
     (lo_creator a = lo_creator b \<and> lo_series_id a = lo_series_id b \<and>
      lo_outcome_id a = lo_outcome_id b \<and> lo_side a = lo_side b \<and> lo_price a = lo_price b)"

definition i128_min :: "i128 \<Rightarrow> i128 \<Rightarrow> i128" where
  "i128_min a b = (if sint b < sint a then b else a)"

definition fill_quantity :: "i128 option \<Rightarrow> limit_order \<Rightarrow> i128" where
  "fill_quantity requested order =
     (case requested of None \<Rightarrow> lo_qty order | Some q \<Rightarrow> i128_min q (lo_qty order))"

definition remaining_blocked :: "series \<Rightarrow> limit_order \<Rightarrow> i128 \<Rightarrow> (trade_error, u128) result" where
  "remaining_blocked ser order remaining_qty =
     (if remaining_qty = 0 then Ok 0
      else required_margin ser (lo_price order) (lo_outcome_id order)
             (signed_qty (lo_side order) remaining_qty))"

definition fill_params ::
  "user \<Rightarrow> trade_id \<Rightarrow> limit_order \<Rightarrow> i128 \<Rightarrow> u128 \<Rightarrow> execute_trade_params" where
  "fill_params taker tid order fill_qty unblock =
     (case lo_side order of
        Buy \<Rightarrow>
          \<lparr> etp_trade_id = tid, etp_series_id = lo_series_id order,
            etp_outcome_id = lo_outcome_id order, etp_buyer = lo_creator order,
            etp_seller = taker, etp_qty = fill_qty, etp_price = lo_price order,
            etp_buyer_unblock_amount = Some unblock, etp_seller_unblock_amount = None \<rparr>
      | Sell \<Rightarrow>
          \<lparr> etp_trade_id = tid, etp_series_id = lo_series_id order,
            etp_outcome_id = lo_outcome_id order, etp_buyer = taker,
            etp_seller = lo_creator order, etp_qty = fill_qty, etp_price = lo_price order,
            etp_buyer_unblock_amount = None, etp_seller_unblock_amount = Some unblock \<rparr>)"

definition shrink_order :: "limit_order \<Rightarrow> i128 \<Rightarrow> u128 \<Rightarrow> clearing \<Rightarrow> clearing" where
  "shrink_order order remaining_qty blocked s =
     (if remaining_qty = 0 then remove_order (lo_order_id order) s
      else s\<lparr>cl_limit_orders :=
               bt_insert (lo_order_id order)
                 (order\<lparr>lo_qty := remaining_qty, lo_blocked_margin_usd := blocked\<rparr>)
                 (cl_limit_orders s)\<rparr>)"

definition unblock_amount :: "limit_order \<Rightarrow> u128 \<Rightarrow> (trade_error, u128) result" where
  "unblock_amount order remaining =
     ok_or (CommonTrade (Internal ''Remaining blocked margin exceeds blocked margin''))
       (checked_sub (lo_blocked_margin_usd order) remaining)"

definition fill_order ::
  "env \<Rightarrow> user \<Rightarrow> trade_id \<Rightarrow> series \<Rightarrow> i128 option \<Rightarrow> limit_order \<Rightarrow> clearing \<Rightarrow>
     (trade_error, bool) result \<times> clearing" where
  "fill_order e taker tid ser requested order s =
     (let fill_qty = fill_quantity requested order;
          remaining_qty = lo_qty order - fill_qty
      in case obind (remaining_blocked ser order remaining_qty)
                (\<lambda>rb. obind (unblock_amount order rb) (\<lambda>ub. Ok (rb, ub))) of
           Err err \<Rightarrow> (Err err, s)
         | Trap \<Rightarrow> (Trap, s)
         | Ok (rb, ub) \<Rightarrow>
             (case execute_trade_impl e ser (fill_params taker tid order fill_qty ub) s of
                (Ok _, s) \<Rightarrow> (Ok True, shrink_order order remaining_qty rb s)
              | (r, s) \<Rightarrow> (r, s)))"

definition submit_market_order_impl ::
  "env \<Rightarrow> user \<Rightarrow> limit_order \<Rightarrow> trade_id \<Rightarrow> series \<Rightarrow> i128 option \<Rightarrow> clearing \<Rightarrow>
     (trade_error, bool) result \<times> clearing" where
  "submit_market_order_impl e taker order tid ser requested s =
     (if (case requested of None \<Rightarrow> False | Some q \<Rightarrow> sint q \<le> 0)
      then (Err (invalid_input ''Quantity must be positive''), s)
      else if bt_contains_key (cl_executed_trades s) tid then (Ok True, s)
      else case bt_get (cl_limit_orders s) (lo_order_id order) of
             None \<Rightarrow> (Err (OrderNotFound (lo_order_id order)), s)
           | Some current \<Rightarrow>
               if \<not> same_order current order then (Err (OrderNotFound (lo_order_id order)), s)
               else fill_order e taker tid ser requested current s)"

definition submit_market_order ::
  "principal \<Rightarrow> trade_id \<Rightarrow> order_id \<Rightarrow> i128 option \<Rightarrow> ctx \<Rightarrow> (trade_error, bool) cproc" where
  "submit_market_order taker tid matching_order_id requested =
     guarded (caller_is_not_anonymous taker) (\<lambda>c.
       pure_step (ok_or (OrderNotFound matching_order_id)
                    (bt_get (cl_limit_orders (snd c)) matching_order_id)) c (\<lambda>order c.
       pbind (acquire taker c) (\<lambda>g c.
       pbind (ensure_series_registered (lo_series_id order) OpenExposure c) (\<lambda>ser c.
       pbind (check_trading_access ser taker c) (\<lambda>_ c.
       pbind (revalidate g c) (\<lambda>_.
         sync (\<lambda>e. submit_market_order_impl e taker order tid ser requested)))))))"

record submit_matched_trade_params =
  smt_trade_id :: trade_id
  smt_series_id :: series_id
  smt_outcome_id :: "outcome_id option"
  smt_buyer :: user
  smt_seller :: user
  smt_qty :: i128
  smt_price :: price
  smt_buyer_unblock_amount :: "nat option"
  smt_seller_unblock_amount :: "nat option"

definition nat_to_u128_or_0 :: "nat \<Rightarrow> u128" where
  "nat_to_u128_or_0 n = (if int n < 2 ^ 128 then of_nat n else 0)"

definition internal_execute_trade :: "execute_trade_params \<Rightarrow> ctx \<Rightarrow> (trade_error, bool) cproc" where
  "internal_execute_trade x c =
     pbind (ensure_series_registered (etp_series_id x) OpenExposure c)
       (\<lambda>ser. sync (\<lambda>e. execute_trade_impl e ser x))"

definition submit_matched_trade ::
  "principal \<Rightarrow> submit_matched_trade_params \<Rightarrow> ctx \<Rightarrow> (trade_error, bool) cproc" where
  "submit_matched_trade caller x c =
     guarded (caller_is_controller (fst c) caller) (\<lambda>c.
       if sint (smt_qty x) \<le> 0 then preturn (Err (invalid_input ''Quantity must be positive'')) c
       else if price_value (smt_price x) = 0
       then preturn (Err (invalid_input ''Price must be positive'')) c
       else internal_execute_trade
         \<lparr> etp_trade_id = smt_trade_id x, etp_series_id = smt_series_id x,
           etp_outcome_id = smt_outcome_id x, etp_buyer = smt_buyer x,
           etp_seller = smt_seller x, etp_qty = smt_qty x, etp_price = smt_price x,
           etp_buyer_unblock_amount = map_option nat_to_u128_or_0 (smt_buyer_unblock_amount x),
           etp_seller_unblock_amount = map_option nat_to_u128_or_0 (smt_seller_unblock_amount x) \<rparr>
         c) c"

section \<open>Reading the book\<close>

definition get_orders :: "user \<Rightarrow> clearing \<Rightarrow> limit_order list" where
  "get_orders caller s = filter (\<lambda>o1. lo_creator o1 = caller) (bt_values (cl_limit_orders s))"

definition list_orders :: "series_id option \<Rightarrow> clearing \<Rightarrow> limit_order list" where
  "list_orders sid s =
     (case sid of
        None \<Rightarrow> bt_values (cl_limit_orders s)
      | Some i \<Rightarrow> filter (\<lambda>o1. lo_series_id o1 = i) (bt_values (cl_limit_orders s)))"

end
