(* ===== verification/CompleteSets.thy ===== *)
theory CompleteSets
  imports Trading
begin

text \<open>
  Complete sets and position transfers of \<open>src/src/clearing/src/api/trade/api.rs\<close>: minting and
  redeeming one position in every outcome, freezing a position for another clearing canister and
  accepting one.
\<close>

section \<open>Complete sets\<close>

definition categorical_outcomes :: "string \<Rightarrow> series \<Rightarrow> i128 \<Rightarrow> (trade_error, outcome list) result" where
  "categorical_outcomes unsupported ser qty =
     (if sint qty \<le> 0 then Err (invalid_input ''Quantity must be positive'')
      else if ser_payoff_type ser \<noteq> Categorical then Err (invalid_input unsupported)
      else ok_or (CommonTrade (Internal ''Categorical series has no outcomes defined''))
             (ser_outcomes ser))"

definition set_cost :: "i128 \<Rightarrow> i128" where
  "set_cost qty = unsigned_abs qty * max_payoff"

definition grant_outcome ::
  "user \<Rightarrow> series_id \<Rightarrow> i128 \<Rightarrow> u128 \<Rightarrow> outcome \<Rightarrow> positions_map \<Rightarrow> positions_map" where
  "grant_outcome caller sid qty share o1 =
     (let k = (caller, sid, Some (out_id o1))
      in bt_entry k (position_new k)
           (\<lambda>p. p\<lparr>pos_net_qty := pos_net_qty p + qty,
                  pos_reserved_margin_usd := pos_reserved_margin_usd p + share\<rparr>))"

text \<open>The division by the number of outcomes panics on an empty list.\<close>

definition mint_complete_set_logic ::
  "user \<Rightarrow> series_id \<Rightarrow> series \<Rightarrow> i128 \<Rightarrow> clearing \<Rightarrow> (trade_error, bool) result \<times> clearing" where
  "mint_complete_set_logic caller sid ser qty s =
     (case categorical_outcomes ''Only categorical series support complete set minting'' ser qty of
        Err err \<Rightarrow> (Err err, s)
      | Trap \<Rightarrow> (Trap, s)
      | Ok outcomes \<Rightarrow>
          (let total_cost = set_cost qty;
               acc = account_or_new s caller;
               s = put_account caller acc s;
               d = ser_balance_domain ser;
               current = get_reserved_margin_usd acc d
           in case calculate_raw_equity_i128 acc d (cl_collateral_assets s) (cl_asset_metrics s) of
                None \<Rightarrow> (Trap, s)
              | Some equity \<Rightarrow>
                  if sint equity < sint (current + total_cost)
                  then (case calculate_equity_usd acc d (cl_collateral_assets s) (cl_asset_metrics s) of
                          None \<Rightarrow> (Trap, s)
                        | Some balance \<Rightarrow>
                            (Err (InsufficientMargin caller balance
                                    (current + unsigned_abs total_cost)), s))
                  else (let s = put_account caller
                              (set_reserved_margin_usd d (current + unsigned_abs total_cost) acc) s
                        in case u_div (unsigned_abs total_cost) (of_nat (length outcomes)) of
                             None \<Rightarrow> (Trap, s)
                           | Some share \<Rightarrow>
                               (Ok True,
                                s\<lparr>cl_positions :=
                                    fold (grant_outcome caller sid qty share) outcomes
                                      (cl_positions s)\<rparr>))))"

definition mint_complete_set :: "principal \<Rightarrow> series_id \<Rightarrow> i128 \<Rightarrow> ctx \<Rightarrow> (trade_error, bool) cproc" where
  "mint_complete_set caller sid qty =
     guarded (caller_is_not_anonymous caller) (\<lambda>c.
       pbind (acquire caller c) (\<lambda>g c.
       pbind (ensure_series_registered sid OpenExposure c) (\<lambda>ser c.
       pbind (check_trading_access ser caller c) (\<lambda>_ c.
       pbind (revalidate g c) (\<lambda>_.
         sync (\<lambda>_. mint_complete_set_logic caller sid ser qty))))))"

text \<open>One outcome of a redemption: the share of the margin released, and the account's total.\<close>

definition redeem_outcome ::
  "user \<Rightarrow> series_id \<Rightarrow> balance_domain \<Rightarrow> i128 \<Rightarrow> outcome \<Rightarrow> clearing \<Rightarrow> clearing option" where
  "redeem_outcome caller sid d qty o1 s =
     (let k = (caller, sid, Some (out_id o1))
      in case bt_get (cl_positions s) k of
           None \<Rightarrow> Some s
         | Some pos \<Rightarrow>
             (case u_div (pos_reserved_margin_usd pos) (pos_net_qty pos) of
                None \<Rightarrow> None
              | Some unit_margin \<Rightarrow>
                  (let to_release = unit_margin * qty;
                       s = s\<lparr>cl_positions :=
                               bt_insert k
                                 (pos\<lparr>pos_net_qty := pos_net_qty pos - qty,
                                      pos_reserved_margin_usd :=
                                        saturating_sub (pos_reserved_margin_usd pos) to_release\<rparr>)
                                 (cl_positions s)\<rparr>
                   in Some (release_reserved caller d to_release s))))"

fun redeem_outcomes ::
  "user \<Rightarrow> series_id \<Rightarrow> balance_domain \<Rightarrow> i128 \<Rightarrow> outcome list \<Rightarrow> clearing \<Rightarrow> clearing option" where
  "redeem_outcomes caller sid d qty [] s = Some s"
| "redeem_outcomes caller sid d qty (o1 # os) s =
     (case redeem_outcome caller sid d qty o1 s of
        None \<Rightarrow> None | Some s \<Rightarrow> redeem_outcomes caller sid d qty os s)"

definition lacking_outcome :: "user \<Rightarrow> series_id \<Rightarrow> i128 \<Rightarrow> clearing \<Rightarrow> outcome \<Rightarrow> bool" where
  "lacking_outcome caller sid qty s o1 =
     (sint (pos_qty_at s (caller, sid, Some (out_id o1))) < sint qty)"

definition redeem_complete_set_logic ::
  "user \<Rightarrow> series_id \<Rightarrow> series \<Rightarrow> i128 \<Rightarrow> clearing \<Rightarrow> (trade_error, bool) result \<times> clearing" where
  "redeem_complete_set_logic caller sid ser qty s =
     (case categorical_outcomes ''Only categorical series support complete set redemption'' ser qty of
        Err err \<Rightarrow> (Err err, s)
      | Trap \<Rightarrow> (Trap, s)
      | Ok outcomes \<Rightarrow>
          (case List.find (lacking_outcome caller sid qty s) outcomes of
             Some o1 \<Rightarrow>
               (Err (invalid_input (''Insufficient quantity for outcome '' @ out_id o1)), s)
           | None \<Rightarrow>
               (case redeem_outcomes caller sid (ser_balance_domain ser) qty outcomes s of
                  None \<Rightarrow> (Trap, s)
                | Some s' \<Rightarrow> (Ok True, s'))))"

definition redeem_complete_set ::
  "principal \<Rightarrow> series_id \<Rightarrow> i128 \<Rightarrow> ctx \<Rightarrow> (trade_error, bool) cproc" where
  "redeem_complete_set caller sid qty =
     guarded (caller_is_not_anonymous caller) (\<lambda>c.
       pbind (acquire caller c) (\<lambda>g c.
       pbind (ensure_series_registered sid ReduceExposure c) (\<lambda>ser c.
       pbind (check_trading_access ser caller c) (\<lambda>_ c.
       pbind (revalidate g c) (\<lambda>_.
         sync (\<lambda>_. redeem_complete_set_logic caller sid ser qty))))))"

section \<open>Position transfers\<close>

record freeze_params =
  fz_transfer_id :: transfer_id
  fz_user :: user
  fz_series_id :: series_id
  fz_outcome_id :: "outcome_id option"
  fz_valuation_price :: "price option"

definition freeze_proof :: "env \<Rightarrow> freeze_params \<Rightarrow> position \<Rightarrow> position_proof" where
  "freeze_proof e x pos =
     \<lparr> pp_transfer_id = fz_transfer_id x, pp_user = fz_user x, pp_series_id = fz_series_id x,
       pp_outcome_id = fz_outcome_id x, pp_qty = pos_net_qty pos, pp_clearing_id = env_self e,
       pp_signature = [], pp_valuation_price = fz_valuation_price x \<rparr>"

text \<open>The guard admits controllers only; the body is synchronous.\<close>

definition freeze_position_for_transfer ::
  "env \<Rightarrow> freeze_params \<Rightarrow> clearing \<Rightarrow> position_proof option \<times> clearing" where
  "freeze_position_for_transfer e x s =
     (case bt_get (cl_frozen_transfers s) (fz_transfer_id x) of
        Some existing \<Rightarrow> (Some existing, s)
      | None \<Rightarrow>
          (let k = (fz_user x, fz_series_id x, fz_outcome_id x)
           in case bt_get (cl_positions s) k of
                None \<Rightarrow> (None, s)
              | Some pos \<Rightarrow>
                  (Some (freeze_proof e x pos),
                   s\<lparr>cl_positions := bt_remove k (cl_positions s),
                     cl_frozen_transfers :=
                       bt_insert (fz_transfer_id x) (freeze_proof e x pos)
                         (cl_frozen_transfers s)\<rparr>)))"

text \<open>
  The synchronous part of \<open>accept_position_transfer\<close>.  The quantity is added to the entry before
  the margin is calculated, so it stays added when that calculation fails.
\<close>

definition accept_position ::
  "series \<Rightarrow> position_proof \<Rightarrow> price \<Rightarrow> clearing \<Rightarrow> (trade_error, bool) result \<times> clearing" where
  "accept_position ser proof valuation s =
     (let k = (pp_user proof, pp_series_id proof, pp_outcome_id proof);
          old = (case bt_get (cl_positions s) k of None \<Rightarrow> position_new k | Some p \<Rightarrow> p);
          old_margin = pos_reserved_margin_usd old;
          new = old\<lparr>pos_net_qty := pos_net_qty old + pp_qty proof\<rparr>;
          s = s\<lparr>cl_positions := bt_insert k new (cl_positions s)\<rparr>
      in case required_margin ser valuation (pp_outcome_id proof) (pos_net_qty new) of
           Err err \<Rightarrow> (Err err, s)
         | Trap \<Rightarrow> (Trap, s)
         | Ok margin \<Rightarrow>
             (let s = s\<lparr>cl_positions :=
                          bt_insert k (new\<lparr>pos_reserved_margin_usd := margin\<rparr>) (cl_positions s)\<rparr>;
                  acc = account_or_new s (pp_user proof);
                  d = ser_balance_domain ser;
                  s = put_account (pp_user proof)
                        (set_reserved_margin_usd d
                           (apply_reserved_delta (margin - old_margin)
                              (get_reserved_margin_usd acc d)) acc) s
              in (Ok True,
                  s\<lparr>cl_accepted_transfers :=
                      bt_insert (pp_transfer_id proof) True (cl_accepted_transfers s)\<rparr>)))"

definition valuation_of :: "position_proof \<Rightarrow> series \<Rightarrow> (trade_error, price) result" where
  "valuation_of proof ser =
     ok_or (CommonTrade (Internal ''No valuation price available for transfer''))
       (case pp_valuation_price proof of Some p \<Rightarrow> Some p | None \<Rightarrow> ser_strike ser)"

definition accept_position_transfer ::
  "principal \<Rightarrow> position_proof \<Rightarrow> ctx \<Rightarrow> (trade_error, bool) cproc" where
  "accept_position_transfer caller proof c =
     guarded (caller_is_controller (fst c) caller) (\<lambda>c.
       if bt_contains_key (cl_accepted_transfers (snd c)) (pp_transfer_id proof)
       then preturn (Ok True) c
       else pbind (acquire (pp_user proof) c) (\<lambda>g c.
            pbind (ensure_series_registered (pp_series_id proof) ReduceExposure c) (\<lambda>ser c.
            pbind (revalidate g c) (\<lambda>_ c.
            pure_step (valuation_of proof ser) c (\<lambda>valuation.
              sync (\<lambda>_. accept_position ser proof valuation)))))) c"

end
