(* ===== verification/Samples.thy ===== *)
theory Samples
  imports CompleteSets
begin

text \<open>
  A small market on which the theorems are applied: two traders with a vUSD account each, a
  binary and a categorical series, and the replica's environment.
\<close>

definition env0 :: env where
  "env0 = \<lparr> env_now = 1000, env_self = ''clearing'', env_counting = True,
            env_is_controller = (\<lambda>p. p = ''admin''), env_sha256 = (\<lambda>m. take 32 m) \<rparr>"

definition alice :: user where "alice = ''alice''"
definition bob :: user where "bob = ''bob''"

definition series0 :: "series_id \<Rightarrow> payoff_type \<Rightarrow> outcome list option \<Rightarrow> series" where
  "series0 sid pt outs =
     \<lparr> ser_series_id = sid, ser_underlying = ''ICP'', ser_expiry_ns = 5000, ser_start_ns = None,
       ser_payoff_type = pt, ser_strike = None, ser_price_precision = 4,
       ser_payout_unit = payout_usd, ser_outcomes = outs, ser_oracle_source = ''oracle'',
       ser_creator = ''admin'', ser_created_at_ns = 1, ser_title = ''t'',
       ser_description = \<lparr> desc_plain = ''d'', desc_markdown = None, desc_html = None \<rparr>,
       ser_resolution = \<lparr> res_clause = ''r'' \<rparr>, ser_icon_url = None, ser_banner_url = None,
       ser_balance_domain = Settlement, ser_trading_access = [Open], ser_engine_id = None,
       ser_forked_from = None, ser_locale = None \<rparr>"

definition outcome0 :: "string \<Rightarrow> outcome" where
  "outcome0 i = \<lparr> out_id = i, out_title = i, out_description = None, out_icon_url = None \<rparr>"

definition binary0 :: series where "binary0 = series0 ''bin'' Binary None"

definition cat0 :: series where
  "cat0 = series0 ''cat'' Categorical (Some [outcome0 ''A'', outcome0 ''B''])"

definition funded :: "user \<Rightarrow> i128 \<Rightarrow> account_state" where
  "funded u cash = set_cash_balance_usd Settlement cash (account_state_new u)"

definition state0 :: clearing where
  "state0 = clearing_empty
     \<lparr> cl_accounts := bt_of_list [(alice, funded alice 1000000), (bob, funded bob 1000000)],
       cl_series := bt_of_list [(''bin'', binary0), (''cat'', cat0)],
       cl_registry := ''registry'' \<rparr>"

definition trade0 :: "user \<Rightarrow> user \<Rightarrow> string \<Rightarrow> i128 \<Rightarrow> u128 \<Rightarrow> execute_trade_params" where
  "trade0 b sl tid q p =
     \<lparr> etp_trade_id = tid, etp_series_id = ''bin'', etp_outcome_id = None, etp_buyer = b,
       etp_seller = sl, etp_qty = q, etp_price = price_new p 4,
       etp_buyer_unblock_amount = None, etp_seller_unblock_amount = None \<rparr>"

definition trade1 :: execute_trade_params where
  "trade1 = trade0 alice bob ''t1'' 10 9000"

definition state1 :: clearing where
  "state1 = snd (execute_trade_impl env0 binary0 trade1 state0)"

lemma trade1_ok: "fst (execute_trade_impl env0 binary0 trade1 state0) = Ok True"
  by code_simp

lemma trade1_run: "execute_trade_impl env0 binary0 trade1 state0 = (Ok True, state1)"
  using trade1_ok by (simp add: state1_def prod_eq_iff)

lemma trade1_new: "\<not> bt_contains_key (cl_executed_trades state0) (etp_trade_id trade1)"
  by code_simp

end
