(* ===== verification/TradeProperties.thy ===== *)
theory TradeProperties
  imports Samples
begin

text \<open>
  The properties of \<open>execute_trade_impl\<close>: what a trade moves and what it leaves alone, when it is
  refused, its idempotency, and the indices it keeps in step with the event log.
\<close>

section \<open>Settlement values\<close>

lemma uint_sat_max: "u \<le> max_payoff \<Longrightarrow> uint (saturating_sub max_payoff u) = 10000 - uint u"
  by (simp add: saturating_sub_eq max_payoff_eq uint_sub_if_size word_le_def
      flip: word_uint_eq_iff)

lemma uint_sat_max_over: "\<not> u \<le> max_payoff \<Longrightarrow> uint (saturating_sub max_payoff u) = 0"
  by (simp add: saturating_sub_def not_le)

text \<open>
  C7. Two opposite positions of quantity \<open>q\<close> and \<open>-q\<close> in the same outcome of a fully
  collateralised series (Binary or Categorical, outside the Social domain) are together paid \<open>q\<close>
  times the larger of 10000 base units of USD, the collateral of one unit, and the unit payoff \<open>u\<close>
  that the settlement yields.  So they are paid exactly their collateral whenever \<open>u\<close> is at most one
  dollar, as it always is in a Categorical series; a Binary series that is settled at a higher price,
  which the code admits, pays out more than was collected.  The values are exact integers, as long as
  this sum fits in 128 bits.
\<close>

theorem settlement_zero_sum:
  assumes "fully_collateralised ser"
    and "get_unit_payoff ser (pos_outcome_id long) st = Ok u"
    and "pos_outcome_id short = pos_outcome_id long"
    and "pos_net_qty short = - pos_net_qty long"
    and "0 < sint (pos_net_qty long)" and "sint (pos_net_qty long) * max 10000 (uint u) < 2 ^ 128"
  shows "\<exists>v w. get_settlement_value ser long st = Ok v \<and> get_settlement_value ser short st = Ok w \<and>
           uint v + uint w = sint (pos_net_qty long) * max 10000 (uint u)"
proof -
  let ?q = "pos_net_qty long"
  let ?v = "full_payout u ?q" and ?w = "full_payout u (- ?q)"
  let ?rest = "saturating_sub max_payoff u"
  have q: "0 \<le> sint ?q" using assms(5) by simp
  have bound: "sint ?q * x < 2 ^ 128" if "x \<le> max 10000 (uint u)" for x
    using mult_left_mono [OF that q] assms(6) by linarith
  have rest: "uint u + uint ?rest = max 10000 (uint u)"
  proof (cases "u \<le> max_payoff")
    case True
    then have "uint u \<le> 10000" by (simp add: max_payoff_eq word_le_def)
    with uint_sat_max [OF True] show ?thesis by simp
  next
    case False
    then have "10000 < uint u" by (simp add: max_payoff_eq word_le_def)
    with uint_sat_max_over [OF False] show ?thesis by simp
  qed
  then have le: "uint ?rest \<le> max 10000 (uint u)" using uint_ge_0 [of u] by linarith
  have "uint ?v = sint ?q * uint u"
    using assms(5) bound [of "uint u"] by (simp add: full_payout_def unsigned_abs_nonneg uint_mult_nonneg)
  moreover have "uint ?w = sint ?q * uint ?rest"
    using sint_uminus_neg [OF assms(5)] uint_mult_nonneg [OF q, of ?rest] bound [OF le]
    by (simp add: full_payout_def unsigned_abs_neg)
  ultimately have "uint ?v + uint ?w = sint ?q * max 10000 (uint u)"
    unfolding rest [symmetric] by (simp add: algebra_simps)
  then show ?thesis
    using settlement_value_full [OF assms(1,2)] settlement_value_full [OF assms(1), of short st u]
      assms by auto
qed

definition held :: "user \<Rightarrow> i128 \<Rightarrow> position" where
  "held u q = \<lparr> pos_user = u, pos_series_id = ''bin'', pos_outcome_id = None, pos_net_qty = q,
                pos_reserved_margin_usd = 0 \<rparr>"

lemma settlement_zero_sum_witness:
  "\<exists>v w. get_settlement_value binary0 (held alice 7) (Price (price_new 3000 4)) = Ok v \<and>
     get_settlement_value binary0 (held bob (- 7)) (Price (price_new 3000 4)) = Ok w \<and>
     uint v + uint w = sint (pos_net_qty (held alice 7)) * max 10000 (uint (3000 :: u128))"
  by (rule settlement_zero_sum) code_simp+

section \<open>Executing a trade\<close>

text \<open>
  C1. A trade of quantity \<open>n\<close> at price \<open>p\<close> that is executed under a new trade id in a fully collateralised series moves
  wealth between its two sides and nowhere else: for every unit payoff \<open>u\<close> of at most one dollar
  that the settlement may yield, and a price of at most one dollar, the buyer's cash plus payout minus
  booked margin grows by exactly \<open>n * (u - p)\<close> and the seller's shrinks by the same amount; every
  other account and position is untouched.  (A Categorical series never yields more than one dollar;
  nothing in the code keeps the price of a Binary settlement below it.)
\<close>

theorem trade_moves_wealth:
  assumes "execute_trade_impl e ser x s = (Ok True, s')"
    and "\<not> bt_contains_key (cl_executed_trades s) (etp_trade_id x)"
    and "fully_collateralised ser" and "margin_price (etp_price x) = Some p"
    and "p \<le> max_payoff" and "u \<le> max_payoff"
  shows "terminal_value s' (ser_balance_domain ser) u (etp_buyer x, etp_series_id x, etp_outcome_id x)
           = terminal_value s (ser_balance_domain ser) u
               (etp_buyer x, etp_series_id x, etp_outcome_id x) + etp_qty x * (u - p) \<and>
         terminal_value s' (ser_balance_domain ser) u (etp_seller x, etp_series_id x, etp_outcome_id x)
           = terminal_value s (ser_balance_domain ser) u
               (etp_seller x, etp_series_id x, etp_outcome_id x) - etp_qty x * (u - p) \<and>
         (\<forall>v sid oid. v \<noteq> etp_buyer x \<and> v \<noteq> etp_seller x \<longrightarrow>
            account_or_new s' v = account_or_new s v \<and>
            pos_qty_at s' (v, sid, oid) = pos_qty_at s (v, sid, oid) \<and>
            pos_margin_at s' (v, sid, oid) = pos_margin_at s (v, sid, oid))"
  using assms(1)
proof (cases rule: execute_trade_cases)
  case unchanged
  then show ?thesis using assms(2) by simp
next
  case (applied td)
  then show ?thesis
    using apply_trade_terminal_value [OF applied(3) assms(3,4) applied(4) assms(5,6)]
    by (simp add: apply_trade_account apply_trade_positions)
qed

lemma trade_moves_wealth_witness:
  "terminal_value state1 Settlement 10000 (alice, ''bin'', None) =
     terminal_value state0 Settlement 10000 (alice, ''bin'', None) + 10 * (10000 - 9000)"
proof -
  have "ser_balance_domain binary0 = Settlement" "etp_buyer trade1 = alice"
    "etp_series_id trade1 = ''bin''" "etp_outcome_id trade1 = None" "etp_qty trade1 = 10"
    by code_simp+
  moreover have "fully_collateralised binary0" "margin_price (etp_price trade1) = Some 9000"
    "9000 \<le> max_payoff" "10000 \<le> max_payoff" by code_simp+
  ultimately show ?thesis
    using trade_moves_wealth [OF trade1_run trade1_new, of 9000 10000] by simp
qed

text \<open>
  C9. A trade happens wholly or not at all.  After an error or a trap the whole state, accounts,
  positions, events, indices, is the one before; so it is when the trade id was executed already, and
  then the answer is success whatever the parameters; and after success under a new id the trade is
  on record under that id, with one event row for each side appended to the log.
\<close>

theorem trade_all_or_nothing:
  assumes "execute_trade_impl e ser x s = (r, s')"
  shows "if bt_contains_key (cl_executed_trades s) (etp_trade_id x) then r = Ok True \<and> s' = s
    else if r = Ok True
    then bt_contains_key (cl_executed_trades s') (etp_trade_id x) \<and>
      (\<exists>b a. cl_events s' = cl_events s @ [b, a] \<and> ev_user b = etp_buyer x \<and> ev_user a = etp_seller x)
    else s' = s"
proof (cases "bt_contains_key (cl_executed_trades s) (etp_trade_id x)")
  case True
  with assms show ?thesis by (simp add: execute_trade_impl_def)
next
  case False
  have rows: "\<exists>b a. cl_events (apply_trade e ser x td s) = cl_events s @ [b, a] \<and>
      ev_user b = etp_buyer x \<and> ev_user a = etp_seller x" for td
    by (simp add: apply_trade_def Let_def record_trade_def next_event_id_def index_executed_trade_def
        executed_event_def split: prod.splits)
  from assms show ?thesis
    by (cases rule: execute_trade_cases) (use False rows in \<open>auto simp: bt_contains_key_def\<close>)
qed

lemma trade_all_or_nothing_witness:
  "execute_trade_impl env0 binary0 (trade0 alice alice ''t2'' 10 9000) state0
     = (Err SelfTradingNotAllowed, state0) \<and>
   (\<exists>b a. cl_events state1 = cl_events state0 @ [b, a] \<and> ev_user b = etp_buyer trade1 \<and>
      ev_user a = etp_seller trade1)"
proof
  let ?run = "execute_trade_impl env0 binary0 (trade0 alice alice ''t2'' 10 9000) state0"
  have "fst ?run = Err SelfTradingNotAllowed" by code_simp
  then have run: "?run = (Err SelfTradingNotAllowed, snd ?run)" by (metis prod.collapse)
  have "snd ?run = state0" using trade_all_or_nothing [OF run] by (simp split: if_splits)
  with run show "?run = (Err SelfTradingNotAllowed, state0)" by simp
  show "\<exists>b a. cl_events state1 = cl_events state0 @ [b, a] \<and> ev_user b = etp_buyer trade1 \<and>
      ev_user a = etp_seller trade1"
    using trade_all_or_nothing [OF trade1_run] trade1_new by simp
qed

text \<open>
  An executed trade is executed once: a second submission under the same trade id succeeds
  without effect, whatever its parameters, and later trades under other ids do not forget it.
\<close>

theorem trade_idempotent:
  assumes "execute_trade_impl e ser x s = (Ok True, s')" and "etp_trade_id y = etp_trade_id x"
    and "execute_trade_impl e2 ser2 z s' = (r, s'')"
  shows "execute_trade_impl e3 ser3 y s' = (Ok True, s') \<and>
         execute_trade_impl e3 ser3 y s'' = (Ok True, s'')"
proof -
  have stored: "bt_contains_key (cl_executed_trades s') (etp_trade_id y)"
    using assms(1)
    by (cases rule: execute_trade_cases) (auto simp: assms(2))
  moreover have "bt_contains_key (cl_executed_trades s'') (etp_trade_id y)"
    using assms(3)
    by (cases rule: execute_trade_cases) (use stored in auto)
  ultimately show ?thesis by (simp add: execute_trade_impl_def)
qed

lemma trade_idempotent_witness:
  "execute_trade_impl env0 cat0 (trade0 bob alice ''t1'' 3 1) state1 = (Ok True, state1)"
proof -
  obtain r s'' where "execute_trade_impl env0 binary0 trade1 state1 = (r, s'')" by (meson surj_pair)
  then show ?thesis
    using trade_idempotent [OF trade1_run, of "trade0 bob alice ''t1'' 3 1"]
    by (auto simp: trade1_def trade0_def)
qed

text \<open>
  C8. A trade outside the Social domain is admitted only if, on each side, the margin that the
  side will have reserved after the trade is covered by the side's equity before it.
\<close>

theorem admitted_trade_is_covered:
  assumes "execute_trade_impl e ser x s = (Ok True, s')"
    and "\<not> bt_contains_key (cl_executed_trades s) (etp_trade_id x)"
    and "ser_balance_domain ser \<noteq> Social" and "u = etp_buyer x \<or> u = etp_seller x"
  shows "\<exists>equity. calculate_raw_equity_i128 (account_or_new s u) (ser_balance_domain ser)
             (cl_collateral_assets s) (cl_asset_metrics s) = Some equity \<and>
           sint (get_reserved_margin_usd (account_or_new s' u) (ser_balance_domain ser)) \<le> sint equity"
  using assms(1)
proof (cases rule: execute_trade_cases)
  case unchanged
  then show ?thesis using assms(2) by simp
next
  case (applied td)
  then show ?thesis using assms(3,4)
    by (auto simp: validate_trade_def validate_side_def Let_def obind_Ok or_trap_Ok
        apply_trade_account account_or_new_update split: if_splits)
qed

lemma admitted_trade_is_covered_witness:
  "\<exists>equity. calculate_raw_equity_i128 (account_or_new state0 alice) Settlement
       (cl_collateral_assets state0) (cl_asset_metrics state0) = Some equity \<and>
     sint (get_reserved_margin_usd (account_or_new state1 alice) Settlement) \<le> sint equity"
proof -
  have "ser_balance_domain binary0 = Settlement" "alice = etp_buyer trade1" by code_simp+
  then show ?thesis
    using admitted_trade_is_covered [OF trade1_run trade1_new, of alice] by simp
qed


end
