(* ===== verification/Paging.thy ===== *)
theory Paging
  imports BTree
begin

text \<open>
  Cursor pagination as the queries of both canisters do it: a page holds at most \<open>limit\<close> items
  after the exclusive cursor, and carries the last item's key as the next cursor when more
  remain.  The interface \<open>paging\<close> says what a paged query promises; a client that follows the
  cursors receives every item exactly once, in order.
\<close>

text \<open>
  \<open>usize::try_from(limit.unwrap_or(u64::MAX)).unwrap_or(usize::MAX).max(1)\<close> on a 32-bit target.
\<close>

definition page_limit :: "u64 option \<Rightarrow> nat" where
  "page_limit limit =
     max 1 (case limit of None \<Rightarrow> 2 ^ 32 - 1 | Some l \<Rightarrow> min (unat l) (2 ^ 32 - 1))"

lemma page_limit_pos [simp]: "1 \<le> page_limit limit"
  by (simp add: page_limit_def)

definition cut_page :: "('a \<Rightarrow> 'c) \<Rightarrow> nat \<Rightarrow> 'a list \<Rightarrow> 'a list \<times> 'c option" where
  "cut_page key limit xs =
     (let items = take limit xs
      in (items, if limit < length xs then Some (key (last items)) else None))"

definition after_cursor :: "('a \<Rightarrow> 'c::linorder) \<Rightarrow> 'c option \<Rightarrow> 'a list \<Rightarrow> 'a list" where
  "after_cursor key cursor xs =
     (case cursor of None \<Rightarrow> xs | Some c \<Rightarrow> filter (\<lambda>x. c < key x) xs)"

text \<open>A client that asks for page after page until no cursor comes back, \<open>n\<close> times at most.\<close>

fun follow_cursors :: "('c option \<Rightarrow> 'a list \<times> 'c option) \<Rightarrow> nat \<Rightarrow> 'c option \<Rightarrow> 'a list" where
  "follow_cursors page 0 cursor = []"
| "follow_cursors page (Suc n) cursor =
     (case page cursor of
        (xs, None) \<Rightarrow> xs
      | (xs, Some c) \<Rightarrow> xs @ follow_cursors page n (Some c))"

lemma filter_after_last:
  fixes key :: "'a \<Rightarrow> 'c::linorder"
  assumes "sorted_wrt (<) (map key (ys @ zs))" "ys \<noteq> []"
  shows "filter (\<lambda>x. key (last ys) < key x) (ys @ zs) = zs"
proof -
  obtain us l where us: "ys = us @ [l]" using assms(2) by (metis append_butlast_last_id)
  have "\<not> key l < key y" if "y \<in> set us" for y
    using assms(1) that by (auto simp: us sorted_wrt_append dest: less_asym)
  moreover have "key l < key z" if "z \<in> set zs" for z
    using assms(1) that by (auto simp: us sorted_wrt_append)
  ultimately show ?thesis by (simp add: us filter_id_conv filter_empty_conv)
qed

locale paging =
  fixes ok :: "'s \<Rightarrow> bool"
    and items :: "'s \<Rightarrow> 'a list"
    and key :: "'a \<Rightarrow> 'c::linorder"
    and page :: "'s \<Rightarrow> 'c option \<Rightarrow> u64 option \<Rightarrow> 'a list \<times> 'c option"
  assumes items_sorted: "ok s \<Longrightarrow> sorted_wrt (<) (map key (items s))"
    and page_eq: "ok s \<Longrightarrow>
      page s cursor limit = cut_page key (page_limit limit) (after_cursor key cursor (items s))"
begin

lemma traverse_suffix:
  "ok s \<Longrightarrow> items s = pre @ rest \<Longrightarrow> after_cursor key cursor (items s) = rest \<Longrightarrow>
   length rest \<le> n \<Longrightarrow> 0 < n \<Longrightarrow> follow_cursors (\<lambda>c. page s c limit) n cursor = rest"
proof (induction n arbitrary: pre rest cursor)
  case 0
  then show ?case by simp
next
  case (Suc n)
  let ?k = "page_limit limit"
  let ?ys = "take ?k rest" and ?zs = "drop ?k rest"
  show ?case
  proof (cases "?k < length rest")
    case False
    with Suc show ?thesis by (simp add: page_eq cut_page_def)
  next
    case True
    have pos: "0 < ?k" using page_limit_pos [of limit] by linarith
    have ys: "?ys \<noteq> []" using True pos by auto
    have split: "items s = (pre @ ?ys) @ ?zs" using Suc.prems by simp
    have cur: "after_cursor key (Some (key (last ?ys))) (items s) = ?zs"
      using filter_after_last [of key "pre @ ?ys" ?zs] items_sorted [OF Suc.prems(1)] ys
      unfolding split by (simp add: after_cursor_def)
    have "follow_cursors (\<lambda>c. page s c limit) n (Some (key (last ?ys))) = ?zs"
      using Suc.IH [OF Suc.prems(1) split cur] Suc.prems(4) True pos by simp
    with Suc.prems True show ?thesis by (simp add: page_eq cut_page_def Let_def)
  qed
qed

lemma traverse_all:
  "ok s \<Longrightarrow> length (items s) < n \<Longrightarrow> follow_cursors (\<lambda>c. page s c limit) n None = items s"
  using traverse_suffix [of s "[]" "items s" None n limit] by (simp add: after_cursor_def)

lemma page_bounded:
  "ok s \<Longrightarrow> length (fst (page s cursor limit)) \<le> page_limit limit"
  by (simp add: page_eq cut_page_def Let_def)

lemma page_progress:
  assumes "ok s" "after_cursor key cursor (items s) \<noteq> []"
  shows "fst (page s cursor limit) \<noteq> []"
proof -
  have "0 < page_limit limit" using page_limit_pos [of limit] by linarith
  with assms show ?thesis by (simp add: page_eq cut_page_def Let_def)
qed

end

end
