(* ===== verification/Settlements.thy ===== *)
theory Settlements
  imports CompleteSets Paging
begin

text \<open>
  \<open>src/src/clearing/src/api/settlement/api.rs\<close>: the settlement of a series.  A plan snapshots
  the positions with their cashflows, removes them and cancels the open orders; the accounting
  loop applies the cashflows in chunks under a cursor; the plan is finalised when the cursor has
  reached the end.  Also the settlement queries and the backfill of events.
\<close>

datatype settlement_error =
    CommonSettlement common_error
  | AssetSettlement asset_error
  | MathOverflowSettlement
  | SolvencyViolation u128 u128
  | InconsistentSettlement settlement_input settlement_input

datatype settle_outcome = SettleDone | SettleProcessing

record settle_series_params =
  sse_series_id :: series_id
  sse_settlement :: settlement_input

section \<open>Building the plan\<close>

text \<open>The totals of the loop over the positions: insurance fee, protocol fee, net payoff.\<close>

record settlement_totals =
  tot_insurance_fee :: u128
  tot_protocol_fee :: u128
  tot_net_payoff :: u128

definition no_totals :: settlement_totals where
  "no_totals = \<lparr> tot_insurance_fee = 0, tot_protocol_fee = 0, tot_net_payoff = 0 \<rparr>"

definition cashflow_of :: "u128 \<Rightarrow> u128 \<Rightarrow> u128 \<Rightarrow> u128 \<Rightarrow> i128" where
  "cashflow_of payoff reserved i_fee p_fee = payoff - reserved - i_fee - p_fee"

fun gather_positions ::
  "series \<Rightarrow> series_id \<Rightarrow> settlement_input \<Rightarrow> u16 \<Rightarrow> u16 \<Rightarrow> positions_map \<Rightarrow>
     settlement_totals \<Rightarrow> settlement_position list \<Rightarrow>
     (settlement_error, settlement_totals \<times> settlement_position list) result" where
  "gather_positions ser series_id st ir pr [] tot results = Ok (tot, results)"
| "gather_positions ser series_id st ir pr (((u, sid, oid), pos) # rest) tot results =
     (if sid \<noteq> series_id then gather_positions ser series_id st ir pr rest tot results
      else (case get_settlement_value ser pos st of
              Err e \<Rightarrow> Err (CommonSettlement (payoff_failed e))
            | Trap \<Rightarrow> Trap
            | Ok payoff \<Rightarrow>
                (let i_fee = calculate_settlement_fee payoff ir;
                     p_fee = calculate_settlement_fee payoff pr;
                     cashflow = cashflow_of payoff (pos_reserved_margin_usd pos) i_fee p_fee
                 in gather_positions ser series_id st ir pr rest
                      \<lparr> tot_insurance_fee = tot_insurance_fee tot + i_fee,
                        tot_protocol_fee = tot_protocol_fee tot + p_fee,
                        tot_net_payoff = (if 0 < sint cashflow
                                          then tot_net_payoff tot + cashflow
                                          else tot_net_payoff tot) \<rparr>
                      (results @ [\<lparr> spos_user = u, spos_outcome_id = oid,
                                    spos_net_qty = pos_net_qty pos,
                                    spos_reserved_margin_usd = pos_reserved_margin_usd pos,
                                    spos_cashflow_usd = cashflow \<rparr>]))))"

definition cashflow_by_user :: "settlement_position list \<Rightarrow> (user, i128) btmap" where
  "cashflow_by_user positions =
     fold (\<lambda>p. bt_entry (spos_user p) 0 (\<lambda>c. c + spos_cashflow_usd p)) positions []"

fun post_settlement_equity ::
  "clearing \<Rightarrow> balance_domain \<Rightarrow> (user, i128) btmap \<Rightarrow> account_state list \<Rightarrow> u128 option" where
  "post_settlement_equity s d flows [] = Some 0"
| "post_settlement_equity s d flows (acc # rest) =
     (case calculate_raw_equity_i128 acc d (cl_collateral_assets s) (cl_asset_metrics s) of
        None \<Rightarrow> None
      | Some equity \<Rightarrow>
          (let post = equity + or_zero (bt_get flows (acc_user acc))
           in map_option (\<lambda>t. (if sint post < 0 then 0 else post) + t)
                (post_settlement_equity s d flows rest)))"

definition check_settlement_solvency ::
  "balance_domain \<Rightarrow> u128 \<Rightarrow> settlement_position list \<Rightarrow> clearing \<Rightarrow> (settlement_error, unit) result"
where
  "check_settlement_solvency d total_net_payoff positions s =
     obind (or_trap (post_settlement_equity s d (cashflow_by_user positions)
              (bt_values (cl_accounts s))))
       (\<lambda>total. if total < total_net_payoff then Err (SolvencyViolation total_net_payoff total)
                else Ok ())"

definition remove_positions :: "series_id \<Rightarrow> settlement_position list \<Rightarrow> clearing \<Rightarrow> clearing" where
  "remove_positions sid ps s =
     s\<lparr>cl_positions :=
        fold (\<lambda>p. bt_remove (spos_user p, sid, spos_outcome_id p)) ps (cl_positions s)\<rparr>"

definition cancel_open_limit_orders :: "series_id \<Rightarrow> clearing \<Rightarrow> clearing" where
  "cancel_open_limit_orders sid s =
     (let matching = filter (\<lambda>o1. lo_series_id (snd o1) = sid) (cl_limit_orders s);
          s = fold (\<lambda>o1. remove_order (fst o1)) matching s
      in fold (\<lambda>o1. release_reserved (lo_creator (snd o1)) (lo_balance_domain (snd o1))
                      (lo_blocked_margin_usd (snd o1))) matching s)"

definition prepare_settlement_impl ::
  "env \<Rightarrow> series \<Rightarrow> series_id \<Rightarrow> settlement_input \<Rightarrow> u16 \<Rightarrow> u16 \<Rightarrow> clearing \<Rightarrow>
     (settlement_error, settlement_plan) result \<times> clearing" where
  "prepare_settlement_impl e ser sid st ir pr s =
     (case obind (gather_positions ser sid st ir pr (cl_positions s) no_totals [])
             (\<lambda>(tot, ps).
                obind (check_settlement_solvency (ser_balance_domain ser) (tot_net_payoff tot) ps s)
                  (\<lambda>_. Ok (tot, ps))) of
        Err err \<Rightarrow> (Err err, s)
      | Trap \<Rightarrow> (Trap, s)
      | Ok (tot, ps) \<Rightarrow>
          (case settlement_plan_get_or_create (env_now e)
                  \<lparr> spp_series_id = sid, spp_settlement = st,
                    spp_oracle_source = ser_oracle_source ser,
                    spp_fee = tot_protocol_fee tot, spp_insurance_fee = tot_insurance_fee tot,
                    spp_positions = ps, spp_balance_domain = ser_balance_domain ser \<rparr>
                  (cancel_open_limit_orders sid (remove_positions sid ps s)) of
             (plan, s) \<Rightarrow> (Ok plan, s)))"

section \<open>The accounting loop\<close>

definition settlement_price :: "settlement_input \<Rightarrow> price" where
  "settlement_price st = (case st of Price p \<Rightarrow> p | Outcome _ \<Rightarrow> price_new 1 0)"

definition settled_event ::
  "env \<Rightarrow> series_id \<Rightarrow> price \<Rightarrow> u64 \<Rightarrow> u64 \<Rightarrow> settlement_position \<Rightarrow> event" where
  "settled_event e sid p event_id timestamp pos =
     \<lparr> ev_event_id = event_id, ev_clearing_id = env_self e, ev_series_id = sid,
       ev_user = spos_user pos, ev_qty = spos_cashflow_usd pos, ev_price = p,
       ev_event_type = Settled, ev_timestamp = timestamp \<rparr>"

definition settle_account ::
  "balance_domain \<Rightarrow> settlement_position \<Rightarrow> account_state \<Rightarrow> account_state" where
  "settle_account d pos a =
     (let a = set_cash_balance_usd d (get_cash_balance_usd a d + spos_cashflow_usd pos) a
      in set_reserved_margin_usd d
           (saturating_sub (get_reserved_margin_usd a d) (spos_reserved_margin_usd pos)) a)"

text \<open>What the loop carries: the accounts, the event counter and the events emitted.\<close>

type_synonym accounting = "(user, account_state) btmap \<times> u64 \<times> event list"

definition settle_position ::
  "env \<Rightarrow> settlement_plan \<Rightarrow> settlement_position \<Rightarrow> accounting \<Rightarrow> accounting" where
  "settle_position e plan pos acct =
     (case acct of (accounts, event_id, emitted) \<Rightarrow>
        (case bt_get accounts (spos_user pos) of
           None \<Rightarrow> (accounts, event_id, emitted)
         | Some a \<Rightarrow>
             (bt_insert (spos_user pos) (settle_account (spl_balance_domain plan) pos a) accounts,
              event_id + 1,
              emitted @ [settled_event e (spl_series_id plan)
                           (settlement_price (spl_settlement plan)) event_id (env_now e) pos])))"

text \<open>
  The positions from the cursor on.  The loop yields when the cursor reaches a multiple of 100
  on a replica that counts instructions.
\<close>

fun accounting_loop ::
  "env \<Rightarrow> settlement_plan \<Rightarrow> settlement_position list \<Rightarrow> nat \<Rightarrow> accounting \<Rightarrow> nat \<times> accounting" where
  "accounting_loop e plan [] cursor acct = (cursor, acct)"
| "accounting_loop e plan (pos # rest) cursor acct =
     (if (cursor + 1) mod 100 = 0 \<and> env_counting e
      then (cursor + 1, settle_position e plan pos acct)
      else accounting_loop e plan rest (cursor + 1) (settle_position e plan pos acct))"

definition apply_settlement_accounting_logic ::
  "env \<Rightarrow> settlement_plan \<Rightarrow> clearing \<Rightarrow> bool \<times> settlement_plan \<times> clearing" where
  "apply_settlement_accounting_logic e plan s =
     (case accounting_loop e plan (drop (spl_accounting_cursor plan) (spl_positions plan))
             (spl_accounting_cursor plan) (cl_accounts s, cl_next_event_id s, []) of
        (cursor, accounts, event_id, emitted) \<Rightarrow>
          (let s = s\<lparr>cl_accounts := accounts, cl_next_event_id := event_id\<rparr>;
               s = (if emitted = [] then s
                    else (index_settled_events emitted s)\<lparr>cl_events := cl_events s @ emitted\<rparr>);
               newly_applied = (cursor = length (spl_positions plan) \<and>
                                \<not> spl_accounting_applied plan)
           in (newly_applied,
               plan\<lparr>spl_accounting_cursor := cursor,
                    spl_accounting_applied := (spl_accounting_applied plan \<or> newly_applied)\<rparr>,
               s)))"

section \<open>The handler\<close>

definition store_settlement_plan :: "series_id \<Rightarrow> settlement_plan \<Rightarrow> clearing \<Rightarrow> clearing" where
  "store_settlement_plan sid plan s =
     s\<lparr>cl_settlement_plans := bt_insert sid plan (cl_settlement_plans s)\<rparr>"

definition credit_fund :: "asset_id \<Rightarrow> u128 \<Rightarrow> (asset_id, u128) btmap \<Rightarrow> (asset_id, u128) btmap" where
  "credit_fund aid amount m = bt_insert aid (or_zero (bt_get m aid) + amount) m"

definition credit_fees :: "settlement_plan \<Rightarrow> clearing \<Rightarrow> clearing" where
  "credit_fees plan s =
     (let aid = get_internal_asset_id s
      in s\<lparr>cl_treasury := credit_fund aid (spl_fee_usd plan) (cl_treasury s),
           cl_insurance_fund := credit_fund aid (spl_insurance_fee_usd plan) (cl_insurance_fund s)\<rparr>)"

text \<open>Phase A.\<close>

definition build_or_resume ::
  "env \<Rightarrow> settle_series_params \<Rightarrow> clearing \<Rightarrow> (settlement_error, settlement_plan) result \<times> clearing"
where
  "build_or_resume e x s =
     (case bt_get (cl_settlement_plans s) (sse_series_id x) of
        Some existing \<Rightarrow>
          if spl_status existing = Finalised then (Ok existing, s)
          else if spl_settlement existing \<noteq> sse_settlement x
          then (Err (InconsistentSettlement (spl_settlement existing) (sse_settlement x)), s)
          else (Ok existing, s)
      | None \<Rightarrow>
          (case bt_get (cl_series s) (sse_series_id x) of
             None \<Rightarrow> (Err (CommonSettlement Unauthorized), s)
           | Some ser \<Rightarrow>
               prepare_settlement_impl e ser (sse_series_id x) (sse_settlement x)
                 (cfg_insurance_fund_fee_ratio (cl_config s)) (cfg_protocol_fee_ratio (cl_config s))
                 s))"

text \<open>Phase B.\<close>

definition account_chunk ::
  "env \<Rightarrow> series_id \<Rightarrow> settlement_plan \<Rightarrow> clearing \<Rightarrow> settlement_plan \<times> clearing" where
  "account_chunk e sid plan s =
     (if spl_accounting_applied plan then (plan, s)
      else let plan = (if spl_status plan = Planned then plan\<lparr>spl_status := Executing\<rparr> else plan)
      in case apply_settlement_accounting_logic e plan s of
           (newly_applied, plan, s) \<Rightarrow>
             (let s = store_settlement_plan sid plan s
              in (plan, if newly_applied then credit_fees plan s else s)))"

text \<open>
  Phase C.  \<open>SettleProcessing\<close> is also the point where the code arms a timer that calls
  \<open>settle_series_inner\<close> again with the same parameters.
\<close>

definition settle_series_inner ::
  "env \<Rightarrow> settle_series_params \<Rightarrow> clearing \<Rightarrow> (settlement_error, settle_outcome) result \<times> clearing"
where
  "settle_series_inner e x s =
     (case build_or_resume e x s of
        (Err err, s) \<Rightarrow> (Err err, s)
      | (Trap, s) \<Rightarrow> (Trap, s)
      | (Ok plan, s) \<Rightarrow>
          if spl_status plan = Finalised then (Ok SettleDone, s)
          else (case account_chunk e (sse_series_id x) plan s of
             (plan, s) \<Rightarrow>
               if spl_accounting_applied plan
               then (Ok SettleDone,
                     (store_settlement_plan (sse_series_id x) (plan\<lparr>spl_status := Finalised\<rparr>) s)
                       \<lparr>cl_series := bt_remove (sse_series_id x) (cl_series s)\<rparr>)
               else (Ok SettleProcessing, s)))"

text \<open>The public call: every caller but a controller must be an oracle of the series.\<close>

definition settlement_oracle :: "clearing \<Rightarrow> series_id \<Rightarrow> string option" where
  "settlement_oracle s sid =
     (case bt_get (cl_series s) sid of
        Some ser \<Rightarrow> Some (ser_oracle_source ser)
      | None \<Rightarrow> map_option spl_oracle_source (bt_get (cl_settlement_plans s) sid))"

definition authorize_settlement :: "principal \<Rightarrow> series_id \<Rightarrow> ctx \<Rightarrow> (settlement_error, unit) cproc" where
  "authorize_settlement caller sid c =
     (if env_is_controller (fst c) caller then preturn (Ok ()) c
      else pure_step (ok_or (CommonSettlement Unauthorized) (settlement_oracle (snd c) sid)) c
        (\<lambda>oracle_source c.
           let registry = cl_registry (snd c)
           in if registry = anonymous then preturn (Err (CommonSettlement RegistryNotSet)) c
              else pbind
                (pmap_err CommonSettlement (is_oracle_authorized registry oracle_source caller c))
                (\<lambda>authorized.
                   preturn (if authorized then Ok () else Err (CommonSettlement Unauthorized)))))"

definition settle_series ::
  "principal \<Rightarrow> settle_series_params \<Rightarrow> ctx \<Rightarrow> (settlement_error, settle_outcome) cproc" where
  "settle_series caller x =
     guarded (caller_is_not_anonymous caller) (\<lambda>c.
       pbind (authorize_settlement caller (sse_series_id x) c)
         (\<lambda>_. sync (\<lambda>e. settle_series_inner e x)))"

definition resume_settlement ::
  "env \<Rightarrow> principal \<Rightarrow> series_id \<Rightarrow> clearing \<Rightarrow> (settlement_error, settle_outcome) result \<times> clearing"
where
  "resume_settlement e caller sid s =
     (if \<not> caller_is_controller e caller then (Trap, s)
      else case bt_get (cl_settlement_plans s) sid of
             Some p \<Rightarrow>
               settle_series_inner e
                 \<lparr> sse_series_id = spl_series_id p, sse_settlement = spl_settlement p \<rparr> s
           | None \<Rightarrow> (Err (CommonSettlement (Internal ''Plan not found'')), s))"

definition pending_settlement_params :: "clearing \<Rightarrow> settle_series_params list" where
  "pending_settlement_params s =
     map (\<lambda>p. \<lparr> sse_series_id = spl_series_id p, sse_settlement = spl_settlement p \<rparr>)
       (filter (\<lambda>p. spl_status p \<noteq> Finalised) (bt_values (cl_settlement_plans s)))"

text \<open>The timers that an upgrade or the heartbeat arms, run one after the other.\<close>

definition resume_pending_settlements :: "env \<Rightarrow> clearing \<Rightarrow> clearing" where
  "resume_pending_settlements e s =
     fold (\<lambda>x s. snd (settle_series_inner e x s)) (pending_settlement_params s) s"

section \<open>Queries\<close>

definition get_settlement_plan :: "series_id \<Rightarrow> clearing \<Rightarrow> settlement_plan option" where
  "get_settlement_plan sid s = bt_get (cl_settlement_plans s) sid"

definition get_settlement_status :: "series_id \<Rightarrow> clearing \<Rightarrow> settlement_status_view option" where
  "get_settlement_status sid s = map_option status_view_from (bt_get (cl_settlement_plans s) sid)"

definition list_series_settlement_statuses ::
  "series_id list \<Rightarrow> clearing \<Rightarrow> (series_id \<times> settlement_status_view option) list" where
  "list_series_settlement_statuses sids s = map (\<lambda>sid. (sid, get_settlement_status sid s)) sids"

definition list_settled_series ::
  "balance_domain option \<Rightarrow> clearing \<Rightarrow> series_id option \<Rightarrow> u64 option \<Rightarrow>
     series_id list \<times> series_id option" where
  "list_settled_series d s start_after limit =
     (let plans = (case start_after of
                     None \<Rightarrow> cl_settlement_plans s
                   | Some after \<Rightarrow> bt_range_after after (cl_settlement_plans s));
          ids = map fst (filter (\<lambda>(sid, plan).
                  case d of None \<Rightarrow> True | Some dm \<Rightarrow> spl_balance_domain plan = dm) plans)
      in cut_page (\<lambda>i. i) (page_limit limit) ids)"

section \<open>Backfill of events\<close>

record backfill_result =
  bf_plans_scanned :: u64
  bf_events_emitted :: u64
  bf_events_skipped :: u64
  bf_next_cursor :: "series_id option"

definition backfilled_series :: "clearing \<Rightarrow> series_id list" where
  "backfilled_series s =
     map ev_series_id (filter (\<lambda>ev. ev_event_type ev = Settled) (cl_events s))"

fun backfill_positions ::
  "env \<Rightarrow> series_id \<Rightarrow> settlement_plan \<Rightarrow> settlement_position list \<Rightarrow> u64 \<times> event list \<Rightarrow>
     u64 \<times> event list" where
  "backfill_positions e sid plan [] acc = acc"
| "backfill_positions e sid plan (pos # rest) (event_id, emitted) =
     backfill_positions e sid plan rest
       (event_id + 1,
        emitted @ [settled_event e sid (settlement_price (spl_settlement plan)) event_id
                     (case to_created_at_time_ns (spl_idempotency_ns plan) of
                        Some t \<Rightarrow> t | None \<Rightarrow> env_now e) pos])"

text \<open>
  The loop over the plans.  \<open>over_budget\<close> says, for each plan visited, whether the instruction
  counter had passed the budget after it.
\<close>

fun backfill_loop ::
  "env \<Rightarrow> (series_id \<Rightarrow> bool) \<Rightarrow> (series_id, settlement_plan) btmap \<Rightarrow> series_id list \<Rightarrow>
     backfill_result \<Rightarrow> u64 \<times> event list \<Rightarrow> backfill_result \<times> u64 \<times> event list" where
  "backfill_loop e over_budget [] seen res acc = (res\<lparr>bf_next_cursor := None\<rparr>, acc)"
| "backfill_loop e over_budget ((sid, plan) # rest) seen res acc =
     (let n = of_nat (length (spl_positions plan));
          (res, acc, seen) =
            (if spl_status plan \<noteq> Finalised then (res, acc, seen)
             else if sid \<in> set seen
             then (res\<lparr>bf_plans_scanned := bf_plans_scanned res + 1,
                       bf_events_skipped := bf_events_skipped res + n\<rparr>, acc, seen)
             else (res\<lparr>bf_plans_scanned := bf_plans_scanned res + 1,
                       bf_events_emitted := bf_events_emitted res + n\<rparr>,
                   backfill_positions e sid plan (spl_positions plan) acc, sid # seen))
      in if over_budget sid then (res\<lparr>bf_next_cursor := Some sid\<rparr>, acc)
         else backfill_loop e over_budget rest seen res acc)"

definition backfill_settlement_events ::
  "env \<Rightarrow> (series_id \<Rightarrow> bool) \<Rightarrow> series_id option \<Rightarrow> clearing \<Rightarrow> backfill_result \<times> clearing" where
  "backfill_settlement_events e over_budget start_after s =
     (let plans = (case start_after of
                     None \<Rightarrow> cl_settlement_plans s
                   | Some after \<Rightarrow> bt_range_after after (cl_settlement_plans s))
      in case backfill_loop e over_budget plans (backfilled_series s)
                \<lparr> bf_plans_scanned = 0, bf_events_emitted = 0, bf_events_skipped = 0,
                  bf_next_cursor = None \<rparr> (cl_next_event_id s, []) of
           (res, event_id, emitted) \<Rightarrow>
             (let s = s\<lparr>cl_next_event_id := event_id\<rparr>
              in (res, if emitted = [] then s
                       else (index_settled_events emitted s)
                              \<lparr>cl_events := cl_events s @ emitted\<rparr>)))"

end
