(* ===== verification/EventLog.thy ===== *)
theory EventLog
  imports Settlements
begin

text \<open>
  The invariant that ties the event log to the three indices over it (\<open>memory.rs\<close>): leaderboard,
  traded volumes and price histories are at all times what a rebuild from the log gives.  Every
  operation that appends events keeps it; an upgrade relies on it.
\<close>

definition log_inv :: "clearing \<Rightarrow> bool" where
  "log_inv s =
     (indices_current s \<and> trades_ordered (cl_events s) \<and>
      list_all (\<lambda>ev. is_trade_row ev \<longrightarrow> ev_event_id ev < cl_next_event_id s) (cl_events s))"

lemma log_inv_cong:
  "cl_events s' = cl_events s \<Longrightarrow> cl_next_event_id s' = cl_next_event_id s \<Longrightarrow>
   cl_leaderboard s' = cl_leaderboard s \<Longrightarrow> cl_traded_volume s' = cl_traded_volume s \<Longrightarrow>
   cl_trade_history s' = cl_trade_history s \<Longrightarrow> log_inv s' = log_inv s"
  by (simp add: log_inv_def indices_current_def)

text \<open>Appending a batch of events, indexed as it is appended.\<close>

lemma log_inv_append:
  assumes inv: "log_inv s"
    and events: "cl_events s' = cl_events s @ es"
    and leader: "cl_leaderboard s' = fold leaderboard_extend es (cl_leaderboard s)"
    and trades: "(cl_traded_volume s', cl_trade_history s') =
      fold trade_index_extend es (cl_traded_volume s, cl_trade_history s)"
    and rows: "sorted (map ev_event_id (filter is_trade_row es))"
      "\<And>ev. ev \<in> set es \<Longrightarrow> is_trade_row ev \<Longrightarrow>
         cl_next_event_id s \<le> ev_event_id ev \<and> ev_event_id ev < cl_next_event_id s'"
    and ids: "\<And>ev. ev \<in> set (cl_events s) \<Longrightarrow> is_trade_row ev \<Longrightarrow>
         ev_event_id ev < cl_next_event_id s'"
  shows "log_inv s'"
proof -
  have old: "ev_event_id ev < cl_next_event_id s"
    if "ev \<in> set (cl_events s)" "is_trade_row ev" for ev
    using inv that by (auto simp: log_inv_def list_all_iff)
  have ordered: "trades_ordered (cl_events s @ es)"
    using inv rows old
    by (auto simp: trades_ordered_def sorted_append log_inv_def) (metis less_le_trans less_imp_le)
  have "(cl_traded_volume s, cl_trade_history s) = rebuilt_trade_index (cl_events s)"
    "cl_leaderboard s = rebuilt_leaderboard (cl_events s)"
    using inv by (auto simp: log_inv_def indices_current_def)
  then have "indices_current s'"
    using trade_index.rebuild_append [OF ordered] leaderboard.rebuild_append [of "cl_events s" es]
    by (simp add: indices_current_def events leader trades)
  then show ?thesis
    using ordered rows ids by (auto simp: log_inv_def events list_all_iff)
qed

section \<open>Trades\<close>

lemma record_trade_log:
  "cl_events (record_trade e x s) = cl_events s @
     [executed_event e (cl_next_event_id s) x (etp_buyer x) (etp_qty x),
      executed_event e (cl_next_event_id s) x (etp_seller x) (- etp_qty x)]"
  "cl_next_event_id (record_trade e x s) = cl_next_event_id s + 1"
  "cl_leaderboard (record_trade e x s) = cl_leaderboard s"
  "(cl_traded_volume (record_trade e x s), cl_trade_history (record_trade e x s)) =
     push_point (etp_series_id x)
       \<lparr> stp_event_id = cl_next_event_id s, stp_price = etp_price x, stp_qty = etp_qty x,
         stp_timestamp = env_now e \<rparr> (cl_traded_volume s, cl_trade_history s)"
  by (auto simp: record_trade_def next_event_id_def index_executed_trade_def Let_def
      split: prod.splits)

lemma executed_event_fields [simp]:
  "ev_event_id (executed_event e i x u q) = i" "ev_qty (executed_event e i x u q) = q"
  "ev_event_type (executed_event e i x u q) = Executed"
  "ev_series_id (executed_event e i x u q) = etp_series_id x"
  "ev_price (executed_event e i x u q) = etp_price x"
  "ev_timestamp (executed_event e i x u q) = env_now e"
  "ev_user (executed_event e i x u q) = u"
  by (simp_all add: executed_event_def)

lemma log_inv_record_trade:
  assumes "log_inv s" "0 < sint (etp_qty x)" "cl_next_event_id s + 1 \<noteq> 0"
  shows "log_inv (record_trade e x s)"
proof (rule log_inv_append [OF assms(1) record_trade_log(1)])
  have neg: "\<not> 0 < sint (- etp_qty x)" using sint_uminus_neg [OF assms(2)] by simp
  show "cl_leaderboard (record_trade e x s) = fold leaderboard_extend
    [executed_event e (cl_next_event_id s) x (etp_buyer x) (etp_qty x),
     executed_event e (cl_next_event_id s) x (etp_seller x) (- etp_qty x)] (cl_leaderboard s)"
    by (simp add: record_trade_log leaderboard_extend_def)
  show "(cl_traded_volume (record_trade e x s), cl_trade_history (record_trade e x s)) =
    fold trade_index_extend
    [executed_event e (cl_next_event_id s) x (etp_buyer x) (etp_qty x),
     executed_event e (cl_next_event_id s) x (etp_seller x) (- etp_qty x)]
    (cl_traded_volume s, cl_trade_history s)"
    using assms(2) neg
    by (simp add: record_trade_log(4) trade_index_extend_def is_trade_row_def point_of_event_def)
  have old: "ev_event_id ev < cl_next_event_id s"
    if "ev \<in> set (cl_events s)" "is_trade_row ev" for ev
    using assms(1) that by (auto simp: log_inv_def list_all_iff)
  show "ev_event_id ev < cl_next_event_id (record_trade e x s)"
    if "ev \<in> set (cl_events s)" "is_trade_row ev" for ev
    using below_next [OF assms(3), of "ev_event_id ev"] old [OF that] by (simp add: record_trade_log)
qed (use below_next [OF assms(3), of "cl_next_event_id s"] in \<open>auto simp: record_trade_log\<close>)

lemma apply_trade_record:
  obtains s1 where "apply_trade e ser x td s = record_trade e x s1" "cl_events s1 = cl_events s"
    "cl_next_event_id s1 = cl_next_event_id s" "cl_leaderboard s1 = cl_leaderboard s"
    "cl_traded_volume s1 = cl_traded_volume s" "cl_trade_history s1 = cl_trade_history s"
  by (simp add: apply_trade_def Let_def)

lemma log_inv_execute_trade:
  assumes "execute_trade_impl e ser x s = (r, s')" "log_inv s" "0 < sint (etp_qty x)"
    "cl_next_event_id s + 1 \<noteq> 0"
  shows "log_inv s'"
  using assms(1)
proof (cases rule: execute_trade_cases)
  case unchanged
  then show ?thesis using assms(2) by simp
next
  case (applied td)
  obtain s1 where s1: "apply_trade e ser x td s = record_trade e x s1" "cl_events s1 = cl_events s"
    "cl_next_event_id s1 = cl_next_event_id s" "cl_leaderboard s1 = cl_leaderboard s"
    "cl_traded_volume s1 = cl_traded_volume s" "cl_trade_history s1 = cl_trade_history s"
    by (rule apply_trade_record)
  have "log_inv s1" using assms(2) log_inv_cong [OF s1(2-6)] by simp
  then show ?thesis
    using log_inv_record_trade [of s1 x e] applied(6) s1 assms(3,4) by simp
qed

section \<open>Settlements\<close>

lemma settled_event_fields [simp]:
  "ev_event_type (settled_event e sid p i ts pos) = Settled"
  "ev_event_id (settled_event e sid p i ts pos) = i"
  "ev_user (settled_event e sid p i ts pos) = spos_user pos"
  "ev_qty (settled_event e sid p i ts pos) = spos_cashflow_usd pos"
  "ev_timestamp (settled_event e sid p i ts pos) = ts"
  "ev_series_id (settled_event e sid p i ts pos) = sid"
  by (simp_all add: settled_event_def)

text \<open>What a step and a chunk of the accounting loop emit.\<close>

lemma settle_position_emits:
  assumes "settle_position e plan pos (accounts, i, em) = (accounts', i', em')"
  shows "\<exists>new. em' = em @ new \<and> i' = i + of_nat (length new) \<and> length new \<le> 1 \<and>
           list_all (\<lambda>ev. ev_event_type ev = Settled) new"
  using assms by (auto simp: settle_position_def split: option.splits)

lemma accounting_loop_emits:
  assumes "accounting_loop e plan rest c (accounts, i, em) = (c', accounts', i', em')"
  shows "\<exists>new. em' = em @ new \<and> i' = i + of_nat (length new) \<and> length new \<le> length rest \<and>
           list_all (\<lambda>ev. ev_event_type ev = Settled) new"
  using assms
proof (induction rest arbitrary: c accounts i em)
  case Nil
  then show ?case by simp
next
  case (Cons pos rest)
  obtain a1 i1 e1 where step: "settle_position e plan pos (accounts, i, em) = (a1, i1, e1)"
    by (metis surj_pair)
  obtain new where new: "e1 = em @ new" "i1 = i + of_nat (length new)" "length new \<le> 1"
    "list_all (\<lambda>ev. ev_event_type ev = Settled) new"
    using settle_position_emits [OF step] by blast
  show ?case
  proof (cases "(c + 1) mod 100 = 0 \<and> env_counting e")
    case True
    with Cons.prems step new show ?thesis by auto
  next
    case False
    then have "accounting_loop e plan rest (c + 1) (a1, i1, e1) = (c', accounts', i', em')"
      using Cons.prems step by auto
    from Cons.IH [OF this] obtain more where
      "em' = e1 @ more" "i' = i1 + of_nat (length more)" "length more \<le> length rest"
      "list_all (\<lambda>ev. ev_event_type ev = Settled) more" by blast
    with new show ?thesis by (intro exI [of _ "new @ more"]) (auto simp: algebra_simps)
  qed
qed

lemma settled_not_trades:
  assumes "list_all (\<lambda>ev. ev_event_type ev = Settled) es"
  shows "filter is_trade_row es = []" "fold trade_index_extend es idx = idx"
  using assms by (induction es arbitrary: idx) (auto simp: is_trade_row_def trade_index_extend_def)

lemma advance_le:
  "unat (i::u64) + n < 2 ^ 64 \<Longrightarrow> m \<le> n \<Longrightarrow> i \<le> i + of_nat m"
  by (simp add: word_le_nat_alt unat_word_ariths unat_of_nat)

lemma log_inv_settled_batch:
  assumes "log_inv s" "list_all (\<lambda>ev. ev_event_type ev = Settled) es"
    "cl_events s' = cl_events s @ es" "cl_leaderboard s' = fold leaderboard_extend es (cl_leaderboard s)"
    "cl_traded_volume s' = cl_traded_volume s" "cl_trade_history s' = cl_trade_history s"
    "cl_next_event_id s \<le> cl_next_event_id s'"
  shows "log_inv s'"
proof (rule log_inv_append [OF assms(1,3,4)])
  show "ev_event_id ev < cl_next_event_id s'" if "ev \<in> set (cl_events s)" "is_trade_row ev" for ev
    using assms(1,7) that by (auto simp: log_inv_def list_all_iff)
  show "sorted (map ev_event_id (filter is_trade_row es))"
    by (simp add: settled_not_trades [OF assms(2)])
  show "cl_next_event_id s \<le> ev_event_id ev \<and> ev_event_id ev < cl_next_event_id s'"
    if "ev \<in> set es" "is_trade_row ev" for ev
    using that assms(2) by (auto simp: list_all_iff is_trade_row_def)
qed (simp add: settled_not_trades [OF assms(2)] assms)

lemma index_settled_frame [simp]:
  "cl_next_event_id (index_settled_events es s) = cl_next_event_id s"
  "cl_traded_volume (index_settled_events es s) = cl_traded_volume s"
  "cl_trade_history (index_settled_events es s) = cl_trade_history s"
  "cl_leaderboard (index_settled_events es s) = fold leaderboard_extend es (cl_leaderboard s)"
  by (simp_all add: index_settled_events_def)

lemma log_inv_accounting:
  assumes "apply_settlement_accounting_logic e plan s = (newly, plan', s')" "log_inv s"
    "unat (cl_next_event_id s) + length (spl_positions plan) < 2 ^ 64"
  shows "log_inv s'"
proof -
  obtain c a i em where loop: "accounting_loop e plan
      (drop (spl_accounting_cursor plan) (spl_positions plan)) (spl_accounting_cursor plan)
      (cl_accounts s, cl_next_event_id s, []) = (c, a, i, em)"
    by (metis surj_pair)
  from accounting_loop_emits [OF loop] have em: "i = cl_next_event_id s + of_nat (length em)"
    "length em \<le> length (spl_positions plan)" "list_all (\<lambda>ev. ev_event_type ev = Settled) em" by auto
  show ?thesis
    using assms(1) loop em advance_le [OF assms(3) em(2)]
    by (intro log_inv_settled_batch [OF assms(2) em(3)])
      (auto simp: apply_settlement_accounting_logic_def Let_def split: if_splits)
qed

definition plans_within :: "nat \<Rightarrow> clearing \<Rightarrow> bool" where
  "plans_within n s =
     (length (cl_positions s) \<le> n \<and>
      list_all (\<lambda>(_, p). length (spl_positions p) \<le> n) (cl_settlement_plans s))"

end
