(* ===== verification/SettlementFacts.thy ===== *)
theory SettlementFacts
  imports EventLog
begin

text \<open>
  Facts about the settlement of a series (\<open>api/settlement/api.rs\<close>): what the plan snapshots, what
  the preparation removes from the books, and the accounting loop as one fold over the positions
  however it is cut into chunks.
\<close>

section \<open>The snapshot\<close>

definition in_series :: "series_id \<Rightarrow> position_key \<times> position \<Rightarrow> bool" where
  "in_series sid kp = (fst (snd (fst kp)) = sid)"

lemma in_series_simp [simp]: "in_series sid ((u, sid', oid), pos) = (sid' = sid)"
  by (simp add: in_series_def)

text \<open>A line of the plan against the position it was taken from.\<close>

definition snapshot_of ::
  "series \<Rightarrow> settlement_input \<Rightarrow> u16 \<Rightarrow> u16 \<Rightarrow> position_key \<times> position \<Rightarrow> settlement_position \<Rightarrow> bool"
where
  "snapshot_of ser st ir pr kp sp =
     (case kp of ((u, sid, oid), pos) \<Rightarrow>
        spos_user sp = u \<and> spos_outcome_id sp = oid \<and> spos_net_qty sp = pos_net_qty pos \<and>
        spos_reserved_margin_usd sp = pos_reserved_margin_usd pos \<and>
        (\<exists>payoff. get_settlement_value ser pos st = Ok payoff \<and>
           spos_cashflow_usd sp =
             payoff - pos_reserved_margin_usd pos - calculate_settlement_fee payoff ir
               - calculate_settlement_fee payoff pr))"

lemma gather_positions_snapshot:
  assumes "gather_positions ser sid st ir pr m tot results = Ok (tot', ps)"
  shows "\<exists>new. ps = results @ new \<and> list_all2 (snapshot_of ser st ir pr) (filter (in_series sid) m) new"
  using assms
proof (induction ser sid st ir pr m tot results rule: gather_positions.induct)
  case (1 ser sid st ir pr tot results)
  then show ?case by simp
next
  case (2 ser series_id st ir pr u sid oid pos rest tot results)
  show ?case
  proof (cases "sid = series_id")
    case False
    with 2 show ?thesis by simp
  next
    case True
    with 2(3) obtain payoff where payoff: "get_settlement_value ser pos st = Ok payoff"
      by (auto split: result.splits)
    define sp where "sp = \<lparr> spos_user = u, spos_outcome_id = oid, spos_net_qty = pos_net_qty pos,
      spos_reserved_margin_usd = pos_reserved_margin_usd pos,
      spos_cashflow_usd = cashflow_of payoff (pos_reserved_margin_usd pos)
        (calculate_settlement_fee payoff ir) (calculate_settlement_fee payoff pr) \<rparr>"
    have "\<exists>new. ps = (results @ [sp]) @ new \<and>
        list_all2 (snapshot_of ser st ir pr) (filter (in_series series_id) rest) new"
      using 2(2) [OF _ payoff refl refl refl] 2(3) True payoff
      by (simp add: Let_def sp_def)
    then obtain new where new: "ps = (results @ [sp]) @ new"
      "list_all2 (snapshot_of ser st ir pr) (filter (in_series series_id) rest) new" by blast
    have "snapshot_of ser st ir pr ((u, sid, oid), pos) sp"
      using payoff by (simp add: snapshot_of_def sp_def cashflow_of_def)
    with new True show ?thesis by (intro exI [of _ "sp # new"]) simp
  qed
qed

section \<open>What the preparation leaves\<close>

lemma remove_positions_get:
  "bt_get (fold (\<lambda>p. bt_remove (spos_user p, sid, spos_outcome_id p)) ps m) k =
     (if k \<in> set (map (\<lambda>p. (spos_user p, sid, spos_outcome_id p)) ps) then None else bt_get m k)"
  by (induction ps arbitrary: m) auto

lemma release_frame [simp]:
  "cl_limit_orders (release_reserved u d v s) = cl_limit_orders s"
  "cl_positions (release_reserved u d v s) = cl_positions s"
  "cl_settlement_plans (release_reserved u d v s) = cl_settlement_plans s"
  "cl_events (release_reserved u d v s) = cl_events s"
  "cl_next_event_id (release_reserved u d v s) = cl_next_event_id s"
  "cl_leaderboard (release_reserved u d v s) = cl_leaderboard s"
  "cl_traded_volume (release_reserved u d v s) = cl_traded_volume s"
  "cl_trade_history (release_reserved u d v s) = cl_trade_history s"
  "cl_collateral_assets (release_reserved u d v s) = cl_collateral_assets s"
  "cl_asset_metrics (release_reserved u d v s) = cl_asset_metrics s"
  "cl_executed_trades (release_reserved u d v s) = cl_executed_trades s"
  by (simp_all add: release_reserved_def put_account_def split: option.splits)

lemma fold_release_frame [simp]:
  "cl_limit_orders (fold (\<lambda>o1. release_reserved (f o1) (g o1) (h o1)) os s) = cl_limit_orders s"
  "cl_positions (fold (\<lambda>o1. release_reserved (f o1) (g o1) (h o1)) os s) = cl_positions s"
  "cl_settlement_plans (fold (\<lambda>o1. release_reserved (f o1) (g o1) (h o1)) os s) = cl_settlement_plans s"
  "cl_events (fold (\<lambda>o1. release_reserved (f o1) (g o1) (h o1)) os s) = cl_events s"
  "cl_next_event_id (fold (\<lambda>o1. release_reserved (f o1) (g o1) (h o1)) os s) = cl_next_event_id s"
  "cl_leaderboard (fold (\<lambda>o1. release_reserved (f o1) (g o1) (h o1)) os s) = cl_leaderboard s"
  "cl_traded_volume (fold (\<lambda>o1. release_reserved (f o1) (g o1) (h o1)) os s) = cl_traded_volume s"
  "cl_trade_history (fold (\<lambda>o1. release_reserved (f o1) (g o1) (h o1)) os s) = cl_trade_history s"
  by (induction os arbitrary: s) simp_all

lemma fold_remove_order:
  "fold (\<lambda>o1. remove_order (fst o1)) os s =
   s\<lparr>cl_limit_orders := fold (\<lambda>o1. bt_remove (fst o1)) os (cl_limit_orders s)\<rparr>"
  by (induction os arbitrary: s) (simp_all add: remove_order_def)

lemma fold_remove_get:
  "bt_get (fold (\<lambda>o1. bt_remove (fst o1)) os m) k =
     (if k \<in> fst ` set os then None else bt_get m k)"
  by (induction os arbitrary: m) auto

lemma cancel_open_frame [simp]:
  "cl_positions (cancel_open_limit_orders sid s) = cl_positions s"
  "cl_settlement_plans (cancel_open_limit_orders sid s) = cl_settlement_plans s"
  "cl_events (cancel_open_limit_orders sid s) = cl_events s"
  "cl_next_event_id (cancel_open_limit_orders sid s) = cl_next_event_id s"
  "cl_leaderboard (cancel_open_limit_orders sid s) = cl_leaderboard s"
  "cl_traded_volume (cancel_open_limit_orders sid s) = cl_traded_volume s"
  "cl_trade_history (cancel_open_limit_orders sid s) = cl_trade_history s"
  by (simp_all add: cancel_open_limit_orders_def Let_def fold_remove_order)

lemma cancel_open_orders_get:
  assumes "bt_inv (cl_limit_orders s)"
  shows "bt_get (cl_limit_orders (cancel_open_limit_orders sid s)) oid =
    (case bt_get (cl_limit_orders s) oid of
       None \<Rightarrow> None | Some o1 \<Rightarrow> if lo_series_id o1 = sid then None else Some o1)"
proof -
  have "oid \<in> fst ` set (filter (\<lambda>o1. lo_series_id (snd o1) = sid) (cl_limit_orders s)) \<longleftrightarrow>
        (\<exists>o1. bt_get (cl_limit_orders s) oid = Some o1 \<and> lo_series_id o1 = sid)"
    using bt_mem [OF assms] by force
  then show ?thesis
    by (auto simp: cancel_open_limit_orders_def Let_def fold_remove_order fold_remove_get
        split: option.splits)
qed

lemma prepare_settlement_Ok:
  assumes "prepare_settlement_impl e ser sid st ir pr s = (Ok plan, s')"
  obtains tot ps where
    "gather_positions ser sid st ir pr (cl_positions s) no_totals [] = Ok (tot, ps)"
    "check_settlement_solvency (ser_balance_domain ser) (tot_net_payoff tot) ps s = Ok ()"
    "(plan, s') = settlement_plan_get_or_create (env_now e)
        \<lparr> spp_series_id = sid, spp_settlement = st, spp_oracle_source = ser_oracle_source ser,
          spp_fee = tot_protocol_fee tot, spp_insurance_fee = tot_insurance_fee tot,
          spp_positions = ps, spp_balance_domain = ser_balance_domain ser \<rparr>
        (cancel_open_limit_orders sid (remove_positions sid ps s))"
  using assms
  by (auto simp: prepare_settlement_impl_def obind_def split: result.splits prod.splits)

lemma prepare_settlement_error:
  "prepare_settlement_impl e ser sid st ir pr s = (r, s') \<Longrightarrow> (\<nexists>plan. r = Ok plan) \<Longrightarrow> s' = s"
  by (auto simp: prepare_settlement_impl_def split: result.splits prod.splits)

lemma settlement_plan_create_frame:
  assumes "settlement_plan_get_or_create now x s = (p, s')"
  shows "s' = s\<lparr>cl_settlement_plans := cl_settlement_plans s'\<rparr>"
  using assms by (auto simp: settlement_plan_get_or_create_def split: prod.splits)

text \<open>The keys of the plan's lines are the keys of the series' positions.\<close>

lemma snapshot_keys:
  "list_all2 (snapshot_of ser st ir pr) kps ps \<Longrightarrow> list_all (in_series sid) kps \<Longrightarrow>
   map (\<lambda>p. (spos_user p, sid, spos_outcome_id p)) ps = map fst kps"
  by (induction rule: list_all2_induct) (auto simp: snapshot_of_def in_series_def)

lemma positions_after_prepare:
  assumes "bt_inv (cl_positions s)"
    and "gather_positions ser sid st ir pr (cl_positions s) tot0 [] = Ok (tot, ps)"
  shows "bt_get (cl_positions (remove_positions sid ps s)) (u, sid', oid) =
    (if sid' = sid then None else bt_get (cl_positions s) (u, sid', oid))"
proof -
  let ?kps = "filter (in_series sid) (cl_positions s)"
  have "list_all2 (snapshot_of ser st ir pr) ?kps ps"
    using gather_positions_snapshot [OF assms(2)] by auto
  moreover have "list_all (in_series sid) ?kps" by (simp add: list_all_iff)
  ultimately have keys: "map (\<lambda>p. (spos_user p, sid, spos_outcome_id p)) ps = map fst ?kps"
    by (rule snapshot_keys)
  have keyset: "(\<lambda>p. (spos_user p, sid, spos_outcome_id p)) ` set ps = fst ` set ?kps"
    using arg_cong [OF keys, of set] by simp
  have "(u, sid', oid) \<in> fst ` set ?kps \<longleftrightarrow> sid' = sid \<and> bt_get (cl_positions s) (u, sid', oid) \<noteq> None"
    using bt_mem [OF assms(1)] by force
  then show ?thesis
    by (auto simp: remove_positions_def remove_positions_get keyset)
qed

section \<open>The accounting, chunk by chunk\<close>

text \<open>What one line of the plan does to the accounts.\<close>

definition book_line ::
  "balance_domain \<Rightarrow> settlement_position \<Rightarrow> (user, account_state) btmap \<Rightarrow> (user, account_state) btmap"
where
  "book_line d pos accounts =
     (case bt_get accounts (spos_user pos) of
        None \<Rightarrow> accounts
      | Some a \<Rightarrow> bt_insert (spos_user pos) (settle_account d pos a) accounts)"

lemma fst_settle_position [simp]:
  "fst (settle_position e plan pos acct) = book_line (spl_balance_domain plan) pos (fst acct)"
  by (auto simp: settle_position_def book_line_def split: prod.splits option.splits)

text \<open>How many lines the loop books before it yields.\<close>

definition chunk_size :: "env \<Rightarrow> nat \<Rightarrow> nat \<Rightarrow> nat" where
  "chunk_size e c n = (if env_counting e then min n (100 - c mod 100) else n)"

lemma accounting_loop_chunk:
  "fst (accounting_loop e plan rest c acct) = c + chunk_size e c (length rest)"
  "fst (snd (accounting_loop e plan rest c acct)) =
     fold (book_line (spl_balance_domain plan)) (take (chunk_size e c (length rest)) rest) (fst acct)"
proof (induction rest arbitrary: c acct)
  case Nil
  { case 1 then show ?case by (simp add: chunk_size_def) }
  { case 2 then show ?case by simp }
next
  case (Cons pos rest)
  have chunk: "chunk_size e c (length (pos # rest)) =
    (if (c + 1) mod 100 = 0 \<and> env_counting e then 1 else Suc (chunk_size e (c + 1) (length rest)))" for c
    using mod_less_divisor [of 100 c] by (auto simp: chunk_size_def mod_Suc min_def)
  { case 1 show ?case by (simp add: Cons.IH(1) chunk del: list.size) }
  { case 2 show ?case by (simp add: Cons.IH(2) chunk del: list.size) }
qed

lemma chunk_size_le: "chunk_size e c n \<le> n"
  by (simp add: chunk_size_def)

text \<open>A call that does not reach the end stops at the next multiple of 100.\<close>

lemma chunk_short:
  assumes "chunk_size e c n < n"
  shows "(c + chunk_size e c n) div 100 = c div 100 + 1"
proof -
  have "chunk_size e c n = 100 - c mod 100"
    using assms by (auto simp: chunk_size_def min_def split: if_splits)
  moreover have "c mod 100 + (100 - c mod 100) = 100"
    using mod_less_divisor [of 100 c] by (intro le_add_diff_inverse) simp
  moreover have "c + (100 - c mod 100) = 100 * (c div 100) + (c mod 100 + (100 - c mod 100))"
    by (simp only: add.assoc [symmetric] mult_div_mod_eq)
  ultimately have "c + (100 - c mod 100) = 100 * (c div 100 + 1)" "chunk_size e c n = 100 - c mod 100"
    by (simp_all only: distrib_left)
  then show ?thesis by simp
qed

text \<open>A settlement under way: its plan is stored, and agrees with the request.\<close>

definition under_way :: "clearing \<Rightarrow> settle_series_params \<Rightarrow> settlement_plan \<Rightarrow> bool" where
  "under_way s x plan =
     (bt_get (cl_settlement_plans s) (sse_series_id x) = Some plan \<and>
      spl_settlement plan = sse_settlement x \<and> spl_status plan \<noteq> Finalised \<and>
      \<not> spl_accounting_applied plan \<and> spl_accounting_cursor plan \<le> length (spl_positions plan))"

lemma build_or_resume_under_way:
  "under_way s x plan \<Longrightarrow> build_or_resume e x s = (Ok plan, s)"
  by (auto simp: under_way_def build_or_resume_def)

lemma credit_fees_frame [simp]:
  "cl_accounts (credit_fees plan s) = cl_accounts s"
  "cl_settlement_plans (credit_fees plan s) = cl_settlement_plans s"
  "cl_events (credit_fees plan s) = cl_events s"
  "cl_next_event_id (credit_fees plan s) = cl_next_event_id s"
  "cl_leaderboard (credit_fees plan s) = cl_leaderboard s"
  "cl_traded_volume (credit_fees plan s) = cl_traded_volume s"
  "cl_trade_history (credit_fees plan s) = cl_trade_history s"
  by (simp_all add: credit_fees_def Let_def)

lemma store_plan_frame [simp]:
  "cl_accounts (store_settlement_plan sid plan s) = cl_accounts s"
  "cl_events (store_settlement_plan sid plan s) = cl_events s"
  "cl_next_event_id (store_settlement_plan sid plan s) = cl_next_event_id s"
  "cl_leaderboard (store_settlement_plan sid plan s) = cl_leaderboard s"
  "cl_traded_volume (store_settlement_plan sid plan s) = cl_traded_volume s"
  "cl_trade_history (store_settlement_plan sid plan s) = cl_trade_history s"
  "cl_treasury (store_settlement_plan sid plan s) = cl_treasury s"
  "cl_insurance_fund (store_settlement_plan sid plan s) = cl_insurance_fund s"
  "cl_config (store_settlement_plan sid plan s) = cl_config s"
  "bt_get (cl_settlement_plans (store_settlement_plan sid plan s)) k =
     (if k = sid then Some plan else bt_get (cl_settlement_plans s) k)"
  by (simp_all add: store_settlement_plan_def)

lemma apply_accounting_chunk:
  assumes "apply_settlement_accounting_logic e plan s = (newly, plan', s')"
  defines "c \<equiv> spl_accounting_cursor plan"
  defines "k \<equiv> chunk_size e c (length (spl_positions plan) - c)"
  shows "cl_accounts s' = fold (book_line (spl_balance_domain plan))
           (take k (drop c (spl_positions plan))) (cl_accounts s)"
    and "newly = (c + k = length (spl_positions plan) \<and> \<not> spl_accounting_applied plan)"
    and "plan' = plan\<lparr>spl_accounting_cursor := c + k,
           spl_accounting_applied := (spl_accounting_applied plan \<or> newly)\<rparr>"
    and "cl_settlement_plans s' = cl_settlement_plans s" and "cl_treasury s' = cl_treasury s"
    and "cl_insurance_fund s' = cl_insurance_fund s" and "cl_config s' = cl_config s"
  using assms accounting_loop_chunk [of e plan "drop c (spl_positions plan)" c
      "(cl_accounts s, cl_next_event_id s, [])"]
  by (auto simp: apply_settlement_accounting_logic_def Let_def index_settled_events_def
      split: prod.splits if_splits)

text \<open>One call, by where the chunk ends.\<close>

lemma settle_step:
  assumes "under_way s x plan" "settle_series_inner e x s = (r, s')"
  defines "c \<equiv> spl_accounting_cursor plan"
  defines "k \<equiv> chunk_size e c (length (spl_positions plan) - c)"
  shows "cl_accounts s' = fold (book_line (spl_balance_domain plan))
           (take k (drop c (spl_positions plan))) (cl_accounts s)"
    and "c + k = length (spl_positions plan) \<Longrightarrow>
         r = Ok SettleDone \<and>
         bt_get (cl_settlement_plans s') (sse_series_id x) =
           Some (plan\<lparr>spl_accounting_cursor := c + k, spl_accounting_applied := True,
                       spl_status := Finalised\<rparr>) \<and>
         cl_treasury s' = cl_treasury (credit_fees plan s) \<and>
         cl_insurance_fund s' = cl_insurance_fund (credit_fees plan s) \<and>
         bt_get (cl_series s') (sse_series_id x) = None"
    and "c + k < length (spl_positions plan) \<Longrightarrow>
         r = Ok SettleProcessing \<and>
         under_way s' x (plan\<lparr>spl_accounting_cursor := c + k, spl_status := Executing\<rparr>) \<and>
         cl_treasury s' = cl_treasury s \<and> cl_insurance_fund s' = cl_insurance_fund s"
proof -
  let ?plan = "if spl_status plan = Planned then plan\<lparr>spl_status := Executing\<rparr> else plan"
  have exec: "?plan = plan\<lparr>spl_status := Executing\<rparr>"
    using assms(1) by (cases "spl_status plan") (auto simp: under_way_def)
  obtain newly plan' s1 where app:
    "apply_settlement_accounting_logic e (plan\<lparr>spl_status := Executing\<rparr>) s = (newly, plan', s1)"
    by (metis surj_pair)
  note chunk = apply_accounting_chunk [OF app, simplified, folded c_def, folded k_def]
  have run: "account_chunk e (sse_series_id x) plan s =
      (plan', if newly then credit_fees plan' (store_settlement_plan (sse_series_id x) plan' s1)
              else store_settlement_plan (sse_series_id x) plan' s1)"
    using assms(1) app exec by (simp add: account_chunk_def under_way_def Let_def)
  have pending: "spl_status plan \<noteq> Finalised" "\<not> spl_accounting_applied plan"
    "spl_settlement plan = sse_settlement x"
    using assms(1) by (auto simp: under_way_def)
  have inner: "settle_series_inner e x s =
    (if spl_accounting_applied plan' then
       (Ok SettleDone,
        (store_settlement_plan (sse_series_id x) (plan'\<lparr>spl_status := Finalised\<rparr>)
           (snd (account_chunk e (sse_series_id x) plan s)))
          \<lparr>cl_series := bt_remove (sse_series_id x)
             (cl_series (snd (account_chunk e (sse_series_id x) plan s)))\<rparr>)
     else (Ok SettleProcessing, snd (account_chunk e (sse_series_id x) plan s)))"
    using build_or_resume_under_way [OF assms(1), of e] run pending
    by (auto simp: settle_series_inner_def)
  show "cl_accounts s' = fold (book_line (spl_balance_domain plan))
           (take k (drop c (spl_positions plan))) (cl_accounts s)"
    using assms(2) inner run chunk(1) by (auto split: if_splits)
  show "r = Ok SettleDone \<and>
         bt_get (cl_settlement_plans s') (sse_series_id x) =
           Some (plan\<lparr>spl_accounting_cursor := c + k, spl_accounting_applied := True,
                       spl_status := Finalised\<rparr>) \<and>
         cl_treasury s' = cl_treasury (credit_fees plan s) \<and>
         cl_insurance_fund s' = cl_insurance_fund (credit_fees plan s) \<and>
         bt_get (cl_series s') (sse_series_id x) = None"
    if "c + k = length (spl_positions plan)"
    using assms(2) inner run chunk pending that
    by (auto simp: credit_fees_def get_internal_asset_id_def Let_def)
  show "r = Ok SettleProcessing \<and>
         under_way s' x (plan\<lparr>spl_accounting_cursor := c + k, spl_status := Executing\<rparr>) \<and>
         cl_treasury s' = cl_treasury s \<and> cl_insurance_fund s' = cl_insurance_fund s"
    if "c + k < length (spl_positions plan)"
    using assms(2) inner run chunk pending that by (auto simp: under_way_def)
qed

lemma settle_finalised:
  "bt_get (cl_settlement_plans s) (sse_series_id x) = Some plan \<Longrightarrow> spl_status plan = Finalised \<Longrightarrow>
   settle_series_inner e x s = (Ok SettleDone, s)"
  by (simp add: settle_series_inner_def build_or_resume_def)

text \<open>The calls of the timer chain, one after the other.\<close>

definition settle_calls :: "env list \<Rightarrow> settle_series_params \<Rightarrow> clearing \<Rightarrow> clearing" where
  "settle_calls es x s = fold (\<lambda>e s. snd (settle_series_inner e x s)) es s"

lemma settle_calls_finalised:
  "bt_get (cl_settlement_plans s) (sse_series_id x) = Some plan \<Longrightarrow> spl_status plan = Finalised \<Longrightarrow>
   settle_calls es x s = s"
  by (induction es) (simp_all add: settle_calls_def settle_finalised)

lemma settle_calls_complete:
  assumes "under_way s x plan"
    and "length (spl_positions plan) div 100 - spl_accounting_cursor plan div 100 < length es"
  shows "cl_accounts (settle_calls es x s) =
           fold (book_line (spl_balance_domain plan))
             (drop (spl_accounting_cursor plan) (spl_positions plan)) (cl_accounts s) \<and>
         (\<exists>p. bt_get (cl_settlement_plans (settle_calls es x s)) (sse_series_id x) = Some p \<and>
              spl_status p = Finalised \<and> spl_positions p = spl_positions plan)"
  using assms
proof (induction es arbitrary: s plan)
  case Nil
  then show ?case by simp
next
  case (Cons e es)
  let ?c = "spl_accounting_cursor plan" and ?n = "length (spl_positions plan)"
  let ?k = "chunk_size e ?c (?n - ?c)"
  obtain r s' where call: "settle_series_inner e x s = (r, s')" by (metis surj_pair)
  note step = settle_step [OF Cons.prems(1) call]
  have calls: "settle_calls (e # es) x s = settle_calls es x s'"
    by (simp add: settle_calls_def call)
  have le: "?c \<le> ?n" "?c + ?k \<le> ?n"
    using Cons.prems(1) chunk_size_le [of e ?c "?n - ?c"] by (auto simp: under_way_def)
  show ?case
  proof (cases "?c + ?k = ?n")
    case True
    then have "?k = length (drop ?c (spl_positions plan))" by simp
    with step(1,2) True show ?thesis
      by (auto simp: calls settle_calls_finalised)
  next
    case False
    then have short: "?c + ?k < ?n" using le by simp
    let ?plan = "plan\<lparr>spl_accounting_cursor := ?c + ?k, spl_status := Executing\<rparr>"
    have div: "(?c + ?k) div 100 = ?c div 100 + 1"
      using chunk_short [of e ?c "?n - ?c"] short by simp
    moreover have "(?c + ?k) div 100 \<le> ?n div 100"
      using le by (intro div_le_mono) simp
    ultimately have "?n div 100 - (?c + ?k) div 100 < length es" using Cons.prems(2) by (simp, linarith)
    moreover have "drop ?c (spl_positions plan) =
        take ?k (drop ?c (spl_positions plan)) @ drop (?c + ?k) (spl_positions plan)"
      by (metis append_take_drop_id drop_drop add.commute)
    ultimately show ?thesis
      using Cons.IH [of s' ?plan] step(1) step(3) [OF short]
      by (simp add: calls) (metis fold_append comp_apply)
  qed
qed

section \<open>The log through a settlement\<close>

lemma prepare_settlement_log:
  assumes "prepare_settlement_impl e ser sid st ir pr s = (Ok plan, s')" "plans_within n s"
  shows "cl_events s' = cl_events s" "cl_next_event_id s' = cl_next_event_id s"
    "cl_leaderboard s' = cl_leaderboard s" "cl_traded_volume s' = cl_traded_volume s"
    "cl_trade_history s' = cl_trade_history s" "length (spl_positions plan) \<le> n"
proof -
  obtain tot ps where gather:
      "gather_positions ser sid st ir pr (cl_positions s) no_totals [] = Ok (tot, ps)"
    and create: "(plan, s') = settlement_plan_get_or_create (env_now e)
        \<lparr> spp_series_id = sid, spp_settlement = st, spp_oracle_source = ser_oracle_source ser,
          spp_fee = tot_protocol_fee tot, spp_insurance_fee = tot_insurance_fee tot,
          spp_positions = ps, spp_balance_domain = ser_balance_domain ser \<rparr>
        (cancel_open_limit_orders sid (remove_positions sid ps s))"
    using assms(1) by (rule prepare_settlement_Ok)
  have frame: "s' = (cancel_open_limit_orders sid (remove_positions sid ps s))
      \<lparr>cl_settlement_plans := cl_settlement_plans s'\<rparr>"
    using create [symmetric] by (rule settlement_plan_create_frame)
  show "cl_events s' = cl_events s" "cl_next_event_id s' = cl_next_event_id s"
    "cl_leaderboard s' = cl_leaderboard s" "cl_traded_volume s' = cl_traded_volume s"
    "cl_trade_history s' = cl_trade_history s"
    by (subst frame, simp add: remove_positions_def)+
  have "length ps = length (filter (in_series sid) (cl_positions s))"
    using gather_positions_snapshot [OF gather] by (auto dest: list_all2_lengthD)
  also have "\<dots> \<le> n"
    using assms(2) length_filter_le [of "in_series sid" "cl_positions s"]
    unfolding plans_within_def by linarith
  finally have "length ps \<le> n" .
  moreover have "length (spl_positions q) \<le> n" if "bt_get (cl_settlement_plans s) k = Some q" for k q
    using assms(2) bt_get_mem [OF that] by (auto simp: plans_within_def list_all_iff)
  ultimately show "length (spl_positions plan) \<le> n"
    using create by (auto simp: settlement_plan_get_or_create_def get_or_create_def
        remove_positions_def split: option.splits)
qed

lemma build_or_resume_log:
  assumes "build_or_resume e x s = (r, s')" "plans_within n s"
  shows "cl_events s' = cl_events s" "cl_next_event_id s' = cl_next_event_id s"
    "cl_leaderboard s' = cl_leaderboard s" "cl_traded_volume s' = cl_traded_volume s"
    "cl_trade_history s' = cl_trade_history s" "r = Ok plan \<Longrightarrow> length (spl_positions plan) \<le> n"
proof -
  have stored: "length (spl_positions q) \<le> n" if "bt_get (cl_settlement_plans s) k = Some q" for k q
    using assms(2) bt_get_mem [OF that] by (auto simp: plans_within_def list_all_iff)
  have "s' = s \<and> (\<forall>plan. r = Ok plan \<longrightarrow> length (spl_positions plan) \<le> n) \<or>
     (\<exists>ser ir pr plan. prepare_settlement_impl e ser (sse_series_id x) (sse_settlement x) ir pr s
        = (Ok plan, s') \<and> r = Ok plan)"
    using assms(1) stored
    by (cases r)
      (auto simp: build_or_resume_def dest: prepare_settlement_error split: option.splits if_splits)
  then show "cl_events s' = cl_events s" "cl_next_event_id s' = cl_next_event_id s"
    "cl_leaderboard s' = cl_leaderboard s" "cl_traded_volume s' = cl_traded_volume s"
    "cl_trade_history s' = cl_trade_history s" "r = Ok plan \<Longrightarrow> length (spl_positions plan) \<le> n"
    using prepare_settlement_log [OF _ assms(2)] by auto
qed

lemma log_inv_settle_series:
  assumes "settle_series_inner e x s = (r, s')" "log_inv s" "plans_within n s"
    "unat (cl_next_event_id s) + n < 2 ^ 64"
  shows "log_inv s'"
proof -
  obtain r1 s1 where build: "build_or_resume e x s = (r1, s1)" by (metis surj_pair)
  note log = build_or_resume_log [OF build assms(3)]
  have inv1: "log_inv s1" using log_inv_cong [of s1 s] log assms(2) by simp
  show ?thesis
  proof (cases r1)
    case (Ok plan)
    let ?plan = "if spl_status plan = Planned then plan\<lparr>spl_status := Executing\<rparr> else plan"
    obtain newly plan' s2 where app:
      "apply_settlement_accounting_logic e ?plan s1 = (newly, plan', s2)" by (metis surj_pair)
    have len: "length (spl_positions plan) \<le> n" using log(6) Ok by simp
    have inv2: "log_inv s2"
      using log_inv_accounting [OF app inv1] len log(2) assms(4) by (simp split: if_splits)
    obtain plan2 s3 where chunk: "account_chunk e (sse_series_id x) plan s1 = (plan2, s3)"
      by (metis surj_pair)
    have inv3: "log_inv s3"
      using chunk app inv1 inv2 log_inv_cong [of s3 s2]
      by (auto simp: account_chunk_def Let_def split: if_splits)
    have "s' = s1 \<or> s' = s3 \<or> s' = (store_settlement_plan (sse_series_id x)
        (plan2\<lparr>spl_status := Finalised\<rparr>) s3)\<lparr>cl_series := bt_remove (sse_series_id x) (cl_series s3)\<rparr>"
      using assms(1) build Ok chunk
      by (auto simp: settle_series_inner_def store_settlement_plan_def split: if_splits)
    then show ?thesis
      using inv1 inv3 log_inv_cong [of s' s3] by (auto simp: store_settlement_plan_def)
  qed (use assms(1) build inv1 in \<open>auto simp: settle_series_inner_def\<close>)
qed

section \<open>The cash that a settlement moves\<close>

definition total_cash :: "balance_domain \<Rightarrow> (user, account_state) btmap \<Rightarrow> i128" where
  "total_cash d accounts = bt_total (\<lambda>_ a. get_cash_balance_usd a d) accounts"

lemma book_line_keys:
  "bt_get accounts u \<noteq> None \<Longrightarrow> bt_get (book_line d pos accounts) u \<noteq> None"
  by (auto simp: book_line_def split: option.splits)

lemma book_line_inv: "bt_inv accounts \<Longrightarrow> bt_inv (book_line d pos accounts)"
  by (auto simp: book_line_def split: option.splits)

lemma total_cash_book_line:
  assumes "bt_inv accounts" "bt_get accounts (spos_user pos) = Some a"
  shows "total_cash d (book_line d pos accounts) = total_cash d accounts + spos_cashflow_usd pos"
  using bt.total_put [OF assms(1), of "\<lambda>_ a. get_cash_balance_usd a d" "spos_user pos"
      "settle_account d pos a"] assms(2)
  by (simp add: total_cash_def book_line_def settle_account_def Let_def algebra_simps)

lemma total_cash_book:
  assumes "bt_inv accounts" "list_all (\<lambda>pos. bt_get accounts (spos_user pos) \<noteq> None) ps"
  shows "total_cash d (fold (book_line d) ps accounts) =
         total_cash d accounts + sum_list (map spos_cashflow_usd ps)"
  using assms
proof (induction ps arbitrary: accounts)
  case Nil
  then show ?case by simp
next
  case (Cons pos ps)
  obtain a where a: "bt_get accounts (spos_user pos) = Some a" using Cons.prems by auto
  have "list_all (\<lambda>p. bt_get (book_line d pos accounts) (spos_user p) \<noteq> None) ps"
    using Cons.prems(2) book_line_keys by (simp add: list_all_iff)
  then show ?case
    using Cons.IH [OF book_line_inv [OF Cons.prems(1)]] total_cash_book_line [OF Cons.prems(1) a, of d]
    by (simp add: add.assoc)
qed

end
