(* ===== verification/SettlementSamples.thy ===== *)
theory SettlementSamples
  imports Settlements Samples
begin

text \<open>
  A settlement at which the theorems are applied: the series \<open>bin\<close> of the sample books after a
  trade between Alice and Bob, its plan, and the state in which it has been prepared.
\<close>

definition settle0 :: settle_series_params where
  "settle0 = \<lparr> sse_series_id = ''bin'', sse_settlement = Price (price_new 10000 4) \<rparr>"

definition plan1 :: settlement_plan where
  "plan1 = \<lparr> spl_series_id = ''bin'', spl_settlement = Price (price_new 10000 4),
     spl_oracle_source = ''oracle'', spl_fee_usd = 50, spl_insurance_fee_usd = 100,
     spl_positions =
       [\<lparr> spos_user = alice, spos_outcome_id = None, spos_net_qty = 10,
          spos_reserved_margin_usd = 90000, spos_cashflow_usd = 9850 \<rparr>,
        \<lparr> spos_user = bob, spos_outcome_id = None, spos_net_qty = - 10,
          spos_reserved_margin_usd = 10000, spos_cashflow_usd = - 10000 \<rparr>],
     spl_accounting_cursor = 0, spl_accounting_applied = False, spl_status = Planned,
     spl_idempotency_ns = IcrcCreatedAtTimeNs 1000, spl_balance_domain = Settlement \<rparr>"

definition state2 :: clearing where
  "state2 = snd (prepare_settlement_impl env0 binary0 ''bin'' (Price (price_new 10000 4)) 10 5 state1)"

text \<open>What the sample books hold, computed once.\<close>

lemma sample_books:
  "(fst (prepare_settlement_impl env0 binary0 ''bin'' (Price (price_new 10000 4)) 10 5 state1) = Ok plan1 \<and>
    cl_settlement_plans state1 = [] \<and> bt_inv (cl_positions state1) \<and> cl_limit_orders state1 = [] \<and>
    length (cl_positions state1) = 2 \<and> cl_next_event_id state0 = 0 \<and> etp_qty trade1 = 10 \<and>
    list_all (\<lambda>(k, pos). \<bar>sint (pos_net_qty pos)\<bar> < 1000 \<and> uint (pos_reserved_margin_usd pos) < 100000)
      (cl_positions state1)) \<and>
   (cl_positions state2 = [] \<and> cl_settlement_plans state2 = [(''bin'', plan1)] \<and> cl_limit_orders state2 = [] \<and>
    cl_accepted_transfers state2 = [] \<and> cl_next_event_id state2 = 1 \<and> bt_inv (cl_accounts state2) \<and>
    map fst (cl_accounts state2) = [alice, bob])"
  unfolding bt_inv_def by code_simp

lemma prepare1:
  "prepare_settlement_impl env0 binary0 ''bin'' (Price (price_new 10000 4)) 10 5 state1 = (Ok plan1, state2)"
  using sample_books by (simp add: state2_def prod_eq_iff)

lemma state1_tables:
  "cl_settlement_plans state1 = []" "bt_inv (cl_positions state1)" "cl_limit_orders state1 = []"
  "length (cl_positions state1) = 2"
  "list_all (\<lambda>(k, pos). \<bar>sint (pos_net_qty pos)\<bar> < 1000 \<and> uint (pos_reserved_margin_usd pos) < 100000)
     (cl_positions state1)"
  using sample_books by blast+

lemma trade1_fits: "0 < sint (etp_qty trade1)" "cl_next_event_id state0 + 1 \<noteq> 0"
  using sample_books by simp_all

lemma state2_tables:
  "cl_settlement_plans state2 = [(''bin'', plan1)]" "cl_limit_orders state2 = []"
  "cl_accepted_transfers state2 = []" "cl_next_event_id state2 = 1" "bt_inv (cl_accounts state2)"
  "cl_positions state2 = []"
  using sample_books by blast+

lemma state2_users [simp]:
  "\<exists>a. bt_get (cl_accounts state2) alice = Some a" "\<exists>a. bt_get (cl_accounts state2) bob = Some a"
proof -
  have "map fst (cl_accounts state2) = [alice, bob]" using sample_books by blast
  then have "alice \<in> fst ` set (cl_accounts state2)" "bob \<in> fst ` set (cl_accounts state2)"
    by (metis list.set_intros(1) list.set_intros(2) list.set_map)+
  then show "\<exists>a. bt_get (cl_accounts state2) alice = Some a" "\<exists>a. bt_get (cl_accounts state2) bob = Some a"
    unfolding bt_get_def by (metis map_of_eq_None_iff not_None_eq)+
qed

end
