(* ===== verification/SettlementProperties.thy ===== *)
theory SettlementProperties
  imports SettlementFacts SettlementSamples
begin

text \<open>
  The properties of the settlement of a series: closing the books, the chunked accounting, the
  cash it moves, and the gates that keep a settled series closed.
\<close>

section \<open>Closing the books\<close>

text \<open>
  C3. Preparing the settlement of a series closes its books: afterwards no position and no open
  order of the series is left, every other position and order is as before, and the plan has
  exactly one line for each position of the series, in key order, with its quantity, its booked
  margin and the cashflow payoff minus margin minus insurance fee minus protocol fee.
\<close>

theorem settlement_closes_books:
  assumes "prepare_settlement_impl e ser sid st ir pr s = (Ok plan, s')"
    and "bt_get (cl_settlement_plans s) sid = None"
    and "bt_inv (cl_positions s)" and "bt_inv (cl_limit_orders s)"
  shows "(\<forall>u sid' oid. bt_get (cl_positions s') (u, sid', oid) =
            (if sid' = sid then None else bt_get (cl_positions s) (u, sid', oid))) \<and>
         (\<forall>k. bt_get (cl_limit_orders s') k =
            (case bt_get (cl_limit_orders s) k of
               None \<Rightarrow> None | Some o1 \<Rightarrow> if lo_series_id o1 = sid then None else Some o1)) \<and>
         list_all2 (snapshot_of ser st ir pr) (filter (in_series sid) (cl_positions s))
           (spl_positions plan) \<and>
         spl_accounting_cursor plan = 0 \<and> bt_get (cl_settlement_plans s') sid = Some plan"
proof -
  obtain tot ps where gather:
      "gather_positions ser sid st ir pr (cl_positions s) no_totals [] = Ok (tot, ps)"
    and create: "(plan, s') = settlement_plan_get_or_create (env_now e)
        \<lparr> spp_series_id = sid, spp_settlement = st, spp_oracle_source = ser_oracle_source ser,
          spp_fee = tot_protocol_fee tot, spp_insurance_fee = tot_insurance_fee tot,
          spp_positions = ps, spp_balance_domain = ser_balance_domain ser \<rparr>
        (cancel_open_limit_orders sid (remove_positions sid ps s))"
    using assms(1) by (rule prepare_settlement_Ok)
  have fresh: "bt_get (cl_settlement_plans (remove_positions sid ps s)) sid = None"
    "bt_inv (cl_limit_orders (remove_positions sid ps s))"
    "cl_limit_orders (remove_positions sid ps s) = cl_limit_orders s"
    using assms by (simp_all add: remove_positions_def)
  have after: "cl_positions s' = cl_positions (remove_positions sid ps s)"
    "cl_limit_orders s' = cl_limit_orders (cancel_open_limit_orders sid (remove_positions sid ps s))"
    "spl_positions plan = ps" "spl_accounting_cursor plan = 0"
    "bt_get (cl_settlement_plans s') sid = Some plan"
    using create fresh(1)
    by (auto simp: settlement_plan_get_or_create_def get_or_create_def split: option.splits)
  show ?thesis
    using gather_positions_snapshot [OF gather] positions_after_prepare [OF assms(3) gather]
      cancel_open_orders_get [OF fresh(2)] after fresh(3) by auto
qed

lemma settlement_closes_books_witness:
  "bt_get (cl_positions state2) (alice, ''bin'', None) = None \<and>
   list_all2 (snapshot_of binary0 (Price (price_new 10000 4)) 10 5)
     (filter (in_series ''bin'') (cl_positions state1)) (spl_positions plan1)"
proof -
  have "bt_get (cl_settlement_plans state1) ''bin'' = None" by (simp add: state1_tables)
  moreover have "bt_inv (cl_positions state1)" by (rule state1_tables)
  moreover have "bt_inv (cl_limit_orders state1)" by (simp add: state1_tables)
  ultimately show ?thesis
    using settlement_closes_books [OF prepare1] by simp
qed

section \<open>The accounting\<close>

text \<open>
  C2. The accounting of a settlement completes, and books every line of the plan exactly once:
  from any cursor, as many calls as there are chunks of 100 lines left (and one more) bring the
  plan to its final status, and the accounts are then those that one pass over the remaining
  lines gives, however the calls were cut by the instruction counter.
\<close>

theorem settlement_completes:
  assumes "under_way s x plan"
    and "length (spl_positions plan) div 100 - spl_accounting_cursor plan div 100 < length es"
  shows "cl_accounts (settle_calls es x s) =
           fold (book_line (spl_balance_domain plan))
             (drop (spl_accounting_cursor plan) (spl_positions plan)) (cl_accounts s) \<and>
         (\<exists>p. bt_get (cl_settlement_plans (settle_calls es x s)) (sse_series_id x) = Some p \<and>
              spl_status p = Finalised \<and> spl_positions p = spl_positions plan)"
  by (rule settle_calls_complete [OF assms])

lemma under_way2: "under_way state2 settle0 plan1"
  by (simp add: under_way_def state2_tables settle0_def plan1_def bt_get_def)

lemma settlement_completes_witness:
  "cl_accounts (settle_calls [env0] settle0 state2) =
     fold (book_line Settlement) (spl_positions plan1) (cl_accounts state2)"
proof -
  have "length (spl_positions plan1) div 100 - spl_accounting_cursor plan1 div 100 < length [env0]"
    by (simp add: plan1_def)
  from settlement_completes [OF under_way2 this] show ?thesis by (simp add: plan1_def)
qed

text \<open>
  C15. The accounting moves exactly the plan's cash: when it has completed, the cash of all accounts
  in the plan's domain together has changed by the sum of the cashflows of the lines booked, and
  by nothing else, provided that every line's user has an account.
\<close>

theorem settlement_moves_cash:
  assumes "under_way s x plan" and "bt_inv (cl_accounts s)"
    and "list_all (\<lambda>pos. bt_get (cl_accounts s) (spos_user pos) \<noteq> None)
           (drop (spl_accounting_cursor plan) (spl_positions plan))"
    and "length (spl_positions plan) div 100 - spl_accounting_cursor plan div 100 < length es"
  shows "total_cash (spl_balance_domain plan) (cl_accounts (settle_calls es x s)) =
         total_cash (spl_balance_domain plan) (cl_accounts s) +
         sum_list (map spos_cashflow_usd (drop (spl_accounting_cursor plan) (spl_positions plan)))"
  using settle_calls_complete [OF assms(1,4)] total_cash_book [OF assms(2,3)] by simp

lemma settlement_moves_cash_witness:
  "total_cash Settlement (cl_accounts (settle_calls [env0] settle0 state2)) =
   total_cash Settlement (cl_accounts state2) + (9850 - 10000)"
proof -
  have inv: "bt_inv (cl_accounts state2)" by (rule state2_tables)
  have users: "list_all (\<lambda>pos. bt_get (cl_accounts state2) (spos_user pos) \<noteq> None)
      (drop (spl_accounting_cursor plan1) (spl_positions plan1))" by (simp add: plan1_def)
  have calls: "length (spl_positions plan1) div 100 - spl_accounting_cursor plan1 div 100 < length [env0]"
    by (simp add: plan1_def)
  from settlement_moves_cash [OF under_way2 inv users calls] show ?thesis by (simp add: plan1_def)
qed

section \<open>After the settlement\<close>

text \<open>
  C16. A settlement is final and consistent: once its plan is finalised, every further call answers
  that it is done and changes nothing, with the same or another settlement price; while it is not,
  a call with another settlement is refused and changes nothing.
\<close>

theorem settlement_is_final:
  assumes "bt_get (cl_settlement_plans s) (sse_series_id x) = Some plan"
    and "spl_status plan = Finalised \<or> spl_settlement plan \<noteq> sse_settlement x"
  shows "settle_series_inner e x s =
    (if spl_status plan = Finalised then Ok SettleDone
     else Err (InconsistentSettlement (spl_settlement plan) (sse_settlement x)), s)"
  using assms by (auto simp: settle_series_inner_def build_or_resume_def)

lemma settlement_is_final_witness:
  "settle_series_inner env0 \<lparr> sse_series_id = ''bin'', sse_settlement = Outcome ''A'' \<rparr> state2 =
     (Err (InconsistentSettlement (Price (price_new 10000 4)) (Outcome ''A'')), state2)"
proof -
  have "bt_get (cl_settlement_plans state2) ''bin'' = Some plan1" by (simp add: state2_tables bt_get_def)
  then show ?thesis
    using settlement_is_final [of state2 "\<lparr> sse_series_id = ''bin'', sse_settlement = Outcome ''A'' \<rparr>"
        plan1 env0] by (simp add: plan1_def)
qed

text \<open>A call that ends without success and without effect, in the world \<open>w\<close>.\<close>

definition refused ::
  "(request \<Rightarrow> ctx \<Rightarrow> reply \<times> ctx) \<Rightarrow> (ctx \<Rightarrow> ('e, 'a) cproc) \<Rightarrow> ctx \<Rightarrow> bool" where
  "refused w h c =
     (snd (run w h c) = c \<and> (case fst (run w h c) of Ok _ \<Rightarrow> False | _ \<Rightarrow> True))"

text \<open>
  C17. A series whose settlement has begun is closed to trading: a limit order under a new id, a
  market order against an order of the series, a matched trade, minting, redeeming and accepting a
  transferred position that was not accepted before all end without success and leave the state
  as it was, whatever the other canisters answer.
\<close>

theorem settled_series_is_closed:
  assumes "bt_get (cl_settlement_plans (snd c)) sid = Some plan"
    and "slo_series_id x = sid" and "\<not> bt_contains_key (cl_limit_orders (snd c)) (slo_order_id x)"
    and "\<forall>o1. bt_get (cl_limit_orders (snd c)) k = Some o1 \<longrightarrow> lo_series_id o1 = sid"
    and "smt_series_id y = sid"
    and "pp_series_id pf = sid"
    and "\<not> bt_contains_key (cl_accepted_transfers (snd c)) (pp_transfer_id pf)"
  shows "refused w (submit_limit_order u x) c \<and> refused w (submit_market_order u tid k q) c \<and>
         refused w (submit_matched_trade u y) c \<and> refused w (mint_complete_set u sid n) c \<and>
         refused w (redeem_complete_set u sid n) c \<and> refused w (accept_position_transfer u pf) c"
proof -
  have closed: "ensure_series_registered sid access c = Return (Err (SeriesAlreadySettled sid)) c" for access
    using assms(1) by (simp add: ensure_series_registered_def assert_series_not_settled_def
        pure_step_def preturn_def)
  note defs = refused_def run_def guarded_def preturn_def pure_step_def acquire_def sync_def
  have "refused w (submit_limit_order u x) c"
    using assms(2,3) by (cases "guard_acquire (snd c) u") (auto simp: submit_limit_order_def defs closed)
  moreover have "refused w (submit_market_order u tid k q) c"
  proof (cases "bt_get (cl_limit_orders (snd c)) k")
    case None
    then show ?thesis by (simp add: submit_market_order_def defs)
  next
    case (Some o1)
    then have "lo_series_id o1 = sid" using assms(4) by simp
    with Some show ?thesis
      by (cases "guard_acquire (snd c) u") (auto simp: submit_market_order_def defs closed)
  qed
  moreover have "refused w (submit_matched_trade u y) c"
    using assms(5) by (auto simp: submit_matched_trade_def internal_execute_trade_def defs closed)
  moreover have "refused w (mint_complete_set u sid n) c"
    by (cases "guard_acquire (snd c) u") (auto simp: mint_complete_set_def defs closed)
  moreover have "refused w (redeem_complete_set u sid n) c"
    by (cases "guard_acquire (snd c) u") (auto simp: redeem_complete_set_def defs closed)
  moreover have "refused w (accept_position_transfer u pf) c"
    using assms(6,7) by (cases "guard_acquire (snd c) (pp_user pf)")
      (auto simp: accept_position_transfer_def defs closed)
  ultimately show ?thesis by blast
qed

definition order2 :: submit_limit_order_params where
  "order2 = \<lparr> slo_order_id = ''o2'', slo_series_id = ''bin'', slo_outcome_id = None, slo_side = Buy,
     slo_qty = 1, slo_price = price_new 5000 4 \<rparr>"

definition matched2 :: submit_matched_trade_params where
  "matched2 = \<lparr> smt_trade_id = ''t9'', smt_series_id = ''bin'', smt_outcome_id = None,
     smt_buyer = alice, smt_seller = bob, smt_qty = 1, smt_price = price_new 5000 4,
     smt_buyer_unblock_amount = None, smt_seller_unblock_amount = None \<rparr>"

definition proof2 :: position_proof where
  "proof2 = \<lparr> pp_transfer_id = ''x1'', pp_user = alice, pp_series_id = ''bin'', pp_outcome_id = None,
     pp_qty = 1, pp_clearing_id = ''other'', pp_signature = [], pp_valuation_price = None \<rparr>"

lemma settled_series_is_closed_witness:
  "\<forall>w. refused w (submit_limit_order alice order2) (env0, state2) \<and>
       refused w (mint_complete_set alice ''bin'' 5) (env0, state2)"
proof
  fix w
  have "bt_get (cl_settlement_plans (snd (env0, state2))) ''bin'' = Some plan1"
    "\<not> bt_contains_key (cl_limit_orders (snd (env0, state2))) (slo_order_id order2)"
    "bt_get (cl_limit_orders (snd (env0, state2))) ''o1'' = None"
    "\<not> bt_contains_key (cl_accepted_transfers (snd (env0, state2))) (pp_transfer_id proof2)"
    by (simp_all add: state2_tables bt_get_def)
  from settled_series_is_closed [OF this(1), of order2 "''o1''" matched2 proof2 w alice
      "''t9''" None 5] this(2-4)
  show "refused w (submit_limit_order alice order2) (env0, state2) \<and>
        refused w (mint_complete_set alice ''bin'' 5) (env0, state2)"
    by (simp add: order2_def matched2_def proof2_def)
qed

end
