(* ===== verification/LogProperties.thy ===== *)
theory LogProperties
  imports SettlementFacts SettlementSamples
begin

text \<open>
  The event log, the indices over it and the upgrade: every operation that appends events keeps
  the indices equal to what a rebuild gives, and an upgrade (theory SystemProperties) therefore keeps
  them.
\<close>

lemma positions_keyed_update:
  assumes "positions_keyed s"
  shows "positions_keyed (update_side_position k q m s)"
proof -
  obtain u sid oid where k: "k = (u, sid, oid)" by (metis surj_pair)
  have keyed: "position_key_of p = k'" if "(k', p) \<in> set (cl_positions s)" for k' p
    using assms that by (auto simp: positions_keyed_def list_all_iff)
  have "position_key_of (case bt_get (cl_positions s) k of None \<Rightarrow> position_new k | Some p \<Rightarrow> p) = k"
    by (cases "bt_get (cl_positions s) k")
      (auto simp: position_new_def position_key_of_def k dest!: bt_get_mem keyed)
  then have new: "position_key_of ((case bt_get (cl_positions s) k of None \<Rightarrow> position_new k | Some p \<Rightarrow> p)
      \<lparr>pos_net_qty := n, pos_reserved_margin_usd := m\<rparr>) = k" for n
    by (simp add: position_key_of_def)
  have "position_key_of p = k'"
    if "(k', p) \<in> set (cl_positions (update_side_position k q m s))" for k' p
  proof (cases "(k', p) \<in> set (cl_positions s)")
    case False
    then have "(k', p) = (k, (\<lambda>p. p\<lparr>pos_net_qty := pos_net_qty p + q, pos_reserved_margin_usd := m\<rparr>)
        (case bt_get (cl_positions s) k of None \<Rightarrow> position_new k | Some p \<Rightarrow> p))"
      using that set_bt_insert_subset by (fastforce simp: update_side_position_def bt_entry_def)
    then show ?thesis using new by simp
  qed (rule keyed)
  then show ?thesis
    using assms by (auto simp: positions_keyed_def list_all_iff update_side_position_def)
qed

lemma positions_keyed_cong:
  "cl_positions s' = cl_positions s \<Longrightarrow> positions_keyed s' = positions_keyed s"
  by (simp add: positions_keyed_def)

lemma positions_keyed_apply_trade:
  assumes "positions_keyed s"
  shows "positions_keyed (apply_trade e ser x td s)"
  unfolding apply_trade_def Let_def
  by (subst positions_keyed_cong, rule record_trade_frame,
      intro positions_keyed_update, subst positions_keyed_cong, rule update_side_account_frame,
      subst positions_keyed_cong, rule update_side_account_frame, rule assms)

text \<open>
  C26. Trading keeps the history consistent: whatever a trade of a positive quantity returns, after
  it the leaderboard, the traded volumes and the price histories are exactly what a rebuild from
  the event log gives, the trade rows are in the order of their event ids, and every position is
  filed under its own user, series and outcome, provided that they were before and that the event
  counter is not at its last value.
\<close>

theorem trade_keeps_history:
  assumes "execute_trade_impl e ser x s = (r, s')" and "log_inv s" and "positions_keyed s"
    and "0 < sint (etp_qty x)" and "cl_next_event_id s + 1 \<noteq> 0"
  shows "log_inv s' \<and> positions_keyed s'"
proof -
  have "positions_keyed s'"
    using assms(1)
    by (cases rule: execute_trade_cases) (simp_all add: assms(3) positions_keyed_apply_trade)
  then show ?thesis using log_inv_execute_trade [OF assms(1,2,4,5)] by simp
qed

lemma log_inv0: "log_inv state0" "positions_keyed state0"
  by (simp_all add: log_inv_def indices_current_def trades_ordered_def positions_keyed_def state0_def
      clearing_empty_def rebuilt_leaderboard_def rebuilt_trade_index_def bt_map_values_def)

lemma log_inv1: "log_inv state1" "positions_keyed state1"
proof -
  show "log_inv state1" by (rule log_inv_execute_trade [OF trade1_run log_inv0(1) trade1_fits])
  obtain td where "state1 = apply_trade env0 binary0 trade1 td state0"
    using trade1_run by (cases rule: execute_trade_cases) (use trade1_new in auto)
  then show "positions_keyed state1"
    by (metis positions_keyed_apply_trade log_inv0(2))
qed

lemma trade_keeps_history_witness: "log_inv state1 \<and> positions_keyed state1"
  using trade_keeps_history [OF trade1_run log_inv0 trade1_fits] .

text \<open>
  C27. Settling keeps the history consistent: after any call of the settlement handler, on whatever
  plan and wherever the instruction counter cuts it, the three indices are again what a rebuild
  from the log gives, provided that the event counter has room for the plan's events.
\<close>

theorem settlement_keeps_history:
  assumes "settle_series_inner e x s = (r, s')" and "log_inv s" and "plans_within n s"
    and "unat (cl_next_event_id s) + n < 2 ^ 64"
  shows "log_inv s'"
  by (rule log_inv_settle_series [OF assms])

lemma settlement_keeps_history_witness:
  "log_inv (snd (settle_series_inner env0 settle0 state2))"
proof -
  have "plans_within 2 state2" by (simp add: plans_within_def state2_tables plan1_def)
  moreover have "cl_next_event_id state2 = 1" by (rule state2_tables)
  then have "unat (cl_next_event_id state2) + 2 < 2 ^ 64" by simp
  moreover have "plans_within 2 state1" by (simp add: plans_within_def state1_tables)
  then have "log_inv state2"
    using log_inv_cong [of state2 state1] prepare_settlement_log [OF prepare1] log_inv1 by simp
  ultimately show ?thesis
    using settlement_keeps_history [of env0 settle0 state2
        "fst (settle_series_inner env0 settle0 state2)" "snd (settle_series_inner env0 settle0 state2)"]
    by simp
qed

end
