(* ===== verification/Backing.thy ===== *)
theory Backing
  imports Samples
begin

text \<open>
  The reserved margin of an account is a cached total (\<open>types/margin.rs\<close>, \<open>trade/service.rs\<close>,
  \<open>api/trade/api.rs\<close>): it should equal what the user's positions and open orders block.  The
  invariant \<open>margin_backed\<close> says so, in unbounded integers, and the lemmas show how each write of
  the order book and of a trade moves the total and its parts together.
\<close>

definition position_block ::
  "(series_id \<Rightarrow> balance_domain) \<Rightarrow> user \<Rightarrow> balance_domain \<Rightarrow> position_key \<Rightarrow> position \<Rightarrow> int" where
  "position_block dm u d k p =
     (if fst k = u \<and> dm (fst (snd k)) = d then uint (pos_reserved_margin_usd p) else 0)"

definition order_block :: "user \<Rightarrow> balance_domain \<Rightarrow> order_id \<Rightarrow> limit_order \<Rightarrow> int" where
  "order_block u d k o1 =
     (if lo_creator o1 = u \<and> lo_balance_domain o1 = d then uint (lo_blocked_margin_usd o1) else 0)"

definition blocked_margin ::
  "(series_id \<Rightarrow> balance_domain) \<Rightarrow> user \<Rightarrow> balance_domain \<Rightarrow> clearing \<Rightarrow> int" where
  "blocked_margin dm u d s =
     bt_total (position_block dm u d) (cl_positions s) + bt_total (order_block u d) (cl_limit_orders s)"

definition margin_backed :: "(series_id \<Rightarrow> balance_domain) \<Rightarrow> clearing \<Rightarrow> bool" where
  "margin_backed dm s =
     (bt_inv (cl_positions s) \<and> bt_inv (cl_limit_orders s) \<and>
      (\<forall>u d. uint (get_reserved_margin_usd (account_or_new s u) d) = blocked_margin dm u d s))"

section \<open>Totals of what is blocked\<close>

lemma position_block_nonneg: "0 \<le> position_block dm u d k p"
  by (simp add: position_block_def)

lemma order_block_nonneg: "0 \<le> order_block u d k o1"
  by (simp add: order_block_def)

lemma bt_total_nonneg: "(\<And>k v. 0 \<le> f k v) \<Longrightarrow> 0 \<le> bt_total f m" for f :: "_ \<Rightarrow> _ \<Rightarrow> int"
  by (induction m) auto

lemma bt_total_ge:
  fixes f :: "'k::linorder \<Rightarrow> 'v \<Rightarrow> int"
  assumes "\<And>k v. 0 \<le> f k v" "(k, v) \<in> set m"
  shows "f k v \<le> bt_total f m"
  using assms(2)
proof (induction m)
  case (Cons e m)
  obtain k' v' where e: "e = (k', v')" by (cases e)
  have "0 \<le> bt_total f m" by (rule bt_total_nonneg [OF assms(1)])
  with Cons e assms(1) [of k' v'] show ?case by auto
qed simp

lemma blocked_parts:
  "0 \<le> bt_total (position_block dm u d) m" "0 \<le> bt_total (order_block u d) os"
  by (simp_all add: bt_total_nonneg position_block_nonneg order_block_nonneg)

lemma position_total:
  assumes "bt_inv (cl_positions s)" "dm sid = d"
  shows "bt_total (position_block dm v d') (cl_positions (update_side_position (u, sid, oid) q m s)) =
    bt_total (position_block dm v d') (cl_positions s) +
    (if v = u \<and> d' = d then uint m - uint (pos_margin_at s (u, sid, oid)) else 0)"
proof -
  let ?old = "case bt_get (cl_positions s) (u, sid, oid) of None \<Rightarrow> position_new (u, sid, oid) | Some p \<Rightarrow> p"
  let ?new = "?old\<lparr>pos_net_qty := pos_net_qty ?old + q, pos_reserved_margin_usd := m\<rparr>"
  show ?thesis
    using bt.total_put [OF assms(1), of "position_block dm v d'" "(u, sid, oid)" ?new] assms(2)
    by (cases "bt_get (cl_positions s) (u, sid, oid)")
      (auto simp: update_side_position_def bt_entry_def pos_margin_at_def position_block_def)
qed

lemma position_at_least:
  assumes "margin_backed dm s" "dm sid = d"
  shows "uint (pos_margin_at s (u, sid, oid)) + bt_total (order_block u d) (cl_limit_orders s) \<le>
         uint (get_reserved_margin_usd (account_or_new s u) d)"
proof -
  have "uint (pos_margin_at s (u, sid, oid)) \<le> bt_total (position_block dm u d) (cl_positions s)"
  proof (cases "bt_get (cl_positions s) (u, sid, oid)")
    case None
    then show ?thesis by (simp add: pos_margin_at_def blocked_parts)
  next
    case (Some p)
    then show ?thesis
      using bt_total_ge [of "position_block dm u d", OF position_block_nonneg bt_get_mem [OF Some]] assms(2)
      by (simp add: pos_margin_at_def position_block_def)
  qed
  then show ?thesis using assms(1) by (simp add: margin_backed_def blocked_margin_def)
qed

lemma order_at_least:
  assumes "bt_get (cl_limit_orders s) k = Some o1"
  shows "uint (lo_blocked_margin_usd o1) \<le>
    bt_total (order_block (lo_creator o1) (lo_balance_domain o1)) (cl_limit_orders s)"
  using bt_total_ge [of "order_block (lo_creator o1) (lo_balance_domain o1)",
      OF order_block_nonneg bt_get_mem [OF assms]]
  by (simp add: order_block_def)

section \<open>Moving the reserved total\<close>

text \<open>
  The delta of a trade moves the total exactly, with no saturation and no wrap-around, when the
  amounts are below \<open>2 ^ 126\<close> and what is released was part of the total.
\<close>

lemma small_sint: "uint w < 2 ^ 127 \<Longrightarrow> sint (w::i128) = uint w"
proof -
  assume "uint w < 2 ^ 127"
  moreover have "- (2 ^ 127) \<le> uint w"
    by (rule order_trans [of _ 0]) simp_all
  ultimately have "signed_take_bit 127 (uint w) = uint w" by (intro signed_take_bit_int_eq_self)
  then show ?thesis by (simp add: sint_uint)
qed

lemma uint_add_small: "uint a + uint b < 2 ^ 128 \<Longrightarrow> uint (a + b :: u128) = uint a + uint b"
  by (simp add: uint_word_ariths)

lemma sint_of_int_range:
  "- (2 ^ 127) \<le> x \<Longrightarrow> x < 2 ^ 127 \<Longrightarrow> sint (word_of_int x :: i128) = x"
  by (simp only: signed_of_int) (simp add: signed_take_bit_int_eq_self)

lemma reserved_delta_exact:
  fixes cur new old ub :: u128
  assumes "uint cur < 2 ^ 126" "uint new < 2 ^ 126" "uint old + uint ub \<le> uint cur"
  shows "uint (apply_reserved_delta (new - old - ub) cur) = uint cur + uint new - uint old - uint ub"
proof -
  let ?x = "uint new - uint old - uint ub"
  have nonneg: "0 \<le> uint cur" "0 \<le> uint new" "0 \<le> uint old" "0 \<le> uint ub" by simp_all
  have two: "(2::int) ^ 127 = 2 * 2 ^ 126" by simp
  have low: "- (2 ^ 127) \<le> ?x" unfolding two using assms nonneg by linarith
  have high: "?x < 2 ^ 127" unfolding two using assms nonneg by linarith
  note range = low high
  have four: "(2::int) ^ 128 = 4 * 2 ^ 126" by simp
  have sum: "0 \<le> uint cur + ?x" "uint cur + ?x < 2 ^ 128"
    unfolding four using assms nonneg by linarith+
  have neg: "- ?x \<le> uint cur" "- ?x < 2 ^ 128"
    unfolding four using assms nonneg by linarith+
  have "new - old - ub = word_of_int ?x" by simp
  then have sint: "sint (new - old - ub) = ?x"
    using sint_of_int_range [OF range] by (simp only:)
  show ?thesis
  proof (cases "0 < ?x")
    case True
    have "uint (cur + (new - old - ub)) = (uint cur + ?x) mod 2 ^ 128"
      by (simp add: uint_word_ariths mod_simps algebra_simps)
    also have "\<dots> = uint cur + ?x" using sum by (intro mod_pos_pos_trivial)
    finally show ?thesis using True sint by (simp add: apply_reserved_delta_def)
  next
    case False
    have abs: "unsigned_abs (new - old - ub) = word_of_int (- ?x)"
    proof (cases "?x = 0")
      case True
      then have "new - old - ub = 0" using sint by (simp only: signed_eq_0_iff)
      with True show ?thesis by simp
    next
      case False
      with \<open>\<not> 0 < ?x\<close> sint show ?thesis by (simp add: unsigned_abs_def)
    qed
    have "uint (word_of_int (- ?x) :: u128) = - ?x"
      using False neg(2) by (simp only: uint_word_of_int) (intro mod_pos_pos_trivial, auto)
    then show ?thesis
      using False sint abs neg(1)
      by (simp add: apply_reserved_delta_def saturating_sub_def word_less_def uint_sub_if_size)
  qed
qed

section \<open>A trade\<close>

lemma calculate_deltas_reserved:
  assumes "calculate_deltas ser x s = Ok td"
  shows "td_buyer_reserved td = td_new_buyer_margin td
           - pos_margin_at s (etp_buyer x, etp_series_id x, etp_outcome_id x)
           - or_zero (etp_buyer_unblock_amount x)"
    and "td_seller_reserved td = td_new_seller_margin td
           - pos_margin_at s (etp_seller x, etp_series_id x, etp_outcome_id x)
           - or_zero (etp_seller_unblock_amount x)"
  using assms by (auto simp: calculate_deltas_def Let_def obind_Ok)

lemma positions_after_trade:
  assumes "etp_buyer x \<noteq> etp_seller x" "bt_inv (cl_positions s)" "dm (etp_series_id x) = d"
  shows "bt_total (position_block dm v d') (cl_positions (apply_trade e ser x td s)) =
    bt_total (position_block dm v d') (cl_positions s) +
    (if d' = d \<and> v = etp_buyer x
     then uint (td_new_buyer_margin td)
       - uint (pos_margin_at s (etp_buyer x, etp_series_id x, etp_outcome_id x))
     else if d' = d \<and> v = etp_seller x
     then uint (td_new_seller_margin td)
       - uint (pos_margin_at s (etp_seller x, etp_series_id x, etp_outcome_id x))
     else 0)"
proof -
  let ?bk = "(etp_buyer x, etp_series_id x, etp_outcome_id x)"
  let ?sk = "(etp_seller x, etp_series_id x, etp_outcome_id x)"
  let ?s2 = "update_side_account (ser_balance_domain ser) (etp_seller x) (td_seller_cash td)
      (td_seller_reserved td) (update_side_account (ser_balance_domain ser) (etp_buyer x)
      (td_buyer_cash td) (td_buyer_reserved td) s)"
  let ?s3 = "update_side_position ?bk (etp_qty x) (td_new_buyer_margin td) ?s2"
  have inv: "bt_inv (cl_positions ?s2)" using assms(2) by simp
  have inv3: "bt_inv (cl_positions ?s3)" using inv by (simp add: update_side_position_def)
  have "pos_margin_at ?s3 ?sk = pos_margin_at s ?sk" using assms(1) by (simp add: pos_at_update)
  then show ?thesis
    using position_total [where dm = dm and sid = "etp_series_id x", OF inv assms(3),
        of v d' "etp_buyer x" "etp_outcome_id x" "etp_qty x"]
      position_total [where dm = dm and sid = "etp_series_id x", OF inv3 assms(3),
        of v d' "etp_seller x" "etp_outcome_id x" "- etp_qty x"]
      assms(1)
    by (simp add: apply_trade_def Let_def)
qed

text \<open>What a trade leaves of the invariant when it releases order margin: the orders are due it.\<close>

lemma reserved_after_trade:
  assumes backed: "margin_backed dm s" and ne: "etp_buyer x \<noteq> etp_seller x"
    and td: "calculate_deltas ser x s = Ok td" and dm: "dm (etp_series_id x) = ser_balance_domain ser"
    and small: "\<And>u. uint (get_reserved_margin_usd (account_or_new s u) (ser_balance_domain ser)) < 2 ^ 126"
      "uint (td_new_buyer_margin td) < 2 ^ 126" "uint (td_new_seller_margin td) < 2 ^ 126"
    and released: "uint (or_zero (etp_buyer_unblock_amount x)) \<le>
        bt_total (order_block (etp_buyer x) (ser_balance_domain ser)) (cl_limit_orders s)"
      "uint (or_zero (etp_seller_unblock_amount x)) \<le>
        bt_total (order_block (etp_seller x) (ser_balance_domain ser)) (cl_limit_orders s)"
  shows "uint (get_reserved_margin_usd (account_or_new (apply_trade e ser x td s) v) d') =
    blocked_margin dm v d' (apply_trade e ser x td s)
    - (if d' = ser_balance_domain ser \<and> v = etp_buyer x
       then uint (or_zero (etp_buyer_unblock_amount x)) else 0)
    - (if d' = ser_balance_domain ser \<and> v = etp_seller x
       then uint (or_zero (etp_seller_unblock_amount x)) else 0)"
proof -
  let ?d = "ser_balance_domain ser"
  note positions = positions_after_trade [where dm = dm and x = x, OF ne _ dm, of s v d' e ser td]
  have inv: "bt_inv (cl_positions s)" using backed by (simp add: margin_backed_def)
  have total: "uint (get_reserved_margin_usd (account_or_new s v) d') = blocked_margin dm v d' s"
    using backed by (simp add: margin_backed_def)
  have buyer: "uint (apply_reserved_delta (td_buyer_reserved td)
      (get_reserved_margin_usd (account_or_new s (etp_buyer x)) ?d)) =
      uint (get_reserved_margin_usd (account_or_new s (etp_buyer x)) ?d) + uint (td_new_buyer_margin td)
      - uint (pos_margin_at s (etp_buyer x, etp_series_id x, etp_outcome_id x))
      - uint (or_zero (etp_buyer_unblock_amount x))"
    unfolding calculate_deltas_reserved [OF td]
    using small released(1) position_at_least [where dm = dm and sid = "etp_series_id x", OF backed dm, of "etp_buyer x" "etp_outcome_id x"]
    by (intro reserved_delta_exact) auto
  have seller: "uint (apply_reserved_delta (td_seller_reserved td)
      (get_reserved_margin_usd (account_or_new s (etp_seller x)) ?d)) =
      uint (get_reserved_margin_usd (account_or_new s (etp_seller x)) ?d) + uint (td_new_seller_margin td)
      - uint (pos_margin_at s (etp_seller x, etp_series_id x, etp_outcome_id x))
      - uint (or_zero (etp_seller_unblock_amount x))"
    unfolding calculate_deltas_reserved [OF td]
    using small released(2) position_at_least [where dm = dm and sid = "etp_series_id x", OF backed dm, of "etp_seller x" "etp_outcome_id x"]
    by (intro reserved_delta_exact) auto
  have other: "get_reserved_margin_usd (set_reserved_margin_usd ?d r (set_cash_balance_usd ?d c a)) d'
      = (if d' = ?d then r else get_reserved_margin_usd a d')" for r c a
    by (simp add: reserved.get_set)
  show ?thesis
    using buyer seller total ne positions [OF inv]
    by (auto simp: apply_trade_account account_or_new_update other blocked_margin_def)
qed

lemma positions_inv_trade:
  "bt_inv (cl_positions s) \<Longrightarrow> bt_inv (cl_positions (apply_trade e ser x td s))"
  by (simp add: apply_trade_def Let_def update_side_position_def)

end
