(* ===== verification/BookProperties.thy ===== *)
theory BookProperties
  imports Backing SettlementFacts
begin

text \<open>
  The properties of the order book (\<open>api/trade/api.rs\<close>) and of the margin that it and the
  positions block: the reserved total of every account stays the sum of its parts, orders fill
  within their size, cancellation undoes placement, and buy orders cannot be arbitraged.
\<close>

section \<open>The reserved margin stays backed\<close>

lemma margin_backedI:
  assumes "bt_inv (cl_positions s)" "bt_inv (cl_limit_orders s)"
    and "\<And>u d. uint (get_reserved_margin_usd (account_or_new s u) d) = blocked_margin dm u d s"
  shows "margin_backed dm s"
  using assms by (simp add: margin_backed_def)

text \<open>
  C10. A trade keeps the reserved margin backed.  When every account has reserved, in every domain,
  what its positions and open orders block, this is so again after a trade that releases no order's
  margin (both unblock amounts absent; what an order releases is the subject of the next
  properties), whatever the trade returns; and after an executed one the two positions block exactly
  the margin that their new quantities require at the price of the trade.  The series is in the
  domain that the positions are counted in, and every account's reserved margin and the two new
  margins are below 2 to the 126.
\<close>

theorem trade_keeps_margin_backed:
  assumes "execute_trade_impl e ser x s = (r, s')" and "margin_backed dm s"
    and "dm (etp_series_id x) = ser_balance_domain ser"
    and "etp_buyer_unblock_amount x = None" and "etp_seller_unblock_amount x = None"
    and "\<And>u. uint (get_reserved_margin_usd (account_or_new s u) (ser_balance_domain ser)) < 2 ^ 126"
    and "\<And>m. required_margin ser (etp_price x) (etp_outcome_id x)
           (pos_qty_at s (etp_buyer x, etp_series_id x, etp_outcome_id x) + etp_qty x) = Ok m \<Longrightarrow>
           uint m < 2 ^ 126"
    and "\<And>m. required_margin ser (etp_price x) (etp_outcome_id x)
           (pos_qty_at s (etp_seller x, etp_series_id x, etp_outcome_id x) - etp_qty x) = Ok m \<Longrightarrow>
           uint m < 2 ^ 126"
  shows "margin_backed dm s' \<and>
    (s' = s \<or>
     (\<forall>u\<in>{etp_buyer x, etp_seller x}. let k = (u, etp_series_id x, etp_outcome_id x)
        in required_margin ser (etp_price x) (etp_outcome_id x) (pos_qty_at s' k) = Ok (pos_margin_at s' k)))"
  using assms(1)
proof (cases rule: execute_trade_cases)
  case unchanged
  then show ?thesis using assms(2) by simp
next
  case (applied td)
  have small: "uint (td_new_buyer_margin td) < 2 ^ 126" "uint (td_new_seller_margin td) < 2 ^ 126"
    using applied(4) assms(7,8) by (auto simp: calculate_deltas_def Let_def obind_Ok)
  have released: "uint (or_zero (etp_buyer_unblock_amount x)) \<le>
        bt_total (order_block (etp_buyer x) (ser_balance_domain ser)) (cl_limit_orders s)"
      "uint (or_zero (etp_seller_unblock_amount x)) \<le>
        bt_total (order_block (etp_seller x) (ser_balance_domain ser)) (cl_limit_orders s)"
    using assms(4,5) by (simp_all add: blocked_parts)
  have "margin_backed dm (apply_trade e ser x td s)"
  proof (rule margin_backedI)
    show "bt_inv (cl_positions (apply_trade e ser x td s))"
      using assms(2) by (simp add: margin_backed_def positions_inv_trade)
    show "bt_inv (cl_limit_orders (apply_trade e ser x td s))"
      using assms(2) by (simp add: margin_backed_def)
    show "uint (get_reserved_margin_usd (account_or_new (apply_trade e ser x td s) u) d) =
        blocked_margin dm u d (apply_trade e ser x td s)" for u d
      using reserved_after_trade [where dm = dm and x = x,
          OF assms(2) applied(3,4) assms(3,6) small released] assms(4,5) by simp
  qed
  moreover have "required_margin ser (etp_price x) (etp_outcome_id x) (pos_qty_at s' k) = Ok (pos_margin_at s' k)"
    if "k = (etp_buyer x, etp_series_id x, etp_outcome_id x) \<or>
        k = (etp_seller x, etp_series_id x, etp_outcome_id x)" for k
    using that applied(3,4)
    by (auto simp: applied(6) apply_trade_positions calculate_deltas_def Let_def obind_Ok)
  ultimately show ?thesis by (simp add: applied(6) Let_def)
qed

lemma state0_reserved: "get_reserved_margin_usd (account_or_new state0 u) d = 0"
proof -
  have accounts: "cl_accounts state0 = [(alice, funded alice 1000000), (bob, funded bob 1000000)]"
    by code_simp
  show ?thesis by (simp add: account_or_new_def accounts bt_get_def funded_def)
qed

lemma state0_backed: "margin_backed (\<lambda>_. Settlement) state0"
proof -
  have "cl_positions state0 = []" "cl_limit_orders state0 = []" by (simp_all add: state0_def clearing_empty_def)
  then show ?thesis
    by (intro margin_backedI) (simp_all add: state0_reserved blocked_margin_def)
qed

lemma trade_keeps_margin_backed_witness: "margin_backed (\<lambda>_. Settlement) state1"
proof (rule conjunct1 [OF trade_keeps_margin_backed [OF trade1_run state0_backed]])
  show "Settlement = ser_balance_domain binary0" by (simp add: binary0_def series0_def)
  show "etp_buyer_unblock_amount trade1 = None" "etp_seller_unblock_amount trade1 = None"
    by (simp_all add: trade1_def trade0_def)
  have margins: "required_margin binary0 (etp_price trade1) (etp_outcome_id trade1)
      (pos_qty_at state0 (etp_buyer trade1, etp_series_id trade1, etp_outcome_id trade1) + etp_qty trade1)
      = Ok 90000"
    "required_margin binary0 (etp_price trade1) (etp_outcome_id trade1)
      (pos_qty_at state0 (etp_seller trade1, etp_series_id trade1, etp_outcome_id trade1) - etp_qty trade1)
      = Ok 10000" by code_simp+
  show "uint m < 2 ^ 126" if "required_margin binary0 (etp_price trade1) (etp_outcome_id trade1)
      (pos_qty_at state0 (etp_buyer trade1, etp_series_id trade1, etp_outcome_id trade1) + etp_qty trade1)
      = Ok m" for m
    using that margins by simp
  show "uint m < 2 ^ 126" if "required_margin binary0 (etp_price trade1) (etp_outcome_id trade1)
      (pos_qty_at state0 (etp_seller trade1, etp_series_id trade1, etp_outcome_id trade1) - etp_qty trade1)
      = Ok m" for m
    using that margins by simp
  show "uint (get_reserved_margin_usd (account_or_new state0 u) (ser_balance_domain binary0)) < 2 ^ 126"
    for u by (simp add: state0_reserved)
qed

lemma put_account_frame [simp]:
  "cl_positions (put_account u a s) = cl_positions s"
  "cl_limit_orders (put_account u a s) = cl_limit_orders s"
  by (simp_all add: put_account_def)

lemma place_keeps_backed:
  assumes "margin_backed dm s" and "bt_get (cl_limit_orders s) (slo_order_id x) = None"
    and small: "uint (get_reserved_margin_usd (account_or_new s u) (ser_balance_domain ser)) < 2 ^ 126"
    and "\<And>m. required_margin ser (slo_price x) (slo_outcome_id x) (signed_qty (slo_side x) (slo_qty x))
           = Ok m \<Longrightarrow> uint m < 2 ^ 126"
  shows "margin_backed dm (snd (place_limit_order u ser x s))"
proof (cases "required_margin ser (slo_price x) (slo_outcome_id x) (signed_qty (slo_side x) (slo_qty x))")
  case (Ok m)
  let ?acc = "account_or_new s u" and ?d = "ser_balance_domain ser"
  let ?s1 = "put_account u ?acc s"
  let ?order = "new_order u ser x m"
  let ?s2 = "(put_account u (set_reserved_margin_usd ?d (get_reserved_margin_usd ?acc ?d + m) ?acc) ?s1)
      \<lparr>cl_limit_orders := bt_insert (slo_order_id x) ?order (cl_limit_orders s)\<rparr>"
  have inv: "bt_inv (cl_positions s)" "bt_inv (cl_limit_orders s)"
    and total: "\<And>v d. uint (get_reserved_margin_usd (account_or_new s v) d) = blocked_margin dm v d s"
    using assms(1) by (auto simp: margin_backed_def)
  have m: "uint m < 2 ^ 126" by (rule assms(4) [OF Ok])
  have sum: "uint (get_reserved_margin_usd ?acc ?d + m) = uint (get_reserved_margin_usd ?acc ?d) + uint m"
    using small m by (intro uint_add_small) simp
  have "account_or_new ?s1 v = account_or_new s v" for v by (simp add: account_or_new_put)
  then have s1: "margin_backed dm ?s1"
    using inv total by (intro margin_backedI) (simp_all add: blocked_margin_def)
  have orders: "bt_total (order_block v d) (bt_insert (slo_order_id x) ?order (cl_limit_orders s)) =
      bt_total (order_block v d) (cl_limit_orders s) + order_block v d (slo_order_id x) ?order" for v d
    using bt.total_put [OF inv(2), of "order_block v d" "slo_order_id x" ?order] assms(2) by simp
  have acc: "account_or_new ?s2 v = (if v = u
      then set_reserved_margin_usd ?d (get_reserved_margin_usd ?acc ?d + m) ?acc
      else account_or_new s v)" for v
    by (simp add: account_or_new_def put_account_def)
  have s2: "margin_backed dm ?s2"
  proof (rule margin_backedI)
    show "bt_inv (cl_positions ?s2)" "bt_inv (cl_limit_orders ?s2)"
      using inv by simp_all
    show "uint (get_reserved_margin_usd (account_or_new ?s2 v) d) = blocked_margin dm v d ?s2" for v d
      unfolding acc using total [of v d] sum orders [of v d]
      by (auto simp: blocked_margin_def order_block_def new_order_def
          reserved.get_set)
  qed
  show ?thesis using Ok s1 s2
    by (auto simp: place_limit_order_def Let_def put_account_def split: option.splits)
qed (use assms(1) in \<open>simp_all add: place_limit_order_def\<close>)

lemma release_reserved_total:
  "uint (get_reserved_margin_usd (account_or_new (release_reserved u d amount s) v) d') =
     (if v = u \<and> d' = d
      then uint (saturating_sub (get_reserved_margin_usd (account_or_new s u) d) amount)
      else uint (get_reserved_margin_usd (account_or_new s v) d'))"
  by (auto simp: release_reserved_def account_or_new_def put_account_def reserved.get_set
      split: option.splits)

lemma uint_saturating_sub: "b \<le> a \<Longrightarrow> uint (saturating_sub a b) = uint a - uint b"
  by (simp add: saturating_sub_eq uint_sub_if_size word_le_def)

lemma remove_order_total:
  assumes "bt_inv (cl_limit_orders s)" "bt_get (cl_limit_orders s) k = Some o1"
  shows "bt_total (order_block v d) (cl_limit_orders (remove_order k s)) =
    bt_total (order_block v d) (cl_limit_orders s)
    - (if lo_creator o1 = v \<and> lo_balance_domain o1 = d then uint (lo_blocked_margin_usd o1) else 0)"
  using bt.total_del [OF assms(1), of "order_block v d" k] assms(2)
  by (simp add: remove_order_def order_block_def split: if_splits)

lemma cancel_keeps_backed:
  assumes "margin_backed dm s"
  shows "margin_backed dm (snd (cancel_order u k s))"
proof (cases "bt_get (cl_limit_orders s) k")
  case None
  with assms show ?thesis by (simp add: cancel_order_def)
next
  case (Some o1)
  let ?s = "release_reserved u (lo_balance_domain o1) (lo_blocked_margin_usd o1) (remove_order k s)"
  have inv: "bt_inv (cl_positions s)" "bt_inv (cl_limit_orders s)"
    and total: "\<And>v d. uint (get_reserved_margin_usd (account_or_new s v) d) = blocked_margin dm v d s"
    using assms(1) by (auto simp: margin_backed_def)
  have same: "account_or_new (remove_order k s) v = account_or_new s v" for v
    by (simp add: account_or_new_def remove_order_def)
  have "margin_backed dm ?s" if "lo_creator o1 = u"
  proof (rule margin_backedI)
    show "bt_inv (cl_positions ?s)" "bt_inv (cl_limit_orders ?s)"
      using inv by (simp_all add: remove_order_def)
    have "uint (lo_blocked_margin_usd o1) \<le>
        uint (get_reserved_margin_usd (account_or_new s u) (lo_balance_domain o1))"
      using order_at_least [OF Some] total [of u "lo_balance_domain o1"] that
        blocked_parts(1) [of dm u "lo_balance_domain o1" "cl_positions s"]
      by (simp add: blocked_margin_def)
    then have le: "lo_blocked_margin_usd o1 \<le>
        get_reserved_margin_usd (account_or_new s u) (lo_balance_domain o1)"
      by (simp add: word_le_def)
    show "uint (get_reserved_margin_usd (account_or_new ?s v) d) = blocked_margin dm v d ?s" for v d
      using total [of v d] remove_order_total [OF inv(2) Some, of v d] that
      by (auto simp: release_reserved_total same blocked_margin_def uint_saturating_sub [OF le])
        (auto simp: remove_order_def)
  qed
  with Some assms show ?thesis by (simp add: cancel_order_def)
qed

text \<open>What placing and cancelling do to the book and to the margins that are reserved.\<close>

lemma place_Ok:
  assumes "place_limit_order u ser x s = (Ok b, s')"
  obtains m where
    "required_margin ser (slo_price x) (slo_outcome_id x) (signed_qty (slo_side x) (slo_qty x)) = Ok m"
    "cl_limit_orders s' = bt_insert (slo_order_id x) (new_order u ser x m) (cl_limit_orders s)"
    "\<And>v. account_or_new s' v = (if v = u then set_reserved_margin_usd (ser_balance_domain ser)
       (get_reserved_margin_usd (account_or_new s u) (ser_balance_domain ser) + m) (account_or_new s u)
       else account_or_new s v)"
  using assms
  by (auto simp: place_limit_order_def Let_def put_account_def account_or_new_def
      split: result.splits option.splits if_splits)

lemma place_refused:
  assumes "place_limit_order u ser x s = (r, s')" "\<nexists>b. r = Ok b"
  shows "cl_limit_orders s' = cl_limit_orders s" "account_or_new s' = account_or_new s"
  using assms
  by (auto simp: place_limit_order_def Let_def put_account_def account_or_new_def fun_eq_iff
      split: result.splits option.splits if_splits)

definition reserved_at :: "clearing \<Rightarrow> user \<Rightarrow> balance_domain \<Rightarrow> int" where
  "reserved_at s u d = uint (get_reserved_margin_usd (account_or_new s u) d)"

lemma placed_margin:
  assumes "place_limit_order u ser x s = (Ok b, s')"
    and "uint (get_reserved_margin_usd (account_or_new s u) (ser_balance_domain ser)) < 2 ^ 126"
    and "\<And>m. required_margin ser (slo_price x) (slo_outcome_id x) (signed_qty (slo_side x) (slo_qty x))
           = Ok m \<Longrightarrow> uint m < 2 ^ 126"
  shows "\<exists>m. required_margin ser (slo_price x) (slo_outcome_id x)
        (signed_qty (slo_side x) (slo_qty x)) = Ok m \<and>
      cl_limit_orders s' = bt_insert (slo_order_id x) (new_order u ser x m) (cl_limit_orders s) \<and>
      reserved_at s' = (reserved_at s)(u := (reserved_at s u)
        (ser_balance_domain ser := reserved_at s u (ser_balance_domain ser) + uint m))"
  using assms(1)
proof (rule place_Ok)
  fix m
  assume m: "required_margin ser (slo_price x) (slo_outcome_id x) (signed_qty (slo_side x) (slo_qty x)) = Ok m"
    and book: "cl_limit_orders s' = bt_insert (slo_order_id x) (new_order u ser x m) (cl_limit_orders s)"
    and acc: "\<And>v. account_or_new s' v = (if v = u then set_reserved_margin_usd (ser_balance_domain ser)
       (get_reserved_margin_usd (account_or_new s u) (ser_balance_domain ser) + m) (account_or_new s u)
       else account_or_new s v)"
  have "uint (get_reserved_margin_usd (account_or_new s u) (ser_balance_domain ser) + m) =
      uint (get_reserved_margin_usd (account_or_new s u) (ser_balance_domain ser)) + uint m"
    using assms(2) assms(3) [OF m] by (intro uint_add_small) simp
  then show ?thesis using m book by (auto simp: reserved_at_def acc reserved.get_set fun_eq_iff)
qed

lemma cancelled_margin:
  assumes "margin_backed dm s" and "cancel_order v k s = (Ok b, s')"
  shows "\<exists>o1. bt_get (cl_limit_orders s) k = Some o1 \<and> lo_creator o1 = v \<and>
      cl_limit_orders s' = bt_remove k (cl_limit_orders s) \<and>
      reserved_at s' = (reserved_at s)(v := (reserved_at s v)
        (lo_balance_domain o1 := reserved_at s v (lo_balance_domain o1) - uint (lo_blocked_margin_usd o1)))"
proof -
  obtain o1 where o1: "bt_get (cl_limit_orders s) k = Some o1" "lo_creator o1 = v"
    "s' = release_reserved v (lo_balance_domain o1) (lo_blocked_margin_usd o1) (remove_order k s)"
    using assms(2) by (auto simp: cancel_order_def split: option.splits if_splits)
  have "uint (lo_blocked_margin_usd o1) \<le> reserved_at s v (lo_balance_domain o1)"
    using order_at_least [OF o1(1)] assms(1) o1(2) blocked_parts(1) [of dm v "lo_balance_domain o1" "cl_positions s"]
    by (simp add: reserved_at_def margin_backed_def blocked_margin_def)
  then have "lo_blocked_margin_usd o1 \<le> get_reserved_margin_usd (account_or_new s v) (lo_balance_domain o1)"
    by (simp add: word_le_def reserved_at_def)
  note le = uint_saturating_sub [OF this]
  have "account_or_new (remove_order k s) = account_or_new s"
    by (simp add: account_or_new_def remove_order_def fun_eq_iff)
  with o1 le show ?thesis
    by (auto simp: reserved_at_def release_reserved_total fun_eq_iff) (simp_all add: remove_order_def)
qed

text \<open>
  C11. Placing an order under a new id and cancelling one keep the reserved margin backed.  An
  accepted order is on the book with the margin that its quantity requires at its price, its creator
  has that much more reserved in the domain of the series, and nothing else is on the book or
  reserved that was not; a refused one changes neither the book nor what anybody has reserved.  A
  cancellation that succeeds takes the caller's own order off the book and exactly its blocked margin
  off the caller's reserved margin, and nothing else; one that is refused changes nothing.  What the
  account has reserved and the order's margin are below 2 to the 126.
\<close>

theorem orders_keep_margin_backed:
  assumes "margin_backed dm s" and "bt_get (cl_limit_orders s) (slo_order_id x) = None"
    and "uint (get_reserved_margin_usd (account_or_new s u) (ser_balance_domain ser)) < 2 ^ 126"
    and "\<And>m. required_margin ser (slo_price x) (slo_outcome_id x) (signed_qty (slo_side x) (slo_qty x))
           = Ok m \<Longrightarrow> uint m < 2 ^ 126"
  shows "(case place_limit_order u ser x s of
      (Ok _, s') \<Rightarrow> margin_backed dm s' \<and>
        (\<exists>m. required_margin ser (slo_price x) (slo_outcome_id x)
            (signed_qty (slo_side x) (slo_qty x)) = Ok m \<and>
          cl_limit_orders s' = bt_insert (slo_order_id x) (new_order u ser x m) (cl_limit_orders s) \<and>
          reserved_at s' = (reserved_at s)(u := (reserved_at s u)
            (ser_balance_domain ser := reserved_at s u (ser_balance_domain ser) + uint m)))
    | (_, s') \<Rightarrow> margin_backed dm s' \<and> cl_limit_orders s' = cl_limit_orders s \<and>
        reserved_at s' = reserved_at s) \<and>
    (case cancel_order v k s of
      (Ok _, s') \<Rightarrow> margin_backed dm s' \<and>
        (\<exists>o1. bt_get (cl_limit_orders s) k = Some o1 \<and> lo_creator o1 = v \<and>
          cl_limit_orders s' = bt_remove k (cl_limit_orders s) \<and>
          reserved_at s' = (reserved_at s)(v := (reserved_at s v)
            (lo_balance_domain o1 := reserved_at s v (lo_balance_domain o1) - uint (lo_blocked_margin_usd o1))))
    | (_, s') \<Rightarrow> s' = s)"
proof
  obtain r s' where run: "place_limit_order u ser x s = (r, s')" by fastforce
  have "margin_backed dm s'" using place_keeps_backed [OF assms] run by simp
  then show "case place_limit_order u ser x s of
      (Ok _, s') \<Rightarrow> margin_backed dm s' \<and>
        (\<exists>m. required_margin ser (slo_price x) (slo_outcome_id x)
            (signed_qty (slo_side x) (slo_qty x)) = Ok m \<and>
          cl_limit_orders s' = bt_insert (slo_order_id x) (new_order u ser x m) (cl_limit_orders s) \<and>
          reserved_at s' = (reserved_at s)(u := (reserved_at s u)
            (ser_balance_domain ser := reserved_at s u (ser_balance_domain ser) + uint m)))
    | (_, s') \<Rightarrow> margin_backed dm s' \<and> cl_limit_orders s' = cl_limit_orders s \<and>
        reserved_at s' = reserved_at s"
    using run placed_margin [OF _ assms(3,4)] place_refused [OF run]
    by (cases r) (auto simp: reserved_at_def fun_eq_iff)
next
  obtain r s' where run: "cancel_order v k s = (r, s')" by fastforce
  have "margin_backed dm s'" using cancel_keeps_backed [OF assms(1)] run by (metis snd_conv)
  moreover have "s' = s" if "\<nexists>b. r = Ok b"
    using run that by (auto simp: cancel_order_def split: option.splits if_splits)
  ultimately show "case cancel_order v k s of
      (Ok _, s') \<Rightarrow> margin_backed dm s' \<and>
        (\<exists>o1. bt_get (cl_limit_orders s) k = Some o1 \<and> lo_creator o1 = v \<and>
          cl_limit_orders s' = bt_remove k (cl_limit_orders s) \<and>
          reserved_at s' = (reserved_at s)(v := (reserved_at s v)
            (lo_balance_domain o1 := reserved_at s v (lo_balance_domain o1) - uint (lo_blocked_margin_usd o1))))
    | (_, s') \<Rightarrow> s' = s"
    using run cancelled_margin [OF assms(1)] by (cases r) auto
qed

definition order1 :: submit_limit_order_params where
  "order1 = \<lparr> slo_order_id = ''o1'', slo_series_id = ''bin'', slo_outcome_id = None, slo_side = Buy,
     slo_qty = 8, slo_price = price_new 5000 4 \<rparr>"

definition state_o :: clearing where
  "state_o = snd (place_limit_order alice binary0 order1 state0)"

lemma order1_margin: "required_margin binary0 (slo_price order1) (slo_outcome_id order1)
    (signed_qty (slo_side order1) (slo_qty order1)) = Ok 40000"
  by code_simp

lemma order1_new: "bt_get (cl_limit_orders state0) (slo_order_id order1) = None"
  by (simp add: state0_def clearing_empty_def)

lemma order1_placed: "place_limit_order alice binary0 order1 state0 = (Ok True, state_o)"
proof -
  have "fst (place_limit_order alice binary0 order1 state0) = Ok True" by code_simp
  then show ?thesis by (simp add: state_o_def prod_eq_iff)
qed

lemma orders_keep_margin_backed_witness:
  "margin_backed (\<lambda>_. Settlement) state_o \<and>
   reserved_at state_o alice Settlement = reserved_at state0 alice Settlement + 40000"
proof -
  have "uint (get_reserved_margin_usd (account_or_new state0 alice) (ser_balance_domain binary0)) < 2 ^ 126"
    by (simp add: state0_reserved)
  moreover have "uint m < 2 ^ 126"
    if "required_margin binary0 (slo_price order1) (slo_outcome_id order1)
      (signed_qty (slo_side order1) (slo_qty order1)) = Ok m" for m
    using that by (simp add: order1_margin)
  moreover have "ser_balance_domain binary0 = Settlement" by (simp add: binary0_def series0_def)
  ultimately show ?thesis
    using conjunct1 [OF orders_keep_margin_backed [OF state0_backed order1_new, of alice binary0]]
    by (auto simp: order1_placed order1_margin)
qed

section \<open>Market orders\<close>

text \<open>A fill that went through: the trade behind it and what it left of the order.\<close>

lemma market_order_Ok:
  assumes "submit_market_order_impl e u order tid ser q s = (Ok b, s')"
    and "\<not> bt_contains_key (cl_executed_trades s) tid"
  obtains cur rb ub s1 where
    "bt_get (cl_limit_orders s) (lo_order_id order) = Some cur" "same_order cur order"
    "remaining_blocked ser cur (lo_qty cur - fill_quantity q cur) = Ok rb"
    "rb \<le> lo_blocked_margin_usd cur" "ub = lo_blocked_margin_usd cur - rb"
    "execute_trade_impl e ser (fill_params u tid cur (fill_quantity q cur) ub) s = (Ok True, s1)"
    "s' = shrink_order cur (lo_qty cur - fill_quantity q cur) rb s1"
    "case q of None \<Rightarrow> True | Some n \<Rightarrow> 0 < sint n"
proof -
  have pos: "case q of None \<Rightarrow> True | Some n \<Rightarrow> 0 < sint n"
    using assms(1) by (auto simp: submit_market_order_impl_def split: option.splits if_splits)
  obtain cur where cur: "bt_get (cl_limit_orders s) (lo_order_id order) = Some cur"
    "same_order cur order" "fill_order e u tid ser q cur s = (Ok b, s')"
    using assms by (auto simp: submit_market_order_impl_def split: option.splits if_splits)
  obtain rb ub where rb: "remaining_blocked ser cur (lo_qty cur - fill_quantity q cur) = Ok rb"
    "unblock_amount cur rb = Ok ub"
    and trade: "(case execute_trade_impl e ser (fill_params u tid cur (fill_quantity q cur) ub) s of
        (Ok _, s) \<Rightarrow> (Ok True, shrink_order cur (lo_qty cur - fill_quantity q cur) rb s)
      | (r, s) \<Rightarrow> (r, s)) = (Ok b, s')"
    using cur(3) by (auto simp: fill_order_def Let_def obind_def split: result.splits)
  obtain r s1 where run:
    "execute_trade_impl e ser (fill_params u tid cur (fill_quantity q cur) ub) s = (r, s1)"
    by (metis surj_pair)
  have "r \<noteq> Ok False" using run by (cases rule: execute_trade_cases) auto
  then have "r = Ok True" using run trade by (cases r) auto
  then show ?thesis
    using that [OF cur(1,2) rb(1)] rb(2) run trade pos
    by (auto simp: unblock_amount_def ok_or_def checked_sub_Some split: option.splits)
qed

definition orders_keyed :: "clearing \<Rightarrow> bool" where
  "orders_keyed s = list_all (\<lambda>(k, o1). lo_order_id o1 = k) (cl_limit_orders s)"

lemma orders_keyed_get: "orders_keyed s \<Longrightarrow> bt_get (cl_limit_orders s) k = Some o1 \<Longrightarrow> lo_order_id o1 = k"
  using bt_get_mem by (fastforce simp: orders_keyed_def list_all_iff)

lemma shrink_order_frame [simp]:
  "cl_accounts (shrink_order o1 n rb s) = cl_accounts s"
  "cl_positions (shrink_order o1 n rb s) = cl_positions s"
  "cl_executed_trades (shrink_order o1 n rb s) = cl_executed_trades s"
  "account_or_new (shrink_order o1 n rb s) = account_or_new s"
  by (auto simp: shrink_order_def remove_order_def account_or_new_def fun_eq_iff)

lemma shrink_order_get:
  "bt_get (cl_limit_orders (shrink_order o1 n rb s)) k =
     (if k \<noteq> lo_order_id o1 then bt_get (cl_limit_orders s) k
      else if n = 0 then None else Some (o1\<lparr>lo_qty := n, lo_blocked_margin_usd := rb\<rparr>))"
  by (simp add: shrink_order_def remove_order_def)

lemma trade_orders:
  "execute_trade_impl e ser x s = (r, s') \<Longrightarrow> cl_limit_orders s' = cl_limit_orders s"
  by (cases rule: execute_trade_cases) auto

lemma fill_quantity_le:
  "0 < sint (lo_qty o1) \<Longrightarrow> case q of None \<Rightarrow> True | Some n \<Rightarrow> 0 < sint n \<Longrightarrow>
   0 < sint (fill_quantity q o1) \<and> sint (fill_quantity q o1) \<le> sint (lo_qty o1)"
  by (auto simp: fill_quantity_def i128_min_def split: option.splits)

lemma fill_params_fields [simp]:
  "etp_trade_id (fill_params u tid o1 n ub) = tid" "etp_qty (fill_params u tid o1 n ub) = n"
  "etp_series_id (fill_params u tid o1 n ub) = lo_series_id o1"
  "etp_outcome_id (fill_params u tid o1 n ub) = lo_outcome_id o1"
  "etp_price (fill_params u tid o1 n ub) = lo_price o1"
  "etp_buyer (fill_params u tid o1 n ub) = (if lo_side o1 = Buy then lo_creator o1 else u)"
  "etp_seller (fill_params u tid o1 n ub) = (if lo_side o1 = Buy then u else lo_creator o1)"
  "etp_buyer_unblock_amount (fill_params u tid o1 n ub) = (if lo_side o1 = Buy then Some ub else None)"
  "etp_seller_unblock_amount (fill_params u tid o1 n ub) = (if lo_side o1 = Buy then None else Some ub)"
  by (auto simp: fill_params_def split: side.splits)

text \<open>
  C29. A market order fills the resting order it names, and only as far as that order goes: on
  success under a new trade id the quantity filled is the requested one, or all that rests when that
  is less or none was requested; the order is gone when nothing remains, and otherwise keeps exactly
  the positive remainder, with no more margin blocked than before; no other order changes, and the
  positions of its creator and of the taker in that outcome move by the quantity filled, in opposite
  directions.  The book is keyed by order id, and what rests is positive.
\<close>

theorem market_order_fills:
  assumes "submit_market_order_impl e u order tid ser q s = (Ok b, s')"
    and "\<not> bt_contains_key (cl_executed_trades s) tid" and "orders_keyed s"
    and "bt_get (cl_limit_orders s) (lo_order_id order) = Some cur" and "0 < sint (lo_qty cur)"
  shows "\<exists>n. 0 < sint n \<and>
    sint n = (case q of None \<Rightarrow> sint (lo_qty cur) | Some want \<Rightarrow> min (sint want) (sint (lo_qty cur))) \<and>
    (case bt_get (cl_limit_orders s') (lo_order_id order) of
       None \<Rightarrow> n = lo_qty cur
     | Some rest \<Rightarrow> 0 < sint (lo_qty rest) \<and> sint (lo_qty rest) = sint (lo_qty cur) - sint n \<and>
         same_order rest cur \<and> lo_blocked_margin_usd rest \<le> lo_blocked_margin_usd cur) \<and>
    (\<forall>k. k \<noteq> lo_order_id order \<longrightarrow> bt_get (cl_limit_orders s') k = bt_get (cl_limit_orders s) k) \<and>
    (let maker = (lo_creator cur, lo_series_id cur, lo_outcome_id cur);
         taker = (u, lo_series_id cur, lo_outcome_id cur);
         sgn = signed_qty (lo_side cur)
     in pos_qty_at s' maker = pos_qty_at s maker + sgn n \<and>
        pos_qty_at s' taker = pos_qty_at s taker - sgn n)"
proof -
  obtain c rb ub s1 where
    c: "bt_get (cl_limit_orders s) (lo_order_id order) = Some c" "rb \<le> lo_blocked_margin_usd c"
    and trade: "execute_trade_impl e ser (fill_params u tid c (fill_quantity q c) ub) s = (Ok True, s1)"
    and s': "s' = shrink_order c (lo_qty c - fill_quantity q c) rb s1"
    and q: "case q of None \<Rightarrow> True | Some n \<Rightarrow> 0 < sint n"
    using market_order_Ok [OF assms(1,2)] by metis
  have cur: "c = cur" "lo_order_id cur = lo_order_id order"
    using c(1) assms(4) orders_keyed_get [OF assms(3,4)] by auto
  let ?n = "fill_quantity q cur"
  have n: "0 < sint ?n" "sint ?n \<le> sint (lo_qty cur)" using fill_quantity_le [OF assms(5) q] by auto
  have want: "sint ?n = (case q of None \<Rightarrow> sint (lo_qty cur) | Some want \<Rightarrow> min (sint want) (sint (lo_qty cur)))"
    by (auto simp: fill_quantity_def i128_min_def split: option.split)
  have orders: "cl_limit_orders s1 = cl_limit_orders s" by (rule trade_orders [OF trade])
  have pos: "pos_qty_at s' (lo_creator cur, lo_series_id cur, lo_outcome_id cur) =
      pos_qty_at s (lo_creator cur, lo_series_id cur, lo_outcome_id cur) + signed_qty (lo_side cur) ?n \<and>
    pos_qty_at s' (u, lo_series_id cur, lo_outcome_id cur) =
      pos_qty_at s (u, lo_series_id cur, lo_outcome_id cur) - signed_qty (lo_side cur) ?n"
    using trade
  proof (cases rule: execute_trade_cases)
    case unchanged
    then show ?thesis using assms(2) by simp
  next
    case (applied td)
    then show ?thesis
      by (auto simp: s' cur pos_qty_at_def [of "shrink_order _ _ _ _"] pos_qty_at_def [symmetric]
          apply_trade_positions signed_qty_def split: side.splits)
  qed
  have left: "sint (lo_qty cur - ?n) = sint (lo_qty cur) - sint ?n"
    using n sint_lt [of "lo_qty cur"] by (simp add: sint_word_ariths signed_take_bit_int_eq_self)
  moreover have "0 < sint (lo_qty cur - ?n)" if "lo_qty cur - ?n \<noteq> 0"
  proof -
    have "sint (lo_qty cur - ?n) \<noteq> sint (0 :: i128)"
      using that signed_word_eqI [of "lo_qty cur - ?n" 0] by auto
    with left n show ?thesis by simp
  qed
  ultimately have "case bt_get (cl_limit_orders s') (lo_order_id order) of
       None \<Rightarrow> ?n = lo_qty cur
     | Some rest \<Rightarrow> 0 < sint (lo_qty rest) \<and> sint (lo_qty rest) = sint (lo_qty cur) - sint ?n \<and>
         same_order rest cur \<and> lo_blocked_margin_usd rest \<le> lo_blocked_margin_usd cur"
    using c(2) by (auto simp: s' cur shrink_order_get same_order_def)
  then show ?thesis using n(1) want pos by (intro exI [of _ ?n]) (auto simp: s' cur shrink_order_get orders)
qed

definition rest1 :: limit_order where
  "rest1 = new_order alice binary0 order1 40000"

definition state_m :: clearing where
  "state_m = snd (submit_market_order_impl env0 bob rest1 ''t5'' binary0 (Some 3) state_o)"

lemma market1:
  "submit_market_order_impl env0 bob rest1 ''t5'' binary0 (Some 3) state_o = (Ok True, state_m)"
  "\<not> bt_contains_key (cl_executed_trades state_o) ''t5''" "orders_keyed state_o"
  "bt_get (cl_limit_orders state_o) (lo_order_id rest1) = Some rest1" "0 < sint (lo_qty rest1)"
proof -
  have all: "(fst (submit_market_order_impl env0 bob rest1 ''t5'' binary0 (Some 3) state_o) = Ok True \<and>
      \<not> bt_contains_key (cl_executed_trades state_o) ''t5'') \<and> orders_keyed state_o \<and>
      bt_get (cl_limit_orders state_o) (lo_order_id rest1) = Some rest1 \<and> 0 < sint (lo_qty rest1)"
    unfolding orders_keyed_def by code_simp
  then show "submit_market_order_impl env0 bob rest1 ''t5'' binary0 (Some 3) state_o = (Ok True, state_m)"
    by (simp add: state_m_def prod_eq_iff)
  show "\<not> bt_contains_key (cl_executed_trades state_o) ''t5''" "orders_keyed state_o"
    "bt_get (cl_limit_orders state_o) (lo_order_id rest1) = Some rest1" "0 < sint (lo_qty rest1)"
    using all by blast+
qed

lemma market_order_fills_witness:
  "\<exists>n. 0 < sint n \<and> sint n = min 3 (sint (lo_qty rest1)) \<and>
     pos_qty_at state_m (alice, ''bin'', None) = pos_qty_at state_o (alice, ''bin'', None) + n"
proof -
  have "lo_creator rest1 = alice" "lo_series_id rest1 = ''bin''" "lo_outcome_id rest1 = None"
    "lo_side rest1 = Buy" by (simp_all add: rest1_def new_order_def order1_def)
  then show ?thesis
    using market_order_fills [OF market1] by (auto simp: Let_def signed_qty_def)
qed

lemma trade_unchanged:
  "execute_trade_impl e ser x s = (Err err, s') \<Longrightarrow> s' = s"
  "execute_trade_impl e ser x s = (Trap, s') \<Longrightarrow> s' = s"
  by (erule execute_trade_cases; simp)+

lemma market_order_unchanged:
  assumes "submit_market_order_impl e u order tid ser q s = (r, s')"
    and "(\<nexists>b. r = Ok b) \<or> bt_contains_key (cl_executed_trades s) tid"
  shows "s' = s"
proof (cases r)
  case (Ok b)
  then have "bt_contains_key (cl_executed_trades s) tid" using assms(2) by simp
  with assms(1) show ?thesis by (auto simp: submit_market_order_impl_def split: if_splits)
qed (use assms(1) in \<open>auto simp: submit_market_order_impl_def fill_order_def Let_def
      dest!: trade_unchanged split: if_splits option.splits result.splits prod.splits\<close>)

text \<open>
  A market order that is refused leaves everything as it was: an error or a trap, and also the
  repetition of a trade that was executed before, change neither the book nor an account nor a
  position.  It is refused when the order is gone or was replaced by one that differs in creator,
  series, outcome, side or price.
\<close>

theorem market_order_refused:
  assumes "submit_market_order_impl e u order tid ser q s = (r, s')"
    and "(case r of Ok _ \<Rightarrow> False | _ \<Rightarrow> True) \<or> bt_contains_key (cl_executed_trades s) tid \<or>
         (case bt_get (cl_limit_orders s) (lo_order_id order) of
            None \<Rightarrow> True | Some cur \<Rightarrow> \<not> same_order cur order)"
  shows "s' = s"
proof (cases "\<exists>b. r = Ok b \<and> \<not> bt_contains_key (cl_executed_trades s) tid")
  case True
  then obtain b cur where "r = Ok b" "bt_get (cl_limit_orders s) (lo_order_id order) = Some cur"
    "same_order cur order"
    using market_order_Ok [of e u order tid ser q s] assms(1) by metis
  with True assms(2) show ?thesis by auto
next
  case False
  then show ?thesis by (intro market_order_unchanged [OF assms(1)]) auto
qed

lemma market_order_refused_witness:
  "snd (submit_market_order_impl env0 bob (rest1\<lparr>lo_qty := 5, lo_side := Sell\<rparr>) ''t5'' binary0 None state_o)
     = state_o"
proof -
  have "bt_get (cl_limit_orders state_o) (lo_order_id (rest1\<lparr>lo_qty := 5, lo_side := Sell\<rparr>)) = Some rest1"
    "\<not> same_order rest1 (rest1\<lparr>lo_qty := 5, lo_side := Sell\<rparr>)" by code_simp+
  then show ?thesis
    by (intro market_order_refused [where r = "fst (submit_market_order_impl env0 bob
        (rest1\<lparr>lo_qty := 5, lo_side := Sell\<rparr>) ''t5'' binary0 None state_o)"]) auto
qed

lemma shrink_order_total:
  assumes "bt_inv (cl_limit_orders s)" "bt_get (cl_limit_orders s) (lo_order_id o1) = Some o1"
    "rb \<le> lo_blocked_margin_usd o1" "n = 0 \<longrightarrow> rb = 0"
  shows "bt_total (order_block v d) (cl_limit_orders (shrink_order o1 n rb s)) =
    bt_total (order_block v d) (cl_limit_orders s)
    - (if lo_creator o1 = v \<and> lo_balance_domain o1 = d
       then uint (lo_blocked_margin_usd o1 - rb) else 0)"
proof -
  have ub: "uint (lo_blocked_margin_usd o1 - rb) = uint (lo_blocked_margin_usd o1) - uint rb"
    using assms(3) by (simp add: uint_sub_if_size word_le_def)
  show ?thesis
  proof (cases "n = 0")
    case True
    with assms show ?thesis
      by (simp add: shrink_order_def remove_order_total [OF assms(1,2)])
  next
    case False
    let ?new = "o1\<lparr>lo_qty := n, lo_blocked_margin_usd := rb\<rparr>"
    show ?thesis
      using bt.total_put [OF assms(1), of "order_block v d" "lo_order_id o1" ?new] assms(2) False ub
      by (auto simp: shrink_order_def order_block_def)
  qed
qed

text \<open>What a fill releases of its order's block is part of what the creator's orders block.\<close>

lemma fill_released:
  fixes u :: user and tid :: trade_id and n :: i128
  assumes "bt_get (cl_limit_orders s) k = Some cur" "rb \<le> lo_blocked_margin_usd cur"
    "lo_balance_domain cur = d"
  defines "x \<equiv> fill_params u tid cur n (lo_blocked_margin_usd cur - rb)"
  shows "uint (or_zero (etp_buyer_unblock_amount x)) \<le> bt_total (order_block (etp_buyer x) d) (cl_limit_orders s)"
    "uint (or_zero (etp_seller_unblock_amount x)) \<le> bt_total (order_block (etp_seller x) d) (cl_limit_orders s)"
proof -
  have "uint (lo_blocked_margin_usd cur - rb) \<le> uint (lo_blocked_margin_usd cur)"
    using assms(2) by (simp add: uint_sub_if_size word_le_def)
  then have "uint (lo_blocked_margin_usd cur - rb) \<le> bt_total (order_block (lo_creator cur) d) (cl_limit_orders s)"
    using order_at_least [OF assms(1)] assms(3) by simp
  then show "uint (or_zero (etp_buyer_unblock_amount x)) \<le> bt_total (order_block (etp_buyer x) d) (cl_limit_orders s)"
    "uint (or_zero (etp_seller_unblock_amount x)) \<le> bt_total (order_block (etp_seller x) d) (cl_limit_orders s)"
    by (auto simp: x_def blocked_parts)
qed

text \<open>A fill that went through.\<close>

lemma filled_keeps_backed:
  assumes "submit_market_order_impl e u order tid ser q s = (Ok b, s')"
    and "margin_backed dm s" and "orders_keyed s"
    and "bt_get (cl_limit_orders s) (lo_order_id order) = Some cur"
    and "dm (lo_series_id cur) = ser_balance_domain ser"
    and "lo_balance_domain cur = ser_balance_domain ser"
    and "\<And>v. uint (get_reserved_margin_usd (account_or_new s v) (ser_balance_domain ser)) < 2 ^ 126"
    and "\<And>m. required_margin ser (lo_price cur) (lo_outcome_id cur)
          (pos_qty_at s (lo_creator cur, lo_series_id cur, lo_outcome_id cur)
             + signed_qty (lo_side cur) (fill_quantity q cur)) = Ok m \<Longrightarrow> uint m < 2 ^ 126"
    and "\<And>m. required_margin ser (lo_price cur) (lo_outcome_id cur)
          (pos_qty_at s (u, lo_series_id cur, lo_outcome_id cur)
             - signed_qty (lo_side cur) (fill_quantity q cur)) = Ok m \<Longrightarrow> uint m < 2 ^ 126"
    and new: "\<not> bt_contains_key (cl_executed_trades s) tid"
  shows "margin_backed dm s'"
proof -
  let ?n = "fill_quantity q cur" and ?d = "ser_balance_domain ser"
  obtain c rb ub s1 where
    c: "bt_get (cl_limit_orders s) (lo_order_id order) = Some c" "rb \<le> lo_blocked_margin_usd c"
      "ub = lo_blocked_margin_usd c - rb"
    and rb: "remaining_blocked ser c (lo_qty c - fill_quantity q c) = Ok rb"
    and trade: "execute_trade_impl e ser (fill_params u tid c (fill_quantity q c) ub) s = (Ok True, s1)"
    and s': "s' = shrink_order c (lo_qty c - fill_quantity q c) rb s1"
    using market_order_Ok [OF assms(1) new] by metis
  have cur: "c = cur" "lo_order_id cur = lo_order_id order"
    using c(1) assms(4) orders_keyed_get [OF assms(3,4)] by auto
  let ?x = "fill_params u tid cur ?n ub"
  have inv: "bt_inv (cl_limit_orders s)" "bt_inv (cl_positions s)"
    using assms(2) by (auto simp: margin_backed_def)
  have none: "lo_qty cur - ?n = 0 \<longrightarrow> rb = 0" using rb by (auto simp: remaining_blocked_def cur)
  note released = fill_released [OF assms(4) c(2) [unfolded cur] assms(6), of u tid ?n, folded c(3) [unfolded cur]]
  show ?thesis
    using trade [unfolded cur]
  proof (cases rule: execute_trade_cases)
    case unchanged
    then show ?thesis using new by simp
  next
    case (applied td)
    have small: "uint (td_new_buyer_margin td) < 2 ^ 126" "uint (td_new_seller_margin td) < 2 ^ 126"
      using applied(4) assms(8,9)
      by (auto simp: calculate_deltas_def Let_def obind_Ok signed_qty_def split: side.splits if_splits)
    have dm: "dm (etp_series_id ?x) = ?d" using assms(5) by simp
    have s1: "cl_limit_orders s1 = cl_limit_orders s" by (rule trade_orders [OF trade])
    show ?thesis
    proof (rule margin_backedI)
      show "bt_inv (cl_positions s')"
        using inv(2) by (simp add: s' applied(6) positions_inv_trade)
      show "bt_inv (cl_limit_orders s')"
        using inv(1) by (simp add: s' s1 shrink_order_def remove_order_def)
      show "uint (get_reserved_margin_usd (account_or_new s' v) d) = blocked_margin dm v d s'" for v d
        using reserved_after_trade [where dm = dm and x = ?x,
            OF assms(2) applied(3,4) dm assms(7) small released, of e v d]
          shrink_order_total [of s1 cur rb "lo_qty cur - ?n" v d] s1 inv(1) assms(4,6) c(2,3) none cur
          applied(3)
        by (auto simp: s' blocked_margin_def applied(6) split: if_splits)
    qed
  qed
qed

text \<open>
  C12. A market order keeps the reserved margin backed, whatever it returns: what the fill releases of
  the resting order's margin, what the two positions need and what the remainder of the order still
  blocks add up, for both sides.  The book is keyed by order id, the order and the series are in the
  same domain, in which the series' positions are counted, and the amounts are below 2 to the 126:
  what any account has reserved there, and what the two positions require after the fill.
\<close>

theorem market_order_keeps_margin_backed:
  assumes "submit_market_order_impl e u order tid ser q s = (r, s')"
    and "margin_backed dm s" and "orders_keyed s"
    and "bt_get (cl_limit_orders s) (lo_order_id order) = Some cur"
    and "dm (lo_series_id cur) = ser_balance_domain ser"
    and "lo_balance_domain cur = ser_balance_domain ser"
    and "\<And>v. uint (get_reserved_margin_usd (account_or_new s v) (ser_balance_domain ser)) < 2 ^ 126"
    and "\<And>m. required_margin ser (lo_price cur) (lo_outcome_id cur)
          (pos_qty_at s (lo_creator cur, lo_series_id cur, lo_outcome_id cur)
             + signed_qty (lo_side cur) (fill_quantity q cur)) = Ok m \<Longrightarrow> uint m < 2 ^ 126"
    and "\<And>m. required_margin ser (lo_price cur) (lo_outcome_id cur)
          (pos_qty_at s (u, lo_series_id cur, lo_outcome_id cur)
             - signed_qty (lo_side cur) (fill_quantity q cur)) = Ok m \<Longrightarrow> uint m < 2 ^ 126"
  shows "margin_backed dm s'"
proof (cases "(\<exists>b. r = Ok b) \<and> \<not> bt_contains_key (cl_executed_trades s) tid")
  case True
  then obtain b where ok: "submit_market_order_impl e u order tid ser q s = (Ok b, s')" using assms(1) by blast
  show ?thesis using filled_keeps_backed [OF ok assms(2-9)] True by blast
next
  case False
  then have "s' = s" using market_order_unchanged [OF assms(1)] by blast
  with assms(2) show ?thesis by simp
qed

lemma state_o_backed: "margin_backed (\<lambda>_. Settlement) state_o"
  unfolding state_o_def
  by (rule place_keeps_backed [OF state0_backed order1_new]) (simp_all add: state0_reserved order1_margin)

lemma state_o_reserved: "uint (get_reserved_margin_usd (account_or_new state_o v) d) \<le> 40000"
proof -
  have "bt_total (order_block v d) (cl_limit_orders state_o) \<le> 40000"
  proof -
    have "cl_limit_orders state_o = [(''o1'', rest1)]" by code_simp
    moreover have "lo_blocked_margin_usd rest1 = 40000" by (simp add: rest1_def new_order_def order1_def)
    ultimately show ?thesis by (simp add: order_block_def)
  qed
  moreover have "cl_positions state_o = []" by code_simp
  ultimately show ?thesis using state_o_backed by (simp add: margin_backed_def blocked_margin_def)
qed

lemma market_order_keeps_margin_backed_witness: "margin_backed (\<lambda>_. Settlement) state_m"
proof (rule market_order_keeps_margin_backed [OF market1(1) state_o_backed market1(3,4)])
  show "Settlement = ser_balance_domain binary0" "lo_balance_domain rest1 = ser_balance_domain binary0"
    by (simp_all add: rest1_def new_order_def order1_def binary0_def series0_def)
  show "uint (get_reserved_margin_usd (account_or_new state_o v) (ser_balance_domain binary0)) < 2 ^ 126"
    for v using state_o_reserved [of v "ser_balance_domain binary0"] by simp
  have margins: "required_margin binary0 (lo_price rest1) (lo_outcome_id rest1)
          (pos_qty_at state_o (lo_creator rest1, lo_series_id rest1, lo_outcome_id rest1)
             + signed_qty (lo_side rest1) (fill_quantity (Some 3) rest1)) = Ok 15000"
    "required_margin binary0 (lo_price rest1) (lo_outcome_id rest1)
          (pos_qty_at state_o (bob, lo_series_id rest1, lo_outcome_id rest1)
             - signed_qty (lo_side rest1) (fill_quantity (Some 3) rest1)) = Ok 15000" by code_simp+
  show "uint m < 2 ^ 126" if "required_margin binary0 (lo_price rest1) (lo_outcome_id rest1)
          (pos_qty_at state_o (lo_creator rest1, lo_series_id rest1, lo_outcome_id rest1)
             + signed_qty (lo_side rest1) (fill_quantity (Some 3) rest1)) = Ok m" for m
    using that margins by simp
  show "uint m < 2 ^ 126" if "required_margin binary0 (lo_price rest1) (lo_outcome_id rest1)
          (pos_qty_at state_o (bob, lo_series_id rest1, lo_outcome_id rest1)
             - signed_qty (lo_side rest1) (fill_quantity (Some 3) rest1)) = Ok m" for m
    using that margins by simp
qed

section \<open>Cancellation\<close>

text \<open>
  Cancelling undoes placing: when an order that was accepted under a new id is cancelled by its
  creator in the state it left, the call succeeds, the book is the one before the order, and every
  balance, cash balance and reserved margin of every account is what it was.
\<close>

theorem cancel_undoes_place:
  assumes "place_limit_order u ser x s = (Ok True, s')" and "bt_inv (cl_limit_orders s)"
    and "bt_get (cl_limit_orders s) (slo_order_id x) = None"
    and "uint (get_reserved_margin_usd (account_or_new s u) (ser_balance_domain ser)) < 2 ^ 126"
    and "\<And>m. required_margin ser (slo_price x) (slo_outcome_id x) (signed_qty (slo_side x) (slo_qty x))
           = Ok m \<Longrightarrow> uint m < 2 ^ 126"
  shows "\<exists>s''. cancel_order u (slo_order_id x) s' = (Ok True, s'') \<and>
           cl_limit_orders s'' = cl_limit_orders s \<and> cl_positions s'' = cl_positions s \<and>
           (\<forall>v d. get_reserved_margin_usd (account_or_new s'' v) d
                = get_reserved_margin_usd (account_or_new s v) d \<and>
                get_cash_balance_usd (account_or_new s'' v) d = get_cash_balance_usd (account_or_new s v) d \<and>
                get_balance (account_or_new s'' v) d = get_balance (account_or_new s v) d)"
proof -
  let ?acc = "account_or_new s u" and ?d = "ser_balance_domain ser"
  let ?r = "get_reserved_margin_usd ?acc ?d"
  obtain m where m: "required_margin ser (slo_price x) (slo_outcome_id x)
      (signed_qty (slo_side x) (slo_qty x)) = Ok m"
    using assms(1) by (auto simp: place_limit_order_def split: result.splits)
  define s1 where "s1 = put_account u (set_reserved_margin_usd ?d (?r + m) ?acc) (put_account u ?acc s)"
  have s': "s' = s1\<lparr>cl_limit_orders := bt_insert (slo_order_id x) (new_order u ser x m) (cl_limit_orders s)\<rparr>"
    using assms(1) m by (auto simp: place_limit_order_def Let_def put_account_def s1_def
        split: option.splits if_splits)
  have acc: "account_or_new s' v = (if v = u then set_reserved_margin_usd ?d (?r + m) ?acc
      else account_or_new s v)" for v
    by (simp add: s' s1_def account_or_new_def put_account_def)
  let ?s'' = "release_reserved u ?d m (remove_order (slo_order_id x) s')"
  have cancel: "cancel_order u (slo_order_id x) s' = (Ok True, ?s'')"
    by (simp add: cancel_order_def s' new_order_def)
  have "bt_inv (bt_insert (slo_order_id x) (new_order u ser x m) (cl_limit_orders s))"
    using assms(2) by simp
  then have book: "cl_limit_orders ?s'' = cl_limit_orders s"
    using assms(2,3) by (intro bt_ext) (auto simp: remove_order_def s')
  have positions: "cl_positions ?s'' = cl_positions s"
    by (simp add: remove_order_def s' s1_def)
  have sum: "uint (?r + m) = uint ?r + uint m"
    using assms(4) assms(5) [OF m] by (intro uint_add_small) simp
  then have "\<not> ?r + m < m" by (simp add: word_less_def)
  then have undone: "saturating_sub (?r + m) m = ?r" by (simp add: saturating_sub_def)
  have some: "bt_get (cl_accounts (remove_order (slo_order_id x) s')) u =
      Some (set_reserved_margin_usd ?d (?r + m) ?acc)"
    by (simp add: remove_order_def s' s1_def put_account_def)
  have final: "account_or_new ?s'' v = (if v = u then set_reserved_margin_usd ?d ?r
      (set_reserved_margin_usd ?d (?r + m) ?acc) else account_or_new s v)" for v
    using acc [of v] some undone
    by (auto simp: release_reserved_def account_or_new_put)
      (simp add: account_or_new_def remove_order_def)
  show ?thesis
    using cancel book positions by (intro exI [of _ ?s'']) (auto simp: final reserved.get_set)
qed

lemma cancel_undoes_place_witness:
  "\<exists>s''. cancel_order alice (slo_order_id order1) state_o = (Ok True, s'') \<and>
     cl_limit_orders s'' = cl_limit_orders state0"
proof -
  note run = order1_placed
  have "cl_limit_orders state0 = []" by (simp add: state0_def clearing_empty_def)
  then have inv: "bt_inv (cl_limit_orders state0)" by simp
  have "uint (get_reserved_margin_usd (account_or_new state0 alice) (ser_balance_domain binary0)) < 2 ^ 126"
    by (simp add: state0_reserved)
  from cancel_undoes_place [OF run inv order1_new this] show ?thesis
    by (simp add: order1_margin) blast
qed

end
