(* ===== verification/SetProperties.thy ===== *)
theory SetProperties
  imports Backing SettlementFacts Samples
begin

text \<open>
  The properties of complete sets and of position transfers (\<open>api/trade/api.rs\<close>).
\<close>

section \<open>Granting and redeeming outcomes\<close>

lemma grant_outcome_get:
  "bt_get (grant_outcome u sid q share o1 m) k =
     (if k = (u, sid, Some (out_id o1))
      then Some (let p = (case bt_get m k of None \<Rightarrow> position_new k | Some p \<Rightarrow> p)
                 in p\<lparr>pos_net_qty := pos_net_qty p + q,
                      pos_reserved_margin_usd := pos_reserved_margin_usd p + share\<rparr>)
      else bt_get m k)"
  by (auto simp: grant_outcome_def Let_def)

lemma fold_grant_other:
  "k \<notin> (\<lambda>o1. (u, sid, Some (out_id o1))) ` set os \<Longrightarrow>
   bt_get (fold (grant_outcome u sid q share) os m) k = bt_get m k"
  by (induction os arbitrary: m) (auto simp: grant_outcome_get)

lemma fold_grant_get:
  assumes "distinct (map out_id os)" "o1 \<in> set os"
  shows "bt_get (fold (grant_outcome u sid q share) os m) (u, sid, Some (out_id o1)) =
    Some (let k = (u, sid, Some (out_id o1));
              p = (case bt_get m k of None \<Rightarrow> position_new k | Some p \<Rightarrow> p)
          in p\<lparr>pos_net_qty := pos_net_qty p + q,
               pos_reserved_margin_usd := pos_reserved_margin_usd p + share\<rparr>)"
  using assms
proof (induction os arbitrary: m)
  case (Cons o2 os)
  show ?case
  proof (cases "o2 = o1")
    case True
    then have "(u, sid, Some (out_id o1)) \<notin> (\<lambda>o1. (u, sid, Some (out_id o1))) ` set os"
      using Cons.prems(1) by auto
    then show ?thesis by (simp add: fold_grant_other grant_outcome_get True Let_def)
  next
    case False
    then have "o1 \<in> set os" "out_id o2 \<noteq> out_id o1" using Cons.prems by (auto simp: inj_on_def)
    then show ?thesis using Cons by (simp add: grant_outcome_get Let_def)
  qed
qed simp

lemma mint_Ok:
  assumes "mint_complete_set_logic u sid ser q s = (Ok b, s')"
  obtains outs share where
    "0 < sint q" "ser_payoff_type ser = Categorical" "ser_outcomes ser = Some outs"
    "u_div (unsigned_abs (set_cost q)) (of_nat (length outs)) = Some share"
    "s' = (put_account u (set_reserved_margin_usd (ser_balance_domain ser)
             (get_reserved_margin_usd (account_or_new s u) (ser_balance_domain ser)
                + unsigned_abs (set_cost q)) (account_or_new s u)) (put_account u (account_or_new s u) s))
           \<lparr>cl_positions := fold (grant_outcome u sid q share) outs (cl_positions s)\<rparr>"
  using assms
  by (auto simp: mint_complete_set_logic_def categorical_outcomes_def Let_def ok_or_def put_account_def
      split: result.splits if_splits option.splits)

lemma redeem_outcome_some:
  assumes "bt_get (cl_positions s) (u, sid, Some (out_id o1)) = Some pos" "pos_net_qty pos \<noteq> 0"
  shows "redeem_outcome u sid d q o1 s = Some (release_reserved u d
      (pos_reserved_margin_usd pos div pos_net_qty pos * q)
      (s\<lparr>cl_positions := bt_insert (u, sid, Some (out_id o1))
          (pos\<lparr>pos_net_qty := pos_net_qty pos - q, pos_reserved_margin_usd :=
             saturating_sub (pos_reserved_margin_usd pos)
               (pos_reserved_margin_usd pos div pos_net_qty pos * q)\<rparr>) (cl_positions s)\<rparr>))"
  using assms by (simp add: redeem_outcome_def u_div_def Let_def)

lemma redeem_outcomes_other:
  "redeem_outcomes u sid d q os s = Some s' \<Longrightarrow> k \<notin> (\<lambda>o1. (u, sid, Some (out_id o1))) ` set os \<Longrightarrow>
   pos_qty_at s' k = pos_qty_at s k \<and> pos_margin_at s' k = pos_margin_at s k"
proof (induction os arbitrary: s)
  case (Cons o1 os)
  from Cons.prems obtain s1 where s1: "redeem_outcome u sid d q o1 s = Some s1"
    "redeem_outcomes u sid d q os s1 = Some s'" by (auto split: option.splits)
  have "pos_qty_at s1 k = pos_qty_at s k \<and> pos_margin_at s1 k = pos_margin_at s k"
    using s1(1) Cons.prems(2)
    by (auto simp: redeem_outcome_def Let_def pos_qty_at_def pos_margin_at_def split: option.splits)
  then show ?case using Cons.IH [OF s1(2)] Cons.prems(2) by simp
qed simp

text \<open>Redeeming a quantity that every outcome holds with the same margin.\<close>

lemma redeem_outcomes_same:
  assumes "distinct (map out_id os)" "q \<noteq> 0"
    and "\<forall>o1\<in>set os. pos_qty_at s (u, sid, Some (out_id o1)) = q \<and>
          pos_margin_at s (u, sid, Some (out_id o1)) = share"
    and "bt_get (cl_accounts s) u \<noteq> None"
    and "uint (share div q * q) * int (length os)
           \<le> uint (get_reserved_margin_usd (account_or_new s u) d)"
  shows "\<exists>s'. redeem_outcomes u sid d q os s = Some s' \<and>
      uint (get_reserved_margin_usd (account_or_new s' u) d) =
        uint (get_reserved_margin_usd (account_or_new s u) d) - uint (share div q * q) * int (length os) \<and>
      (\<forall>o1\<in>set os. pos_qty_at s' (u, sid, Some (out_id o1)) = 0)"
  using assms
proof (induction os arbitrary: s)
  case Nil
  then show ?case by simp
next
  case (Cons o1 os)
  let ?k = "(u, sid, Some (out_id o1))" and ?rel = "share div q * q"
  obtain pos where pos: "bt_get (cl_positions s) ?k = Some pos" "pos_net_qty pos = q"
    "pos_reserved_margin_usd pos = share"
    using Cons.prems(2,3) by (auto simp: pos_qty_at_def pos_margin_at_def split: option.splits)
  let ?s1 = "release_reserved u d ?rel
      (s\<lparr>cl_positions := bt_insert ?k (pos\<lparr>pos_net_qty := pos_net_qty pos - q,
           pos_reserved_margin_usd := saturating_sub share ?rel\<rparr>) (cl_positions s)\<rparr>)"
  have step: "redeem_outcome u sid d q o1 s = Some ?s1"
    using redeem_outcome_some [OF pos(1)] pos(2,3) Cons.prems(2) by simp
  have at1: "pos_qty_at ?s1 k = (if k = ?k then 0 else pos_qty_at s k)"
    "k \<noteq> ?k \<Longrightarrow> pos_margin_at ?s1 k = pos_margin_at s k" for k
    using pos by (auto simp: pos_qty_at_def pos_margin_at_def)
  have rest: "\<forall>o2\<in>set os. pos_qty_at ?s1 (u, sid, Some (out_id o2)) = q \<and>
      pos_margin_at ?s1 (u, sid, Some (out_id o2)) = share"
  proof
    fix o2 assume o2: "o2 \<in> set os"
    then have "out_id o2 \<noteq> out_id o1" using Cons.prems(1) by (metis distinct.simps(2) image_eqI list.simps(9) set_map)
    then show "pos_qty_at ?s1 (u, sid, Some (out_id o2)) = q \<and>
        pos_margin_at ?s1 (u, sid, Some (out_id o2)) = share"
      using Cons.prems(3) o2 at1 [of "(u, sid, Some (out_id o2))"] by simp
  qed
  have account: "bt_get (cl_accounts ?s1) u \<noteq> None"
    using Cons.prems(4) by (auto simp: release_reserved_def put_account_def)
  have le: "uint ?rel \<le> uint (get_reserved_margin_usd (account_or_new s u) d)"
    using Cons.prems(5) mult_left_mono [of 1 "int (length (o1 # os))" "uint ?rel"] by simp
  have reserved: "uint (get_reserved_margin_usd (account_or_new ?s1 u) d) =
      uint (get_reserved_margin_usd (account_or_new s u) d) - uint ?rel"
    using Cons.prems(4) le
    by (auto simp: release_reserved_def account_or_new_def put_account_def reserved.get_set
        saturating_sub_eq uint_sub_if_size word_le_def)
  have "uint ?rel * int (length os) \<le> uint (get_reserved_margin_usd (account_or_new ?s1 u) d)"
    using Cons.prems(5) reserved by (simp add: algebra_simps)
  then obtain s' where s': "redeem_outcomes u sid d q os ?s1 = Some s'"
    "uint (get_reserved_margin_usd (account_or_new s' u) d) =
        uint (get_reserved_margin_usd (account_or_new ?s1 u) d) - uint ?rel * int (length os)"
    "\<forall>o2\<in>set os. pos_qty_at s' (u, sid, Some (out_id o2)) = 0"
    using Cons.IH [OF _ Cons.prems(2) rest account] Cons.prems(1) by auto
  have "?k \<notin> (\<lambda>o1. (u, sid, Some (out_id o1))) ` set os" using Cons.prems(1) by auto
  then have "pos_qty_at s' ?k = 0" using redeem_outcomes_other [OF s'(1)] by (simp add: at1)
  with s' step reserved show ?case by (auto simp: algebra_simps)
qed

section \<open>Money\<close>

text \<open>Nobody's cash and nobody's asset balances differ, in any domain.\<close>

definition same_money :: "clearing \<Rightarrow> clearing \<Rightarrow> bool" where
  "same_money s' s \<longleftrightarrow>
     (\<forall>v d. get_cash_balance_usd (account_or_new s' v) d = get_cash_balance_usd (account_or_new s v) d \<and>
            get_balance (account_or_new s' v) d = get_balance (account_or_new s v) d)"

lemma release_money: "same_money (release_reserved u d v s) s"
  by (auto simp: same_money_def release_reserved_def account_or_new_def put_account_def split: option.splits)

lemma redeem_outcomes_money: "redeem_outcomes u sid d q os s = Some s' \<Longrightarrow> same_money s' s"
proof (induction os arbitrary: s)
  case Nil
  then show ?case by (simp add: same_money_def)
next
  case (Cons o1 os)
  from Cons.prems obtain s1 where s1: "redeem_outcome u sid d q o1 s = Some s1"
    "redeem_outcomes u sid d q os s1 = Some s'" by (auto split: option.splits)
  have frame: "account_or_new (t\<lparr>cl_positions := m\<rparr>) = account_or_new t" for t m
    by (simp add: account_or_new_def fun_eq_iff)
  have "same_money s1 s"
    using s1(1) release_money
    by (auto simp: redeem_outcome_def Let_def same_money_def frame split: option.splits)
  with Cons.IH [OF s1(2)] show ?case by (simp add: same_money_def)
qed

section \<open>Round trip\<close>

lemma set_cost_exact:
  assumes "0 < sint q" "sint q * 10000 < 2 ^ 127"
  shows "uint (unsigned_abs (set_cost q)) = sint q * 10000"
proof -
  have "uint (q * max_payoff) = sint q * 10000"
    using assms uint_mult_nonneg [of q max_payoff] by (simp add: max_payoff_eq)
  moreover have "set_cost q = q * max_payoff"
    using assms by (simp add: set_cost_def unsigned_abs_nonneg)
  moreover have "0 \<le> sint (q * max_payoff)"
    using assms calculation(1) by (simp add: small_sint)
  ultimately show ?thesis by (simp add: unsigned_abs_nonneg)
qed

text \<open>The share of an outcome, and what redeeming it gives back: the set's cost up to rounding.\<close>

lemma minted_share:
  fixes c share :: u128
  assumes "u_div c (of_nat n) = Some share" "uint c = k" "n < 2 ^ 64"
  shows "0 < int n" "uint share = k div int n"
proof -
  have "n \<noteq> 0" using assms(1) by (cases "n = 0") (simp_all add: u_div_def)
  then have n: "0 < int n" "uint (of_nat n :: u128) = int n"
    using assms(1,3) by (auto simp: u_div_def unsigned_of_nat take_bit_nat_eq_self take_bit_int_eq_self
        of_nat_less_iff split: if_splits)
  show "0 < int n" by (rule n)
  show "uint share = k div int n"
    using assms(1,2) n by (auto simp: u_div_def uint_div split: if_splits)
qed

lemma redeemed_share:
  fixes q share :: "128 word"
  assumes "0 < sint q" "sint q * 10000 < 2 ^ 126" "0 < n" "uint share = sint q * 10000 div n"
  shows "uint (share div q * q) = 10000 div n * sint q" "10000 div n * sint q * n \<le> sint q * 10000"
proof -
  have qn: "uint q = sint q" using assms(1) sint_uint_nonneg [of q] by auto
  have "sint q * 10000 div n div sint q = 10000 div n"
    using assms(1,3) by (simp add: zdiv_zmult2_eq [symmetric] mult.commute)
  then have unit: "uint (share div q) = 10000 div n"
    using assms(4) qn by (simp add: uint_div)
  have "10000 div n * n \<le> 10000" using assms(3) by (simp add: minus_mod_eq_div_mult [symmetric])
  then show "10000 div n * sint q * n \<le> sint q * 10000"
    using assms(1) mult_right_mono [of "10000 div n * n" 10000 "sint q"] by (simp add: algebra_simps)
  have "10000 div n \<le> 10000" using zdiv_mono2 [of 10000 1 n] assms(3) by simp
  then have "10000 div n * sint q \<le> 10000 * sint q" using assms(1) by (intro mult_right_mono) simp_all
  then have "10000 div n * sint q < 2 ^ 128" using assms(2) by simp
  moreover have "0 \<le> 10000 div n * sint q"
    using assms(1,3) by (intro mult_nonneg_nonneg) (simp_all add: pos_imp_zdiv_nonneg_iff)
  ultimately show "uint (share div q * q) = 10000 div n * sint q"
    unfolding uint_word_ariths(3) unit qn by (simp add: mod_pos_pos_trivial)
qed

text \<open>
  C30. Minting complete sets and redeeming them again gives the margin back up to rounding: when a
  user without positions in the series mints \<open>q\<close> sets of a Categorical series and redeems \<open>q\<close>, the
  redemption succeeds, every outcome's quantity is zero again, and the reserved margin is what it was
  plus \<open>q\<close> times the remainder of 10000 by the number of outcomes; it is exactly what it was when that
  number divides 10000.  No cash moves, neither at the mint nor at the redemption, and no asset
  balance.  The fewer than 2^64 outcomes have distinct ids, and the cost of the sets and what the user has reserved
  are below 2 to the 126.
\<close>

theorem mint_redeem_round_trip:
  assumes "mint_complete_set_logic u sid ser q s = (Ok b, s')" and "ser_outcomes ser = Some outs"
    and "distinct (map out_id outs)"
    and "\<forall>o1\<in>set outs. bt_get (cl_positions s) (u, sid, Some (out_id o1)) = None"
    and "sint q * 10000 < 2 ^ 126"
    and "uint (get_reserved_margin_usd (account_or_new s u) (ser_balance_domain ser)) < 2 ^ 126"
    and "length outs < 2 ^ 64"
  shows "same_money s' s \<and>
    (\<exists>s''. redeem_complete_set_logic u sid ser q s' = (Ok True, s'') \<and> same_money s'' s' \<and>
      (\<forall>o1\<in>set outs. pos_qty_at s'' (u, sid, Some (out_id o1)) = 0) \<and>
      uint (get_reserved_margin_usd (account_or_new s'' u) (ser_balance_domain ser)) =
        uint (get_reserved_margin_usd (account_or_new s u) (ser_balance_domain ser))
        + sint q * (10000 mod int (length outs)))"
proof -
  let ?d = "ser_balance_domain ser" and ?n = "int (length outs)"
  obtain share where mint: "0 < sint q" "ser_payoff_type ser = Categorical"
    "u_div (unsigned_abs (set_cost q)) (of_nat (length outs)) = Some share"
    "s' = (put_account u (set_reserved_margin_usd ?d
             (get_reserved_margin_usd (account_or_new s u) ?d + unsigned_abs (set_cost q))
             (account_or_new s u)) (put_account u (account_or_new s u) s))
           \<lparr>cl_positions := fold (grant_outcome u sid q share) outs (cl_positions s)\<rparr>"
    using mint_Ok [OF assms(1)] assms(2) by (metis option.inject)
  have qn: "q \<noteq> 0" using mint(1) by auto
  have cost: "uint (unsigned_abs (set_cost q)) = sint q * 10000"
    using set_cost_exact [OF mint(1)] assms(5) by simp
  note share = minted_share [OF mint(3) cost assms(7)]
  note rel = redeemed_share(1) [OF mint(1) assms(5) share] and le = redeemed_share(2) [OF mint(1) assms(5) share]
  have reserved: "uint (get_reserved_margin_usd (account_or_new s' u) ?d) =
      uint (get_reserved_margin_usd (account_or_new s u) ?d) + sint q * 10000"
    using cost assms(5,6)
    by (simp add: mint(4) account_or_new_def put_account_def reserved.get_set uint_add_small)
  have pos: "\<forall>o1\<in>set outs. pos_qty_at s' (u, sid, Some (out_id o1)) = q \<and>
      pos_margin_at s' (u, sid, Some (out_id o1)) = share"
    using assms(4) fold_grant_get [OF assms(3)]
    by (auto simp: mint(4) pos_qty_at_def pos_margin_at_def Let_def position_new_def)
  have account: "bt_get (cl_accounts s') u \<noteq> None" by (simp add: mint(4) put_account_def)
  have room: "uint (share div q * q) * ?n
      \<le> uint (get_reserved_margin_usd (account_or_new s' u) ?d)"
    unfolding rel reserved by (rule order_trans [OF le]) simp
  obtain s'' where s'': "redeem_outcomes u sid ?d q outs s' = Some s''"
    "uint (get_reserved_margin_usd (account_or_new s'' u) ?d) =
       uint (get_reserved_margin_usd (account_or_new s' u) ?d) - 10000 div ?n * sint q * ?n"
    "\<forall>o1\<in>set outs. pos_qty_at s'' (u, sid, Some (out_id o1)) = 0"
    using redeem_outcomes_same [OF assms(3) qn pos account room] unfolding rel by auto
  have "List.find (lacking_outcome u sid q s') outs = None"
    using pos by (auto simp: find_None_iff lacking_outcome_def)
  then have "redeem_complete_set_logic u sid ser q s' = (Ok True, s'')"
    using mint(1,2) assms(2) s''(1)
    by (simp add: redeem_complete_set_logic_def categorical_outcomes_def ok_or_def)
  moreover have "sint q * 10000 - 10000 div ?n * sint q * ?n = sint q * (10000 mod ?n)"
    by (simp add: minus_div_mult_eq_mod [symmetric] algebra_simps)
  moreover have "same_money s' s"
    by (auto simp: same_money_def mint(4) account_or_new_def put_account_def)
  ultimately show ?thesis using s'' reserved redeem_outcomes_money [OF s''(1)] by auto
qed

definition cat3 :: series where
  "cat3 = series0 ''cat'' Categorical (Some [outcome0 ''A'', outcome0 ''B'', outcome0 ''C''])"

definition minted0 :: clearing where
  "minted0 = snd (mint_complete_set_logic alice ''cat'' cat3 5 state0)"

lemma mint_redeem_round_trip_witness:
  "same_money minted0 state0 \<and>
   (\<exists>s''. redeem_complete_set_logic alice ''cat'' cat3 5 minted0 = (Ok True, s'') \<and> same_money s'' minted0 \<and>
      (\<forall>o1\<in>set [outcome0 ''A'', outcome0 ''B'', outcome0 ''C''].
         pos_qty_at s'' (alice, ''cat'', Some (out_id o1)) = 0) \<and>
      uint (get_reserved_margin_usd (account_or_new s'' alice) (ser_balance_domain cat3)) =
        uint (get_reserved_margin_usd (account_or_new state0 alice) (ser_balance_domain cat3))
        + sint (5 :: i128) * (10000 mod int (length [outcome0 ''A'', outcome0 ''B'', outcome0 ''C''])))"
proof (rule mint_redeem_round_trip)
  have "fst (mint_complete_set_logic alice ''cat'' cat3 5 state0) = Ok True" by code_simp
  then show "mint_complete_set_logic alice ''cat'' cat3 5 state0 = (Ok True, minted0)"
    by (simp add: minted0_def prod_eq_iff)
  show "ser_outcomes cat3 = Some [outcome0 ''A'', outcome0 ''B'', outcome0 ''C'']" by code_simp
  show "distinct (map out_id [outcome0 ''A'', outcome0 ''B'', outcome0 ''C''])" by code_simp
  show "\<forall>o1\<in>set [outcome0 ''A'', outcome0 ''B'', outcome0 ''C''].
      bt_get (cl_positions state0) (alice, ''cat'', Some (out_id o1)) = None" by code_simp
  have "get_reserved_margin_usd (account_or_new state0 alice) (ser_balance_domain cat3) = 0"
    by code_simp
  then show "uint (get_reserved_margin_usd (account_or_new state0 alice) (ser_balance_domain cat3))
      < 2 ^ 126" by simp
qed simp_all

end
