(* ===== verification/MarketProperties.thy ===== *)
theory MarketProperties
  imports SettlementFacts Samples
begin

text \<open>
  Properties of the market as a whole: the wealth that a sequence of trades conserves, the open
  interest, and the arbitrage bound on the order book of a categorical series.
\<close>

section \<open>Sequences of trades\<close>

text \<open>Trades of one outcome of a series, executed or refused, one after the other.\<close>

fun run_trades :: "series \<Rightarrow> (env \<times> execute_trade_params) list \<Rightarrow> clearing \<Rightarrow> clearing" where
  "run_trades ser [] s = s"
| "run_trades ser ((e, x) # xs) s = run_trades ser xs (snd (execute_trade_impl e ser x s))"

definition wealth :: "clearing \<Rightarrow> balance_domain \<Rightarrow> u128 \<Rightarrow> series_id \<Rightarrow> outcome_id option \<Rightarrow>
    user set \<Rightarrow> i128" where
  "wealth s d u sid oid U = (\<Sum>v\<in>U. terminal_value s d u (v, sid, oid))"

definition open_interest :: "clearing \<Rightarrow> series_id \<Rightarrow> outcome_id option \<Rightarrow> user set \<Rightarrow> i128" where
  "open_interest s sid oid U = (\<Sum>v\<in>U. pos_qty_at s (v, sid, oid))"

lemma sum_two:
  fixes f g :: "'a \<Rightarrow> 'b::ab_group_add"
  assumes "finite U" "a \<in> U" "b \<in> U" "a \<noteq> b" "g a = f a + t" "g b = f b - t"
    and "\<And>v. v \<noteq> a \<Longrightarrow> v \<noteq> b \<Longrightarrow> g v = f v"
  shows "sum g U = sum f U"
proof -
  have "U = insert a (insert b (U - {a, b}))" using assms(2,3) by auto
  then obtain V where V: "U = insert a (insert b V)" "a \<notin> V" "b \<notin> V" "finite V"
    using assms(1) by blast
  have "sum g V = sum f V" using V assms(7) by (intro sum.cong refl) metis
  then show ?thesis using V assms(4-6) by simp
qed

lemma trade_keeps_wealth:
  assumes "execute_trade_impl e ser x s = (r, s')" "fully_collateralised ser"
    and "margin_price (etp_price x) = Some p" "p \<le> max_payoff" "u \<le> max_payoff"
    and "finite U" "etp_buyer x \<in> U" "etp_seller x \<in> U"
  shows "wealth s' (ser_balance_domain ser) u (etp_series_id x) (etp_outcome_id x) U =
         wealth s (ser_balance_domain ser) u (etp_series_id x) (etp_outcome_id x) U \<and>
         open_interest s' (etp_series_id x) (etp_outcome_id x) U =
         open_interest s (etp_series_id x) (etp_outcome_id x) U"
  using assms(1)
proof (cases rule: execute_trade_cases)
  case unchanged
  then show ?thesis by simp
next
  case (applied td)
  have other: "terminal_value s' d u (v, sid, oid) = terminal_value s d u (v, sid, oid) \<and>
      pos_qty_at s' (v, sid, oid) = pos_qty_at s (v, sid, oid)"
    if "v \<noteq> etp_buyer x" "v \<noteq> etp_seller x" for d v sid oid
    using that applied(3)
    by (simp add: terminal_value_def applied(6) apply_trade_account apply_trade_positions)
  note sides = apply_trade_terminal_value [OF applied(3) assms(2,3) applied(4) assms(4,5), of e,
      folded applied(6)]
  have "wealth s' (ser_balance_domain ser) u (etp_series_id x) (etp_outcome_id x) U =
      wealth s (ser_balance_domain ser) u (etp_series_id x) (etp_outcome_id x) U"
    unfolding wealth_def
    by (rule sum_two [OF assms(6-8) applied(3) sides(1) sides(2)]) (simp add: other)
  moreover have "open_interest s' (etp_series_id x) (etp_outcome_id x) U =
      open_interest s (etp_series_id x) (etp_outcome_id x) U"
    unfolding open_interest_def
    by (rule sum_two [OF assms(6-8) applied(3), where t = "etp_qty x"])
      (use applied(3) in \<open>simp_all add: other, simp_all add: applied(6) apply_trade_positions\<close>)
  ultimately show ?thesis by simp
qed

text \<open>
  C13. Trading is zero-sum: over any sequence of trades in one outcome of a fully collateralised
  series, executed or refused, at any prices up to one USD, the traders' cash plus payouts minus
  booked margins add up to the same total, for every unit payoff up to one USD that the settlement may
  yield (a Categorical one always does; the price of a Binary settlement is not capped by the code),
  and so do their net quantities: no open interest arises on one side only.
\<close>

theorem trading_is_zero_sum:
  assumes "fully_collateralised ser" and "u \<le> max_payoff" and "finite U"
    and "\<forall>(e, x)\<in>set xs. etp_series_id x = sid \<and> etp_outcome_id x = oid \<and>
           etp_buyer x \<in> U \<and> etp_seller x \<in> U \<and>
           (\<exists>p. margin_price (etp_price x) = Some p \<and> p \<le> max_payoff)"
  shows "wealth (run_trades ser xs s) (ser_balance_domain ser) u sid oid U =
           wealth s (ser_balance_domain ser) u sid oid U \<and>
         open_interest (run_trades ser xs s) sid oid U = open_interest s sid oid U"
  using assms(4)
proof (induction xs arbitrary: s)
  case (Cons ex xs)
  obtain e x where ex: "ex = (e, x)" by (cases ex)
  obtain p where p: "margin_price (etp_price x) = Some p" "p \<le> max_payoff"
    using Cons.prems ex by auto
  obtain r s' where run: "execute_trade_impl e ser x s = (r, s')"
    by (cases "execute_trade_impl e ser x s")
  show ?case
    using trade_keeps_wealth [OF run assms(1) p assms(2,3)] Cons ex run by simp
qed simp

definition trades0 :: "(env \<times> execute_trade_params) list" where
  "trades0 = [(env0, trade1), (env0, trade0 bob alice ''t2'' 4 7000),
              (env0, trade0 alice alice ''t3'' 1 5000)]"

lemma trading_is_zero_sum_witness:
  "wealth (run_trades binary0 trades0 state0) Settlement 6000 ''bin'' None {alice, bob} =
     wealth state0 Settlement 6000 ''bin'' None {alice, bob} \<and>
   open_interest (run_trades binary0 trades0 state0) ''bin'' None {alice, bob} =
     open_interest state0 ''bin'' None {alice, bob}"
proof -
  have d: "ser_balance_domain binary0 = Settlement" by code_simp
  have f: "fully_collateralised binary0" by code_simp
  have u: "(6000 :: u128) \<le> max_payoff" by code_simp
  have "list_all (\<lambda>(e, x). etp_series_id x = ''bin'' \<and> etp_outcome_id x = None \<and>
      (etp_buyer x = alice \<or> etp_buyer x = bob) \<and> (etp_seller x = alice \<or> etp_seller x = bob) \<and>
      (case margin_price (etp_price x) of None \<Rightarrow> False | Some p \<Rightarrow> p \<le> max_payoff)) trades0"
    by code_simp
  then have "\<forall>(e, x)\<in>set trades0. etp_series_id x = ''bin'' \<and> etp_outcome_id x = None \<and>
      etp_buyer x \<in> {alice, bob} \<and> etp_seller x \<in> {alice, bob} \<and>
      (\<exists>p. margin_price (etp_price x) = Some p \<and> p \<le> max_payoff)"
    by (fastforce simp: list_all_iff split: option.splits)
  then show ?thesis
    using trading_is_zero_sum [OF f u, of "{alice, bob}" trades0 "''bin''" None state0]
    unfolding d by blast
qed

section \<open>The arbitrage bound\<close>

text \<open>
  A choice of resting bids of a series, at most one for each of its outcomes, and what buying
  all of them costs a seller of complete sets.
\<close>

definition bid_price :: "limit_order \<Rightarrow> int" where
  "bid_price o1 = (case margin_price (lo_price o1) of None \<Rightarrow> 0 | Some p \<Rightarrow> uint p)"

definition bids_on :: "series_id \<Rightarrow> outcome list \<Rightarrow> clearing \<Rightarrow> limit_order list \<Rightarrow> bool" where
  "bids_on sid outs s L \<longleftrightarrow>
     set L \<subseteq> set (bt_values (cl_limit_orders s)) \<and> distinct (map lo_outcome_id L) \<and>
     (\<forall>o1\<in>set L. lo_series_id o1 = sid \<and> lo_side o1 = Buy \<and>
        lo_outcome_id o1 \<in> Some ` out_id ` set outs)"

definition arbitrage_free :: "series_id \<Rightarrow> outcome list \<Rightarrow> clearing \<Rightarrow> bool" where
  "arbitrage_free sid outs s \<longleftrightarrow>
     (\<forall>L. bids_on sid outs s L \<longrightarrow> (\<Sum>o1\<leftarrow>L. bid_price o1) \<le> 10000)"

definition bids_within :: "u128 \<Rightarrow> (outcome_id, u128) btmap \<Rightarrow> bool" where
  "bids_within b m \<longleftrightarrow> (\<forall>k v. bt_get m k = Some v \<longrightarrow> v \<le> b)"

definition is_bid :: "series_id \<Rightarrow> limit_order \<Rightarrow> outcome_id \<Rightarrow> bool" where
  "is_bid sid o1 k = (lo_series_id o1 = sid \<and> lo_side o1 = Buy \<and> lo_outcome_id o1 = Some k)"

lemma bids_within_modify:
  "bids_within b m \<Longrightarrow> p \<le> b \<Longrightarrow> bids_within b (bt_modify k (max p) m)"
  by (auto simp: bids_within_def)

text \<open>One order raises the bid of its outcome, if that is one of the map's.\<close>

definition raised :: "series_id \<Rightarrow> limit_order list \<Rightarrow> (outcome_id, u128) btmap \<Rightarrow>
    (outcome_id, u128) btmap \<Rightarrow> bool" where
  "raised sid os m m' \<longleftrightarrow>
     map fst m' = map fst m \<and>
     (\<forall>k v. bt_get m k = Some v \<longrightarrow> (\<exists>v'. bt_get m' k = Some v' \<and> v \<le> v' \<and>
        (\<forall>o1\<in>set os. is_bid sid o1 k \<longrightarrow> bid_price o1 \<le> uint v')))"

lemma raised_trans:
  assumes "raised sid os m m1" "raised sid os' m1 m'"
  shows "raised sid (os @ os') m m'"
  unfolding raised_def
proof (intro conjI allI impI)
  show "map fst m' = map fst m" using assms by (simp add: raised_def)
  fix k v assume v: "bt_get m k = Some v"
  obtain v1 where v1: "bt_get m1 k = Some v1" "v \<le> v1"
    "\<forall>o1\<in>set os. is_bid sid o1 k \<longrightarrow> bid_price o1 \<le> uint v1"
    using assms(1) v unfolding raised_def by blast
  obtain v2 where v2: "bt_get m' k = Some v2" "v1 \<le> v2"
    "\<forall>o1\<in>set os'. is_bid sid o1 k \<longrightarrow> bid_price o1 \<le> uint v2"
    using assms(2) v1(1) unfolding raised_def by blast
  have "uint v1 \<le> uint v2" using v2(2) by (simp add: word_le_def)
  then show "\<exists>v'. bt_get m' k = Some v' \<and> v \<le> v' \<and>
      (\<forall>o1\<in>set (os @ os'). is_bid sid o1 k \<longrightarrow> bid_price o1 \<le> uint v')"
    using v1 v2 by (intro exI [of _ v2]) auto
qed

lemma raised_one:
  "margin_price (lo_price o1) = Some p \<Longrightarrow> lo_outcome_id o1 = Some oid \<Longrightarrow>
   raised sid [o1] m (bt_modify oid (max p) m)"
  by (auto simp: raised_def is_bid_def bid_price_def word_le_def max_def)

lemma raised_none: "\<forall>k. \<not> is_bid sid o1 k \<Longrightarrow> raised sid [o1] m m"
  by (auto simp: raised_def)

lemma raise_bids_raised: "raise_bids sid os m = Some m' \<Longrightarrow> raised sid os m m'"
proof (induction sid os m rule: raise_bids.induct)
  case (1 sid m)
  then show ?case by (simp add: raised_def)
next
  case (2 sid o1 os m)
  have "\<exists>m1. raise_bids sid os m1 = Some m' \<and> raised sid [o1] m m1 \<and> raised sid os m1 m'"
  proof (cases "lo_series_id o1 = sid \<and> lo_side o1 = Buy")
    case False
    then show ?thesis using 2 raised_none [of sid o1 m] by (auto simp: is_bid_def)
  next
    case True
    show ?thesis
    proof (cases "lo_outcome_id o1")
      case None
      then show ?thesis using 2 True raised_none [of sid o1 m] by (auto simp: is_bid_def)
    next
      case (Some oid)
      then obtain p where "margin_price (lo_price o1) = Some p"
        using 2(4) True by (auto split: option.splits)
      then show ?thesis using 2 True Some raised_one [of o1 p oid sid m] by auto
    qed
  qed
  then show ?case using raised_trans [of sid "[o1]" m _ os m'] by auto
qed

text \<open>The words add up without wrapping when their number times their bound does not.\<close>

lemma uint_sum_list:
  fixes xs :: "u128 list"
  assumes "\<forall>x\<in>set xs. uint x \<le> b" "int (length xs) * b < 2 ^ 128"
  shows "uint (sum_list xs) = (\<Sum>x\<leftarrow>xs. uint x) \<and> (\<Sum>x\<leftarrow>xs. uint x) \<le> int (length xs) * b"
  using assms
proof (induction xs)
  case (Cons x xs)
  have b: "0 \<le> b" using Cons.prems(1) uint_ge_0 [of x] by (auto intro: order_trans)
  have "int (length xs) * b < 2 ^ 128" using Cons.prems(2) b by (simp add: algebra_simps)
  with Cons have IH: "uint (sum_list xs) = (\<Sum>x\<leftarrow>xs. uint x)"
    "(\<Sum>x\<leftarrow>xs. uint x) \<le> int (length xs) * b" by auto
  moreover have "uint x + uint (sum_list xs) < 2 ^ 128"
    using IH Cons.prems by (simp add: algebra_simps)
  moreover have "uint (x + sum_list xs) = uint x + uint (sum_list xs)"
    using calculation(3) by (simp add: uint_word_ariths)
  ultimately show ?case using Cons.prems(1) by (simp add: algebra_simps)
qed simp

text \<open>A choice of bids costs no more than the best bids together.\<close>

lemma choice_le_best:
  assumes "bt_inv m" "distinct (map lo_outcome_id L)"
    and "\<forall>o1\<in>set L. \<exists>k v. lo_outcome_id o1 = Some k \<and> bt_get m k = Some v \<and> bid_price o1 \<le> uint v"
  shows "(\<Sum>o1\<leftarrow>L. bid_price o1) \<le> (\<Sum>v\<leftarrow>bt_values m. uint v)"
proof -
  let ?k = "\<lambda>o1. the (lo_outcome_id o1)" and ?v = "\<lambda>k. uint (the (bt_get m k))"
  have inj: "inj_on ?k (set L)"
    using assms(2,3) by (auto simp: distinct_map inj_on_def) (metis option.sel)
  have dL: "distinct L" using assms(2) by (simp add: distinct_map)
  have "(\<Sum>o1\<leftarrow>L. bid_price o1) = (\<Sum>o1\<in>set L. bid_price o1)"
    using dL by (rule sum_list_distinct_conv_sum_set)
  also have "\<dots> \<le> (\<Sum>o1\<in>set L. ?v (?k o1))"
    using assms(3) by (intro sum_mono) fastforce
  also have "\<dots> = (\<Sum>k\<in>?k ` set L. ?v k)"
    using inj by (simp add: sum.reindex)
  also have "\<dots> \<le> (\<Sum>k\<in>dom (bt_get m). ?v k)"
    using assms(3) bt.finite_dom [OF assms(1)] by (intro sum_mono2) fastforce+
  also have "\<dots> = bt_total (\<lambda>_ v. uint v) m"
    using bt.total_eq_sum [OF assms(1), of "\<lambda>_ v. uint v"] by simp
  also have "\<dots> = (\<Sum>v\<leftarrow>bt_values m. uint v)"
    by (simp add: bt.total_def bt_values_def comp_def case_prod_unfold)
  finally show ?thesis .
qed

lemma raise_bids_within:
  "raise_bids sid os m = Some m' \<Longrightarrow> bids_within b m \<Longrightarrow>
   (\<And>o1 k v. o1 \<in> set os \<Longrightarrow> is_bid sid o1 k \<Longrightarrow> bt_get m k = Some v \<Longrightarrow> bid_price o1 \<le> uint b) \<Longrightarrow>
   bids_within b m'"
proof (induction sid os m rule: raise_bids.induct)
  case (1 sid m)
  then show ?case by simp
next
  case (2 sid o1 os m)
  show ?case
  proof (cases "lo_series_id o1 = sid \<and> lo_side o1 = Buy \<and> lo_outcome_id o1 \<noteq> None")
    case False
    then show ?thesis using 2 by (auto split: if_splits option.splits)
  next
    case True
    then obtain k p where k: "lo_outcome_id o1 = Some k" and p: "margin_price (lo_price o1) = Some p"
      and rest: "raise_bids sid os (bt_modify k (max p) m) = Some m'"
      using 2(4) by (auto split: option.splits)
    have "bids_within b (bt_modify k (max p) m)"
      using 2(5) 2(6) [of o1 k] True k p
      by (auto simp: bids_within_def is_bid_def bid_price_def word_le_def max_def)
    moreover have "bid_price o2 \<le> uint b"
      if "o2 \<in> set os" "is_bid sid o2 i" "bt_get (bt_modify k (max p) m) i = Some v" for o2 i v
      using that 2(6) [of o2 i] by (auto split: if_splits)
    ultimately show ?thesis using 2(2) True k p rest by auto
  qed
qed

lemma best_bids_get: "bt_get (best_bids outs) k = (if k \<in> out_id ` set outs then Some 0 else None)"
proof -
  have "bt_get (fold (\<lambda>(k, v). bt_insert k v) (map (\<lambda>o1. (out_id o1, 0)) outs) m) k =
      (if k \<in> out_id ` set outs then Some 0 else bt_get m k)" for m :: "(outcome_id, u128) btmap"
    by (induction outs arbitrary: m) auto
  then show ?thesis by (simp add: best_bids_def bt_of_list_def case_prod_unfold)
qed

lemma best_bids_inv: "bt_inv (best_bids outs)"
proof -
  have "bt_inv m \<Longrightarrow> bt_inv (fold (\<lambda>(k, v). bt_insert k v) (map (\<lambda>o1. (out_id o1, 0)) outs) m)"
    for m :: "(outcome_id, u128) btmap"
    by (induction outs arbitrary: m) auto
  then show ?thesis by (simp add: best_bids_def bt_of_list_def case_prod_unfold)
qed

lemma length_best_bids: "length (best_bids outs) \<le> length outs"
proof -
  have "dom (bt_get (best_bids outs)) = out_id ` set outs"
    by (auto simp: best_bids_get split: if_splits)
  then show ?thesis
    using bt_length [OF best_bids_inv] card_image_le [of "set outs" out_id] card_length [of outs]
    by (simp add: order_trans)
qed

text \<open>The bids with the price of a new order raised over them.\<close>

definition with_bid ::
  "outcome_id option \<Rightarrow> u128 \<Rightarrow> (outcome_id, u128) btmap \<Rightarrow> (outcome_id, u128) btmap" where
  "with_bid oid p m = (case oid of None \<Rightarrow> m | Some k \<Rightarrow> bt_modify k (max p) m)"

text \<open>What the accepted validation of a buy order says about the bids, the new one included.\<close>

lemma validated_bids:
  assumes "validate_no_arbitrage ser x s = Ok ()" "slo_side x = Buy"
    and "ser_payoff_type ser = Categorical" "ser_outcomes ser = Some outs"
  obtains p bids where "margin_price (slo_price x) = Some p"
    "raise_bids (ser_series_id ser) (bt_values (cl_limit_orders s)) (best_bids outs) = Some bids"
    "sum_list (bt_values (with_bid (slo_outcome_id x) p bids)) \<le> max_payoff"
  using assms
  by (auto simp: validate_no_arbitrage_def obind_Ok or_trap_Ok ok_or_Ok Let_def not_less with_bid_def
      split: if_splits option.splits)

lemma arbitrage_free_single:
  assumes "arbitrage_free sid outs s" "o1 \<in> set (bt_values (cl_limit_orders s))"
    "is_bid sid o1 k" "k \<in> out_id ` set outs"
  shows "bid_price o1 \<le> 10000"
proof -
  have "bids_on sid outs s [o1]" using assms by (auto simp: bids_on_def is_bid_def)
  with assms(1) have "(\<Sum>o2\<leftarrow>[o1]. bid_price o2) \<le> 10000" unfolding arbitrage_free_def by blast
  then show ?thesis by simp
qed

lemma placed_orders:
  assumes "place_limit_order c ser x s = (Ok True, s')"
  obtains margin where "cl_limit_orders s' =
    bt_insert (slo_order_id x) (new_order c ser x margin) (cl_limit_orders s)"
  using assms
  by (auto simp: place_limit_order_def Let_def put_account_def
      split: result.splits option.splits if_splits)

text \<open>
  The bids of the book with the new price raised over them: they bound every choice of bids from
  the book with the new order, and their sum does not wrap.
\<close>

lemma book_of_bids:
  fixes oid :: "outcome_id option"
  assumes bids: "raise_bids sid (bt_values (cl_limit_orders s)) (best_bids outs) = Some bids"
    and before: "arbitrage_free sid outs s"
    and room: "int (length outs) * max 10000 (uint p) < 2 ^ 128"
  defines "m \<equiv> with_bid oid p bids"
  shows "bt_inv m" "uint (sum_list (bt_values m)) = (\<Sum>v\<leftarrow>bt_values m. uint v)"
    and "\<And>o1 k. is_bid sid o1 k \<Longrightarrow> k \<in> out_id ` set outs \<Longrightarrow>
           o1 \<in> set (bt_values (cl_limit_orders s)) \<or> (oid = Some k \<and> bid_price o1 = uint p) \<Longrightarrow>
           \<exists>v. bt_get m k = Some v \<and> bid_price o1 \<le> uint v"
proof -
  let ?os = "bt_values (cl_limit_orders s)" and ?b = "max 10000 p :: u128"
  have up: "raised sid ?os (best_bids outs) bids" using bids by (rule raise_bids_raised)
  then have fst: "map fst m = map fst (best_bids outs)"
    by (auto simp: raised_def m_def with_bid_def split: option.splits)
  then show inv: "bt_inv m" using best_bids_inv [of outs] by (simp add: bt_inv_def)
  have ub: "uint ?b = max 10000 (uint p)" by (simp add: max_def word_le_def)
  have "bids_within ?b (best_bids outs)"
    by (simp add: bids_within_def best_bids_get)
  then have "bids_within ?b bids"
    using raise_bids_within [OF bids] arbitrage_free_single [OF before] ub
    by (fastforce simp: best_bids_get split: if_splits)
  then have within: "bids_within ?b m"
    by (auto simp: m_def with_bid_def intro: bids_within_modify split: option.splits)
  have len: "length (bt_values m) \<le> length outs"
    using fst length_best_bids [of outs] by (metis bt_values_def length_map)
  have "\<forall>v\<in>set (bt_values m). uint v \<le> max 10000 (uint p)"
    using within inv unfolding bids_within_def bt_values_def ub [symmetric]
    by (auto simp: bt_mem word_le_def)
  moreover have "int (length (bt_values m)) * max 10000 (uint p) < 2 ^ 128"
    using room len by (meson le_less_trans mult_right_mono max.coboundedI1 of_nat_mono zero_le_numeral)
  ultimately show "uint (sum_list (bt_values m)) = (\<Sum>v\<leftarrow>bt_values m. uint v)"
    using uint_sum_list [of "bt_values m" "max 10000 (uint p)"] by blast
  show "\<exists>v. bt_get m k = Some v \<and> bid_price o1 \<le> uint v"
    if o1: "is_bid sid o1 k" "k \<in> out_id ` set outs"
      "o1 \<in> set ?os \<or> (oid = Some k \<and> bid_price o1 = uint p)" for o1 k
  proof -
    obtain v where v: "bt_get bids k = Some v" "o1 \<in> set ?os \<longrightarrow> bid_price o1 \<le> uint v"
      using up o1(1,2) best_bids_get [of outs k] unfolding raised_def by fastforce
    then show ?thesis
      using o1(3) by (auto simp: m_def with_bid_def max_def word_le_def split: option.splits)
  qed
qed

text \<open>
  C14. An accepted limit order leaves the book of a categorical series without arbitrage: whichever
  resting bids one picks, at most one per outcome, they do not pay more together than the one unit
  a complete set pays, so nobody profits by minting sets and selling into the book.  The bound on
  the number of outcomes keeps the sum of the bids below the range of \<open>u128\<close>.
\<close>

theorem book_stays_arbitrage_free:
  assumes "validate_no_arbitrage ser x s = Ok ()"
    and "place_limit_order c ser x s = (Ok True, s')"
    and "ser_payoff_type ser = Categorical" "ser_outcomes ser = Some outs"
    and "slo_series_id x = ser_series_id ser"
    and before: "arbitrage_free (ser_series_id ser) outs s"
    and room: "\<And>p. margin_price (slo_price x) = Some p \<Longrightarrow>
           int (length outs) * max 10000 (uint p) < 2 ^ 128"
  shows "arbitrage_free (ser_series_id ser) outs s'"
  unfolding arbitrage_free_def
proof (intro allI impI)
  let ?sid = "ser_series_id ser"
  fix L assume L: "bids_on ?sid outs s' L"
  obtain margin where book: "cl_limit_orders s' =
      bt_insert (slo_order_id x) (new_order c ser x margin) (cl_limit_orders s)"
    using assms(2) by (rule placed_orders)
  have mem: "o1 = new_order c ser x margin \<or> o1 \<in> set (bt_values (cl_limit_orders s))"
    if "o1 \<in> set L" for o1
    using L that bt_insert_values unfolding bids_on_def book by fastforce
  show "(\<Sum>o1\<leftarrow>L. bid_price o1) \<le> 10000"
  proof (cases "slo_side x = Buy")
    case False
    have "o1 \<in> set (bt_values (cl_limit_orders s))" if "o1 \<in> set L" for o1
      using mem [OF that] L that False by (auto simp: bids_on_def new_order_def)
    then have "bids_on ?sid outs s L"
      using L by (auto simp: bids_on_def)
    with before show ?thesis unfolding arbitrage_free_def by blast
  next
    case True
    obtain p bids where p: "margin_price (slo_price x) = Some p"
      and bids: "raise_bids ?sid (bt_values (cl_limit_orders s)) (best_bids outs) = Some bids"
      and sum: "sum_list (bt_values (with_bid (slo_outcome_id x) p bids)) \<le> max_payoff"
      using validated_bids [OF assms(1) True assms(3,4)] by blast
    note best = book_of_bids [OF bids before room [OF p], where oid = "slo_outcome_id x"]
    have "(\<Sum>o1\<leftarrow>L. bid_price o1) \<le> (\<Sum>v\<leftarrow>bt_values (with_bid (slo_outcome_id x) p bids). uint v)"
    proof (rule choice_le_best [OF best(1)])
      show "distinct (map lo_outcome_id L)" using L by (simp add: bids_on_def)
      show "\<forall>o1\<in>set L. \<exists>k v. lo_outcome_id o1 = Some k \<and>
          bt_get (with_bid (slo_outcome_id x) p bids) k = Some v \<and> bid_price o1 \<le> uint v"
      proof
        fix o1 assume o1: "o1 \<in> set L"
        then obtain k where k: "is_bid ?sid o1 k" "k \<in> out_id ` set outs" "lo_outcome_id o1 = Some k"
          using L unfolding bids_on_def is_bid_def by (metis imageE)
        have "o1 \<in> set (bt_values (cl_limit_orders s)) \<or>
            (slo_outcome_id x = Some k \<and> bid_price o1 = uint p)"
          using mem [OF o1] k(3) p by (auto simp: new_order_def bid_price_def)
        from best(3) [OF k(1,2) this] k(3) show "\<exists>k v. lo_outcome_id o1 = Some k \<and>
            bt_get (with_bid (slo_outcome_id x) p bids) k = Some v \<and> bid_price o1 \<le> uint v" by blast
      qed
    qed
    also have "\<dots> \<le> 10000"
      using sum best(2) by (simp add: word_le_def max_payoff_eq)
    finally show ?thesis .
  qed
qed

definition bid0 :: submit_limit_order_params where
  "bid0 = \<lparr> slo_order_id = ''o1'', slo_series_id = ''cat'', slo_outcome_id = Some ''A'',
            slo_side = Buy, slo_qty = 2, slo_price = price_new 6000 4 \<rparr>"

lemma book_stays_arbitrage_free_witness:
  "arbitrage_free ''cat'' [outcome0 ''A'', outcome0 ''B'']
     (snd (place_limit_order alice cat0 bid0 state0))"
proof -
  have ok: "validate_no_arbitrage cat0 bid0 state0 = Ok ()"
    "fst (place_limit_order alice cat0 bid0 state0) = Ok True"
    "ser_payoff_type cat0 = Categorical"
    "ser_outcomes cat0 = Some [outcome0 ''A'', outcome0 ''B'']"
    "slo_series_id bid0 = ser_series_id cat0" "margin_price (slo_price bid0) = Some 6000"
    "cl_limit_orders state0 = []" "ser_series_id cat0 = ''cat''"
    by code_simp+
  have empty: "arbitrage_free (ser_series_id cat0) [outcome0 ''A'', outcome0 ''B''] state0"
    using ok(7) by (simp add: arbitrage_free_def bids_on_def bt_values_def)
  have run: "place_limit_order alice cat0 bid0 state0 =
      (Ok True, snd (place_limit_order alice cat0 bid0 state0))"
    using ok(2) by (metis prod.collapse)
  have room: "int (length [outcome0 ''A'', outcome0 ''B'']) * max 10000 (uint p) < 2 ^ 128"
    if "margin_price (slo_price bid0) = Some p" for p
    using that ok(6) by simp
  show ?thesis
    using book_stays_arbitrage_free [OF ok(1) run ok(3,4,5) empty room] ok(8) by simp
qed

end
