(* ===== verification/Collateral.thy ===== *)
theory Collateral
  imports CompleteSets
begin

text \<open>
  \<open>src/src/clearing/src/api/collateral/api.rs\<close>: deposits and withdrawals of collateral.  Both
  create a durable plan, call the ledger, and finish on the reply with the copy of the plan that
  the call holds; other messages run while the ledger answers.
\<close>

datatype deposit_collateral_error =
    AssetDeposit asset_error
  | MathOverflowDeposit
  | DomainNotAllowedDeposit balance_domain asset_id
  | AccountUnderReassignmentDeposit user

datatype withdraw_collateral_error =
    AssetWithdraw asset_error
  | InsufficientExcessMargin u128 u128
  | MathOverflowWithdraw
  | DomainNotAllowedWithdraw balance_domain asset_id
  | AccountUnderReassignmentWithdraw user

section \<open>Deposits\<close>

record deposit_collateral_params =
  dcp_amount :: nat
  dcp_asset_id :: asset_id
  dcp_deposit_id :: deposit_id
  dcp_domain :: "balance_domain option"

definition domain_or_settlement :: "balance_domain option \<Rightarrow> balance_domain" where
  "domain_or_settlement d = (case d of None \<Rightarrow> Settlement | Some x \<Rightarrow> x)"

text \<open>The checks before the plan: guard, asset and domain.\<close>

definition check_deposit ::
  "user \<Rightarrow> deposit_collateral_params \<Rightarrow> clearing \<Rightarrow>
     (deposit_collateral_error, collateral_asset_config) result" where
  "check_deposit u x s =
     obind (map_err AccountUnderReassignmentDeposit (guard_acquire s u)) (\<lambda>_.
       if is_internal_asset s (dcp_asset_id x) then Err (AssetDeposit UnsupportedAsset)
       else obind (ok_or (AssetDeposit UnsupportedAsset)
                     (bt_get (cl_collateral_assets s) (dcp_asset_id x))) (\<lambda>config.
         if \<not> cac_is_enabled config then Err (AssetDeposit UnsupportedAsset)
         else let d = domain_or_settlement (dcp_domain x)
         in if d \<notin> set (cac_allowed_balance_domains config)
            then Err (DomainNotAllowedDeposit d (dcp_asset_id x))
            else Ok config))"

definition store_deposit_plan :: "deposit_plan \<Rightarrow> user \<times> deposit_id \<Rightarrow> clearing \<Rightarrow> clearing" where
  "store_deposit_plan plan k s = s\<lparr>cl_deposit_plans := bt_insert k plan (cl_deposit_plans s)\<rparr>"

definition amount_u128 :: "'e \<Rightarrow> nat \<Rightarrow> ('e, u128) result" where
  "amount_u128 err n = (if int n < 2 ^ 128 then Ok (of_nat n) else Err err)"

definition credit_balance ::
  "user \<Rightarrow> balance_domain \<Rightarrow> asset_id \<Rightarrow> u128 \<Rightarrow> clearing \<Rightarrow> clearing" where
  "credit_balance u d aid amount s =
     (let acc = account_or_new s u
      in put_account u (set_balance d aid (get_balance acc d aid + amount) acc) s)"

text \<open>Phase C: the balance is credited if the call's plan has a receipt and is not finalised.\<close>

definition finalise_deposit ::
  "user \<Rightarrow> deposit_collateral_params \<Rightarrow> deposit_plan \<Rightarrow> clearing \<Rightarrow>
     (deposit_collateral_error, unit) result \<times> clearing" where
  "finalise_deposit u x plan s =
     (if dpl_receipt plan \<noteq> None \<and> dpl_status plan \<noteq> Finalised
      then case amount_u128 MathOverflowDeposit (dcp_amount x) of
             Ok amount \<Rightarrow>
               (Ok (),
                store_deposit_plan (plan\<lparr>dpl_status := Finalised\<rparr>) (u, dcp_deposit_id x)
                  (credit_balance u (domain_or_settlement (dcp_domain x)) (dcp_asset_id x)
                     amount s))
           | Err err \<Rightarrow> (Err err, s)
           | Trap \<Rightarrow> (Trap, s)
      else (Ok (), s))"

definition deposit_transfer_params ::
  "user \<Rightarrow> collateral_asset_config \<Rightarrow> deposit_plan \<Rightarrow> u128 \<Rightarrow> asset_transfer_from_params" where
  "deposit_transfer_params u config plan amount =
     \<lparr> atf_asset = cac_asset config, atf_spender = CanisterMain,
       atf_from = External (ExternalPrincipal u), atf_to = UserClearing u, atf_amount = amount,
       atf_created_at_time_ns = to_created_at_time_ns (dpl_idempotency_ns plan) \<rparr>"

text \<open>Phase B: the transfer, and what the reply does to the plan.\<close>

definition transfer_deposit ::
  "user \<Rightarrow> deposit_collateral_params \<Rightarrow> collateral_asset_config \<Rightarrow> deposit_plan \<Rightarrow> ctx \<Rightarrow>
     (deposit_collateral_error, deposit_plan) cproc" where
  "transfer_deposit u x config plan c =
     (if dpl_receipt plan \<noteq> None then preturn (Ok plan) c
      else let k = (u, dcp_deposit_id x);
               plan = plan\<lparr>dpl_status := Executing\<rparr>;
               c = (fst c, store_deposit_plan plan k (snd c))
      in pure_step (amount_u128 MathOverflowDeposit (dcp_amount x)) c (\<lambda>amount c.
           pcatch
             (handler_transfer_from (get_handler (cac_asset config))
                (deposit_transfer_params u config plan amount) c)
             (\<lambda>res c.
                case res of
                  Ok block \<Rightarrow>
                    (let plan = plan\<lparr>dpl_receipt := Some (IcrcBlockIndex (unat block))\<rparr>
                     in preturn (Ok plan) (fst c, store_deposit_plan plan k (snd c)))
                | Err e \<Rightarrow>
                    preturn (Err (AssetDeposit e)) (fst c, store_deposit_plan plan k (snd c))
                | Trap \<Rightarrow> preturn Trap c)))"

definition deposit_collateral ::
  "principal \<Rightarrow> deposit_collateral_params \<Rightarrow> ctx \<Rightarrow> (deposit_collateral_error, unit) cproc" where
  "deposit_collateral u x =
     guarded (caller_is_not_anonymous u) (\<lambda>c.
       pure_step (check_deposit u x (snd c)) c (\<lambda>config c.
         case deposit_plan_get_or_create (env_now (fst c))
                \<lparr> dpp_deposit_id = dcp_deposit_id x, dpp_user = u,
                  dpp_asset_id = dcp_asset_id x, dpp_amount = dcp_amount x \<rparr> (snd c) of
           (plan, s) \<Rightarrow>
             if dpl_status plan = Finalised then preturn (Ok ()) (fst c, s)
             else pbind (transfer_deposit u x config plan (fst c, s))
                    (\<lambda>plan. sync (\<lambda>_. finalise_deposit u x plan))))"

section \<open>Withdrawals\<close>

record withdraw_collateral_params =
  wcp_amount :: nat
  wcp_asset_id :: asset_id
  wcp_withdrawal_id :: withdrawal_id
  wcp_domain :: "balance_domain option"

definition check_withdrawal ::
  "user \<Rightarrow> withdraw_collateral_params \<Rightarrow> clearing \<Rightarrow>
     (withdraw_collateral_error, collateral_asset_config \<times> asset_metrics) result" where
  "check_withdrawal u x s =
     obind (map_err AccountUnderReassignmentWithdraw (guard_acquire s u)) (\<lambda>_.
       if is_internal_asset s (wcp_asset_id x) then Err (AssetWithdraw UnsupportedAsset)
       else obind (ok_or (AssetWithdraw UnsupportedAsset)
                     (bt_get (cl_collateral_assets s) (wcp_asset_id x))) (\<lambda>config.
            obind (ok_or (AssetWithdraw UnsupportedAsset)
                     (bt_get (cl_asset_metrics s) (wcp_asset_id x))) (\<lambda>metric.
              let d = domain_or_settlement (wcp_domain x)
              in if d \<notin> set (cac_allowed_balance_domains config)
                 then Err (DomainNotAllowedWithdraw d (wcp_asset_id x))
                 else Ok (config, metric))))"

definition store_withdrawal_plan ::
  "withdrawal_plan \<Rightarrow> user \<times> withdrawal_id \<Rightarrow> clearing \<Rightarrow> clearing" where
  "store_withdrawal_plan plan k s =
     s\<lparr>cl_withdrawal_plans := bt_insert k plan (cl_withdrawal_plans s)\<rparr>"

definition debit_account :: "balance_domain \<Rightarrow> asset_id \<Rightarrow> u128 \<Rightarrow> account_state \<Rightarrow> account_state" where
  "debit_account d aid amount a =
     set_balance d aid (saturating_sub (get_balance a d aid) amount) a"

definition refund_account :: "balance_domain \<Rightarrow> asset_id \<Rightarrow> u128 \<Rightarrow> account_state \<Rightarrow> account_state" where
  "refund_account d aid amount a = set_balance d aid (get_balance a d aid + amount) a"

definition modify_account :: "user \<Rightarrow> (account_state \<Rightarrow> account_state) \<Rightarrow> clearing \<Rightarrow> clearing" where
  "modify_account u f s = s\<lparr>cl_accounts := bt_modify u f (cl_accounts s)\<rparr>"

text \<open>
  Phase A and the debit: the equity that the account would have left has to cover its reserved
  margin.  The debit saturates; nothing compares the amount with the balance.
\<close>

definition reserve_withdrawal ::
  "user \<Rightarrow> withdraw_collateral_params \<Rightarrow> collateral_asset_config \<Rightarrow> asset_metrics \<Rightarrow>
     withdrawal_plan \<Rightarrow> clearing \<Rightarrow> (withdraw_collateral_error, withdrawal_plan) result \<times> clearing"
where
  "reserve_withdrawal u x config metric plan s =
     (if wpl_reserved_amount plan \<noteq> None then (Ok plan, s)
      else let d = domain_or_settlement (wcp_domain x); aid = wcp_asset_id x;
               configs = cl_collateral_assets s; metrics = cl_asset_metrics s
      in case obind (amount_u128 MathOverflowWithdraw (wcp_amount x)) (\<lambda>amount.
              obind (or_trap (asset_value_usd config metric amount)) (\<lambda>value_usd.
              obind (ok_or (InsufficientExcessMargin 0 value_usd) (bt_get (cl_accounts s) u)) (\<lambda>a.
              obind (or_trap (calculate_equity_usd a d configs metrics)) (\<lambda>pre_equity.
              obind (or_trap (calculate_equity_usd (debit_account d aid amount a) d configs metrics))
                (\<lambda>post_equity.
                   let reserved = get_reserved_margin_usd a d
                   in if post_equity < reserved
                      then Err (InsufficientExcessMargin (saturating_sub pre_equity reserved)
                                  value_usd)
                      else Ok amount))))) of
           Err err \<Rightarrow> (Err err, s)
         | Trap \<Rightarrow> (Trap, s)
         | Ok amount \<Rightarrow>
             (let plan = plan\<lparr>wpl_reserved_amount := Some amount, wpl_reserved_cash_usd := None\<rparr>
              in (Ok plan,
                  store_withdrawal_plan plan (u, wcp_withdrawal_id x)
                    (modify_account u (debit_account d aid amount) s))))"

definition withdrawal_transfer_params ::
  "user \<Rightarrow> withdraw_collateral_params \<Rightarrow> collateral_asset_config \<Rightarrow> withdrawal_plan \<Rightarrow> u128 \<Rightarrow>
     asset_transfer_params" where
  "withdrawal_transfer_params u x config plan amount =
     \<lparr> atp_asset = cac_asset config, atp_asset_id = wcp_asset_id x, atp_from = UserClearing u,
       atp_to = External (ExternalIcrc (fst (wpl_to_account plan)) (snd (wpl_to_account plan))),
       atp_amount = amount,
       atp_created_at_time_ns = to_created_at_time_ns (wpl_idempotency_ns plan) \<rparr>"

text \<open>A failed transfer refunds the amount that the call's plan has reserved.\<close>

definition refund_withdrawal ::
  "user \<Rightarrow> withdraw_collateral_params \<Rightarrow> withdrawal_plan \<Rightarrow> clearing \<Rightarrow> clearing" where
  "refund_withdrawal u x plan s =
     store_withdrawal_plan (plan\<lparr>wpl_reserved_amount := None\<rparr>) (u, wcp_withdrawal_id x)
       (case wpl_reserved_amount plan of
          None \<Rightarrow> s
        | Some tokens \<Rightarrow>
            modify_account u
              (refund_account (domain_or_settlement (wcp_domain x)) (wcp_asset_id x) tokens) s)"

definition transfer_withdrawal ::
  "user \<Rightarrow> withdraw_collateral_params \<Rightarrow> collateral_asset_config \<Rightarrow> withdrawal_plan \<Rightarrow> ctx \<Rightarrow>
     (withdraw_collateral_error, withdrawal_plan) cproc" where
  "transfer_withdrawal u x config plan c =
     (if wpl_receipt plan \<noteq> None then preturn (Ok plan) c
      else let k = (u, wcp_withdrawal_id x);
               plan = plan\<lparr>wpl_status := Executing\<rparr>;
               c = (fst c, store_withdrawal_plan plan k (snd c))
      in pure_step (or_trap (wpl_reserved_amount plan)) c (\<lambda>amount c.
           pcatch
             (handler_transfer (get_handler (cac_asset config))
                (withdrawal_transfer_params u x config plan amount) c)
             (\<lambda>res c.
                case res of
                  Ok block \<Rightarrow>
                    (let plan = plan\<lparr>wpl_receipt := Some (IcrcBlockIndex (unat block))\<rparr>
                     in preturn (Ok plan) (fst c, store_withdrawal_plan plan k (snd c)))
                | Err e \<Rightarrow>
                    preturn (Err (AssetWithdraw e)) (fst c, refund_withdrawal u x plan (snd c))
                | Trap \<Rightarrow> preturn Trap c)))"

definition finalise_withdrawal ::
  "user \<Rightarrow> withdraw_collateral_params \<Rightarrow> withdrawal_plan \<Rightarrow> clearing \<Rightarrow>
     (withdraw_collateral_error, unit) result \<times> clearing" where
  "finalise_withdrawal u x plan s =
     (if wpl_receipt plan \<noteq> None \<and> wpl_status plan \<noteq> Finalised
      then (Ok (), store_withdrawal_plan (plan\<lparr>wpl_status := Finalised\<rparr>)
                     (u, wcp_withdrawal_id x) s)
      else (Ok (), s))"

definition withdraw_collateral ::
  "principal \<Rightarrow> withdraw_collateral_params \<Rightarrow> ctx \<Rightarrow> (withdraw_collateral_error, unit) cproc" where
  "withdraw_collateral u x =
     guarded (caller_is_not_anonymous u) (\<lambda>c.
       pure_step (check_withdrawal u x (snd c)) c (\<lambda>(config, metric) c.
         case withdrawal_plan_get_or_create (env_now (fst c))
                \<lparr> wpp_withdrawal_id = wcp_withdrawal_id x, wpp_user = u,
                  wpp_asset_id = wcp_asset_id x, wpp_amount = wcp_amount x,
                  wpp_to_account = (u, None) \<rparr> (snd c) of
           (plan, s) \<Rightarrow>
             if wpl_status plan = Finalised then preturn (Ok ()) (fst c, s)
             else pbind (sync (\<lambda>_. reserve_withdrawal u x config metric plan) (fst c, s))
                    (\<lambda>plan c.
                  pbind (transfer_withdrawal u x config plan c)
                    (\<lambda>plan. sync (\<lambda>_. finalise_withdrawal u x plan)))))"

definition list_collateral_assets ::
  "clearing \<Rightarrow> (collateral_asset_config \<times> asset_metrics option) list" where
  "list_collateral_assets s =
     map (\<lambda>(aid, config). (config, bt_get (cl_asset_metrics s) aid)) (cl_collateral_assets s)"

end
