(* ===== verification/CollateralProperties.thy ===== *)
theory CollateralProperties
  imports Collateral Samples
begin

text \<open>
  Deposits and withdrawals of collateral in a world that may do anything while the ledger answers
  except touch the account of the caller: what they credit and debit, what a failure leaves, and
  that an unfinished one can be completed.
\<close>

section \<open>What the handlers leave alone\<close>

lemma keeps_pure_step:
  "P c \<Longrightarrow> (\<And>x. r = Ok x \<Longrightarrow> keeps P (f x c)) \<Longrightarrow> keeps P (pure_step r c f)"
  by (cases r) (auto simp: pure_step_def)

lemma keeps_preturn [simp]: "P c \<Longrightarrow> keeps P (preturn r c)"
  by (simp add: preturn_def)

lemma keeps_icall [simp]: "P c \<Longrightarrow> keeps P (icall q decode c)"
  by (simp add: icall_def)

lemma keeps_send_settled: "P c \<Longrightarrow> keeps P (send_settled l x c)"
  unfolding send_settled_def send_icrc1_transfer_def by (intro keeps_pbind) auto

text \<open>A handler writes the cached fee of an asset and nothing else.\<close>

lemma keeps_transfer:
  assumes fee: "\<And>c fee aid. P c \<Longrightarrow> P (refresh_fee aid fee c)" and "P c"
  shows "keeps P (handler_transfer h y c)"
proof (cases h)
  case IcrcHandler
  have "keeps P (run_cached_fee_transfer aid fee args (send_settled l) c)" if "P c" for aid fee args l c
    unfolding run_cached_fee_transfer_def using that
    by (auto intro!: keeps_send_settled keeps_pbind simp: fee split: settled_transfer.split)
  with IcrcHandler assms(2) show ?thesis
    by (simp add: icrc_transfer_def keeps_pure_step)
qed (simp add: assms)

lemma keeps_transfer_from: "P c \<Longrightarrow> keeps P (handler_transfer_from h y c)"
  by (cases h) (auto simp: icrc_transfer_from_def intro!: keeps_pure_step keeps_pbind)

text \<open>The others leave the account of \<open>u\<close> alone.\<close>

definition spares :: "user \<Rightarrow> (request \<Rightarrow> ctx \<Rightarrow> reply \<times> ctx) \<Rightarrow> bool" where
  "spares u w \<longleftrightarrow>
     (\<forall>q c. bt_get (cl_accounts (snd (snd (w q c)))) u = bt_get (cl_accounts (snd c)) u)"

abbreviation account_at :: "user \<Rightarrow> account_state option \<Rightarrow> ctx \<Rightarrow> bool" where
  "account_at u a c \<equiv> bt_get (cl_accounts (snd c)) u = a"

lemma sparesD: "spares u w \<Longrightarrow> account_at u a c \<Longrightarrow> account_at u a (snd (w q c))"
  unfolding spares_def by (erule allE [of _ q], erule allE [of _ c], erule trans)

lemma refresh_fee_accounts [simp]: "cl_accounts (snd (refresh_fee aid fee c)) = cl_accounts (snd c)"
  by (cases c) (simp add: refresh_fee_def update_cached_transfer_fee_def)

lemma run_from_spared:
  assumes "spares u w" "keeps (account_at u a) pr" "account_at u a c"
  shows "account_at u a (snd (run_from w pr c))"
  by (rule run_from_keeps [where P = "account_at u a", OF assms(2,3)])
    (rule sparesD [OF assms(1)])

lemma run_from_preturn [simp]: "run_from w (preturn r c) c0 = (r, if r = Trap then c0 else c)"
  by (simp add: preturn_def)

lemma run_from_pcatch:
  "run_from w (pcatch pr f) c =
     (case run_from w pr c of (r, s) \<Rightarrow>
        if r = Trap then (Trap, s) else run_from w (f r s) (resumed_at w pr c))"
  by (induction pr arbitrary: c rule: proc_induct) (auto split: prod.splits)

lemma resumed_at_keeps:
  assumes "keeps P pr" "P c" "\<And>q s. P s \<Longrightarrow> P (snd (w q s))"
  shows "P (resumed_at w pr c)"
  using assms(1,2)
proof (induction pr arbitrary: c rule: proc_induct)
  case (Await q s k)
  obtain p s' where w: "w q s = (p, s')" by (cases "w q s")
  have "P s'" using assms(3) [of s q] Await.prems w by simp
  with w Await.IH [of p s' s'] Await.prems show ?case by simp
qed simp

lemma resumed_at_spared:
  assumes "spares u w" "keeps (account_at u a) pr" "account_at u a c"
  shows "account_at u a (resumed_at w pr c)"
  by (rule resumed_at_keeps [where P = "account_at u a", OF assms(2,3)])
    (rule sparesD [OF assms(1)])

section \<open>Deposits\<close>

lemma store_deposit_plan_accounts [simp]:
  "cl_accounts (store_deposit_plan p k s) = cl_accounts s"
  "bt_get (cl_deposit_plans (store_deposit_plan p k s)) k = Some p"
  by (simp_all add: store_deposit_plan_def)

lemma keeps_transfer_deposit:
  "account_at u a c \<Longrightarrow> keeps (account_at u a) (transfer_deposit u x config plan c)"
  unfolding transfer_deposit_def Let_def
  by (auto intro!: keeps_pure_step keeps_pcatch keeps_transfer_from split: result.split)

text \<open>A transfer that succeeds leaves its receipt in the plan that the call goes on with.\<close>

lemma transfer_deposit_receipt:
  assumes "run_from w (transfer_deposit u x config plan c) c0 = (Ok plan', c')"
    "dpl_status plan \<noteq> Finalised"
  shows "dpl_receipt plan' \<noteq> None" "dpl_status plan' \<noteq> Finalised"
  using assms unfolding transfer_deposit_def Let_def pure_step_def
  by (auto simp: run_from_pbind run_from_pcatch split: if_splits prod.splits result.splits)

text \<open>A deposit with a plan in hand.\<close>

definition deposit_with :: "user \<Rightarrow> deposit_collateral_params \<Rightarrow> collateral_asset_config \<Rightarrow>
    deposit_plan \<Rightarrow> ctx \<Rightarrow> (deposit_collateral_error, unit) cproc" where
  "deposit_with u x config plan c =
     pbind (transfer_deposit u x config plan c) (\<lambda>plan. sync (\<lambda>_. finalise_deposit u x plan))"

definition credited :: "user \<Rightarrow> deposit_collateral_params \<Rightarrow> account_state option \<Rightarrow> account_state" where
  "credited u x a =
     (let b = (case a of None \<Rightarrow> account_state_new u | Some b \<Rightarrow> b);
          d = domain_or_settlement (dcp_domain x); aid = dcp_asset_id x
      in set_balance d aid (get_balance b d aid + of_nat (dcp_amount x)) b)"

lemma deposit_with_run:
  assumes "run_from w (deposit_with u x config plan c) c0 = (r, c')" "spares u w"
    "account_at u a c" "account_at u a c0" "dpl_status plan \<noteq> Finalised"
  shows "account_at u (if r = Ok () then Some (credited u x a) else a) c'"
    "r = Ok () \<Longrightarrow> int (dcp_amount x) < 2 ^ 128 \<and>
       (\<exists>p. bt_get (cl_deposit_plans (snd c')) (u, dcp_deposit_id x) = Some p \<and> dpl_status p = Finalised)"
proof -
  obtain rt ct where t: "run_from w (transfer_deposit u x config plan c) c0 = (rt, ct)"
    by (cases "run_from w (transfer_deposit u x config plan c) c0")
  note keep = keeps_transfer_deposit [OF assms(3), of x config plan]
  have at: "account_at u a ct" using run_from_spared [OF assms(2) keep assms(4)] t by simp
  have resumed: "account_at u a (resumed_at w (transfer_deposit u x config plan c) c0)"
    by (rule resumed_at_spared [OF assms(2) keep assms(4)])
  have both: "account_at u (if r = Ok () then Some (credited u x a) else a) c' \<and>
    (r = Ok () \<longrightarrow> int (dcp_amount x) < 2 ^ 128 \<and>
       (\<exists>p. bt_get (cl_deposit_plans (snd c')) (u, dcp_deposit_id x) = Some p \<and> dpl_status p = Finalised))"
  proof (cases rt)
    case (Ok plan')
    with transfer_deposit_receipt [OF t [unfolded Ok] assms(5)] at resumed assms(1) t show ?thesis
      by (auto simp: deposit_with_def run_from_pbind sync_def finalise_deposit_def amount_u128_def
          credit_balance_def put_account_def credited_def account_or_new_def Let_def
          split: if_splits prod.splits)
  qed (use at assms(1) t in \<open>auto simp: deposit_with_def run_from_pbind\<close>)
  from both show "account_at u (if r = Ok () then Some (credited u x a) else a) c'" by simp
  from both show "int (dcp_amount x) < 2 ^ 128 \<and>
       (\<exists>p. bt_get (cl_deposit_plans (snd c')) (u, dcp_deposit_id x) = Some p \<and> dpl_status p = Finalised)"
    if "r = Ok ()" using that by simp
qed

definition finalised_deposit :: "clearing \<Rightarrow> user \<times> deposit_id \<Rightarrow> bool" where
  "finalised_deposit s k \<longleftrightarrow>
     (\<exists>p. bt_get (cl_deposit_plans s) k = Some p \<and> dpl_status p = Finalised)"

text \<open>How a deposit begins: refused, already done, or with a plan in hand.\<close>

lemma deposit_begins:
  obtains (refused) r where "deposit_collateral u x c = Return r c" "r \<noteq> Ok ()"
      "\<not> caller_is_not_anonymous u \<or> (\<forall>config. check_deposit u x (snd c) \<noteq> Ok config)"
  | (already) "deposit_collateral u x c = Return (Ok ()) c"
      "finalised_deposit (snd c) (u, dcp_deposit_id x)"
  | (started) config plan s1 where
      "deposit_collateral u x c = deposit_with u x config plan (fst c, s1)"
      "dpl_status plan \<noteq> Finalised" "cl_accounts s1 = cl_accounts (snd c)"
      "\<not> finalised_deposit (snd c) (u, dcp_deposit_id x)"
      "check_deposit u x (snd c) = Ok config"
      "\<forall>p. bt_get (cl_deposit_plans (snd c)) (u, dcp_deposit_id x) = Some p \<longrightarrow> plan = p \<and> s1 = snd c"
proof (cases "caller_is_not_anonymous u")
  case False
  show thesis by (rule refused [of Trap]) (use False in \<open>simp_all add: deposit_collateral_def guarded_def preturn_def\<close>)
next
  case anon: True
  show thesis
  proof (cases "check_deposit u x (snd c)")
    case (Ok config)
    let ?goc = "deposit_plan_get_or_create (env_now (fst c))
      \<lparr> dpp_deposit_id = dcp_deposit_id x, dpp_user = u,
        dpp_asset_id = dcp_asset_id x, dpp_amount = dcp_amount x \<rparr> (snd c)"
    obtain plan s1 where g: "?goc = (plan, s1)" by (cases ?goc)
    have step: "deposit_collateral u x c =
      (if dpl_status plan = Finalised then Return (Ok ()) (fst c, s1)
       else deposit_with u x config plan (fst c, s1))"
      using anon Ok g by (simp add: deposit_collateral_def guarded_def pure_step_def deposit_with_def preturn_def)
    have facts: "cl_accounts s1 = cl_accounts (snd c)"
      "dpl_status plan = Finalised \<longleftrightarrow> finalised_deposit (snd c) (u, dcp_deposit_id x)"
      "\<forall>p. bt_get (cl_deposit_plans (snd c)) (u, dcp_deposit_id x) = Some p \<longrightarrow> plan = p \<and> s1 = snd c"
      using g by (auto simp: deposit_plan_get_or_create_def get_or_create_def deposit_plan_key_def
          finalised_deposit_def split: option.splits)
    show thesis
    proof (cases "dpl_status plan = Finalised")
      case True
      then have "s1 = snd c" using facts by (auto simp: finalised_deposit_def)
      with True step facts show thesis by (intro already) auto
    next
      case False
      with step facts Ok show thesis by (intro started) auto
    qed
  next
    case (Err err)
    with anon show thesis
      by (intro refused [of "Err err"]) (auto simp: deposit_collateral_def guarded_def pure_step_def)
  next
    case Trap
    with anon show thesis
      by (intro refused [of Trap]) (auto simp: deposit_collateral_def guarded_def pure_step_def)
  qed
qed

text \<open>
  C18. A deposit credits exactly once.  Whatever the ledger and the other messages do while the call
  waits, as long as they leave the caller's account alone: when the call succeeds, its plan is
  finalised, and the account has gained exactly the amount, in the balance of that asset and
  domain and nowhere else, unless the plan was finalised before, when nothing changes; when the
  call fails or traps, the account is as it was.
\<close>

theorem deposit_credits_once:
  fixes x :: deposit_collateral_params
  assumes "run w (deposit_collateral u x) (e, s) = (r, c')" "spares u w"
  defines "k \<equiv> (u, dcp_deposit_id x)"
  shows "(r = Ok () \<longrightarrow> finalised_deposit (snd c') k) \<and>
    bt_get (cl_accounts (snd c')) u =
      (if r = Ok () \<and> \<not> finalised_deposit s k
       then Some (credited u x (bt_get (cl_accounts s) u)) else bt_get (cl_accounts s) u)"
proof (cases rule: deposit_begins [of u x "(e, s)"])
  case (refused r0)
  with assms(1) show ?thesis by (auto simp: run_def split: if_splits)
next
  case already
  with assms(1) show ?thesis by (auto simp: run_def k_def)
next
  case (started config plan s1)
  note facts = deposit_with_run [OF assms(1) [unfolded run_def started(1)] assms(2) _ _ started(2),
      of "bt_get (cl_accounts s) u"]
  show ?thesis using facts started(3,4) by (auto simp: finalised_deposit_def k_def split: if_splits)
qed

section \<open>An interrupted deposit\<close>

text \<open>A ledger that accepts the transfer, or has accepted it before.\<close>

definition accepts :: "(request \<Rightarrow> ctx \<Rightarrow> reply \<times> ctx) \<Rightarrow> principal \<Rightarrow> bool" where
  "accepts w ledger \<longleftrightarrow>
     (\<forall>args c. \<exists>n. int n < 2 ^ 128 \<and>
        fst (w (Icrc2TransferFrom ledger args) c) \<in> {RTransfer (Ok n), RTransfer (Err (Duplicate n))})"

lemma transfer_from_call:
  assumes "cac_asset config = Icrc ledger" "int (dcp_amount x) < 2 ^ 128" "dpl_receipt plan = None"
  shows "\<exists>args s1 k. transfer_deposit u x config plan c =
      Await (Icrc2TransferFrom ledger args) (fst c, s1) k \<and>
    tf_created_at_time args = to_created_at_time_ns (dpl_idempotency_ns plan) \<and>
    (\<forall>n p c'. int n < 2 ^ 128 \<longrightarrow> p \<in> {RTransfer (Ok n), RTransfer (Err (Duplicate n))} \<longrightarrow>
       (\<exists>plan' s2. k p c' = Return (Ok plan') (fst c', s2) \<and>
          dpl_receipt plan' \<noteq> None \<and> dpl_status plan' = Executing))"
  using assms unfolding transfer_deposit_def Let_def
  by (auto simp: pure_step_def amount_u128_def deposit_transfer_params_def icrc_transfer_from_def icall_def
      preturn_def ledger_decode_def settle_transfer_from_def to_u128_def)

lemma deposit_with_completes:
  assumes "cac_asset config = Icrc ledger" "int (dcp_amount x) < 2 ^ 128" "accepts w ledger"
    "dpl_status plan \<noteq> Finalised"
  shows "fst (run_from w (deposit_with u x config plan c) c0) = Ok ()"
proof (cases "dpl_receipt plan = None")
  case True
  obtain args s1 k where t: "transfer_deposit u x config plan c =
      Await (Icrc2TransferFrom ledger args) (fst c, s1) k"
    and k: "\<And>n p c'. int n < 2 ^ 128 \<Longrightarrow> p \<in> {RTransfer (Ok n), RTransfer (Err (Duplicate n))} \<Longrightarrow>
       \<exists>plan' s2. k p c' = Return (Ok plan') (fst c', s2) \<and>
          dpl_receipt plan' \<noteq> None \<and> dpl_status plan' = Executing"
    using transfer_from_call [OF assms(1,2) True, of u c] by blast
  obtain p c' where w: "w (Icrc2TransferFrom ledger args) (fst c, s1) = (p, c')"
    by (cases "w (Icrc2TransferFrom ledger args) (fst c, s1)")
  obtain n where "int n < 2 ^ 128" "p \<in> {RTransfer (Ok n), RTransfer (Err (Duplicate n))}"
    using assms(3) w unfolding accepts_def by (metis fst_conv)
  from k [OF this, of c'] obtain plan' s2 where
    "k p c' = Return (Ok plan') (fst c', s2)" "dpl_receipt plan' \<noteq> None" "dpl_status plan' = Executing"
    by blast
  moreover have "amount_u128 MathOverflowDeposit (dcp_amount x) = Ok (of_nat (dcp_amount x))"
    using assms(2) by (simp add: amount_u128_def)
  ultimately show ?thesis
    by (simp add: deposit_with_def t w sync_def finalise_deposit_def preturn_def)
next
  case False
  then show ?thesis using assms(2,4)
    by (auto simp: deposit_with_def transfer_deposit_def preturn_def sync_def finalise_deposit_def
        amount_u128_def)
qed

text \<open>
  C20. An interrupted deposit can be completed.  In any state in which the checks of a deposit pass,
  whatever earlier calls under its id left behind (no plan, a plan whose transfer failed or whose
  reply was lost, a plan with its receipt), calling again against a ledger that accepts the
  transfer, or answers that it has it already, succeeds.  A plan with a receipt sends nothing to
  the ledger, and one without sends the transfer with the time stamp of the first attempt, which
  is what lets the ledger recognise it.
\<close>

theorem interrupted_deposit_completes:
  fixes x :: deposit_collateral_params
  assumes "caller_is_not_anonymous u" "check_deposit u x s = Ok config" "cac_asset config = Icrc ledger"
    "int (dcp_amount x) < 2 ^ 128" "accepts w ledger"
  defines "stored \<equiv> bt_get (cl_deposit_plans s) (u, dcp_deposit_id x)"
  shows "fst (run w (deposit_collateral u x) (e, s)) = Ok () \<and>
    (\<forall>p. stored = Some p \<and> dpl_receipt p \<noteq> None \<longrightarrow>
       (\<exists>s'. deposit_collateral u x (e, s) = Return (Ok ()) (e, s'))) \<and>
    (\<forall>p. stored = Some p \<and> dpl_receipt p = None \<and> dpl_status p \<noteq> Finalised \<longrightarrow>
       (\<exists>args s1 k. deposit_collateral u x (e, s) = Await (Icrc2TransferFrom ledger args) (e, s1) k \<and>
          tf_created_at_time args = to_created_at_time_ns (dpl_idempotency_ns p)))"
proof (cases rule: deposit_begins [of u x "(e, s)"])
  case (refused r0)
  with assms(1,2) show ?thesis by simp
next
  case already
  then show ?thesis by (auto simp: run_def finalised_deposit_def stored_def)
next
  case (started config' plan s1)
  have c: "config' = config" using started(5) assms(2) by simp
  have "fst (run w (deposit_collateral u x) (e, s)) = Ok ()"
    using deposit_with_completes [OF assms(3-5) started(2)] by (simp add: run_def started(1) c)
  moreover have "\<exists>s'. deposit_collateral u x (e, s) = Return (Ok ()) (e, s')"
    if "stored = Some p" "dpl_receipt p \<noteq> None" for p
    using that started(2,6) assms(4) unfolding started(1)
    by (auto simp: stored_def deposit_with_def transfer_deposit_def preturn_def sync_def
        finalise_deposit_def amount_u128_def)
  moreover have "\<exists>args s1 k. deposit_collateral u x (e, s) = Await (Icrc2TransferFrom ledger args) (e, s1) k \<and>
      tf_created_at_time args = to_created_at_time_ns (dpl_idempotency_ns p)"
    if "stored = Some p" "dpl_receipt p = None" for p
  proof -
    have "plan = p" using that started(6) by (simp add: stored_def)
    with transfer_from_call [OF assms(3,4), of plan u "(e, s1)"] that show ?thesis
      unfolding started(1) c by (auto simp: deposit_with_def)
  qed
  ultimately show ?thesis by blast
qed

section \<open>Withdrawals\<close>

lemma account_eqI:
  assumes "account_inv a" "account_inv b" "acc_user a = acc_user b"
    and "\<And>d aid. get_balance a d aid = get_balance b d aid"
    and "\<And>d. get_cash_balance_usd a d = get_cash_balance_usd b d"
    and "\<And>d. get_reserved_margin_usd a d = get_reserved_margin_usd b d"
  shows "a = b"
proof -
  have or_zero: "x = y" if "or_zero x = or_zero y" "x \<noteq> Some 0" "y \<noteq> Some 0" for x y :: "'v::zero option"
    using that by (cases x; cases y) auto
  have inner: "m = n" if "bt_inv m" "bt_inv n" "\<forall>k. or_zero (bt_get m k) = or_zero (bt_get n k)"
      "\<forall>k. bt_get m k \<noteq> Some 0" "\<forall>k. bt_get n k \<noteq> Some 0" for m n :: "('k::linorder, 'v::zero) btmap"
    by (rule bt.entries_ext [OF that(1,2)]) (use that(3-5) or_zero in blast)
  have bal: "bt_get (acc_balances a) d = bt_get (acc_balances b) d" for d
  proof -
    have none: "bt_get (acc_balances y) d \<noteq> None \<longrightarrow> (\<exists>aid. get_balance y d aid \<noteq> 0)"
      if "account_inv y" for y
    proof
      assume "bt_get (acc_balances y) d \<noteq> None"
      then obtain m where m: "bt_get (acc_balances y) d = Some m" by auto
      then have ok: "m \<noteq> []" "\<forall>aid. bt_get m aid \<noteq> Some 0" using that by (auto simp: account_inv_def)
      then obtain k v m' where "m = (k, v) # m'" by (cases m) auto
      then have "bt_get m k = Some v" by (simp add: bt_get_def)
      with ok m have "get_balance y d k \<noteq> 0" by (auto simp: get_balance_def)
      then show "\<exists>aid. get_balance y d aid \<noteq> 0" ..
    qed
    show ?thesis
    proof (cases "bt_get (acc_balances a) d")
      case None
      then have "get_balance a d aid = 0" for aid by (simp add: get_balance_def)
      then have "\<forall>aid. get_balance b d aid = 0" using assms(4) by simp
      with none [OF assms(2)] None show ?thesis by auto
    next
      case (Some m)
      then have "\<exists>aid. get_balance b d aid \<noteq> 0" using none [OF assms(1)] assms(4) by auto
      then obtain n where n: "bt_get (acc_balances b) d = Some n"
        by (auto simp: get_balance_def split: option.splits)
      have "m = n"
        by (rule inner) (use Some n assms(1,2,4) in \<open>auto simp: account_inv_def get_balance_def\<close>,
            metis Some n option.simps(5))
      with Some n show ?thesis by simp
    qed
  qed
  have "acc_balances a = acc_balances b"
    by (rule bt.entries_ext) (use assms(1,2) bal in \<open>auto simp: account_inv_def\<close>)
  moreover have "acc_cash_balances_usd a = acc_cash_balances_usd b"
    by (rule inner) (use assms(1,2,5) in \<open>auto simp: account_inv_def get_cash_balance_usd_def\<close>)
  moreover have "acc_reserved_margins_usd a = acc_reserved_margins_usd b"
    by (rule inner) (use assms(1,2,6) in \<open>auto simp: account_inv_def get_reserved_margin_usd_def\<close>)
  ultimately show ?thesis using assms(3) by simp
qed

lemma refund_debit:
  assumes "account_inv a"
  shows "refund_account d aid v (debit_account d aid v a) =
    (if get_balance a d aid < v then set_balance d aid v a else a)"
  by (rule account_eqI)
    (use assms in \<open>auto simp: refund_account_def debit_account_def get_set_balance saturating_sub_def
       not_less\<close>)

lemma store_withdrawal_plan_simps [simp]:
  "cl_accounts (store_withdrawal_plan p k s) = cl_accounts s"
  "bt_get (cl_withdrawal_plans (store_withdrawal_plan p k s)) k = Some p"
  by (simp_all add: store_withdrawal_plan_def)

lemma account_modify [simp]:
  "bt_get (cl_accounts (modify_account u f s)) v =
     (if u = v then map_option f (bt_get (cl_accounts s) v) else bt_get (cl_accounts s) v)"
  by (simp add: modify_account_def)

text \<open>The transfer: its receipt, or the refund of what the plan holds.\<close>

lemma transfer_withdrawal_run:
  assumes "run_from w (transfer_withdrawal u x config plan c) c0 = (r, c')" "spares u w"
    "account_at u a c" "account_at u a c0" "wpl_receipt plan = None" "wpl_reserved_amount plan = Some v"
    "r \<noteq> Trap"
  shows "(\<exists>plan'. r = Ok plan' \<and> account_at u a c' \<and> wpl_receipt plan' \<noteq> None \<and>
       wpl_status plan' = Executing) \<or>
    (\<exists>err. r = Err err \<and> account_at u (map_option
       (refund_account (domain_or_settlement (wcp_domain x)) (wcp_asset_id x) v) a) c')"
proof -
  let ?plan = "plan\<lparr>wpl_status := Executing\<rparr>"
  let ?c = "(fst c, store_withdrawal_plan ?plan (u, wcp_withdrawal_id x) (snd c))"
  let ?t = "handler_transfer (get_handler (cac_asset config)) (withdrawal_transfer_params u x config ?plan v) ?c"
  have keep: "keeps (account_at u a) ?t" by (rule keeps_transfer) (use assms(3) in auto)
  obtain rt ct where t: "run_from w ?t c0 = (rt, ct)" by (cases "run_from w ?t c0")
  have "account_at u a ct" using run_from_spared [OF assms(2) keep assms(4)] t by simp
  with t assms(1,5-7) show ?thesis
    by (cases rt) (auto simp: transfer_withdrawal_def Let_def pure_step_def run_from_pcatch
        refund_withdrawal_def)
qed

text \<open>The account after the debit, and that it still covers its reserved margin.\<close>

definition debited :: "withdraw_collateral_params \<Rightarrow> account_state \<Rightarrow> account_state" where
  "debited x a =
     debit_account (domain_or_settlement (wcp_domain x)) (wcp_asset_id x) (of_nat (wcp_amount x)) a"

definition covers_margin :: "balance_domain \<Rightarrow> account_state \<Rightarrow> clearing \<Rightarrow> bool" where
  "covers_margin d a s \<longleftrightarrow>
     (\<exists>equity. calculate_equity_usd a d (cl_collateral_assets s) (cl_asset_metrics s) = Some equity \<and>
        get_reserved_margin_usd a d \<le> equity)"

lemma reserve_withdrawal_run:
  assumes "reserve_withdrawal u x config metric plan s = (r, s1)" "wpl_reserved_amount plan = None"
    "bt_get (cl_accounts s) u = Some a"
  shows "(\<exists>plan'. r = Ok plan' \<and> wpl_reserved_amount plan' = Some (of_nat (wcp_amount x)) \<and>
       wpl_receipt plan' = wpl_receipt plan \<and> bt_get (cl_accounts s1) u = Some (debited x a) \<and>
       int (wcp_amount x) < 2 ^ 128 \<and>
       covers_margin (domain_or_settlement (wcp_domain x)) (debited x a) s) \<or>
     (r = Trap \<or> (\<exists>err. r = Err err)) \<and> s1 = s"
  using assms
  by (auto simp: reserve_withdrawal_def Let_def debited_def covers_margin_def amount_u128_def obind_Ok
      debit_account_def not_less or_trap_Ok split: result.splits if_splits)

definition finalised_withdrawal :: "clearing \<Rightarrow> user \<times> withdrawal_id \<Rightarrow> bool" where
  "finalised_withdrawal s k \<longleftrightarrow>
     (\<exists>p. bt_get (cl_withdrawal_plans s) k = Some p \<and> wpl_status p = Finalised)"

text \<open>A plan that holds nothing: a new one, or one whose transfer failed and was refunded.\<close>

definition holds_nothing :: "clearing \<Rightarrow> user \<times> withdrawal_id \<Rightarrow> bool" where
  "holds_nothing s k \<longleftrightarrow>
     (\<forall>p. bt_get (cl_withdrawal_plans s) k = Some p \<longrightarrow>
        wpl_status p \<noteq> Finalised \<and> wpl_reserved_amount p = None \<and> wpl_receipt p = None)"

definition withdraw_with :: "user \<Rightarrow> withdraw_collateral_params \<Rightarrow> collateral_asset_config \<Rightarrow>
    withdrawal_plan \<Rightarrow> ctx \<Rightarrow> (withdraw_collateral_error, unit) cproc" where
  "withdraw_with u x config plan c =
     pbind (transfer_withdrawal u x config plan c) (\<lambda>plan. sync (\<lambda>_. finalise_withdrawal u x plan))"

lemma withdraw_with_run:
  assumes "run_from w (withdraw_with u x config plan c) c0 = (r, c')" "spares u w"
    "account_at u (Some b) c" "account_at u (Some b) c0" "wpl_receipt plan = None"
    "wpl_reserved_amount plan = Some v" "r \<noteq> Trap"
  shows "r = Ok () \<and> account_at u (Some b) c' \<and> finalised_withdrawal (snd c') (u, wcp_withdrawal_id x) \<or>
    (\<exists>err. r = Err err \<and> account_at u
       (Some (refund_account (domain_or_settlement (wcp_domain x)) (wcp_asset_id x) v b)) c')"
proof -
  obtain rt ct where t: "run_from w (transfer_withdrawal u x config plan c) c0 = (rt, ct)"
    by (cases "run_from w (transfer_withdrawal u x config plan c) c0")
  then have "rt \<noteq> Trap" using assms(1,7) by (auto simp: withdraw_with_def run_from_pbind)
  from transfer_withdrawal_run [OF t assms(2-6) this] show ?thesis
    using assms(1) t
    by (auto simp: withdraw_with_def run_from_pbind sync_def finalise_withdrawal_def finalised_withdrawal_def)
qed

text \<open>The state that a trap would return to matters for a trap only.\<close>

lemma run_from_no_trap:
  "run_from w pr c0 = (r, c') \<Longrightarrow> r \<noteq> Trap \<Longrightarrow> run_from w pr c1 = (r, c')"
  by (induction pr arbitrary: c0 c1 rule: proc_induct) (auto split: prod.splits)

text \<open>How a withdrawal begins when its plan holds nothing.\<close>

lemma withdrawal_begins:
  assumes "holds_nothing (snd c) (u, wcp_withdrawal_id x)" "bt_get (cl_accounts (snd c)) u = Some a"
  obtains (refused) r s1 where "withdraw_collateral u x c = Return r (fst c, s1)" "r \<noteq> Ok ()"
      "cl_accounts s1 = cl_accounts (snd c)"
  | (started) config plan s1 where
      "withdraw_collateral u x c = withdraw_with u x config plan (fst c, s1)"
      "wpl_receipt plan = None" "wpl_reserved_amount plan = Some (of_nat (wcp_amount x))"
      "bt_get (cl_accounts s1) u = Some (debited x a)" "int (wcp_amount x) < 2 ^ 128"
      "covers_margin (domain_or_settlement (wcp_domain x)) (debited x a) (snd c)"
proof (cases "caller_is_not_anonymous u")
  case False
  show thesis
    by (rule refused [of Trap "snd c"])
      (use False in \<open>simp_all add: withdraw_collateral_def guarded_def preturn_def\<close>)
next
  case anon: True
  show thesis
  proof (cases "check_withdrawal u x (snd c)")
    case (Ok cm)
    obtain config metric where cm: "cm = (config, metric)" by (cases cm)
    let ?goc = "withdrawal_plan_get_or_create (env_now (fst c))
      \<lparr> wpp_withdrawal_id = wcp_withdrawal_id x, wpp_user = u, wpp_asset_id = wcp_asset_id x,
        wpp_amount = wcp_amount x, wpp_to_account = (u, None) \<rparr> (snd c)"
    obtain plan s0 where g: "?goc = (plan, s0)" by (cases ?goc)
    have plan: "wpl_status plan \<noteq> Finalised" "wpl_reserved_amount plan = None" "wpl_receipt plan = None"
      and s0: "cl_accounts s0 = cl_accounts (snd c)"
        "cl_collateral_assets s0 = cl_collateral_assets (snd c)" "cl_asset_metrics s0 = cl_asset_metrics (snd c)"
      using g assms(1) by (auto simp: withdrawal_plan_get_or_create_def get_or_create_def
          withdrawal_plan_key_def holds_nothing_def split: option.splits)
    obtain r s1 where res: "reserve_withdrawal u x config metric plan s0 = (r, s1)"
      by (cases "reserve_withdrawal u x config metric plan s0")
    have step: "withdraw_collateral u x c =
        pbind (Return r (fst c, s1)) (\<lambda>plan c. withdraw_with u x config plan c)"
      using anon Ok cm g plan(1) res
      by (simp add: withdraw_collateral_def guarded_def pure_step_def withdraw_with_def sync_def preturn_def)
    from reserve_withdrawal_run [OF res plan(2)] assms(2) s0 consider
      (Ok) plan' where "r = Ok plan'" "wpl_reserved_amount plan' = Some (of_nat (wcp_amount x))"
        "wpl_receipt plan' = None" "bt_get (cl_accounts s1) u = Some (debited x a)"
        "int (wcp_amount x) < 2 ^ 128"
        "covers_margin (domain_or_settlement (wcp_domain x)) (debited x a) (snd c)"
      | (no) "r = Trap \<or> (\<exists>err. r = Err err)" "s1 = s0"
      by (auto simp: plan(3) covers_margin_def)
    then show thesis
    proof cases
      case Ok
      with step show thesis by (intro started) auto
    next
      case no
      with step s0(1) show thesis by (auto intro: refused)
    qed
  next
    case (Err err)
    with anon show thesis
      by (intro refused [of "Err err" "snd c"]) (auto simp: withdraw_collateral_def guarded_def pure_step_def)
  next
    case Trap
    with anon show thesis
      by (intro refused [of Trap "snd c"]) (auto simp: withdraw_collateral_def guarded_def pure_step_def)
  qed
qed

text \<open>
  C19. A withdrawal takes exactly what it pays.  For a plan that holds nothing, in a world that
  leaves the caller's account alone: when the call succeeds, the plan is finalised, the balance
  of the asset and domain is down by the amount (at most to zero) and nothing else of the account
  has changed, and at the debit the equity that remained covered the reserved margin; when it
  fails, the account is exactly as before, except that an amount above the balance, which the
  code does not refuse, is refunded in full and leaves the balance at that amount.
\<close>

theorem withdrawal_is_exact:
  fixes x :: withdraw_collateral_params
  assumes "run w (withdraw_collateral u x) (e, s) = (r, c')" "spares u w"
    "bt_get (cl_accounts s) u = Some a" "account_inv a" "holds_nothing s (u, wcp_withdrawal_id x)"
  defines "d \<equiv> domain_or_settlement (wcp_domain x)" and "aid \<equiv> wcp_asset_id x"
    and "amount \<equiv> of_nat (wcp_amount x)"
  shows "(r = Ok () \<longrightarrow> finalised_withdrawal (snd c') (u, wcp_withdrawal_id x) \<and>
      bt_get (cl_accounts (snd c')) u =
        Some (set_balance d aid (saturating_sub (get_balance a d aid) amount) a) \<and>
      covers_margin d (set_balance d aid (saturating_sub (get_balance a d aid) amount) a) s) \<and>
    (\<forall>err. r = Err err \<longrightarrow>
      bt_get (cl_accounts (snd c')) u = Some a \<or>
      get_balance a d aid < amount \<and>
        bt_get (cl_accounts (snd c')) u = Some (set_balance d aid amount a))"
proof (cases "r = Trap")
  case trap: False
  show ?thesis
  proof (rule withdrawal_begins [of "(e, s)" u x a])
    fix r0 s1
    assume "withdraw_collateral u x (e, s) = Return r0 (fst (e, s), s1)" "r0 \<noteq> Ok ()"
      "cl_accounts s1 = cl_accounts (snd (e, s))"
    with assms(1,3) show ?thesis by (auto simp: run_def split: if_splits)
  next
    fix config plan s1
    assume st: "withdraw_collateral u x (e, s) = withdraw_with u x config plan (fst (e, s), s1)"
      "wpl_receipt plan = None" "wpl_reserved_amount plan = Some (of_nat (wcp_amount x))"
      "bt_get (cl_accounts s1) u = Some (debited x a)"
      "covers_margin (domain_or_settlement (wcp_domain x)) (debited x a) (snd (e, s))"
    have "run_from w (withdraw_with u x config plan (e, s1)) (e, s1) = (r, c')"
      using assms(1) trap unfolding run_def st(1) by (auto intro: run_from_no_trap)
    from withdraw_with_run [OF this assms(2) _ _ st(2,3) trap, of "debited x a"] st(4)
    show ?thesis using st(5) refund_debit [OF assms(4)]
      by (auto simp: debited_def debit_account_def d_def aid_def amount_def split: if_splits)
  qed (use assms in simp_all)
qed simp

section \<open>On the small market\<close>

definition token :: collateral_asset_config where
  "token = \<lparr> cac_asset_id = ''tok'', cac_asset = Icrc ''ledger'', cac_symbol = ''TOK'', cac_decimals = 4,
     cac_is_enabled = True, cac_oracle_id = None, cac_allowed_balance_domains = [Settlement] \<rparr>"

definition token_price :: asset_metrics where
  "token_price = \<lparr> am_price_usd = \<lparr> dec_value = 1, dec_decimals = 0 \<rparr>, am_haircut_bps = 0,
     am_latest_transfer_fee = None, am_insurance_fee_ratio = None, am_protocol_fee_ratio = None,
     am_last_updated_ns = None \<rparr>"

definition state_c :: clearing where
  "state_c = state0\<lparr>cl_collateral_assets := [(''tok'', token)], cl_asset_metrics := [(''tok'', token_price)]\<rparr>"

definition deposit0 :: deposit_collateral_params where
  "deposit0 = \<lparr> dcp_amount = 25, dcp_asset_id = ''tok'', dcp_deposit_id = ''d1'', dcp_domain = None \<rparr>"

definition answering :: "reply \<Rightarrow> request \<Rightarrow> ctx \<Rightarrow> reply \<times> ctx" where
  "answering p q c = (p, c)"

lemma answering_spares [simp]: "spares u (answering p)"
  by (simp add: spares_def answering_def)

lemma deposit0_checked: "check_deposit alice deposit0 state_c = Ok token"
  by code_simp

lemma interrupted_deposit_completes_witness:
  "fst (run (answering (RTransfer (Err (Duplicate 7)))) (deposit_collateral alice deposit0) (env0, state_c)) = Ok ()"
proof -
  have "caller_is_not_anonymous alice" by code_simp
  moreover have "accepts (answering (RTransfer (Err (Duplicate 7)))) ''ledger''"
    by (auto simp: accepts_def answering_def)
  ultimately show ?thesis
    using interrupted_deposit_completes [OF _ deposit0_checked] by (simp add: token_def deposit0_def)
qed

definition state_d :: clearing where
  "state_d = snd (snd (run (answering (RTransfer (Ok 7))) (deposit_collateral alice deposit0) (env0, state_c)))"

lemma deposit0_run:
  "fst (run (answering (RTransfer (Ok 7))) (deposit_collateral alice deposit0) (env0, state_c)) = Ok ()"
  by code_simp

lemma deposit_credits_once_witness:
  "map_option (\<lambda>a. get_balance a Settlement ''tok'') (bt_get (cl_accounts state_d) alice) = Some 25"
proof -
  let ?run = "run (answering (RTransfer (Ok 7))) (deposit_collateral alice deposit0) (env0, state_c)"
  have run: "?run = (Ok (), snd ?run)" using deposit0_run by (simp only: prod_eq_iff fst_conv snd_conv)
  have "\<not> finalised_deposit state_c (alice, dcp_deposit_id deposit0)"
    by (simp add: finalised_deposit_def state_c_def state0_def clearing_empty_def)
  moreover have "get_balance (credited alice deposit0 (bt_get (cl_accounts state_c) alice)) Settlement ''tok'' = 25"
    by code_simp
  ultimately show ?thesis
    using deposit_credits_once [OF run answering_spares] by (simp add: state_d_def)
qed

definition holder :: account_state where
  "holder = set_balance Settlement ''tok'' 25 (funded alice 1000000)"

definition state_h :: clearing where
  "state_h = put_account alice holder state_c"

definition withdrawal0 :: "nat \<Rightarrow> withdraw_collateral_params" where
  "withdrawal0 n = \<lparr> wcp_amount = n, wcp_asset_id = ''tok'', wcp_withdrawal_id = ''w1'', wcp_domain = None \<rparr>"

definition refusing :: "request \<Rightarrow> ctx \<Rightarrow> reply \<times> ctx" where
  "refusing = answering (RTransfer (Err (OtherLedgerError ''InsufficientFunds'')))"

definition state_w :: "nat \<Rightarrow> clearing" where
  "state_w n = snd (snd (run refusing (withdraw_collateral alice (withdrawal0 n)) (env0, state_h)))"

text \<open>
  Alice holds 25 and asks for 40, which her cash would cover in value; the ledger refuses for lack
  of funds in her custody account, and the refund leaves her with 40.
\<close>

lemma failed_withdrawal_can_credit:
  "fst (run refusing (withdraw_collateral alice (withdrawal0 40)) (env0, state_h)) =
     Err (AssetWithdraw (TransferError ''InsufficientFunds'')) \<and>
   map_option (\<lambda>a. get_balance a Settlement ''tok'') (bt_get (cl_accounts (state_w 40)) alice) = Some 40"
  by code_simp

lemma withdrawal_is_exact_witness:
  "bt_get (cl_accounts (state_w 20)) alice = Some holder"
proof -
  let ?run = "run refusing (withdraw_collateral alice (withdrawal0 20)) (env0, state_h)"
  have run: "?run = (fst ?run, snd ?run)" by simp
  have err: "fst ?run = Err (AssetWithdraw (TransferError ''InsufficientFunds''))" by code_simp
  have "spares alice refusing" by (simp add: refusing_def)
  moreover have "bt_get (cl_accounts state_h) alice = Some holder"
    by (simp add: state_h_def put_account_def)
  moreover have "account_inv holder" by (simp add: holder_def funded_def)
  moreover have "holds_nothing state_h (alice, wcp_withdrawal_id (withdrawal0 20))"
    by (simp add: holds_nothing_def state_h_def put_account_def state_c_def state0_def clearing_empty_def)
  moreover have "\<not> get_balance holder Settlement ''tok'' < 20" by code_simp
  ultimately show ?thesis
    using withdrawal_is_exact [OF run] err by (simp add: state_w_def withdrawal0_def domain_or_settlement_def)
qed

end
