(* ===== verification/Migration.thy ===== *)
theory Migration
  imports CompleteSets
begin

text \<open>
  \<open>src/src/clearing/src/api/migration/api.rs\<close>: a user moves the whole state of one balance
  domain to another.  The plan is created before the checks, so it stays when they fail; the
  snapshot is taken once, and the mutation moves what the snapshot holds.
\<close>

datatype migration_error =
    CommonMigration common_error | SameDomain | InFlightPlansExistMigration | NoStateTOMigrate

record migrate_domain_params =
  mdp_migration_id :: string
  mdp_from_domain :: balance_domain
  mdp_to_domain :: balance_domain

definition pending_deposit :: "user \<Rightarrow> clearing \<Rightarrow> bool" where
  "pending_deposit u s =
     list_ex (\<lambda>((v, _), p). v = u \<and> dpl_status p \<noteq> Finalised) (cl_deposit_plans s)"

definition pending_withdrawal :: "user \<Rightarrow> clearing \<Rightarrow> bool" where
  "pending_withdrawal u s =
     list_ex (\<lambda>((v, _), p). v = u \<and> wpl_status p \<noteq> Finalised) (cl_withdrawal_plans s)"

definition pending_settlement_in :: "balance_domain \<Rightarrow> user \<Rightarrow> clearing \<Rightarrow> bool" where
  "pending_settlement_in d u s =
     list_ex (\<lambda>p. spl_balance_domain p = d \<and> spl_status p \<noteq> Finalised \<and>
                   list_ex (\<lambda>pos. spos_user pos = u) (spl_positions p))
       (bt_values (cl_settlement_plans s))"

definition check_no_inflight_plans ::
  "user \<Rightarrow> balance_domain \<Rightarrow> clearing \<Rightarrow> (migration_error, unit) result" where
  "check_no_inflight_plans u d s =
     (if pending_deposit u s \<or> pending_withdrawal u s \<or> pending_settlement_in d u s
      then Err InFlightPlansExistMigration else Ok ())"

definition series_in_domain :: "clearing \<Rightarrow> balance_domain \<Rightarrow> series_id \<Rightarrow> bool" where
  "series_in_domain s d sid =
     (case bt_get (cl_series s) sid of None \<Rightarrow> False | Some ser \<Rightarrow> ser_balance_domain ser = d)"

definition domain_positions ::
  "user \<Rightarrow> balance_domain \<Rightarrow> clearing \<Rightarrow> (position_key \<times> position) list" where
  "domain_positions u d s =
     filter (\<lambda>((v, sid, _), _). v = u \<and> series_in_domain s d sid) (cl_positions s)"

definition domain_orders :: "user \<Rightarrow> balance_domain \<Rightarrow> clearing \<Rightarrow> limit_order list" where
  "domain_orders u d s =
     filter (\<lambda>o1. lo_creator o1 = u \<and> lo_balance_domain o1 = d) (bt_values (cl_limit_orders s))"

definition domain_balances :: "account_state \<Rightarrow> balance_domain \<Rightarrow> (asset_id, u128) btmap" where
  "domain_balances a d = (case bt_get (acc_balances a) d of None \<Rightarrow> [] | Some m \<Rightarrow> m)"

text \<open>Phase A.\<close>

definition snapshot_account ::
  "user \<Rightarrow> balance_domain \<Rightarrow> clearing \<Rightarrow>
     (migration_error, (asset_id \<times> u128) list \<times> i128 \<times> u128) result" where
  "snapshot_account u d s =
     (case bt_get (cl_accounts s) u of
        None \<Rightarrow> Err NoStateTOMigrate
      | Some a \<Rightarrow>
          (let balances = domain_balances a d;
               cash = get_cash_balance_usd a d; margin = get_reserved_margin_usd a d
           in if balances = [] \<and> cash = 0 \<and> margin = 0 \<and>
                 domain_positions u d s = [] \<and> domain_orders u d s = []
              then Err NoStateTOMigrate else Ok (balances, cash, margin)))"

definition snapshot_plan ::
  "user \<Rightarrow> balance_domain \<Rightarrow> migration_plan \<Rightarrow> clearing \<Rightarrow> (migration_error, migration_plan) result"
where
  "snapshot_plan u d plan s =
     obind (snapshot_account u d s) (\<lambda>(balances, cash, margin).
       Ok (plan\<lparr> mpl_status := Executing, mpl_balances := balances,
                 mpl_cash_balance_usd := cash, mpl_reserved_margin_usd := margin,
                 mpl_positions := map (\<lambda>((_, _, oid), pos).
                   \<lparr> mp_series_id = pos_series_id pos, mp_outcome_id = oid,
                     mp_net_qty = pos_net_qty pos,
                     mp_reserved_margin_usd = pos_reserved_margin_usd pos \<rparr>)
                   (domain_positions u d s),
                 mpl_orders := map (\<lambda>o1.
                   \<lparr> mo_order_id = lo_order_id o1,
                     mo_blocked_margin_usd = lo_blocked_margin_usd o1 \<rparr>)
                   (domain_orders u d s) \<rparr>))"

text \<open>Phase B.\<close>

definition move_balance ::
  "balance_domain \<Rightarrow> balance_domain \<Rightarrow> asset_id \<times> u128 \<Rightarrow> account_state \<Rightarrow> account_state" where
  "move_balance from to b a =
     (case b of (aid, amount) \<Rightarrow>
        (let a = set_balance from aid (saturating_sub (get_balance a from aid) amount) a
         in set_balance to aid (get_balance a to aid + amount) a))"

definition move_cash :: "balance_domain \<Rightarrow> balance_domain \<Rightarrow> i128 \<Rightarrow> account_state \<Rightarrow> account_state" where
  "move_cash from to amount a =
     (let a = set_cash_balance_usd from (get_cash_balance_usd a from - amount) a
      in set_cash_balance_usd to (get_cash_balance_usd a to + amount) a)"

definition move_reserved :: "balance_domain \<Rightarrow> balance_domain \<Rightarrow> u128 \<Rightarrow> account_state \<Rightarrow> account_state"
where
  "move_reserved from to amount a =
     (let a = set_reserved_margin_usd from
                (saturating_sub (get_reserved_margin_usd a from) amount) a
      in set_reserved_margin_usd to (get_reserved_margin_usd a to + amount) a)"

definition move_account ::
  "balance_domain \<Rightarrow> balance_domain \<Rightarrow> migration_plan \<Rightarrow> account_state \<Rightarrow> account_state" where
  "move_account from to plan a =
     move_reserved from to (mpl_reserved_margin_usd plan)
       (move_cash from to (mpl_cash_balance_usd plan)
          (fold (move_balance from to) (mpl_balances plan) a))"

definition retag_order ::
  "user \<Rightarrow> balance_domain \<Rightarrow> balance_domain \<Rightarrow> limit_order \<Rightarrow> limit_order" where
  "retag_order u from to o1 =
     (if lo_creator o1 = u \<and> lo_balance_domain o1 = from
      then o1\<lparr>lo_balance_domain := to\<rparr> else o1)"

definition store_migration_plan :: "user \<Rightarrow> migration_plan \<Rightarrow> clearing \<Rightarrow> clearing" where
  "store_migration_plan u plan s =
     s\<lparr>cl_migration_plans := bt_insert (u, mpl_migration_id plan) plan (cl_migration_plans s)\<rparr>"

definition apply_migration ::
  "user \<Rightarrow> balance_domain \<Rightarrow> balance_domain \<Rightarrow> migration_plan \<Rightarrow> clearing \<Rightarrow> clearing" where
  "apply_migration u from to plan s =
     (let s = put_account u (move_account from to plan (account_or_new s u)) s;
          s = s\<lparr>cl_limit_orders :=
                  fold (\<lambda>m. bt_modify (mo_order_id m) (retag_order u from to))
                    (mpl_orders plan) (cl_limit_orders s)\<rparr>
      in store_migration_plan u (plan\<lparr>mpl_status := Finalised\<rparr>) s)"

definition migrate_domain_impl ::
  "env \<Rightarrow> user \<Rightarrow> migrate_domain_params \<Rightarrow> clearing \<Rightarrow> (migration_error, unit) result \<times> clearing"
where
  "migrate_domain_impl e u x s =
     (let from = mdp_from_domain x; to = mdp_to_domain x
      in if from = to then (Err SameDomain, s)
         else case migration_plan_get_or_create (env_now e)
                     \<lparr> mpp_migration_id = mdp_migration_id x, mpp_user = u,
                       mpp_from_domain = from, mpp_to_domain = to \<rparr> s of
                (plan, s) \<Rightarrow>
                  if mpl_status plan = Finalised then (Ok (), s)
                  else case check_no_inflight_plans u from s of
                    Err err \<Rightarrow> (Err err, s)
                  | Trap \<Rightarrow> (Trap, s)
                  | Ok _ \<Rightarrow>
                      if mpl_status plan = Planned
                      then (case snapshot_plan u from plan s of
                              Err err \<Rightarrow> (Err err, s)
                            | Trap \<Rightarrow> (Trap, s)
                            | Ok plan \<Rightarrow>
                                (Ok (), apply_migration u from to plan (store_migration_plan u plan s)))
                      else (Ok (), apply_migration u from to plan s))"

end
