(* ===== verification/Reassignment.thy ===== *)
theory Reassignment
  imports Migration
begin

text \<open>
  \<open>src/src/clearing/src/account/reassignment.rs\<close>: a controller moves a whole account to another
  principal.  Validation and re-key are one synchronous step that also locks both principals;
  the custody sweep then drains the old owner's subaccounts, asset by asset, and the locks go
  when it has finished.
\<close>

datatype reassign_account_error =
    CommonReassign common_error
  | SameOwner
  | AccountNotFound
  | TargetAccountNotEmpty
  | OpenOrdersExist
  | InFlightPlansExist
  | PendingPositionTransfersExist
  | AnonymousOwner
  | ReassignmentInProgress
  | ReassignmentIdReused
  | UnsupportedCustodyAsset asset_id
  | CustodyTransferFailed asset_id asset_error

section \<open>Validation\<close>

definition validate_principals :: "user \<Rightarrow> user \<Rightarrow> (reassign_account_error, unit) result" where
  "validate_principals old_owner new_owner =
     (if old_owner = new_owner then Err SameOwner
      else if old_owner = anonymous \<or> new_owner = anonymous then Err AnonymousOwner
      else Ok ())"

definition has_orders :: "user \<Rightarrow> clearing \<Rightarrow> bool" where
  "has_orders u s = list_ex (\<lambda>o1. lo_creator o1 = u) (bt_values (cl_limit_orders s))"

definition has_frozen :: "user \<Rightarrow> clearing \<Rightarrow> bool" where
  "has_frozen u s = list_ex (\<lambda>p. pp_user p = u) (bt_values (cl_frozen_transfers s))"

definition has_positions :: "user \<Rightarrow> clearing \<Rightarrow> bool" where
  "has_positions u s = list_ex (\<lambda>((v, _, _), _). v = u) (cl_positions s)"

definition target_has_clearing_state :: "user \<Rightarrow> clearing \<Rightarrow> bool" where
  "target_has_clearing_state u s =
     ((case bt_get (cl_accounts s) u of
         None \<Rightarrow> False
       | Some a \<Rightarrow> acc_balances a \<noteq> [] \<or> acc_cash_balances_usd a \<noteq> [] \<or>
                   acc_reserved_margins_usd a \<noteq> []) \<or>
      has_positions u s \<or> has_orders u s \<or> has_frozen u s)"

definition pending_migration :: "user \<Rightarrow> clearing \<Rightarrow> bool" where
  "pending_migration u s =
     list_ex (\<lambda>((v, _), p). v = u \<and> mpl_status p \<noteq> Finalised) (cl_migration_plans s)"

definition pending_settlement :: "user \<Rightarrow> clearing \<Rightarrow> bool" where
  "pending_settlement u s =
     list_ex (\<lambda>p. spl_status p \<noteq> Finalised \<and> list_ex (\<lambda>pos. spos_user pos = u) (spl_positions p))
       (bt_values (cl_settlement_plans s))"

definition has_inflight_plans :: "user \<Rightarrow> clearing \<Rightarrow> bool" where
  "has_inflight_plans u s =
     (pending_deposit u s \<or> pending_withdrawal u s \<or> pending_migration u s \<or>
      pending_settlement u s)"

fun collect_custody ::
  "clearing \<Rightarrow> (asset_id \<times> u128) list \<Rightarrow> asset_id list \<Rightarrow> (reassign_account_error, asset_id list) result"
where
  "collect_custody s [] ids = Ok ids"
| "collect_custody s ((aid, balance) # rest) ids =
     (let is_icrc = (case bt_get (cl_collateral_assets s) aid of
                       None \<Rightarrow> False
                     | Some config \<Rightarrow> (case cac_asset config of Icrc _ \<Rightarrow> True | _ \<Rightarrow> False))
      in if \<not> is_icrc
         then (if 0 < balance then Err (UnsupportedCustodyAsset aid)
               else collect_custody s rest ids)
         else collect_custody s rest (if aid \<in> set ids then ids else ids @ [aid]))"

definition custody_assets :: "user \<Rightarrow> clearing \<Rightarrow> (reassign_account_error, asset_id list) result" where
  "custody_assets u s =
     (let balances = (case bt_get (cl_accounts s) u of None \<Rightarrow> [] | Some a \<Rightarrow> acc_balances a)
      in collect_custody s (concat (bt_values balances)) [])"

definition validate_reassignment ::
  "user \<Rightarrow> user \<Rightarrow> clearing \<Rightarrow> (reassign_account_error, asset_id list) result" where
  "validate_reassignment old_owner new_owner s =
     (if is_locked s old_owner \<or> is_locked s new_owner then Err ReassignmentInProgress
      else if \<not> bt_contains_key (cl_accounts s) old_owner then Err AccountNotFound
      else if has_orders old_owner s then Err OpenOrdersExist
      else if has_frozen old_owner s then Err PendingPositionTransfersExist
      else if has_inflight_plans old_owner s \<or> has_inflight_plans new_owner s
      then Err InFlightPlansExist
      else if target_has_clearing_state new_owner s then Err TargetAccountNotEmpty
      else custody_assets old_owner s)"

section \<open>The re-key\<close>

definition persist :: "reassignment_plan \<Rightarrow> clearing \<Rightarrow> clearing" where
  "persist plan s =
     s\<lparr>cl_reassignment_plans :=
        bt_insert (rpl_old_owner plan, rpl_reassignment_id plan) plan (cl_reassignment_plans s)\<rparr>"

definition rekey_account :: "user \<Rightarrow> user \<Rightarrow> clearing \<Rightarrow> clearing" where
  "rekey_account old_owner new_owner s =
     (case bt_get (cl_accounts s) old_owner of
        None \<Rightarrow> s
      | Some a \<Rightarrow>
          s\<lparr>cl_accounts :=
             bt_insert new_owner (a\<lparr>acc_user := new_owner\<rparr>)
               (bt_remove old_owner (cl_accounts s))\<rparr>)"

definition rekey_position :: "user \<Rightarrow> position_key \<Rightarrow> positions_map \<Rightarrow> positions_map" where
  "rekey_position new_owner k m =
     (case bt_get m k of
        None \<Rightarrow> m
      | Some p \<Rightarrow>
          (case k of (_, sid, oid) \<Rightarrow>
             bt_insert (new_owner, sid, oid) (p\<lparr>pos_user := new_owner\<rparr>) (bt_remove k m)))"

definition rekey_positions :: "user \<Rightarrow> user \<Rightarrow> clearing \<Rightarrow> clearing" where
  "rekey_positions old_owner new_owner s =
     s\<lparr>cl_positions :=
        fold (rekey_position new_owner)
          (filter (\<lambda>(u, _, _). u = old_owner) (bt_keys (cl_positions s)))
          (cl_positions s)\<rparr>"

definition validate_and_rekey ::
  "env \<Rightarrow> string \<Rightarrow> user \<Rightarrow> user \<Rightarrow> clearing \<Rightarrow>
     (reassign_account_error, reassignment_plan) result \<times> clearing" where
  "validate_and_rekey e rid old_owner new_owner s =
     (case validate_reassignment old_owner new_owner s of
        Err err \<Rightarrow> (Err err, s)
      | Trap \<Rightarrow> (Trap, s)
      | Ok asset_ids \<Rightarrow>
          (case reassignment_plan_get_or_create (env_now e)
                  \<lparr> rpp_reassignment_id = rid, rpp_old_owner = old_owner,
                    rpp_new_owner = new_owner, rpp_asset_ids = asset_ids \<rparr> s of
             (plan, s) \<Rightarrow>
               (let plan = plan\<lparr>rpl_status := Executing\<rparr>;
                    s = lock_for_reassignment old_owner new_owner (persist plan s)
                in (Ok plan,
                    rekey_positions old_owner new_owner (rekey_account old_owner new_owner s)))))"

section \<open>The custody sweep\<close>

definition set_sweep :: "nat \<Rightarrow> custody_sweep \<Rightarrow> reassignment_plan \<Rightarrow> reassignment_plan" where
  "set_sweep i sw plan = plan\<lparr>rpl_sweeps := (rpl_sweeps plan)[i := sw]\<rparr>"

definition sweep_error :: "asset_id \<Rightarrow> asset_error \<Rightarrow> reassign_account_error" where
  "sweep_error aid e = CustodyTransferFailed aid e"

definition sweep_fee :: "asset_id \<Rightarrow> asset \<Rightarrow> ctx \<Rightarrow> (reassign_account_error, u128) cproc" where
  "sweep_fee aid a c =
     (case cached_transfer_fee (snd c) aid of
        Some fee \<Rightarrow> preturn (Ok fee) c
      | None \<Rightarrow> pmap_err (sweep_error aid) (handler_get_fee (get_handler a) a c))"

definition sweep_transfer_params ::
  "env \<Rightarrow> reassignment_plan \<Rightarrow> asset_id \<Rightarrow> asset \<Rightarrow> u128 \<Rightarrow> asset_transfer_params" where
  "sweep_transfer_params e plan aid a amount =
     \<lparr> atp_asset = a, atp_asset_id = aid, atp_from = UserClearing (rpl_old_owner plan),
       atp_to = UserClearing (rpl_new_owner plan), atp_amount = amount,
       atp_created_at_time_ns = Some (env_now e) \<rparr>"

text \<open>One asset: read the balance and the fee, move the rest, record it on the plan.\<close>

definition sweep_asset ::
  "nat \<Rightarrow> reassignment_plan \<Rightarrow> ctx \<Rightarrow> (reassign_account_error, reassignment_plan) cproc" where
  "sweep_asset i plan c =
     (let sw = rpl_sweeps plan ! i; aid = cs_asset_id sw
      in if cs_moved_amount sw \<noteq> None then preturn (Ok plan) c
         else pure_step (ok_or (UnsupportedCustodyAsset aid)
                           (bt_get (cl_collateral_assets (snd c)) aid)) c (\<lambda>config c.
              let a = cac_asset config
              in pbind (pmap_err (sweep_error aid)
                    (handler_balance_of (get_handler a) a (UserClearing (rpl_old_owner plan)) c))
                 (\<lambda>balance c. pbind (sweep_fee aid a c) (\<lambda>fee c.
                    let amount = saturating_sub balance fee
                    in if amount = 0
                       then (let plan = set_sweep i (sw\<lparr>cs_moved_amount := Some 0\<rparr>) plan
                             in preturn (Ok plan) (fst c, persist plan (snd c)))
                       else pbind (pmap_err (sweep_error aid)
                              (handler_transfer (get_handler a)
                                 (sweep_transfer_params (fst c) plan aid a amount) c))
                            (\<lambda>block c.
                               let plan = set_sweep i
                                     (sw\<lparr>cs_moved_amount := Some amount,
                                         cs_receipt := Some (IcrcBlockIndex (unat block))\<rparr>) plan
                               in preturn (Ok plan) (fst c, persist plan (snd c)))))))"

fun sweep_from ::
  "nat list \<Rightarrow> reassignment_plan \<Rightarrow> ctx \<Rightarrow> (reassign_account_error, reassignment_plan) cproc" where
  "sweep_from [] plan c = preturn (Ok plan) c"
| "sweep_from (i # is) plan c = pbind (sweep_asset i plan c) (sweep_from is)"

definition sweep_custody ::
  "reassignment_plan \<Rightarrow> ctx \<Rightarrow> (reassign_account_error, reassignment_plan) cproc" where
  "sweep_custody plan = sweep_from [0..<length (rpl_sweeps plan)] plan"

definition finish_reassignment ::
  "user \<Rightarrow> user \<Rightarrow> reassignment_plan \<Rightarrow> clearing \<Rightarrow> (reassign_account_error, unit) result \<times> clearing"
where
  "finish_reassignment old_owner new_owner plan s =
     (Ok (), unlock_after_reassignment old_owner new_owner (persist (plan\<lparr>rpl_status := Finalised\<rparr>) s))"

definition start_reassignment ::
  "env \<Rightarrow> string \<Rightarrow> user \<Rightarrow> user \<Rightarrow> clearing \<Rightarrow>
     (reassign_account_error, reassignment_plan) result \<times> clearing" where
  "start_reassignment e rid old_owner new_owner s =
     (case validate_principals old_owner new_owner of
        Err err \<Rightarrow> (Err err, s)
      | Trap \<Rightarrow> (Trap, s)
      | Ok _ \<Rightarrow>
          (case bt_get (cl_reassignment_plans s) (old_owner, rid) of
             Some plan \<Rightarrow>
               if rpl_new_owner plan \<noteq> new_owner then (Err ReassignmentIdReused, s)
               else (Ok plan, s)
           | None \<Rightarrow> validate_and_rekey e rid old_owner new_owner s))"

definition reassign_account ::
  "string \<Rightarrow> user \<Rightarrow> user \<Rightarrow> ctx \<Rightarrow> (reassign_account_error, unit) cproc" where
  "reassign_account rid old_owner new_owner c =
     pbind (sync (\<lambda>e. start_reassignment e rid old_owner new_owner) c) (\<lambda>plan c.
       if rpl_status plan = Finalised then preturn (Ok ()) c
       else pbind (sweep_custody plan c)
              (\<lambda>plan. sync (\<lambda>_. finish_reassignment old_owner new_owner plan)))"

definition admin_reassign_account ::
  "principal \<Rightarrow> string \<Rightarrow> user \<Rightarrow> user \<Rightarrow> ctx \<Rightarrow> (reassign_account_error, unit) cproc" where
  "admin_reassign_account caller rid old_owner new_owner c =
     guarded (caller_is_controller (fst c) caller) (reassign_account rid old_owner new_owner) c"

end
