(* ===== verification/TypeProperties.thy ===== *)
theory TypeProperties
  imports SettlementFacts Collateral Migration Reassignment
begin

text \<open>
  The types of the books: accounts, positions and orders are stored under the keys they carry, and
  the tables of an account are canonical.  Every state-changing step of a call keeps this.
\<close>

section \<open>Well-typed tables\<close>

named_theorems typed \<open>what keeps the tables well typed\<close>

definition acc_typed :: "(user, account_state) btmap \<Rightarrow> bool" where
  "acc_typed m \<longleftrightarrow> bt_inv m \<and> (\<forall>u a. bt_get m u = Some a \<longrightarrow> acc_user a = u \<and> account_inv a)"

definition pos_typed :: "positions_map \<Rightarrow> bool" where
  "pos_typed m \<longleftrightarrow> bt_inv m \<and> (\<forall>k p. bt_get m k = Some p \<longrightarrow> position_key_of p = k)"

definition ord_typed :: "(order_id, limit_order) btmap \<Rightarrow> bool" where
  "ord_typed m \<longleftrightarrow> bt_inv m \<and> (\<forall>k p. bt_get m k = Some p \<longrightarrow> lo_order_id p = k)"

definition well_typed :: "clearing \<Rightarrow> bool" where
  "well_typed s \<longleftrightarrow>
     acc_typed (cl_accounts s) \<and> pos_typed (cl_positions s) \<and> ord_typed (cl_limit_orders s)"

lemma acc_typed_insert [typed]:
  "acc_typed m \<Longrightarrow> acc_user a = u \<Longrightarrow> account_inv a \<Longrightarrow> acc_typed (bt_insert u a m)"
  by (simp add: acc_typed_def)

lemma pos_typed_insert [typed]:
  "pos_typed m \<Longrightarrow> position_key_of p = k \<Longrightarrow> pos_typed (bt_insert k p m)"
  by (simp add: pos_typed_def)

lemma ord_typed_insert [typed]:
  "ord_typed m \<Longrightarrow> lo_order_id p = k \<Longrightarrow> ord_typed (bt_insert k p m)"
  by (simp add: ord_typed_def)

lemma typed_remove [typed]:
  "acc_typed m1 \<Longrightarrow> acc_typed (bt_remove u m1)"
  "pos_typed m2 \<Longrightarrow> pos_typed (bt_remove k m2)"
  "ord_typed m3 \<Longrightarrow> ord_typed (bt_remove i m3)"
  by (auto simp: acc_typed_def pos_typed_def ord_typed_def split: if_splits)

lemma pos_typed_get: "pos_typed m \<Longrightarrow> bt_get m k = Some p \<Longrightarrow> position_key_of p = k"
  unfolding pos_typed_def by blast

lemma acc_typed_get:
  "acc_typed m \<Longrightarrow> bt_get m u = Some a \<Longrightarrow> acc_user a = u"
  "acc_typed m \<Longrightarrow> bt_get m u = Some a \<Longrightarrow> account_inv a"
  by (simp_all add: acc_typed_def)

lemma well_typed_cong:
  "cl_accounts s' = cl_accounts s \<Longrightarrow> cl_positions s' = cl_positions s \<Longrightarrow>
   cl_limit_orders s' = cl_limit_orders s \<Longrightarrow> well_typed s' = well_typed s"
  by (simp add: well_typed_def)

lemma put_account_tables [simp]:
  "cl_positions (put_account u a s) = cl_positions s"
  "cl_limit_orders (put_account u a s) = cl_limit_orders s"
  by (simp_all add: put_account_def)

lemma account_or_new_typed [simp]:
  assumes "well_typed s"
  shows "acc_user (account_or_new s u) = u" "account_inv (account_or_new s u)"
  using assms
  by (auto simp: account_or_new_def well_typed_def acc_typed_def account_state_new_def [of u]
      account_inv_new [unfolded account_state_new_def] split: option.splits)

lemma put_account_typed [typed]:
  "well_typed s \<Longrightarrow> acc_user a = u \<Longrightarrow> account_inv a \<Longrightarrow> well_typed (put_account u a s)"
  by (simp add: well_typed_def put_account_def acc_typed_insert)

lemma position_new_key [simp]: "position_key_of (position_new k) = k"
  by (cases k) (simp add: position_new_def position_key_of_def)

lemma position_key_update [simp]:
  "position_key_of (p\<lparr>pos_net_qty := q\<rparr>) = position_key_of p"
  "position_key_of (p\<lparr>pos_reserved_margin_usd := m\<rparr>) = position_key_of p"
  by (simp_all add: position_key_of_def)

lemma set_accounts_typed [typed]:
  "well_typed s \<Longrightarrow> acc_typed m \<Longrightarrow> well_typed (s\<lparr>cl_accounts := m\<rparr>)"
  by (simp add: well_typed_def)

lemma set_positions_typed [typed]:
  "well_typed s \<Longrightarrow> pos_typed m \<Longrightarrow> well_typed (s\<lparr>cl_positions := m\<rparr>)"
  by (simp add: well_typed_def)

lemma set_orders_typed [typed]:
  "well_typed s \<Longrightarrow> ord_typed m \<Longrightarrow> well_typed (s\<lparr>cl_limit_orders := m\<rparr>)"
  by (simp add: well_typed_def)

lemma pos_typed_entry [typed]:
  assumes "pos_typed m" "\<And>p. position_key_of (f p) = position_key_of p"
  shows "pos_typed (bt_entry k (position_new k) f m)"
  unfolding bt_entry_def using assms(1)
  by (intro pos_typed_insert) (auto simp: assms(2) pos_typed_get split: option.split)

section \<open>The steps of a trade and of an order\<close>

lemma well_typed_tables [simp]:
  "well_typed s \<Longrightarrow> acc_typed (cl_accounts s)"
  "well_typed s \<Longrightarrow> pos_typed (cl_positions s)"
  "well_typed s \<Longrightarrow> ord_typed (cl_limit_orders s)"
  by (simp_all add: well_typed_def)

lemma release_reserved_typed [typed]: "well_typed s \<Longrightarrow> well_typed (release_reserved u d v s)"
  by (auto simp: release_reserved_def acc_typed_get [OF well_typed_tables(1)] intro!: put_account_typed
      split: option.split)

lemma remove_order_typed [typed]: "well_typed s \<Longrightarrow> well_typed (remove_order i s)"
  by (simp add: remove_order_def typed)

lemma update_side_account_typed [typed]: "well_typed s \<Longrightarrow> well_typed (update_side_account d u c r s)"
  unfolding update_side_account_def Let_def by (intro put_account_typed) simp_all

lemma update_side_position_typed [typed]: "well_typed s \<Longrightarrow> well_typed (update_side_position k q m s)"
  unfolding update_side_position_def
  by (intro set_positions_typed pos_typed_entry) simp_all

lemma execute_trade_typed [typed]:
  assumes "well_typed s"
  shows "well_typed (snd (execute_trade_impl e ser x s))"
proof -
  obtain r s' where run: "execute_trade_impl e ser x s = (r, s')"
    by (cases "execute_trade_impl e ser x s")
  then have "well_typed s'"
  proof (cases rule: execute_trade_cases)
    case (applied td)
    have "well_typed (record_trade e x t) = well_typed t" for t by (rule well_typed_cong) simp_all
    then show ?thesis using assms by (simp add: applied(6) apply_trade_def Let_def typed)
  qed (use assms in simp)
  with run show ?thesis by simp
qed

lemma place_limit_order_typed [typed]:
  "well_typed s \<Longrightarrow> well_typed (snd (place_limit_order u ser x s))"
  by (auto simp: place_limit_order_def Let_def new_order_def intro!: typed
      split: result.splits option.splits)

lemma cancel_order_typed [typed]: "well_typed s \<Longrightarrow> well_typed (snd (cancel_order u i s))"
  by (auto simp: cancel_order_def typed split: option.splits)

lemma shrink_order_typed [typed]: "well_typed s \<Longrightarrow> well_typed (shrink_order order q b s)"
  by (auto simp: shrink_order_def intro!: typed)

lemma fill_order_typed [typed]: "well_typed s \<Longrightarrow> well_typed (snd (fill_order e u t ser q order s))"
proof -
  assume s: "well_typed s"
  have "well_typed s'" if "execute_trade_impl e ser x s = (r, s')" for x r s'
    using execute_trade_typed [OF s, of e ser x] that by simp
  then show ?thesis using s
    by (auto simp: fill_order_def Let_def intro!: shrink_order_typed split: result.splits prod.splits)
qed

lemma market_order_typed [typed]:
  "well_typed s \<Longrightarrow> well_typed (snd (submit_market_order_impl e u order t ser q s))"
  by (auto simp: submit_market_order_impl_def typed split: option.splits)

section \<open>Complete sets and transfers\<close>

lemma grant_outcomes_typed [typed]:
  "pos_typed m \<Longrightarrow> pos_typed (fold (grant_outcome u sid q share) os m)"
proof (induction os arbitrary: m)
  case (Cons o1 os)
  have "pos_typed (grant_outcome u sid q share o1 m)"
    unfolding grant_outcome_def Let_def using Cons.prems by (intro pos_typed_entry) simp_all
  then show ?case using Cons.IH by simp
qed simp

lemma mint_typed [typed]: "well_typed s \<Longrightarrow> well_typed (snd (mint_complete_set_logic u sid ser q s))"
  by (auto simp: mint_complete_set_logic_def Let_def intro!: typed split: result.splits option.splits)

lemma redeem_outcome_typed:
  "well_typed s \<Longrightarrow> redeem_outcome u sid d q o1 s = Some s' \<Longrightarrow> well_typed s'"
  by (auto simp: redeem_outcome_def Let_def pos_typed_get [OF well_typed_tables(2)] intro!: typed
      split: option.splits)

lemma redeem_outcomes_typed:
  "well_typed s \<Longrightarrow> redeem_outcomes u sid d q os s = Some s' \<Longrightarrow> well_typed s'"
  by (induction os arbitrary: s) (auto dest: redeem_outcome_typed split: option.splits)

lemma redeem_typed [typed]: "well_typed s \<Longrightarrow> well_typed (snd (redeem_complete_set_logic u sid ser q s))"
  by (auto simp: redeem_complete_set_logic_def intro: redeem_outcomes_typed
      split: result.splits option.splits)

lemma frozen_transfers_typed [simp]: "well_typed (s\<lparr>cl_frozen_transfers := m\<rparr>) = well_typed s"
  by (rule well_typed_cong) simp_all

lemma accepted_transfers_typed [simp]: "well_typed (s\<lparr>cl_accepted_transfers := m\<rparr>) = well_typed s"
  by (rule well_typed_cong) simp_all

lemma freeze_typed [typed]: "well_typed s \<Longrightarrow> well_typed (snd (freeze_position_for_transfer e x s))"
  by (auto simp: freeze_position_for_transfer_def Let_def intro!: typed split: option.splits)

lemma account_or_new_positions [simp]:
  "account_or_new (s\<lparr>cl_positions := m\<rparr>) u = account_or_new s u"
  by (simp add: account_or_new_def)

lemma accept_typed [typed]:
  assumes "well_typed s"
  shows "well_typed (snd (accept_position ser proof v s))"
proof -
  let ?k = "(pp_user proof, pp_series_id proof, pp_outcome_id proof)"
  have "position_key_of (case bt_get (cl_positions s) ?k of None \<Rightarrow> position_new ?k | Some p \<Rightarrow> p) = ?k"
    using assms pos_typed_get [OF well_typed_tables(2)] by (auto split: option.split)
  with assms show ?thesis
    by (auto simp: accept_position_def Let_def intro!: typed split: result.splits)
qed

section \<open>Settlement\<close>

lemma remove_positions_typed [typed]: "well_typed s \<Longrightarrow> well_typed (remove_positions sid ps s)"
proof -
  have "pos_typed m \<Longrightarrow>
      pos_typed (fold (\<lambda>p. bt_remove (spos_user p, sid, spos_outcome_id p)) ps m)" for m
    by (induction ps arbitrary: m) (auto intro: typed)
  then show "well_typed s \<Longrightarrow> well_typed (remove_positions sid ps s)"
    by (auto simp: remove_positions_def intro!: typed)
qed

lemma cancel_open_typed [typed]:
  assumes "well_typed s"
  shows "well_typed (cancel_open_limit_orders sid s)"
proof -
  have remove: "well_typed t \<Longrightarrow> well_typed (fold (\<lambda>o1. remove_order (fst o1)) os t)" for os t
    by (induction os arbitrary: t) (auto intro: typed)
  have release: "well_typed t \<Longrightarrow> well_typed (fold (\<lambda>o1. release_reserved (lo_creator (snd o1))
      (lo_balance_domain (snd o1)) (lo_blocked_margin_usd (snd o1))) os t)" for os t
    by (induction os arbitrary: t) (auto intro: typed)
  show ?thesis unfolding cancel_open_limit_orders_def Let_def by (intro release remove assms)
qed

lemma settlement_plans_typed [simp]: "well_typed (s\<lparr>cl_settlement_plans := m\<rparr>) = well_typed s"
  by (rule well_typed_cong) simp_all

lemma build_or_resume_typed:
  "well_typed s \<Longrightarrow> build_or_resume e x s = (r, s') \<Longrightarrow> well_typed s'"
  by (auto simp: build_or_resume_def prepare_settlement_impl_def settlement_plan_get_or_create_def
      intro!: typed split: option.splits if_splits result.splits prod.splits)

lemma book_lines_typed: "acc_typed m \<Longrightarrow> acc_typed (fold (book_line d) ps m)"
proof (induction ps arbitrary: m)
  case (Cons p ps)
  have "acc_typed (book_line d p m)"
    using Cons.prems by (auto simp: book_line_def settle_account_def Let_def acc_typed_get
        intro!: acc_typed_insert split: option.split)
  then show ?case using Cons.IH by simp
qed simp

lemma apply_accounting_typed:
  assumes "well_typed s" "apply_settlement_accounting_logic e plan s = (newly, plan', s')"
  shows "well_typed s'"
proof -
  have "cl_positions s' = cl_positions s" "cl_limit_orders s' = cl_limit_orders s"
    using assms(2) by (auto simp: apply_settlement_accounting_logic_def Let_def index_settled_events_def
        split: prod.splits if_splits)
  moreover have "acc_typed (cl_accounts s')"
    unfolding apply_accounting_chunk(1) [OF assms(2)] using assms(1) by (intro book_lines_typed) simp
  ultimately show ?thesis using assms(1) unfolding well_typed_def by metis
qed

lemma credit_fees_typed [simp]: "well_typed (credit_fees plan s) = well_typed s"
  by (rule well_typed_cong) (simp_all add: credit_fees_def Let_def)

lemma store_settlement_plan_typed [simp]: "well_typed (store_settlement_plan sid plan s) = well_typed s"
  by (simp add: store_settlement_plan_def)

lemma account_chunk_typed:
  "well_typed s \<Longrightarrow> account_chunk e sid plan s = (plan', s') \<Longrightarrow> well_typed s'"
  by (auto simp: account_chunk_def Let_def split: if_splits prod.splits dest: apply_accounting_typed)

lemma series_typed [simp]: "well_typed (s\<lparr>cl_series := m\<rparr>) = well_typed s"
  by (rule well_typed_cong) simp_all

lemma settle_typed [typed]: "well_typed s \<Longrightarrow> well_typed (snd (settle_series_inner e x s))"
  by (auto simp: settle_series_inner_def split: prod.split result.split
      dest: build_or_resume_typed account_chunk_typed)

section \<open>Domain migration and account reassignment\<close>

lemma move_balances_typed:
  "acc_user (fold (move_balance from to) bs a) = acc_user a"
  "account_inv a \<Longrightarrow> account_inv (fold (move_balance from to) bs a)"
  by (induction bs arbitrary: a) (auto simp: move_balance_def Let_def)

lemma move_account_typed [simp]:
  "acc_user (move_account from to plan a) = acc_user a"
  "account_inv a \<Longrightarrow> account_inv (move_account from to plan a)"
  by (simp_all add: move_account_def move_reserved_def move_cash_def Let_def move_balances_typed)

lemma retag_orders_typed:
  "ord_typed m \<Longrightarrow> ord_typed (fold (\<lambda>p. bt_modify (mo_order_id p) (retag_order u from to)) ps m)"
proof (induction ps arbitrary: m)
  case (Cons p ps)
  have "ord_typed (bt_modify (mo_order_id p) (retag_order u from to) m)"
    using Cons.prems by (auto simp: ord_typed_def retag_order_def split: if_splits)
  then show ?case using Cons.IH by simp
qed simp

lemma migration_plans_typed [simp]:
  "well_typed (s\<lparr>cl_migration_plans := m\<rparr>) = well_typed s"
  "well_typed (store_migration_plan u plan s) = well_typed s"
  unfolding store_migration_plan_def by (rule well_typed_cong; simp)+

lemma apply_migration_typed: "well_typed s \<Longrightarrow> well_typed (apply_migration u from to plan s)"
  unfolding apply_migration_def Let_def migration_plans_typed
  by (intro set_orders_typed retag_orders_typed put_account_typed) simp_all

lemma migrate_typed [typed]: "well_typed s \<Longrightarrow> well_typed (snd (migrate_domain_impl e u x s))"
  by (auto simp: migrate_domain_impl_def Let_def migration_plan_get_or_create_def
      intro!: apply_migration_typed split: prod.splits result.splits)

lemma rekey_account_typed: "well_typed s \<Longrightarrow> well_typed (rekey_account old new s)"
  by (auto simp: rekey_account_def account_inv_def [of "_\<lparr>acc_user := _\<rparr>"] account_inv_def [of "_ :: account_state"] intro!: typed split: option.split
      dest: acc_typed_get(2) [OF well_typed_tables(1)])

lemma rekey_positions_typed: "well_typed s \<Longrightarrow> well_typed (rekey_positions old new s)"
proof -
  have step: "pos_typed (rekey_position new k m)" if "pos_typed m" for k m
    using that pos_typed_get [OF that, of k]
    by (auto simp: rekey_position_def position_key_of_def intro!: typed split: option.split prod.split)
  have "pos_typed (fold (rekey_position new) ks m)" if "pos_typed m" for ks m
    using that by (induction ks arbitrary: m) (auto intro: step)
  then show "well_typed s \<Longrightarrow> well_typed (rekey_positions old new s)"
    by (auto simp: rekey_positions_def intro!: typed)
qed

lemma rekey_typed [typed]: "well_typed s \<Longrightarrow> well_typed (snd (validate_and_rekey e rid old new s))"
proof -
  have "well_typed (lock_for_reassignment old new (persist plan t)) = well_typed t" for plan t
    by (rule well_typed_cong) (simp_all add: lock_for_reassignment_def persist_def)
  moreover have "well_typed (t\<lparr>cl_reassignment_plans := m\<rparr>) = well_typed t" for t m
    by (rule well_typed_cong) simp_all
  ultimately show "well_typed s \<Longrightarrow> well_typed (snd (validate_and_rekey e rid old new s))"
    by (auto simp: validate_and_rekey_def Let_def reassignment_plan_get_or_create_def
        intro!: rekey_positions_typed rekey_account_typed split: prod.split result.split)
qed

section \<open>Collateral\<close>

lemma store_plans_typed [simp]:
  "well_typed (store_deposit_plan p k s) = well_typed s"
  "well_typed (store_withdrawal_plan q k s) = well_typed s"
  by (rule well_typed_cong; simp add: store_deposit_plan_def store_withdrawal_plan_def)+

lemma finalise_deposit_typed [typed]: "well_typed s \<Longrightarrow> well_typed (snd (finalise_deposit u x plan s))"
  by (auto simp: finalise_deposit_def credit_balance_def Let_def intro!: typed split: result.split)

lemma modify_account_typed [typed]:
  assumes "well_typed s" "\<And>a. acc_user (f a) = acc_user a" "\<And>a. account_inv a \<Longrightarrow> account_inv (f a)"
  shows "well_typed (modify_account u f s)"
proof -
  have "acc_typed (bt_modify u f (cl_accounts s))"
    using well_typed_tables(1) [OF assms(1)] assms(2,3) by (auto simp: acc_typed_def split: if_splits)
  then show ?thesis unfolding modify_account_def using assms(1) by (intro set_accounts_typed)
qed

lemma debit_refund_typed [simp]:
  "acc_user (debit_account d aid v a) = acc_user a" "acc_user (refund_account d aid v a) = acc_user a"
  "account_inv a \<Longrightarrow> account_inv (debit_account d aid v a)"
  "account_inv a \<Longrightarrow> account_inv (refund_account d aid v a)"
  by (simp_all add: debit_account_def refund_account_def)

lemma reserve_withdrawal_typed [typed]:
  "well_typed s \<Longrightarrow> well_typed (snd (reserve_withdrawal u x config metric plan s))"
  by (auto simp: reserve_withdrawal_def Let_def intro!: modify_account_typed split: result.split)

lemma refund_withdrawal_typed [typed]: "well_typed s \<Longrightarrow> well_typed (refund_withdrawal u x plan s)"
  by (auto simp: refund_withdrawal_def intro!: modify_account_typed split: option.split)

section \<open>Every state-changing step\<close>

text \<open>
  The parts of the calls that change the books: each runs without interruption, with whatever the
  call read or was answered before it as its arguments.
\<close>

datatype book_call =
    TradeCall series execute_trade_params
  | PlaceCall user series submit_limit_order_params
  | CancelCall user order_id
  | MarketCall user limit_order trade_id series "i128 option"
  | MintCall user series_id series i128
  | RedeemCall user series_id series i128
  | FreezeCall freeze_params
  | AcceptCall series position_proof price
  | SettleCall settle_series_params
  | MigrateCall user migrate_domain_params
  | RekeyCall string user user
  | CreditCall user deposit_collateral_params deposit_plan
  | DebitCall user withdraw_collateral_params collateral_asset_config asset_metrics withdrawal_plan
  | RefundCall user withdraw_collateral_params withdrawal_plan

fun book_step :: "env \<Rightarrow> book_call \<Rightarrow> clearing \<Rightarrow> clearing" where
  "book_step e (TradeCall ser x) s = snd (execute_trade_impl e ser x s)"
| "book_step e (PlaceCall u ser x) s = snd (place_limit_order u ser x s)"
| "book_step e (CancelCall u i) s = snd (cancel_order u i s)"
| "book_step e (MarketCall u order t ser q) s = snd (submit_market_order_impl e u order t ser q s)"
| "book_step e (MintCall u sid ser q) s = snd (mint_complete_set_logic u sid ser q s)"
| "book_step e (RedeemCall u sid ser q) s = snd (redeem_complete_set_logic u sid ser q s)"
| "book_step e (FreezeCall x) s = snd (freeze_position_for_transfer e x s)"
| "book_step e (AcceptCall ser proof v) s = snd (accept_position ser proof v s)"
| "book_step e (SettleCall x) s = snd (settle_series_inner e x s)"
| "book_step e (MigrateCall u x) s = snd (migrate_domain_impl e u x s)"
| "book_step e (RekeyCall rid old new) s = snd (validate_and_rekey e rid old new s)"
| "book_step e (CreditCall u x plan) s = snd (finalise_deposit u x plan s)"
| "book_step e (DebitCall u x config metric plan) s = snd (reserve_withdrawal u x config metric plan s)"
| "book_step e (RefundCall u x plan) s = refund_withdrawal u x plan s"

definition book_run :: "(env \<times> book_call) list \<Rightarrow> clearing \<Rightarrow> clearing" where
  "book_run calls s = fold (\<lambda>(e, c). book_step e c) calls s"

lemma book_step_typed: "well_typed s \<Longrightarrow> well_typed (book_step e c s)"
  by (cases c) (simp_all add: typed)

text \<open>
  After any sequence of the steps that change accounts, positions
  and orders - trades, orders, market orders, complete sets, transfers, settlement, domain
  migration, re-keying of an account, and the credits, debits and refunds of collateral, with any
  arguments, successful or not - every account, position and order is stored under the key it
  carries, and the tables of every account are in key order without zero or empty entries.
\<close>

theorem books_stay_well_typed:
  "well_typed (book_run calls (clearing_init config))"
proof -
  have "well_typed s \<Longrightarrow> well_typed (book_run calls s)" for s
    unfolding book_run_def by (induction calls arbitrary: s) (auto intro: book_step_typed)
  moreover have "well_typed (clearing_init config)"
    by (simp add: well_typed_def acc_typed_def pos_typed_def ord_typed_def clearing_init_def
        clearing_empty_def del: well_typed_tables)
  ultimately show ?thesis by blast
qed

end
