(* ===== verification/MigrationProperties.thy ===== *)
theory MigrationProperties
  imports TypeProperties Samples
begin

text \<open>
  The migration of a user's state from one balance domain to another: everything moves, nothing is
  lost or made, and nobody else is touched.
\<close>

section \<open>The account\<close>

lemma move_balance_get:
  assumes "from \<noteq> to" "get_balance a from aid = v"
  shows "get_balance (move_balance from to (aid, v) a) d aid' =
    (if aid' \<noteq> aid then get_balance a d aid'
     else if d = from then 0 else if d = to then get_balance a to aid + v else get_balance a d aid)"
  using assms by (auto simp: move_balance_def Let_def get_set_balance saturating_sub_def)

lemma moved_balances:
  assumes "from \<noteq> to" "distinct (map fst bs)" "\<forall>(aid, v)\<in>set bs. get_balance a from aid = v"
  shows "get_balance (fold (move_balance from to) bs a) d aid =
    (if aid \<notin> fst ` set bs then get_balance a d aid
     else if d = from then 0
     else if d = to then get_balance a to aid + get_balance a from aid else get_balance a d aid)"
  using assms(2,3)
proof (induction bs arbitrary: a)
  case (Cons b bs)
  obtain i v where b: "b = (i, v)" by (cases b)
  have v: "get_balance a from i = v" using Cons.prems(2) b by auto
  note step = move_balance_get [OF assms(1) v]
  have "\<forall>(aid, w)\<in>set bs. get_balance (move_balance from to b a) from aid = w"
  proof clarify
    fix aid w assume bs: "(aid, w) \<in> set bs"
    then have "aid \<noteq> i" using Cons.prems(1) b by force
    with bs show "get_balance (move_balance from to b a) from aid = w"
      using Cons.prems(2) by (auto simp: b step)
  qed
  with Cons.IH [of "move_balance from to b a"] Cons.prems show ?case
    by (auto simp: b step v)
qed simp

lemma fold_move_frame [simp]:
  "get_cash_balance_usd (fold (move_balance from to) bs a) = get_cash_balance_usd a"
  "get_reserved_margin_usd (fold (move_balance from to) bs a) = get_reserved_margin_usd a"
  by (induction bs arbitrary: a) (auto simp: move_balance_def Let_def)

definition moved :: "balance_domain \<Rightarrow> balance_domain \<Rightarrow> (balance_domain \<Rightarrow> 'v::comm_monoid_add) \<Rightarrow>
    balance_domain \<Rightarrow> 'v" where
  "moved from to f d = (if d = from then 0 else if d = to then f to + f from else f d)"

text \<open>The account after the move, table by table.\<close>

lemma move_account_get:
  assumes "from \<noteq> to" "account_inv a" "mpl_balances plan = domain_balances a from"
    "mpl_cash_balance_usd plan = get_cash_balance_usd a from"
    "mpl_reserved_margin_usd plan = get_reserved_margin_usd a from"
  shows "get_balance (move_account from to plan a) d aid = moved from to (\<lambda>d. get_balance a d aid) d"
    "get_cash_balance_usd (move_account from to plan a) d = moved from to (get_cash_balance_usd a) d"
    "get_reserved_margin_usd (move_account from to plan a) d = moved from to (get_reserved_margin_usd a) d"
proof -
  let ?bs = "domain_balances a from"
  have inv: "bt_inv ?bs" using assms(2) by (auto simp: domain_balances_def account_inv_def split: option.split)
  have get: "get_balance a from i = or_zero (bt_get ?bs i)" for i
    by (simp add: get_balance_def domain_balances_def split: option.split)
  have "distinct (map fst ?bs)" using bt.distinct_keys [OF inv] by simp
  moreover have "\<forall>(i, v)\<in>set ?bs. get_balance a from i = v" using inv by (auto simp: get bt_mem)
  moreover have "get_balance a from i = 0" if "i \<notin> fst ` set ?bs" for i
    using that bt.keys_dom [OF inv] by (auto simp: get dom_def or_zero_def split: option.split)
  ultimately show "get_balance (move_account from to plan a) d aid = moved from to (\<lambda>d. get_balance a d aid) d"
    using assms(1,3)
    by (auto simp: move_account_def move_reserved_def move_cash_def Let_def moved_balances moved_def)
  show "get_cash_balance_usd (move_account from to plan a) d = moved from to (get_cash_balance_usd a) d"
    using assms(1,4) by (auto simp: move_account_def move_reserved_def move_cash_def Let_def moved_def cash.get_set)
  show "get_reserved_margin_usd (move_account from to plan a) d = moved from to (get_reserved_margin_usd a) d"
    using assms(1,5) by (auto simp: move_account_def move_reserved_def move_cash_def Let_def moved_def
        reserved.get_set saturating_sub_def)
qed

section \<open>The orders\<close>

lemma retag_idem [simp]: "retag_order u from to (retag_order u from to p) = retag_order u from to p"
  by (simp add: retag_order_def)

lemma retag_fold:
  "bt_get (fold (\<lambda>p. bt_modify (mo_order_id p) (retag_order u from to)) ps m) k =
     (if k \<in> mo_order_id ` set ps then map_option (retag_order u from to) (bt_get m k) else bt_get m k)"
  by (induction ps arbitrary: m) (auto simp: option.map_comp comp_def)

lemma retagged_orders:
  fixes u :: user and d d' :: balance_domain
  assumes "ord_typed (cl_limit_orders s)"
  defines "ps \<equiv> map (\<lambda>o1. \<lparr> mo_order_id = lo_order_id o1, mo_blocked_margin_usd = lo_blocked_margin_usd o1 \<rparr>)
      (domain_orders u d s)"
  shows "bt_get (fold (\<lambda>p. bt_modify (mo_order_id p) (retag_order u d d')) ps (cl_limit_orders s)) k =
    map_option (retag_order u d d') (bt_get (cl_limit_orders s) k)"
proof (cases "bt_get (cl_limit_orders s) k")
  case (Some p)
  have "k \<in> mo_order_id ` set ps" if "lo_creator p = u" "lo_balance_domain p = d"
  proof -
    have "lo_order_id p = k" using assms(1) Some by (simp add: ord_typed_def)
    moreover have "p \<in> set (domain_orders u d s)"
      using Some that assms(1) bt_mem [of "cl_limit_orders s" k p]
      by (force simp: domain_orders_def bt_values_def ord_typed_def)
    ultimately show ?thesis by (force simp: ps_def)
  qed
  with Some show ?thesis by (auto simp: retag_fold retag_order_def)
qed (simp add: retag_fold)

section \<open>The call\<close>

text \<open>What the call does when the plan is new: the snapshot is taken and applied.\<close>

lemma first_migration:
  assumes "migrate_domain_impl e u x s = (Ok (), s')"
    and "bt_get (cl_migration_plans s) (u, mdp_migration_id x) = None"
  obtains s0 plan where "mdp_from_domain x \<noteq> mdp_to_domain x"
    "s0 = s\<lparr>cl_migration_plans := cl_migration_plans s0\<rparr>" "mpl_migration_id plan = mdp_migration_id x"
    "mpl_balances plan = domain_balances (account_or_new s u) (mdp_from_domain x)"
    "mpl_cash_balance_usd plan = get_cash_balance_usd (account_or_new s u) (mdp_from_domain x)"
    "mpl_reserved_margin_usd plan = get_reserved_margin_usd (account_or_new s u) (mdp_from_domain x)"
    "mpl_orders plan =
       map (\<lambda>o1. \<lparr> mo_order_id = lo_order_id o1, mo_blocked_margin_usd = lo_blocked_margin_usd o1 \<rparr>)
         (domain_orders u (mdp_from_domain x) s)"
    "s' = apply_migration u (mdp_from_domain x) (mdp_to_domain x) plan s0"
proof -
  obtain plan0 s0 where goc: "migration_plan_get_or_create (env_now e)
      \<lparr> mpp_migration_id = mdp_migration_id x, mpp_user = u, mpp_from_domain = mdp_from_domain x,
        mpp_to_domain = mdp_to_domain x \<rparr> s = (plan0, s0)" by fastforce
  have plan0: "mpl_status plan0 = Planned" "mpl_migration_id plan0 = mdp_migration_id x"
    and s0: "s0 = s\<lparr>cl_migration_plans := cl_migration_plans s0\<rparr>"
    using goc assms(2) by (auto simp: migration_plan_get_or_create_def get_or_create_def
        migration_plan_key_def)
  have same: "cl_accounts s0 = cl_accounts s" "cl_limit_orders s0 = cl_limit_orders s"
    by (subst s0, simp)+
  obtain plan where plan: "snapshot_plan u (mdp_from_domain x) plan0 s0 = Ok plan"
    and s': "s' = apply_migration u (mdp_from_domain x) (mdp_to_domain x) plan (store_migration_plan u plan s0)"
    and ne: "mdp_from_domain x \<noteq> mdp_to_domain x"
    using assms(1) plan0(1) by (auto simp: migrate_domain_impl_def Let_def goc split: if_splits result.splits)
  show thesis
  proof (rule that [of "store_migration_plan u plan s0" plan, OF ne _ _ _ _ _ _ s'])
    show "store_migration_plan u plan s0 =
        s\<lparr>cl_migration_plans := cl_migration_plans (store_migration_plan u plan s0)\<rparr>"
      by (subst (1) s0) (simp add: store_migration_plan_def)
  qed (use plan same in \<open>auto simp: snapshot_plan_def snapshot_account_def plan0 account_or_new_def
      domain_orders_def Let_def obind_def split: option.splits if_splits result.splits\<close>)
qed

text \<open>
  C21. A migration moves everything and nothing else.  When a user's first call for a migration
  succeeds, the balances of every asset, the cash and the reserved margin of the source domain have
  been added to those of the target and are zero in the source, the other domains, the other
  accounts and all positions are as before, the user's orders of the source domain carry the target
  domain and every other order is as it was, and the plan is finalised, so that a replay moves
  nothing more.
\<close>

theorem migration_moves_everything:
  fixes x :: migrate_domain_params
  assumes "migrate_domain_impl e u x s = (Ok (), s')" and "well_typed s"
    and "bt_get (cl_migration_plans s) (u, mdp_migration_id x) = None"
  defines "src \<equiv> mdp_from_domain x" and "dst \<equiv> mdp_to_domain x"
    and "a \<equiv> account_or_new s u" and "a' \<equiv> account_or_new s' u"
  shows "(\<forall>d aid. get_balance a' d aid = moved src dst (\<lambda>d. get_balance a d aid) d) \<and>
    (\<forall>d. get_cash_balance_usd a' d = moved src dst (get_cash_balance_usd a) d \<and>
       get_reserved_margin_usd a' d = moved src dst (get_reserved_margin_usd a) d) \<and>
    (\<forall>v. v \<noteq> u \<longrightarrow> bt_get (cl_accounts s') v = bt_get (cl_accounts s) v) \<and>
    cl_positions s' = cl_positions s \<and>
    (\<forall>k. bt_get (cl_limit_orders s') k =
       map_option (retag_order u src dst) (bt_get (cl_limit_orders s) k)) \<and>
    (\<forall>e2. migrate_domain_impl e2 u x s' = (Ok (), s'))"
proof -
  obtain s0 plan where ne: "src \<noteq> dst" and s0: "s0 = s\<lparr>cl_migration_plans := cl_migration_plans s0\<rparr>"
    and plan: "mpl_migration_id plan = mdp_migration_id x" "mpl_balances plan = domain_balances a src"
      "mpl_cash_balance_usd plan = get_cash_balance_usd a src"
      "mpl_reserved_margin_usd plan = get_reserved_margin_usd a src"
      "mpl_orders plan =
         map (\<lambda>o1. \<lparr> mo_order_id = lo_order_id o1, mo_blocked_margin_usd = lo_blocked_margin_usd o1 \<rparr>)
           (domain_orders u src s)"
    and s': "s' = apply_migration u src dst plan s0"
    using first_migration [OF assms(1,3)] unfolding src_def dst_def a_def by blast
  have same: "cl_accounts s0 = cl_accounts s" "cl_limit_orders s0 = cl_limit_orders s"
    "cl_positions s0 = cl_positions s" by (subst s0, simp)+
  have a': "a' = move_account src dst plan a"
    by (simp add: a'_def s' a_def apply_migration_def store_migration_plan_def Let_def
        account_or_new_def put_account_def same)
  note get = move_account_get [OF ne _ plan(2-4), folded a']
  have inv: "account_inv a" using assms(2) by (simp add: a_def)
  have orders: "ord_typed (cl_limit_orders s)" using assms(2) unfolding well_typed_def by blast
  have "bt_get (cl_migration_plans s') (u, mdp_migration_id x) = Some (plan\<lparr>mpl_status := Finalised\<rparr>)"
    by (simp add: s' apply_migration_def store_migration_plan_def Let_def plan(1))
  then have "migrate_domain_impl e2 u x s' = (Ok (), s')" for e2
    using ne by (simp add: migrate_domain_impl_def Let_def src_def dst_def
        migration_plan_get_or_create_def get_or_create_def migration_plan_key_def)
  moreover have "bt_get (cl_accounts s') v = bt_get (cl_accounts s) v" if "v \<noteq> u" for v
    using that by (simp add: s' apply_migration_def store_migration_plan_def Let_def put_account_def same)
  moreover have "bt_get (cl_limit_orders s') k =
      map_option (retag_order u src dst) (bt_get (cl_limit_orders s) k)" for k
    by (simp add: s' apply_migration_def store_migration_plan_def Let_def put_account_def same plan(5)
        retagged_orders [OF orders])
  moreover have "cl_positions s' = cl_positions s"
    by (simp add: s' apply_migration_def store_migration_plan_def Let_def put_account_def same)
  ultimately show ?thesis using get inv by blast
qed

definition migration0 :: migrate_domain_params where
  "migration0 = \<lparr> mdp_migration_id = ''m1'', mdp_from_domain = Settlement, mdp_to_domain = Playground \<rparr>"

lemma funded_typed: "acc_user (funded u c) = u" "account_inv (funded u c)"
  by (simp_all add: funded_def account_state_new_def [of u] account_inv_new [unfolded account_state_new_def])

lemma state0_typed: "well_typed state0"
  by (simp add: state0_def well_typed_def bt_of_list_def funded_typed typed acc_typed_def pos_typed_def
      ord_typed_def clearing_empty_def del: bt_insert.simps)

lemma migration0_ok:
  "fst (migrate_domain_impl env0 alice migration0 state0) = Ok ()"
  "bt_get (cl_migration_plans state0) (alice, mdp_migration_id migration0) = None"
  by code_simp+

lemma migration0_cash:
  "moved Settlement Playground (get_cash_balance_usd (account_or_new state0 alice)) Playground = 1000000"
  by code_simp

lemma migration_moves_everything_witness:
  "get_cash_balance_usd
     (account_or_new (snd (migrate_domain_impl env0 alice migration0 state0)) alice) Playground = 1000000"
proof -
  have "migrate_domain_impl env0 alice migration0 state0 =
      (Ok (), snd (migrate_domain_impl env0 alice migration0 state0))"
    using migration0_ok(1) by (simp add: prod_eq_iff)
  from migration_moves_everything [OF this state0_typed migration0_ok(2)]
  show ?thesis using migration0_cash by (simp add: migration0_def)
qed

end
