(* ===== verification/ReassignmentProperties.thy ===== *)
theory ReassignmentProperties
  imports MigrationProperties Reassignment
begin

text \<open>
  The re-keying of an account (\<open>validate_and_rekey\<close> of \<open>account/reassignment.rs\<close>): the whole account
  and every position move under the new principal, once, and nobody else is touched.
\<close>

section \<open>Positions under a new key\<close>

lemma rekey_position_get:
  assumes "bt_get m (u, sid, oid) = Some p"
  shows "bt_get (rekey_position v (u, sid, oid) m) k =
    (if k = (v, sid, oid) then Some (p\<lparr>pos_user := v\<rparr>)
     else if k = (u, sid, oid) then None else bt_get m k)"
  using assms by (auto simp: rekey_position_def)

lemma rekeyed_positions:
  assumes "u \<noteq> v" "distinct ks" "\<forall>k\<in>set ks. fst k = u \<and> bt_get m k \<noteq> None"
  shows "bt_get (fold (rekey_position v) ks m) (w, sid, oid) =
    (if w = v \<and> (u, sid, oid) \<in> set ks
     then map_option (pos_user_update (\<lambda>_. v)) (bt_get m (u, sid, oid))
     else if (w, sid, oid) \<in> set ks then None else bt_get m (w, sid, oid))"
  using assms(2,3)
proof (induction ks arbitrary: m)
  case (Cons k ks)
  obtain sid' oid' p where k: "k = (u, sid', oid')" and p: "bt_get m (u, sid', oid') = Some p"
    using Cons.prems(2) by (cases k) auto
  note step = rekey_position_get [OF p]
  have "\<forall>l\<in>set ks. fst l = u \<and> bt_get (rekey_position v k m) l \<noteq> None"
    using Cons.prems assms(1) by (auto simp: k step)
  with Cons.IH [of "rekey_position v k m"] Cons.prems show ?case
    using assms(1) p by (auto simp: k step)
qed simp

lemma no_positions: "\<not> has_positions v s \<Longrightarrow> bt_get (cl_positions s) (v, sid, oid) = None"
  by (auto simp: has_positions_def bt_get_def list_ex_iff map_of_eq_None_iff)

lemma rekey_positions_get:
  assumes "pos_typed (cl_positions s)" "u \<noteq> v" "\<not> has_positions v s"
  shows "bt_get (cl_positions (rekey_positions u v s)) (w, sid, oid) =
    (if w = v then map_option (pos_user_update (\<lambda>_. v)) (bt_get (cl_positions s) (u, sid, oid))
     else if w = u then None else bt_get (cl_positions s) (w, sid, oid))"
proof -
  let ?ks = "filter (\<lambda>(w, _, _). w = u) (bt_keys (cl_positions s))"
  have sel: "cl_positions (rekey_positions u v s) = fold (rekey_position v) ?ks (cl_positions s)"
    by (simp add: rekey_positions_def)
  have inv: "bt_inv (cl_positions s)" using assms(1) unfolding pos_typed_def by blast
  have keys: "k \<in> set (bt_keys (cl_positions s)) \<longleftrightarrow> bt_get (cl_positions s) k \<noteq> None" for k
    using bt.keys_dom [OF inv] by (auto simp: bt_keys_def)
  have "distinct ?ks" using bt.distinct_keys [OF inv] by (simp add: bt_keys_def)
  moreover have "\<forall>k\<in>set ?ks. fst k = u \<and> bt_get (cl_positions s) k \<noteq> None" by (auto simp: keys)
  ultimately have get: "bt_get (cl_positions (rekey_positions u v s)) (w, sid, oid) =
      (if w = v \<and> (u, sid, oid) \<in> set ?ks
       then map_option (pos_user_update (\<lambda>_. v)) (bt_get (cl_positions s) (u, sid, oid))
       else if (w, sid, oid) \<in> set ?ks then None else bt_get (cl_positions s) (w, sid, oid))"
    unfolding sel by (rule rekeyed_positions [OF assms(2)])
  have mem: "(x, sid, oid) \<in> set ?ks \<longleftrightarrow> x = u \<and> bt_get (cl_positions s) (u, sid, oid) \<noteq> None" for x
    by (simp add: keys conj_commute cong: conj_cong)
  show ?thesis unfolding get mem using assms(2) no_positions [OF assms(3), of sid oid] by auto
qed

section \<open>The call\<close>

lemma started_reassignment:
  assumes "start_reassignment e rid u v s = (Ok plan, s')"
    and "bt_get (cl_reassignment_plans s) (u, rid) = None"
  obtains s0 where "validate_principals u v = Ok ()" "bt_get (cl_accounts s) u \<noteq> None"
    "\<not> has_orders u s" "\<not> has_positions v s"
    "rpl_old_owner plan = u" "rpl_new_owner plan = v" "rpl_reassignment_id plan = rid"
    "s0 = s\<lparr>cl_reassignment_plans := cl_reassignment_plans s0\<rparr>"
    "s' = rekey_positions u v (rekey_account u v (lock_for_reassignment u v (persist plan s0)))"
proof -
  obtain ids where valid: "validate_principals u v = Ok ()" "validate_reassignment u v s = Ok ids"
    and run: "validate_and_rekey e rid u v s = (Ok plan, s')"
    using assms by (auto simp: start_reassignment_def validate_and_rekey_def split: result.splits)
  obtain plan0 s0 where goc: "reassignment_plan_get_or_create (env_now e)
      \<lparr> rpp_reassignment_id = rid, rpp_old_owner = u, rpp_new_owner = v, rpp_asset_ids = ids \<rparr> s = (plan0, s0)"
    by fastforce
  show thesis
  proof (rule that [of s0])
    show "bt_get (cl_accounts s) u \<noteq> None" "\<not> has_orders u s" "\<not> has_positions v s"
      using valid(2) by (auto simp: validate_reassignment_def target_has_clearing_state_def split: if_splits)
    show "s0 = s\<lparr>cl_reassignment_plans := cl_reassignment_plans s0\<rparr>"
      "rpl_old_owner plan = u" "rpl_new_owner plan = v" "rpl_reassignment_id plan = rid"
      "s' = rekey_positions u v (rekey_account u v (lock_for_reassignment u v (persist plan s0)))"
      using run goc assms(2)
      by (auto simp: validate_and_rekey_def valid Let_def reassignment_plan_get_or_create_def
          get_or_create_def reassignment_plan_key_def)
  qed (rule valid(1))
qed


text \<open>
  C22. A reassignment moves the whole account, once.  When a reassignment under a new id gets past
  its checks, the account of the old owner stands under the new one, unchanged but for its name, and
  no longer under the old; every position of the old owner stands under the new one in the same
  series and outcome; every other account and position and all orders are as before, none of them is
  the old owner's, and the tables stay well typed.  Both principals are locked, and starting the same
  reassignment again returns the same plan and changes nothing.
\<close>

theorem reassignment_moves_the_account:
  assumes "start_reassignment e rid u v s = (Ok plan, s')"
    and "bt_get (cl_reassignment_plans s) (u, rid) = None" and "well_typed s"
  shows "(\<exists>a. bt_get (cl_accounts s) u = Some a \<and>
      (\<forall>w. bt_get (cl_accounts s') w =
        (if w = v then Some (a\<lparr>acc_user := v\<rparr>)
         else if w = u then None else bt_get (cl_accounts s) w))) \<and>
    (\<forall>w sid oid. bt_get (cl_positions s') (w, sid, oid) =
      (if w = v then map_option (pos_user_update (\<lambda>_. v)) (bt_get (cl_positions s) (u, sid, oid))
       else if w = u then None else bt_get (cl_positions s) (w, sid, oid))) \<and>
    cl_limit_orders s' = cl_limit_orders s \<and> \<not> has_orders u s' \<and> well_typed s' \<and>
    is_locked s' u \<and> is_locked s' v \<and>
    (\<forall>e2. start_reassignment e2 rid u v s' = (Ok plan, s'))"
proof -
  obtain s0 where valid: "validate_principals u v = Ok ()" "bt_get (cl_accounts s) u \<noteq> None" "\<not> has_orders u s" "\<not> has_positions v s"
    and plan: "rpl_old_owner plan = u" "rpl_new_owner plan = v" "rpl_reassignment_id plan = rid"
    and s0: "s0 = s\<lparr>cl_reassignment_plans := cl_reassignment_plans s0\<rparr>"
    and s': "s' = rekey_positions u v (rekey_account u v (lock_for_reassignment u v (persist plan s0)))"
    using started_reassignment [OF assms(1,2)] by blast
  let ?s = "rekey_account u v (lock_for_reassignment u v (persist plan s0))"
  have ne: "u \<noteq> v" using valid(1) by (auto simp: validate_principals_def)
  have same: "cl_accounts s0 = cl_accounts s" "cl_limit_orders s0 = cl_limit_orders s"
    "cl_positions s0 = cl_positions s" by (subst s0, simp)+
  have frame: "cl_positions ?s = cl_positions s" "cl_limit_orders s' = cl_limit_orders s"
    by (simp_all add: s' rekey_account_def rekey_positions_def lock_for_reassignment_def persist_def same
        split: option.split)
  obtain a where a: "bt_get (cl_accounts s) u = Some a" using valid(2) by blast
  have accounts: "cl_accounts s' = bt_insert v (a\<lparr>acc_user := v\<rparr>) (bt_remove u (cl_accounts s))"
    by (simp add: s' rekey_account_def rekey_positions_def lock_for_reassignment_def persist_def same a)
  have tables: "pos_typed (cl_positions s)" using assms(3) by simp
  have "well_typed (lock_for_reassignment u v (persist plan s0))"
    using assms(3) by (subst well_typed_cong [of _ s]) (simp_all add: lock_for_reassignment_def persist_def same)
  then have "well_typed s'" unfolding s' by (intro rekey_positions_typed rekey_account_typed)
  moreover have "bt_get (cl_positions s') (w, sid, oid) =
      (if w = v then map_option (pos_user_update (\<lambda>_. v)) (bt_get (cl_positions s) (u, sid, oid))
       else if w = u then None else bt_get (cl_positions s) (w, sid, oid))" for w sid oid
    using rekey_positions_get [of ?s u v] tables ne valid(4) by (simp add: s' frame has_positions_def)
  moreover have "\<not> has_orders u s'" using valid(3) by (simp add: has_orders_def frame)
  moreover have "is_locked s' u" "is_locked s' v"
    by (auto simp: is_locked_def mark_of_def s' rekey_account_def rekey_positions_def
        lock_for_reassignment_def split: option.splits)
  moreover have "start_reassignment e2 rid u v s' = (Ok plan, s')" for e2
    using valid(1) plan by (auto simp: start_reassignment_def s' rekey_account_def rekey_positions_def
        lock_for_reassignment_def persist_def split: option.splits)
  ultimately show ?thesis using a ne by (simp add: accounts frame)
qed

section \<open>On the small market\<close>

definition carol :: user where "carol = ''carol''"

lemma state1_typed: "well_typed state1"
  unfolding state1_def by (rule execute_trade_typed [OF state0_typed])

lemma reassignment0_run:
  "(case fst (start_reassignment env0 ''r1'' alice carol state1) of Ok _ \<Rightarrow> True | _ \<Rightarrow> False) \<and>
   bt_get (cl_reassignment_plans state1) (alice, ''r1'') = None \<and>
   map_option pos_net_qty (bt_get (cl_positions state1) (alice, ''bin'', None)) = Some 10"
  by code_simp

lemma reassignment_moves_the_account_witness:
  "map_option pos_net_qty (bt_get (cl_positions
     (snd (start_reassignment env0 ''r1'' alice carol state1))) (carol, ''bin'', None)) = Some 10"
proof -
  obtain plan where "fst (start_reassignment env0 ''r1'' alice carol state1) = Ok plan"
    using reassignment0_run by (auto split: result.splits)
  then have run: "start_reassignment env0 ''r1'' alice carol state1 =
      (Ok plan, snd (start_reassignment env0 ''r1'' alice carol state1))"
    by (simp add: prod_eq_iff)
  have fresh: "bt_get (cl_reassignment_plans state1) (alice, ''r1'') = None" using reassignment0_run by blast
  from reassignment_moves_the_account [OF run fresh state1_typed]
  have "bt_get (cl_positions (snd (start_reassignment env0 ''r1'' alice carol state1))) (carol, ''bin'', None) =
      map_option (pos_user_update (\<lambda>_. carol)) (bt_get (cl_positions state1) (alice, ''bin'', None))"
    by simp
  then show ?thesis using reassignment0_run by (auto simp: option.map_comp comp_def)
qed

end
