(* ===== verification/BoundsProperties.thy ===== *)
theory BoundsProperties
  imports Backing SettlementFacts SettlementSamples
begin

text \<open>
  Bounds: below the stated sizes the lines and the fee totals of a settlement's plan are the exact
  integers, and no settled position loses more than the margin it had reserved.
\<close>

lemma uint_nonneg:
  fixes x :: i128
  assumes "0 \<le> sint x"
  shows "uint x = sint x"
proof -
  have "sint x < 2 ^ 128" using sint_lt [of x] by simp
  with assms show ?thesis by (simp add: uint_sint take_bit_int_eq_self)
qed

lemma unsigned_abs_bound:
  fixes q :: i128
  assumes "\<bar>sint q\<bar> < 2 ^ 100"
  shows "uint (unsigned_abs q) = \<bar>sint q\<bar>"
proof (cases "sint q < 0")
  case True
  have "sint (- q) = - sint q"
    using True assms by (simp add: sint_word_ariths signed_take_bit_int_eq_self)
  with True show ?thesis using uint_nonneg [of "- q"] by (simp add: unsigned_abs_def)
next
  case False
  then show ?thesis using uint_nonneg [of q] by (simp add: unsigned_abs_def)
qed

lemma uint_mult_small:
  "uint a * uint b < 2 ^ 128 \<Longrightarrow> uint (a * b) = uint a * uint b" for a b :: u128
  by (simp add: uint_word_ariths)

text \<open>The payout of a fully collateralised position is between nothing and its full value.\<close>

lemma full_payout_bounds:
  assumes "\<bar>sint q\<bar> < 2 ^ 100" "u \<le> max_payoff"
  shows "0 \<le> uint (full_payout u q)" "uint (full_payout u q) \<le> \<bar>sint q\<bar> * 10000"
proof -
  have u: "uint u \<le> uint (10000 :: u128)" using assms(2) by (simp add: max_payoff_eq word_le_def)
  have "uint (10000 - u) = uint (10000 :: u128) - uint u" using u by (rule uint_sub_lem [THEN iffD1])
  then have "uint (10000 - u) = 10000 - uint u" by simp
  with u assms(2) have x: "uint (saturating_sub max_payoff u) \<le> 10000" "uint u \<le> 10000"
    by (simp_all add: saturating_sub_eq max_payoff_eq)
  have bound: "uint (unsigned_abs q * y) \<le> \<bar>sint q\<bar> * 10000" if "uint y \<le> 10000" for y :: u128
  proof -
    have le: "uint (unsigned_abs q) * uint y \<le> \<bar>sint q\<bar> * 10000"
      using that by (simp add: unsigned_abs_bound [OF assms(1)] mult_left_mono)
    moreover have "\<bar>sint q\<bar> * 10000 < 2 ^ 128" using assms(1) by simp
    ultimately show ?thesis by (simp add: uint_mult_small)
  qed
  show "uint (full_payout u q) \<le> \<bar>sint q\<bar> * 10000"
    using bound [OF x(1)] bound [OF x(2)] unfolding full_payout_def by (simp only: split: if_split) blast
qed simp

lemma settlement_fee_exact:
  assumes "uint payoff < 2 ^ 114" "uint ratio \<le> 10000"
  shows "uint (calculate_settlement_fee payoff ratio) = uint payoff * uint ratio div 10000"
proof -
  have r: "uint (ucast ratio :: u128) = uint ratio"
    by (simp add: unsigned_ucast_eq take_bit_int_eq_self order_less_le_trans [OF uint_lt2p])
  have "uint payoff * uint ratio \<le> uint payoff * 10000" using assms(2) by (simp add: mult_left_mono)
  then have "uint payoff * uint ratio < 2 ^ 128" using assms(1) by simp
  then have "uint (payoff * ucast ratio) = uint payoff * uint ratio"
    using uint_mult_small [of payoff "ucast ratio"] by (simp add: r)
  then show ?thesis by (simp add: calculate_settlement_fee_def uint_div BPS_BASE_def)
qed

text \<open>The two fees together never exceed the payout they are taken from.\<close>

lemma fees_within_payoff:
  fixes p i r :: int
  assumes "0 \<le> p" "0 \<le> i" "0 \<le> r" "i + r \<le> 10000"
  shows "p * i div 10000 + p * r div 10000 \<le> p"
proof -
  have "p * i + p * r \<le> p * 10000" using assms by (metis distrib_left mult_left_mono)
  moreover have "10000 * (x div 10000) \<le> x" for x :: int by presburger
  note this [of "p * i"] this [of "p * r"]
  ultimately show ?thesis by linarith
qed

section \<open>The plan of a settlement, in unbounded integers\<close>

definition line_payout :: "series \<Rightarrow> settlement_input \<Rightarrow> position \<Rightarrow> int" where
  "line_payout ser st pos =
     (case get_unit_payoff ser (pos_outcome_id pos) st of
        Ok u \<Rightarrow> (let q = sint (pos_net_qty pos)
                 in if 0 \<le> q then q * uint u else - q * (10000 - uint u))
      | _ \<Rightarrow> 0)"

definition line_fee :: "u16 \<Rightarrow> int \<Rightarrow> int" where
  "line_fee ratio p = p * uint ratio div 10000"

definition fee_total :: "series \<Rightarrow> settlement_input \<Rightarrow> u16 \<Rightarrow> (position_key \<times> position) list \<Rightarrow> int" where
  "fee_total ser st ratio kps = (\<Sum>kp\<leftarrow>kps. line_fee ratio (line_payout ser st (snd kp)))"

definition open_quantity :: "(position_key \<times> position) list \<Rightarrow> int" where
  "open_quantity kps = (\<Sum>kp\<leftarrow>kps. \<bar>sint (pos_net_qty (snd kp))\<bar>)"

text \<open>A line of the plan against its position: what it is paid, less its margin and both fees.\<close>

definition exact_line ::
  "series \<Rightarrow> settlement_input \<Rightarrow> u16 \<Rightarrow> u16 \<Rightarrow> position_key \<times> position \<Rightarrow> settlement_position \<Rightarrow> bool"
where
  "exact_line ser st ir pr kp sp =
     (let pos = snd kp; p = line_payout ser st pos; reserved = uint (pos_reserved_margin_usd pos)
      in spos_user sp = fst (fst kp) \<and> spos_outcome_id sp = snd (snd (fst kp)) \<and>
         spos_net_qty sp = pos_net_qty pos \<and> spos_reserved_margin_usd sp = pos_reserved_margin_usd pos \<and>
         sint (spos_cashflow_usd sp) = p - reserved - line_fee ir p - line_fee pr p \<and>
         - reserved \<le> sint (spos_cashflow_usd sp) \<and>
         sint (spos_cashflow_usd sp) \<le> \<bar>sint (pos_net_qty pos)\<bar> * 10000 - reserved)"

text \<open>The payout of a fully collateralised position is the integer, between nothing and full value.\<close>

lemma full_payout_exact:
  assumes "\<bar>sint q\<bar> < 2 ^ 100" "u \<le> max_payoff"
  shows "uint (full_payout u q) = (if 0 \<le> sint q then sint q * uint u else - sint q * (10000 - uint u))"
proof -
  have u: "uint u \<le> uint (10000 :: u128)" using assms(2) by (simp add: max_payoff_eq word_le_def)
  have "uint (10000 - u) = uint (10000 :: u128) - uint u" using u by (rule uint_sub_lem [THEN iffD1])
  then have x: "uint (saturating_sub max_payoff u) = 10000 - uint u"
    using assms(2) by (simp add: saturating_sub_eq max_payoff_eq)
  have mult: "uint (unsigned_abs q * y) = \<bar>sint q\<bar> * uint y" if "uint y \<le> 10000" for y :: u128
  proof -
    have "\<bar>sint q\<bar> * uint y \<le> \<bar>sint q\<bar> * 10000" using that by (simp add: mult_left_mono)
    with assms(1) have "\<bar>sint q\<bar> * uint y < 2 ^ 128" by simp
    then show ?thesis using uint_mult_small [of "unsigned_abs q" y] by (simp add: unsigned_abs_bound [OF assms(1)])
  qed
  show ?thesis using mult [of u] mult [of "saturating_sub max_payoff u"] u x
    by (simp add: full_payout_def)
qed

lemma line_cashflow:
  assumes "\<bar>sint q\<bar> < 2 ^ 100" "uint reserved < 2 ^ 120" "u \<le> max_payoff" "uint ir + uint pr \<le> 10000"
  defines "p \<equiv> uint (full_payout u q)"
  shows "sint (full_payout u q - reserved - calculate_settlement_fee (full_payout u q) ir
           - calculate_settlement_fee (full_payout u q) pr) = p - uint reserved - line_fee ir p - line_fee pr p"
    and "uint (calculate_settlement_fee (full_payout u q) ir) = line_fee ir p"
    and "uint (calculate_settlement_fee (full_payout u q) pr) = line_fee pr p"
    and "0 \<le> line_fee ir p" "0 \<le> line_fee pr p" "line_fee ir p + line_fee pr p \<le> p"
    and "p \<le> \<bar>sint q\<bar> * 10000"
proof -
  show p: "p \<le> \<bar>sint q\<bar> * 10000" using full_payout_bounds [OF assms(1,3)] by (simp add: p_def)
  then have small: "p < 2 ^ 114" using assms(1) by simp
  show fees: "uint (calculate_settlement_fee (full_payout u q) ir) = line_fee ir p"
    "uint (calculate_settlement_fee (full_payout u q) pr) = line_fee pr p"
    unfolding line_fee_def p_def
    by (rule settlement_fee_exact [OF small [unfolded p_def]],
        use assms(4) uint_ge_0 [of ir] uint_ge_0 [of pr] in linarith)+
  show within: "0 \<le> line_fee ir p" "0 \<le> line_fee pr p" "line_fee ir p + line_fee pr p \<le> p"
    using fees_within_payoff [of p "uint ir" "uint pr"] assms(4)
    by (simp_all add: line_fee_def p_def pos_imp_zdiv_nonneg_iff)
  let ?x = "p - uint reserved - line_fee ir p - line_fee pr p"
  have eq: "full_payout u q - reserved - calculate_settlement_fee (full_payout u q) ir
      - calculate_settlement_fee (full_payout u q) pr = word_of_int ?x"
    by (simp add: p_def fees [symmetric, unfolded p_def])
  have "?x \<le> p" "- uint reserved \<le> ?x" using within uint_ge_0 [of reserved] by linarith+
  then have "- (2 ^ 127) \<le> ?x" "?x < 2 ^ 127" using small assms(2) by simp_all
  then show "sint (full_payout u q - reserved - calculate_settlement_fee (full_payout u q) ir
           - calculate_settlement_fee (full_payout u q) pr) = ?x"
    unfolding eq by (rule sint_of_int_range)
qed

lemma prepared_plan:
  assumes "prepare_settlement_impl e ser sid st ir pr s = (Ok plan, s')"
    and "bt_get (cl_settlement_plans s) sid = None"
  shows "\<exists>tot. gather_positions ser sid st ir pr (cl_positions s) no_totals [] = Ok (tot, spl_positions plan) \<and>
    spl_fee_usd plan = tot_protocol_fee tot \<and> spl_insurance_fee_usd plan = tot_insurance_fee tot"
proof -
  obtain tot ps where gather:
      "gather_positions ser sid st ir pr (cl_positions s) no_totals [] = Ok (tot, ps)"
    and create: "(plan, s') = settlement_plan_get_or_create (env_now e)
        \<lparr> spp_series_id = sid, spp_settlement = st, spp_oracle_source = ser_oracle_source ser,
          spp_fee = tot_protocol_fee tot, spp_insurance_fee = tot_insurance_fee tot,
          spp_positions = ps, spp_balance_domain = ser_balance_domain ser \<rparr>
        (cancel_open_limit_orders sid (remove_positions sid ps s))"
    using assms(1) by (rule prepare_settlement_Ok)
  have "spl_positions plan = ps \<and> spl_fee_usd plan = tot_protocol_fee tot \<and>
      spl_insurance_fee_usd plan = tot_insurance_fee tot"
    using create assms(2)
    by (auto simp: settlement_plan_get_or_create_def get_or_create_def remove_positions_def
        split: option.splits)
  with gather show ?thesis by auto
qed

text \<open>The totals of the loop are sums of the lines' fees, first as words, then as integers.\<close>

definition payoff_of :: "series \<Rightarrow> settlement_input \<Rightarrow> position \<Rightarrow> u128" where
  "payoff_of ser st pos = (case get_settlement_value ser pos st of Ok v \<Rightarrow> v | _ \<Rightarrow> 0)"

lemma gather_positions_fees:
  assumes "gather_positions ser sid st ir pr m tot results = Ok (tot', ps)"
  shows "tot_insurance_fee tot' = tot_insurance_fee tot +
      (\<Sum>kp\<leftarrow>filter (in_series sid) m. calculate_settlement_fee (payoff_of ser st (snd kp)) ir)"
    "tot_protocol_fee tot' = tot_protocol_fee tot +
      (\<Sum>kp\<leftarrow>filter (in_series sid) m. calculate_settlement_fee (payoff_of ser st (snd kp)) pr)"
  using assms
proof (induction ser sid st ir pr m tot results rule: gather_positions.induct)
  case (1 ser sid st ir pr tot results)
  case 1 then show ?case by simp
  case 2 then show ?case by simp
next
  case (2 ser series_id st ir pr u sid oid pos rest tot results)
  note IH = 2
  {
    case 1
    then show ?case using IH by (auto simp: Let_def payoff_of_def split: if_splits result.splits)
  next
    case 2
    then show ?case using IH by (auto simp: Let_def payoff_of_def split: if_splits result.splits)
  }
qed

lemma plan_line:
  assumes "fully_collateralised ser" "\<forall>oid u. get_unit_payoff ser oid st = Ok u \<longrightarrow> u \<le> max_payoff"
    "uint ir + uint pr \<le> 10000" "snapshot_of ser st ir pr kp sp"
    "\<bar>sint (pos_net_qty (snd kp))\<bar> < 2 ^ 100" "uint (pos_reserved_margin_usd (snd kp)) < 2 ^ 120"
  defines "p \<equiv> line_payout ser st (snd kp)"
  shows "exact_line ser st ir pr kp sp"
    "uint (calculate_settlement_fee (payoff_of ser st (snd kp)) ir) = line_fee ir p"
    "uint (calculate_settlement_fee (payoff_of ser st (snd kp)) pr) = line_fee pr p"
    "0 \<le> line_fee ir p" "0 \<le> line_fee pr p" "line_fee ir p + line_fee pr p \<le> \<bar>sint (pos_net_qty (snd kp))\<bar> * 10000"
proof -
  obtain u sid oid pos where kp: "kp = ((u, sid, oid), pos)" by (metis prod.exhaust)
  from assms(4) obtain payoff where sp: "spos_user sp = u" "spos_outcome_id sp = oid"
    "spos_net_qty sp = pos_net_qty pos" "spos_reserved_margin_usd sp = pos_reserved_margin_usd pos"
    "get_settlement_value ser pos st = Ok payoff"
    "spos_cashflow_usd sp = payoff - pos_reserved_margin_usd pos - calculate_settlement_fee payoff ir
       - calculate_settlement_fee payoff pr"
    by (auto simp: snapshot_of_def kp)
  obtain v where v: "get_unit_payoff ser (pos_outcome_id pos) st = Ok v"
    using settlement_value_Ok [OF sp(5)] by blast
  with assms(2) have le: "v \<le> max_payoff" by blast
  from v have payoff: "payoff = full_payout v (pos_net_qty pos)"
    using settlement_value_full [OF assms(1) v] sp(5) by simp
  have p: "p = uint (full_payout v (pos_net_qty pos))"
    using full_payout_exact [OF _ le, of "pos_net_qty pos"] assms(5) v
    by (simp add: p_def line_payout_def kp Let_def)
  note flow = line_cashflow [of "pos_net_qty pos" "pos_reserved_margin_usd pos" v ir pr, folded p]
  have small: "\<bar>sint (pos_net_qty pos)\<bar> < 2 ^ 100" "uint (pos_reserved_margin_usd pos) < 2 ^ 120"
    using assms(5,6) by (simp_all add: kp)
  note flow = flow [OF small le assms(3)]
  have "payoff_of ser st pos = full_payout v (pos_net_qty pos)" by (simp add: payoff_of_def sp(5) payoff)
  with flow show "uint (calculate_settlement_fee (payoff_of ser st (snd kp)) ir) = line_fee ir p"
    "uint (calculate_settlement_fee (payoff_of ser st (snd kp)) pr) = line_fee pr p" by (simp_all add: kp)
  show "0 \<le> line_fee ir p" "0 \<le> line_fee pr p" by (rule flow)+
  show "line_fee ir p + line_fee pr p \<le> \<bar>sint (pos_net_qty (snd kp))\<bar> * 10000"
    using flow(6,7) by (simp add: kp)
  have lp: "line_payout ser st pos = p" by (simp add: p_def kp)
  have c: "sint (spos_cashflow_usd sp) = p - uint (pos_reserved_margin_usd pos) - line_fee ir p - line_fee pr p"
    using flow(1) sp(6) payoff by simp
  show "exact_line ser st ir pr kp sp"
    unfolding exact_line_def Let_def kp fst_conv snd_conv lp c using sp(1-4) flow(4-7) by auto
qed

lemma uint_sum_words:
  fixes ws :: "u128 list"
  shows "(\<Sum>w\<leftarrow>ws. uint w) < 2 ^ 128 \<Longrightarrow> uint (sum_list ws) = (\<Sum>w\<leftarrow>ws. uint w)"
proof (induction ws)
  case (Cons w ws)
  have "uint w + (\<Sum>w\<leftarrow>ws. uint w) < 2 ^ 128" using Cons.prems by simp
  then have "(\<Sum>w\<leftarrow>ws. uint w) < 2 ^ 128" using uint_ge_0 [of w] by linarith
  then have "uint (sum_list ws) = (\<Sum>w\<leftarrow>ws. uint w)" by (rule Cons.IH)
  with Cons.prems show ?case using uint_add_small [of w "sum_list ws"] by simp
qed simp

lemma fee_total_exact:
  assumes "\<And>kp. kp \<in> set held \<Longrightarrow>
      uint (calculate_settlement_fee (payoff_of ser st (snd kp)) r) = line_fee r (line_payout ser st (snd kp))"
    and "\<And>kp. kp \<in> set held \<Longrightarrow>
      line_fee r (line_payout ser st (snd kp)) \<le> \<bar>sint (pos_net_qty (snd kp))\<bar> * 10000"
    and "open_quantity held < 2 ^ 100"
  shows "uint (\<Sum>kp\<leftarrow>held. calculate_settlement_fee (payoff_of ser st (snd kp)) r) = fee_total ser st r held"
proof -
  have "fee_total ser st r held \<le> open_quantity held * 10000"
    unfolding fee_total_def open_quantity_def sum_list_mult_const [symmetric]
    by (rule sum_list_mono) (rule assms(2))
  then have "fee_total ser st r held < 2 ^ 128" using assms(3) by simp
  moreover have eq: "map (\<lambda>kp. uint (calculate_settlement_fee (payoff_of ser st (snd kp)) r)) held =
      map (\<lambda>kp. line_fee r (line_payout ser st (snd kp))) held"
    using assms(1) by (intro map_cong) simp_all
  ultimately show ?thesis
    using uint_sum_words [of "map (\<lambda>kp. calculate_settlement_fee (payoff_of ser st (snd kp)) r) held"]
    by (simp only: map_map comp_def eq fee_total_def)
qed

text \<open>
  C23. The plan of a settlement is exact: no line of it and neither fee total wraps around, and no
  line takes more than the reserved margin.  A fully collateralised series without a plan is prepared
  for settlement
  with a unit payoff of at most one dollar (10000 in the fixed point) and fee ratios of at most 100%
  together; its positions hold fewer than 2^100 units in all, and less than 2^120 of margin each.
  Then, in unbounded integers, each position's line has as cashflow what the position is paid, less
  its margin and both fees rounded down; this lies between minus the margin and the full value less
  the margin; and the protocol and insurance fees of the plan are the sums of those of its lines.
\<close>

theorem settlement_loss_is_bounded:
  fixes ir pr :: u16
  assumes "prepare_settlement_impl e ser sid st ir pr s = (Ok plan, s')"
    and "bt_get (cl_settlement_plans s) sid = None" and "fully_collateralised ser"
    and "\<And>oid u. get_unit_payoff ser oid st = Ok u \<Longrightarrow> u \<le> max_payoff"
    and "uint ir + uint pr \<le> 10000"
    and "open_quantity (filter (in_series sid) (cl_positions s)) < 2 ^ 100"
    and "\<And>u oid pos. ((u, sid, oid), pos) \<in> set (cl_positions s) \<Longrightarrow>
      uint (pos_reserved_margin_usd pos) < 2 ^ 120"
  defines "held \<equiv> filter (in_series sid) (cl_positions s)"
  shows "list_all2 (exact_line ser st ir pr) held (spl_positions plan) \<and>
    uint (spl_fee_usd plan) = fee_total ser st pr held \<and>
    uint (spl_insurance_fee_usd plan) = fee_total ser st ir held"
proof -
  obtain tot where gather:
      "gather_positions ser sid st ir pr (cl_positions s) no_totals [] = Ok (tot, spl_positions plan)"
    and fees: "spl_fee_usd plan = tot_protocol_fee tot" "spl_insurance_fee_usd plan = tot_insurance_fee tot"
    using prepared_plan [OF assms(1,2)] by metis
  obtain new where new: "spl_positions plan = new" "list_all2 (snapshot_of ser st ir pr) held new"
    using gather_positions_snapshot [OF gather] by (auto simp: held_def)
  have bounds: "\<bar>sint (pos_net_qty (snd kp))\<bar> < 2 ^ 100" "uint (pos_reserved_margin_usd (snd kp)) < 2 ^ 120"
    if "kp \<in> set held" for kp
  proof -
    have "\<bar>sint (pos_net_qty (snd kp))\<bar> \<le> open_quantity held"
      unfolding open_quantity_def using that by (intro member_le_sum_list) auto
    with assms(6) show "\<bar>sint (pos_net_qty (snd kp))\<bar> < 2 ^ 100" by (simp add: held_def)
    obtain u sid' oid pos where "kp = ((u, sid', oid), pos)" by (metis prod.exhaust)
    with that assms(7) show "uint (pos_reserved_margin_usd (snd kp)) < 2 ^ 120" by (auto simp: held_def)
  qed
  have le: "\<forall>oid u. get_unit_payoff ser oid st = Ok u \<longrightarrow> u \<le> max_payoff" using assms(4) by blast
  note line = plan_line [OF assms(3) le assms(5) _ bounds]
  have total: "uint (\<Sum>kp\<leftarrow>held. calculate_settlement_fee (payoff_of ser st (snd kp)) r) = fee_total ser st r held"
    if r: "r = ir \<or> r = pr" for r
  proof (rule fee_total_exact)
    fix kp assume kp: "kp \<in> set held"
    then obtain sp where sp: "snapshot_of ser st ir pr kp sp"
      using new(2) by (metis in_set_conv_nth list_all2_conv_all_nth)
    note facts = line [OF sp kp kp]
    show "uint (calculate_settlement_fee (payoff_of ser st (snd kp)) r) = line_fee r (line_payout ser st (snd kp))"
      using r facts(2,3) by blast
    show "line_fee r (line_payout ser st (snd kp)) \<le> \<bar>sint (pos_net_qty (snd kp))\<bar> * 10000"
      using r facts(4,5,6) by (elim disjE) simp_all
  qed (use assms(6) in \<open>simp add: held_def\<close>)
  have "list_all2 (exact_line ser st ir pr) held new"
    using new(2) line(1) by (auto simp: list_all2_conv_all_nth)
  then show ?thesis
    using gather_positions_fees [OF gather] total new(1) by (simp add: fees no_totals_def held_def)
qed

lemma settlement_loss_is_bounded_witness:
  "uint (spl_insurance_fee_usd plan1) =
     fee_total binary0 (Price (price_new 10000 4)) 10 (filter (in_series ''bin'') (cl_positions state1))"
proof (rule conjunct2 [OF conjunct2 [OF settlement_loss_is_bounded [OF prepare1]]])
  show "bt_get (cl_settlement_plans state1) ''bin'' = None" by (simp add: state1_tables)
  show "fully_collateralised binary0" by code_simp
  show "u \<le> max_payoff" if "get_unit_payoff binary0 oid (Price (price_new 10000 4)) = Ok u" for oid u
    using that by (auto simp: get_unit_payoff_def binary0_def series0_def scale_price_def max_payoff_eq
        USD_DECIMALS_def split: if_splits)
  show "uint (10 :: u16) + uint (5 :: u16) \<le> 10000" by simp
  show "open_quantity (filter (in_series ''bin'') (cl_positions state1)) < 2 ^ 100" by code_simp
  show "uint (pos_reserved_margin_usd pos) < 2 ^ 120"
    if "((u, ''bin'', oid), pos) \<in> set (cl_positions state1)" for u oid pos
    using state1_tables(5) that by (force simp: list_all_iff)
qed

end
