(* ===== verification/Interleaving.thy ===== *)
theory Interleaving
  imports Async
begin

text \<open>
  Interleavings.  A canister holds its state and the calls that await an answer.  A schedule starts
  calls, resumes any waiting call with any answer, in any order, and restarts the canister by an
  upgrade while nothing waits.  What every section of a handler between two resumptions guarantees
  as a reflexive and transitive relation between the states, every schedule guarantees.  A guarantee
  may rely on the answers: then it holds of the schedules in which every answer is one of those.
\<close>

section \<open>Schedules\<close>

type_synonym ('q, 'p, 's) task = "('q, 'p, 's, unit, unit) proc"
type_synonym ('q, 'p, 's) waiting = "('q \<times> ('p \<Rightarrow> 's \<Rightarrow> ('q, 'p, 's) task)) list"

text \<open>A handler whose result nobody looks at any more.\<close>

primrec silent :: "('q, 'p, 's, 'e, 'a) proc \<Rightarrow> ('q, 'p, 's) task" where
  "silent (Return r c) = Return (if r = Trap then Trap else Ok ()) c"
| "silent (Await q c k) = Await q c (\<lambda>p c'. silent (k p c'))"

text \<open>One section of a task: the state it commits, from \<open>s\<close>, and what it then waits for.\<close>

fun commit :: "('q, 'p, 'e \<times> 's) task \<Rightarrow> 's \<Rightarrow> 's \<times> ('q, 'p, 'e \<times> 's) waiting" where
  "commit (Return r c) s = (if r = Trap then s else snd c, [])"
| "commit (Await q c k) s = (snd c, [(q, k)])"

datatype ('c, 'p, 'e) scheduled = Start 'c 'e | Resume nat 'p 'e | Restart

fun schedule_step ::
  "('c \<Rightarrow> 'e \<times> 's \<Rightarrow> ('q, 'p, 'e \<times> 's) task) \<Rightarrow> ('s \<Rightarrow> 's) \<Rightarrow> ('c, 'p, 'e) scheduled \<Rightarrow>
     's \<times> ('q, 'p, 'e \<times> 's) waiting \<Rightarrow> 's \<times> ('q, 'p, 'e \<times> 's) waiting" where
  "schedule_step handler restart (Start call e) (s, ks) =
     (case commit (handler call (e, s)) s of (s', new) \<Rightarrow> (s', ks @ new))"
| "schedule_step handler restart (Resume i p e) (s, ks) =
     (if i < length ks
      then case commit (snd (ks ! i) p (e, s)) s of
             (s', new) \<Rightarrow> (s', take i ks @ new @ drop (Suc i) ks)
      else (s, ks))"
| "schedule_step handler restart Restart (s, ks) = (if ks = [] then (restart s, []) else (s, ks))"

definition run_schedule ::
  "('c \<Rightarrow> 'e \<times> 's \<Rightarrow> ('q, 'p, 'e \<times> 's) task) \<Rightarrow> ('s \<Rightarrow> 's) \<Rightarrow> ('c, 'p, 'e) scheduled list \<Rightarrow>
     's \<times> ('q, 'p, 'e \<times> 's) waiting \<Rightarrow> 's \<times> ('q, 'p, 'e \<times> 's) waiting" where
  "run_schedule handler restart = fold (schedule_step handler restart)"

section \<open>Guarantees\<close>

text \<open>\<open>A q p\<close>: the request \<open>q\<close> may be answered by \<open>p\<close>.\<close>

primrec guarantees ::
  "('q \<Rightarrow> 'p \<Rightarrow> bool) \<Rightarrow> ('s \<Rightarrow> 's \<Rightarrow> bool) \<Rightarrow> 's \<Rightarrow> ('q, 'p, 'e \<times> 's, 'x, 'a) proc \<Rightarrow> bool" where
  "guarantees A G s (Return r c) = (r \<noteq> Trap \<longrightarrow> G s (snd c))"
| "guarantees A G s (Await q c k) =
     (G s (snd c) \<and> (\<forall>p c'. A q p \<longrightarrow> guarantees A G (snd c') (k p c')))"

definition safe_waiting ::
  "('q \<Rightarrow> 'p \<Rightarrow> bool) \<Rightarrow> ('s \<Rightarrow> 's \<Rightarrow> bool) \<Rightarrow> ('q, 'p, 'e \<times> 's) waiting \<Rightarrow> bool" where
  "safe_waiting A G ks = (\<forall>w\<in>set ks. \<forall>p c. A (fst w) p \<longrightarrow> guarantees A G (snd c) (snd w p c))"

text \<open>The steps and schedules in which every answer is admissible.\<close>

fun honest_step :: "('q \<Rightarrow> 'p \<Rightarrow> bool) \<Rightarrow> ('c, 'p, 'e) scheduled \<Rightarrow> ('q, 'p, 'e \<times> 's) waiting \<Rightarrow> bool" where
  "honest_step A (Resume i p e) ks = (if i < length ks then A (fst (ks ! i)) p else True)"
| "honest_step A x ks = True"

fun honest ::
  "('c \<Rightarrow> 'e \<times> 's \<Rightarrow> ('q, 'p, 'e \<times> 's) task) \<Rightarrow> ('s \<Rightarrow> 's) \<Rightarrow> ('q \<Rightarrow> 'p \<Rightarrow> bool) \<Rightarrow>
     ('c, 'p, 'e) scheduled list \<Rightarrow> 's \<times> ('q, 'p, 'e \<times> 's) waiting \<Rightarrow> bool" where
  "honest handler restart A [] c = True"
| "honest handler restart A (x # xs) c =
     (honest_step A x (snd c) \<and> honest handler restart A xs (schedule_step handler restart x c))"

lemma honest_step_True [simp]: "honest_step (\<lambda>_ _. True) a ks"
  by (cases a) simp_all

lemma honest_True [simp]: "honest handler restart (\<lambda>_ _. True) xs c"
  by (induction xs arbitrary: c) simp_all

lemma guarantees_silent [simp]: "guarantees A G s (silent pr) = guarantees A G s pr"
  by (induction pr arbitrary: s rule: proc_induct) (simp_all del: split_paired_All)

lemma guarantees_weaken: "transp G \<Longrightarrow> G s t \<Longrightarrow> guarantees A G t pr \<Longrightarrow> guarantees A G s pr"
  by (cases pr) (auto dest: transpD)

lemma guarantees_pbind:
  assumes "transp G" "guarantees A G s pr" "\<And>x c. guarantees A G (snd c) (f x c)"
  shows "guarantees A G s (pbind pr f)"
  using assms(2)
proof (induction pr arbitrary: s rule: proc_induct)
  case (Return r c)
  then show ?case using guarantees_weaken [OF assms(1) _ assms(3)] by (cases r) auto
next
  case (Await q c k)
  then show ?case by (simp del: split_paired_All)
qed

lemma guarantees_pmap_err: "guarantees A G s pr \<Longrightarrow> guarantees A G s (pmap_err g pr)"
proof (induction pr arbitrary: s rule: proc_induct)
  case (Return r c)
  then show ?case by (cases r) auto
next
  case (Await q c k)
  then show ?case by (simp del: split_paired_All)
qed

lemma guarantees_pcatch:
  assumes "transp G" "guarantees A G s pr" "\<And>r c. guarantees A G (snd c) (f r c)"
  shows "guarantees A G s (pcatch pr f)"
  using assms(2)
proof (induction pr arbitrary: s rule: proc_induct)
  case (Return r c)
  then show ?case using guarantees_weaken [OF assms(1) _ assms(3)] by auto
next
  case (Await q c k)
  then show ?case by (simp del: split_paired_All)
qed

text \<open>What a sequence returns when the answers are admissible.\<close>

primrec returns :: "('q \<Rightarrow> 'p \<Rightarrow> bool) \<Rightarrow> ('a \<Rightarrow> bool) \<Rightarrow> ('q, 'p, 's, 'x, 'a) proc \<Rightarrow> bool" where
  "returns A Q (Return r c) = (\<forall>v. r = Ok v \<longrightarrow> Q v)"
| "returns A Q (Await q c k) = (\<forall>p c'. A q p \<longrightarrow> returns A Q (k p c'))"

lemma guarantees_pbind_returns:
  assumes "transp G" "guarantees A G s pr" "returns A Q pr"
    "\<And>v c. Q v \<Longrightarrow> guarantees A G (snd c) (f v c)"
  shows "guarantees A G s (pbind pr f)"
  using assms(2,3)
proof (induction pr arbitrary: s rule: proc_induct)
  case (Return r c)
  then show ?case using guarantees_weaken [OF assms(1) _ assms(4)] by (cases r) auto
next
  case (Await q c k)
  then show ?case by (simp del: split_paired_All)
qed

lemma returns_pbind: "returns A Q' pr \<Longrightarrow> (\<And>v c. Q' v \<Longrightarrow> returns A Q (f v c)) \<Longrightarrow> returns A Q (pbind pr f)"
proof (induction pr rule: proc_induct)
  case (Return r c)
  then show ?case by (cases r) auto
next
  case (Await q c k)
  then show ?case by (simp del: split_paired_All)
qed

text \<open>A section keeps the guarantee, and what it leaves waiting keeps it too.\<close>

lemma commit_guarantees:
  assumes "reflp G" "guarantees A G s pr" "commit pr s = (s', new)"
  shows "G s s' \<and> safe_waiting A G new"
  using assms by (cases pr) (auto simp: safe_waiting_def reflpD)

lemma safe_waiting_append [simp]:
  "safe_waiting A G (ks @ ls) \<longleftrightarrow> safe_waiting A G ks \<and> safe_waiting A G ls"
  by (simp add: safe_waiting_def ball_Un)

lemma safe_waiting_part:
  "safe_waiting A G ks \<Longrightarrow> safe_waiting A G (take i ks)" "safe_waiting A G ks \<Longrightarrow> safe_waiting A G (drop i ks)"
  unfolding safe_waiting_def by (blast dest: in_set_takeD in_set_dropD)+

lemma schedule_step_guarantees:
  assumes "reflp G" "\<And>call e. guarantees A G s (handler call (e, s))" "\<And>s. G s (restart s)"
    and "safe_waiting A G ks" "honest_step A x ks" "schedule_step handler restart x (s, ks) = (s', ks')"
  shows "G s s' \<and> safe_waiting A G ks'"
proof (cases x)
  case (Start call e)
  then show ?thesis
    using assms(4,6) commit_guarantees [OF assms(1) assms(2) [of call e]]
    by (auto split: prod.splits)
next
  case (Resume i p e)
  show ?thesis
  proof (cases "i < length ks")
    case True
    then have "ks ! i \<in> set ks" by simp
    moreover have "A (fst (ks ! i)) p" using assms(5) Resume True by simp
    ultimately have "\<forall>c. guarantees A G (snd c) (snd (ks ! i) p c)"
      using assms(4) unfolding safe_waiting_def by blast
    then have "guarantees A G s (snd (ks ! i) p (e, s))" by (metis snd_conv)
    from commit_guarantees [OF assms(1) this] show ?thesis
      using assms(4,6) Resume True by (auto simp: safe_waiting_part split: prod.splits)
  next
    case False
    then show ?thesis using assms Resume by (auto simp: reflpD)
  qed
next
  case Restart
  then show ?thesis using assms by (auto simp: reflpD split: if_splits)
qed

text \<open>\<open>I\<close> is what the handlers may rely on when a call starts; the guarantee keeps it.\<close>

lemma run_schedule_guarantees:
  assumes "reflp G" "transp G" "\<And>call c. I (snd c) \<Longrightarrow> guarantees A G (snd c) (handler call c)"
    "\<And>s. G s (restart s)" "\<And>s s'. I s \<Longrightarrow> G s s' \<Longrightarrow> I s'"
    and "I s" "safe_waiting A G ks" "honest handler restart A xs (s, ks)"
    "run_schedule handler restart xs (s, ks) = (s', ks')"
  shows "G s s' \<and> safe_waiting A G ks'"
  using assms(6-9)
proof (induction xs arbitrary: s ks)
  case Nil
  then show ?case using assms(1) by (simp add: run_schedule_def reflpD)
next
  case (Cons x xs)
  obtain t ls where step: "schedule_step handler restart x (s, ks) = (t, ls)" by fastforce
  have "guarantees A G s (handler call (e, s))" for call e
    using assms(3) [of "(e, s)" call] Cons.prems(1) by simp
  then have one: "G s t \<and> safe_waiting A G ls"
    using schedule_step_guarantees [OF assms(1) _ assms(4) Cons.prems(2) _ step] Cons.prems(3) by simp
  then have "I t" using assms(5) Cons.prems(1) by blast
  with one Cons.IH [of t ls] Cons.prems(3,4) step show ?case
    by (auto simp: run_schedule_def intro: transpD [OF assms(2)])
qed

end
