(* ===== verification/Funds.thy ===== *)
theory Funds
  imports CompleteSets
begin

text \<open>
  \<open>src/src/clearing/src/api/admin/api.rs\<close>: the funds, the collateral assets and their prices, and
  the configuration.  Except \<open>update_asset_price\<close> every call here is gated to controllers, which
  \<open>guarded\<close> checks.
\<close>

section \<open>Configuration\<close>

definition set_registry_canister :: "principal \<Rightarrow> clearing \<Rightarrow> clearing" where
  "set_registry_canister registry s = s\<lparr>cl_registry := registry\<rparr>"

definition update_config :: "config \<Rightarrow> clearing \<Rightarrow> clearing" where
  "update_config c s =
     s\<lparr>cl_config := c\<lparr>cfg_internal_ledger := cfg_internal_ledger (cl_config s),
                        cfg_version := cfg_version (cl_config s)\<rparr>\<rparr>"

definition update_domain_policy :: "balance_domain \<Rightarrow> domain_policy \<Rightarrow> clearing \<Rightarrow> clearing" where
  "update_domain_policy d p s = s\<lparr>cl_domain_policies := bt_insert d p (cl_domain_policies s)\<rparr>"

definition get_registry_canister :: "clearing \<Rightarrow> principal" where
  "get_registry_canister s = cl_registry s"

definition config_query :: "clearing \<Rightarrow> config" where
  "config_query s = cl_config s"

definition get_funds :: "clearing \<Rightarrow> (asset_id, u128) btmap \<times> (asset_id, u128) btmap" where
  "get_funds s = (cl_insurance_fund s, cl_treasury s)"

definition get_domain_policies :: "clearing \<Rightarrow> (balance_domain, domain_policy) btmap" where
  "get_domain_policies s = cl_domain_policies s"

text \<open>An update never changes the internal ledger or the version.\<close>

lemma update_config_keeps:
  "cfg_internal_ledger (config_query (update_config c s)) = cfg_internal_ledger (config_query s)"
  "cfg_version (config_query (update_config c s)) = cfg_version (config_query s)"
  by (simp_all add: update_config_def config_query_def)

section \<open>Fund withdrawals\<close>

datatype withdraw_fund_error =
    CommonFund common_error | InsufficientFunds | TransferFailed string

datatype cancel_fund_withdrawal_error =
    CommonCancelFund common_error | PlanNotFound | InvalidPlanStatus

record withdraw_fund_params =
  wfp_request_id :: string
  wfp_fund_type :: fund_type
  wfp_asset_id :: asset_id
  wfp_amount :: u128
  wfp_to :: principal

definition fund_of :: "fund_type \<Rightarrow> clearing \<Rightarrow> (asset_id, u128) btmap" where
  "fund_of ft s = (case ft of Insurance \<Rightarrow> cl_insurance_fund s | Treasury \<Rightarrow> cl_treasury s)"

definition set_fund :: "fund_type \<Rightarrow> (asset_id, u128) btmap \<Rightarrow> clearing \<Rightarrow> clearing" where
  "set_fund ft m s =
     (case ft of Insurance \<Rightarrow> s\<lparr>cl_insurance_fund := m\<rparr> | Treasury \<Rightarrow> s\<lparr>cl_treasury := m\<rparr>)"

definition fund_balance :: "fund_type \<Rightarrow> asset_id \<Rightarrow> clearing \<Rightarrow> u128" where
  "fund_balance ft aid s = or_zero (bt_get (fund_of ft s) aid)"

definition deduct_fund_balance_impl ::
  "asset_id \<Rightarrow> u128 \<Rightarrow> fund_type \<Rightarrow> clearing \<Rightarrow> (withdraw_fund_error, unit) result \<times> clearing" where
  "deduct_fund_balance_impl aid amount ft s =
     (let current = fund_balance ft aid s
      in if current < amount then (Err InsufficientFunds, s)
         else (Ok (), set_fund ft (bt_insert aid (current - amount) (fund_of ft s)) s))"

definition asset_error_debug :: "asset_error \<Rightarrow> string" where
  "asset_error_debug e =
     (case e of
        TransferError m \<Rightarrow> ''TransferError('' @ m @ '')''
      | InvalidAssetForHandler \<Rightarrow> ''InvalidAssetForHandler''
      | UnsupportedAsset \<Rightarrow> ''UnsupportedAsset''
      | CallError meth _ msg \<Rightarrow> ''CallError { method: '' @ meth @ '', message: '' @ msg @ '' }''
      | InsufficientBalance _ _ \<Rightarrow> ''InsufficientBalance''
      | AssetMathOverflow \<Rightarrow> ''MathOverflow''
      | InvalidAssetId m \<Rightarrow> ''InvalidAssetId('' @ m @ '')'')"

definition store_fund_plan :: "string \<Rightarrow> fund_withdrawal_plan \<Rightarrow> clearing \<Rightarrow> clearing" where
  "store_fund_plan rid plan s =
     s\<lparr>cl_fund_withdrawal_plans := bt_insert rid plan (cl_fund_withdrawal_plans s)\<rparr>"

text \<open>Phase B: the internal deduction, done once, while the plan is \<open>Planned\<close>.\<close>

definition deduct_fund ::
  "withdraw_fund_params \<Rightarrow> fund_withdrawal_plan \<Rightarrow> clearing \<Rightarrow>
     (withdraw_fund_error, fund_withdrawal_plan) result \<times> clearing" where
  "deduct_fund x plan s =
     (if fpl_status plan \<noteq> Planned then (Ok plan, s)
      else case deduct_fund_balance_impl (wfp_asset_id x) (wfp_amount x) (wfp_fund_type x) s of
             (Err err, s) \<Rightarrow> (Err err, s)
           | (Trap, s) \<Rightarrow> (Trap, s)
           | (Ok _, s) \<Rightarrow>
               (let plan = plan\<lparr>fpl_status := Executing\<rparr>
                in (Ok plan, store_fund_plan (wfp_request_id x) plan s)))"

definition fund_transfer_params ::
  "withdraw_fund_params \<Rightarrow> asset \<Rightarrow> fund_withdrawal_plan \<Rightarrow> asset_transfer_params" where
  "fund_transfer_params x a plan =
     \<lparr> atp_asset = a, atp_asset_id = wfp_asset_id x, atp_from = CanisterMain,
       atp_to = External (ExternalPrincipal (wfp_to x)), atp_amount = wfp_amount x,
       atp_created_at_time_ns = to_created_at_time_ns (fpl_idempotency_ns plan) \<rparr>"

definition transfer_fund ::
  "withdraw_fund_params \<Rightarrow> asset \<Rightarrow> fund_withdrawal_plan \<Rightarrow> ctx \<Rightarrow> (withdraw_fund_error, nat) cproc"
where
  "transfer_fund x a plan c =
     (case fpl_receipt plan of
        Some r \<Rightarrow> preturn (Ok (block_index r)) c
      | None \<Rightarrow>
          pbind (pmap_err (\<lambda>e. TransferFailed (asset_error_debug e))
                   (handler_transfer (get_handler a) (fund_transfer_params x a plan) c))
            (\<lambda>block c.
               preturn (Ok (unat block))
                 (fst c,
                  store_fund_plan (wfp_request_id x)
                    (plan\<lparr>fpl_receipt := Some (IcrcBlockIndex (unat block)),
                          fpl_status := Finalised\<rparr>) (snd c))))"

definition withdraw_fund ::
  "principal \<Rightarrow> withdraw_fund_params \<Rightarrow> ctx \<Rightarrow> (withdraw_fund_error, nat) cproc" where
  "withdraw_fund caller x c =
     guarded (caller_is_controller (fst c) caller) (\<lambda>c.
       pure_step (ok_or (TransferFailed ''Unsupported asset'')
                    (bt_get (cl_collateral_assets (snd c)) (wfp_asset_id x))) c (\<lambda>config c.
         case fund_withdrawal_plan_get_or_create (env_now (fst c))
                \<lparr> fpp_request_id = wfp_request_id x, fpp_fund_type = wfp_fund_type x,
                  fpp_asset_id = wfp_asset_id x, fpp_amount = wfp_amount x,
                  fpp_to = wfp_to x \<rparr> (snd c) of
           (plan, s) \<Rightarrow>
             if fpl_status plan = Finalised
             then preturn (ok_or (TransferFailed ''No receipt found'')
                             (map_option block_index (fpl_receipt plan))) (fst c, s)
             else pbind (sync (\<lambda>_. deduct_fund x plan) (fst c, s))
                    (\<lambda>plan. transfer_fund x (cac_asset config) plan))) c"

definition cancel_fund_withdrawal ::
  "string \<Rightarrow> clearing \<Rightarrow> (cancel_fund_withdrawal_error, unit) result \<times> clearing" where
  "cancel_fund_withdrawal rid s =
     (case bt_get (cl_fund_withdrawal_plans s) rid of
        None \<Rightarrow> (Err PlanNotFound, s)
      | Some plan \<Rightarrow>
          (let removed = s\<lparr>cl_fund_withdrawal_plans := bt_remove rid (cl_fund_withdrawal_plans s)\<rparr>
           in if fpl_status plan \<noteq> Executing \<or> fpl_receipt plan \<noteq> None
              then (Err InvalidPlanStatus, store_fund_plan rid plan removed)
              else (Ok (),
                    set_fund (fpl_fund_type plan)
                      (bt_insert (fpl_asset_id plan)
                         (fund_balance (fpl_fund_type plan) (fpl_asset_id plan) removed
                            + fpl_amount plan)
                         (fund_of (fpl_fund_type plan) removed)) removed)))"

section \<open>Collateral assets\<close>

datatype register_icrc_asset_error =
    CommonRegister common_error | AssetAlreadyExists | VusdCannotBeCollateral
  | InvalidAllowedBalanceDomains

datatype refresh_icrc_asset_metadata_error =
    CommonRefresh common_error | AssetNotFoundRefresh | NotAnIcrcAsset

datatype update_asset_price_error =
    CommonPrice common_error | AssetNotFound | OracleNotConfigured | AssetMetricsNotInitialized

datatype update_collateral_allowed_domains_error =
    AssetNotFoundDomains | InvalidAllowedBalanceDomainsUpdate

definition insert_collateral_asset_impl :: "collateral_asset_config \<Rightarrow> clearing \<Rightarrow> clearing" where
  "insert_collateral_asset_impl config s =
     s\<lparr>cl_collateral_assets := bt_insert (cac_asset_id config) config (cl_collateral_assets s)\<rparr>"

definition insert_asset_metrics_impl :: "asset_id \<Rightarrow> asset_metrics \<Rightarrow> clearing \<Rightarrow> clearing" where
  "insert_asset_metrics_impl aid m s =
     s\<lparr>cl_asset_metrics := bt_insert aid m (cl_asset_metrics s)\<rparr>"

definition update_asset_metrics :: "asset_id \<Rightarrow> asset_metrics \<Rightarrow> clearing \<Rightarrow> clearing" where
  "update_asset_metrics aid m s = insert_asset_metrics_impl aid m s"

definition update_collateral_asset ::
  "collateral_asset_config \<Rightarrow> clearing \<Rightarrow> (string, unit) result \<times> clearing" where
  "update_collateral_asset config s =
     (case cac_asset config of
        Icrc _ \<Rightarrow> (Trap, s) | _ \<Rightarrow> (Ok (), insert_collateral_asset_impl config s))"

definition upsert_asset_state_impl ::
  "collateral_asset_config \<Rightarrow> asset_metrics \<Rightarrow> clearing \<Rightarrow> clearing" where
  "upsert_asset_state_impl config m s =
     insert_asset_metrics_impl (cac_asset_id config) m (insert_collateral_asset_impl config s)"

record register_icrc_asset_params =
  ria_asset_id :: asset_id
  ria_ledger_id :: principal
  ria_haircut_bps :: u16
  ria_oracle_id :: "string option"
  ria_is_enabled :: bool
  ria_allowed_balance_domains :: "balance_domain list"

definition current_price_of :: "clearing \<Rightarrow> asset_id \<Rightarrow> decimal_value" where
  "current_price_of s aid =
     (case bt_get (cl_asset_metrics s) aid of
        None \<Rightarrow> \<lparr> dec_value = 0, dec_decimals = 0 \<rparr> | Some m \<Rightarrow> am_price_usd m)"

definition check_register ::
  "register_icrc_asset_params \<Rightarrow> clearing \<Rightarrow> (register_icrc_asset_error, balance_domain list) result"
where
  "check_register x s =
     obind (ok_or InvalidAllowedBalanceDomains
              (allowed_balance_domains_try_from (ria_allowed_balance_domains x))) (\<lambda>ds.
       if is_internal_ledger s (ria_ledger_id x) then Err VusdCannotBeCollateral
       else if bt_contains_key (cl_collateral_assets s) (ria_asset_id x) \<or>
               is_internal_asset s (ria_asset_id x)
       then Err AssetAlreadyExists else Ok ds)"

definition register_icrc_asset ::
  "principal \<Rightarrow> register_icrc_asset_params \<Rightarrow> ctx \<Rightarrow> (register_icrc_asset_error, unit) cproc" where
  "register_icrc_asset caller x c =
     guarded (caller_is_controller (fst c) caller) (\<lambda>c.
       pure_step (check_register x (snd c)) c (\<lambda>ds c.
         pbind (pmap_err (\<lambda>e. CommonRegister (Internal (asset_error_debug e)))
                  (icrc_get_metadata (Icrc (ria_ledger_id x)) c))
           (\<lambda>md. sync (\<lambda>e s.
              (Ok (),
               upsert_asset_state_impl
                 \<lparr> cac_asset_id = ria_asset_id x, cac_asset = Icrc (ria_ledger_id x),
                   cac_symbol = md_symbol md, cac_decimals = md_decimals md,
                   cac_is_enabled = ria_is_enabled x, cac_oracle_id = ria_oracle_id x,
                   cac_allowed_balance_domains = ds \<rparr>
                 \<lparr> am_price_usd = current_price_of s (ria_asset_id x),
                   am_haircut_bps = ria_haircut_bps x, am_latest_transfer_fee = Some (md_fee md),
                   am_insurance_fee_ratio = None, am_protocol_fee_ratio = None,
                   am_last_updated_ns = Some (env_now e) \<rparr> s))))) c"

definition refresh_icrc_asset_metadata ::
  "principal \<Rightarrow> asset_id \<Rightarrow> ctx \<Rightarrow> (refresh_icrc_asset_metadata_error, unit) cproc" where
  "refresh_icrc_asset_metadata caller aid c =
     guarded (caller_is_controller (fst c) caller) (\<lambda>c.
       pure_step (ok_or AssetNotFoundRefresh (bt_get (cl_collateral_assets (snd c)) aid)) c
         (\<lambda>config c.
            case cac_asset config of
              Icrc ledger_id \<Rightarrow>
                pbind (pmap_err (\<lambda>e. CommonRefresh (Internal (asset_error_debug e)))
                         (icrc_get_metadata (cac_asset config) c))
                  (\<lambda>md. sync (\<lambda>e s.
                     (Ok (),
                      update_cached_transfer_fee (env_now e) aid (md_fee md)
                        (insert_collateral_asset_impl
                           (config\<lparr>cac_symbol := md_symbol md, cac_decimals := md_decimals md\<rparr>)
                           s))))
            | _ \<Rightarrow> preturn (Err NotAnIcrcAsset) c)) c"

definition set_asset_price ::
  "env \<Rightarrow> asset_id \<Rightarrow> price \<Rightarrow> clearing \<Rightarrow> (update_asset_price_error, unit) result \<times> clearing" where
  "set_asset_price e aid p s =
     (case bt_get (cl_asset_metrics s) aid of
        None \<Rightarrow> (Err AssetMetricsNotInitialized, s)
      | Some m \<Rightarrow>
          (Ok (), insert_asset_metrics_impl aid
                    (m\<lparr>am_price_usd := price_decimal p, am_last_updated_ns := Some (env_now e)\<rparr>) s))"

definition authorize_price ::
  "principal \<Rightarrow> collateral_asset_config \<Rightarrow> ctx \<Rightarrow> (update_asset_price_error, unit) cproc" where
  "authorize_price caller config c =
     (if env_is_controller (fst c) caller then preturn (Ok ()) c
      else pure_step (ok_or OracleNotConfigured (cac_oracle_id config)) c (\<lambda>oracle_id c.
        let registry = cl_registry (snd c)
        in if registry = anonymous then preturn (Err (CommonPrice RegistryNotSet)) c
           else pbind (pmap_err CommonPrice (is_oracle_authorized registry oracle_id caller c))
             (\<lambda>authorized.
                preturn (if authorized then Ok () else Err (CommonPrice Unauthorized)))))"

definition update_asset_price ::
  "principal \<Rightarrow> asset_id \<Rightarrow> price \<Rightarrow> ctx \<Rightarrow> (update_asset_price_error, unit) cproc" where
  "update_asset_price caller aid p =
     guarded (caller_is_not_anonymous caller) (\<lambda>c.
       pure_step (ok_or AssetNotFound (bt_get (cl_collateral_assets (snd c)) aid)) c (\<lambda>config c.
         pbind (authorize_price caller config c) (\<lambda>_. sync (\<lambda>e. set_asset_price e aid p))))"

definition update_collateral_allowed_domains ::
  "asset_id \<Rightarrow> balance_domain list \<Rightarrow> clearing \<Rightarrow>
     (update_collateral_allowed_domains_error, unit) result \<times> clearing" where
  "update_collateral_allowed_domains aid ds s =
     (case allowed_balance_domains_try_from ds of
        None \<Rightarrow> (Err InvalidAllowedBalanceDomainsUpdate, s)
      | Some ds' \<Rightarrow>
          (case bt_get (cl_collateral_assets s) aid of
             None \<Rightarrow> (Err AssetNotFoundDomains, s)
           | Some config \<Rightarrow>
               (Ok (), s\<lparr>cl_collateral_assets :=
                           bt_insert aid (config\<lparr>cac_allowed_balance_domains := ds'\<rparr>)
                             (cl_collateral_assets s)\<rparr>)))"

end
