(* ===== verification/Accounts.thy ===== *)
theory Accounts
  imports AssetHandlers
begin

text \<open>
  \<open>api/account/api.rs\<close> and \<open>account/service.rs\<close>: the account state with the worth of its assets,
  with or without a refresh against the ledgers, the positions of a caller, and the lean of a set
  of principals on a series.
\<close>

section \<open>The account response\<close>

datatype account_state_error = AccountAsset asset_error | NoAccountStateFound | AccountMathOverflow

record asset_worth =
  aw_asset_id :: asset_id
  aw_balance :: u128
  aw_value_usd :: u128
  aw_pre_haircut_value_usd :: u128
  aw_haircut_bps :: u16

text \<open>The two values of a balance, with and without the haircut; \<open>None\<close> is a division by zero.\<close>

definition asset_values :: "u128 \<Rightarrow> u128 \<Rightarrow> u8 \<Rightarrow> u8 \<Rightarrow> u16 \<Rightarrow> (int \<times> int) option" where
  "asset_values balance unit_price unit_decimals asset_decimals haircut_bps =
     (let target_decimals = unat USD_DECIMALS;
          haircut_multiplier = saturating_sub (ucast BPS_BASE :: u128) (ucast haircut_bps);
          numerator_pre = uint balance * uint unit_price;
          numerator_post = numerator_pre * uint haircut_multiplier;
          total_source_decimals = unat asset_decimals + unat unit_decimals
      in if target_decimals \<le> total_source_decimals
         then (let divisor_raw = uint ((10::u128) ^ (total_source_decimals - target_decimals));
                   divisor_post = uint BPS_BASE * divisor_raw
               in if divisor_raw = 0 then None
                  else Some (numerator_post div divisor_post, numerator_pre div divisor_raw))
         else (let multiplier_raw = uint ((10::u128) ^ (target_decimals - total_source_decimals))
               in Some (numerator_post * multiplier_raw div uint BPS_BASE,
                        numerator_pre * multiplier_raw)))"

definition asset_worth_of ::
  "(asset_id, collateral_asset_config) btmap \<Rightarrow> (asset_id, asset_metrics) btmap \<Rightarrow>
     asset_id \<times> u128 \<Rightarrow> asset_worth option" where
  "asset_worth_of configs metrics entry =
     (let aid = fst entry; balance = snd entry;
          worthless = \<lparr> aw_asset_id = aid, aw_balance = balance, aw_value_usd = 0,
                        aw_pre_haircut_value_usd = 0, aw_haircut_bps = 0 \<rparr>
      in case (bt_get configs aid, bt_get metrics aid) of
           (Some config, Some metric) \<Rightarrow>
             if cac_is_enabled config
             then map_option (\<lambda>(post, pre).
                    worthless\<lparr> aw_value_usd := nat_to_u128_or_max post,
                               aw_pre_haircut_value_usd := nat_to_u128_or_max pre,
                               aw_haircut_bps := am_haircut_bps metric \<rparr>)
                    (asset_values balance (dec_value (am_price_usd metric))
                       (dec_decimals (am_price_usd metric)) (cac_decimals config)
                       (am_haircut_bps metric))
             else Some worthless
         | _ \<Rightarrow> Some worthless)"

fun map_opt :: "('a \<Rightarrow> 'b option) \<Rightarrow> 'a list \<Rightarrow> 'b list option" where
  "map_opt f [] = Some []"
| "map_opt f (x # xs) =
     (case f x of
        None \<Rightarrow> None
      | Some y \<Rightarrow> (case map_opt f xs of None \<Rightarrow> None | Some ys \<Rightarrow> Some (y # ys)))"

record account_state_response =
  asr_state :: account_state
  asr_assets :: "asset_worth list"
  asr_total_equity_usd :: u128
  asr_available_margin_usd :: i128

definition build_account_state_response ::
  "account_state \<Rightarrow> balance_domain \<Rightarrow> (asset_id, collateral_asset_config) btmap \<Rightarrow>
     (asset_id, asset_metrics) btmap \<Rightarrow> account_state_response option" where
  "build_account_state_response state d configs metrics =
     (case map_opt (asset_worth_of configs metrics)
             (case bt_get (acc_balances state) d of None \<Rightarrow> [] | Some m \<Rightarrow> m) of
        None \<Rightarrow> None
      | Some assets \<Rightarrow>
          (case (calculate_equity_usd state d configs metrics,
                 get_available_margin_usd state d configs metrics) of
             (Some equity, Some available) \<Rightarrow>
               Some \<lparr> asr_state = state, asr_assets = assets, asr_total_equity_usd = equity,
                      asr_available_margin_usd = available \<rparr>
           | _ \<Rightarrow> None))"

definition account_response ::
  "account_state \<Rightarrow> balance_domain \<Rightarrow> clearing \<Rightarrow> (account_state_error, account_state_response) result"
where
  "account_response state d s =
     or_trap (build_account_state_response state d (cl_collateral_assets s) (cl_asset_metrics s))"

definition get_account_state_query ::
  "principal \<Rightarrow> clearing \<Rightarrow> (account_state_error, account_state_response) result" where
  "get_account_state_query caller s =
     obind (ok_or NoAccountStateFound (bt_get (cl_accounts s) caller))
       (\<lambda>state. account_response state Settlement s)"

text \<open>The loop over the registered assets, one balance request for each enabled one.\<close>

fun refresh_balances ::
  "principal \<Rightarrow> collateral_asset_config list \<Rightarrow> ctx \<Rightarrow> (account_state_error, unit) cproc" where
  "refresh_balances u [] c = preturn (Ok ()) c"
| "refresh_balances u (config # rest) c =
     (if \<not> cac_is_enabled config then refresh_balances u rest c
      else pbind (pmap_err AccountAsset
                    (handler_balance_of (get_handler (cac_asset config)) (cac_asset config)
                       (UserClearing u) c))
             (\<lambda>_ c. refresh_balances u rest c))"

record get_account_state_params =
  gas_refresh :: "bool option"
  gas_domain :: "balance_domain option"

definition get_account_state ::
  "principal \<Rightarrow> get_account_state_params \<Rightarrow> ctx \<Rightarrow>
     (account_state_error, account_state_response) cproc" where
  "get_account_state caller x c =
     (let d = (case gas_domain x of None \<Rightarrow> Settlement | Some d \<Rightarrow> d)
      in if gas_refresh x \<noteq> Some True
         then pure_step (ok_or NoAccountStateFound (bt_get (cl_accounts (snd c)) caller)) c
                (\<lambda>state c. preturn (account_response state d (snd c)) c)
         else pbind (refresh_balances caller (bt_values (cl_collateral_assets (snd c))) c)
                (\<lambda>_ c. preturn
                   (account_response
                      (case bt_get (cl_accounts (snd c)) caller of
                         None \<Rightarrow> account_state_new caller | Some a \<Rightarrow> a) d (snd c)) c))"

section \<open>Positions\<close>

definition get_position :: "principal \<Rightarrow> series_id \<Rightarrow> outcome_id option \<Rightarrow> clearing \<Rightarrow> position option"
where
  "get_position caller sid oid s = bt_get (cl_positions s) (caller, sid, oid)"

definition get_positions :: "principal \<Rightarrow> clearing \<Rightarrow> position list" where
  "get_positions caller s = map snd (filter (\<lambda>((u, _, _), _). u = caller) (cl_positions s))"

section \<open>The lean of a set of principals\<close>

definition MAX_AGGREGATE_PRINCIPALS :: nat where "MAX_AGGREGATE_PRINCIPALS = 10000"

fun requested_set :: "principal list \<Rightarrow> principal btset \<Rightarrow> principal btset" where
  "requested_set [] acc = acc"
| "requested_set (p # ps) acc =
     (if MAX_AGGREGATE_PRINCIPALS \<le> length acc then acc else requested_set ps (bs_insert p acc))"

type_synonym lean_counts = "(outcome_id option, u64 \<times> u64) btmap"

definition count_position :: "outcome_id option \<Rightarrow> position \<Rightarrow> lean_counts \<Rightarrow> lean_counts" where
  "count_position oid p m =
     (if 0 < sint (pos_net_qty p) then bt_entry oid (0, 0) (\<lambda>(l, sh). (l + 1, sh)) m
      else if sint (pos_net_qty p) < 0 then bt_entry oid (0, 0) (\<lambda>(l, sh). (l, sh + 1)) m
      else m)"

text \<open>The run of one user and one series in the key order, ended by the first other key.\<close>

fun lean_run ::
  "user \<Rightarrow> series_id \<Rightarrow> (position_key \<times> position) list \<Rightarrow> lean_counts \<times> bool \<Rightarrow> lean_counts \<times> bool"
where
  "lean_run user sid [] acc = acc"
| "lean_run user sid (((u, i, oid), p) # rest) (m, holds) =
     (if u \<noteq> user \<or> i \<noteq> sid then (m, holds)
      else lean_run user sid rest
             (count_position oid p m, holds \<or> sint (pos_net_qty p) \<noteq> 0))"

definition lean_user ::
  "positions_map \<Rightarrow> series_id \<Rightarrow> user \<Rightarrow> lean_counts \<times> u64 \<Rightarrow> lean_counts \<times> u64" where
  "lean_user positions sid user acc =
     (case lean_run user sid (bt_range_from (user, sid, None) positions) (fst acc, False) of
        (m, holds) \<Rightarrow> (m, if holds then snd acc + 1 else snd acc))"

record outcome_lean =
  ol_outcome_id :: "outcome_id option"
  ol_long :: u64
  ol_short :: u64
  ol_total :: u64

record aggregate_lean_result =
  al_series_id :: series_id
  al_outcomes :: "outcome_lean list"
  al_total :: u64

definition aggregate_lean :: "series_id \<Rightarrow> principal list \<Rightarrow> positions_map \<Rightarrow> aggregate_lean_result" where
  "aggregate_lean sid principals positions =
     (case fold (lean_user positions sid) (requested_set principals []) ([], 0) of
        (by_outcome, holders) \<Rightarrow>
          \<lparr> al_series_id = sid,
            al_outcomes = map (\<lambda>(oid, long, short).
              \<lparr> ol_outcome_id = oid, ol_long = long, ol_short = short, ol_total = long + short \<rparr>)
              by_outcome,
            al_total = holders \<rparr>)"

end
