(* ===== verification/ClearingSystem.thy ===== *)
theory ClearingSystem
  imports Interleaving TypeProperties Funds Accounts
begin

text \<open>
  The clearing canister as a whole: its update calls and timers as one type, the handler that each
  starts, and the upgrade.  \<open>clearing_guarantee\<close> is what a relation between states has to satisfy
  to hold across every schedule of them, when the other canisters answer as \<open>A\<close> allows.
\<close>

section \<open>The calls\<close>

datatype clearing_call =
    SubmitLimitOrder principal submit_limit_order_params
  | CancelLimitOrder principal order_id
  | SubmitMarketOrder principal trade_id order_id "i128 option"
  | SubmitMatchedTrade principal submit_matched_trade_params
  | MintCompleteSet principal series_id i128
  | RedeemCompleteSet principal series_id i128
  | FreezePosition principal freeze_params
  | AcceptPosition principal position_proof
  | SettleSeries principal settle_series_params
  | ResumeSettlement principal series_id
  | SettlementTimer settle_series_params
  | BackfillEvents principal "series_id \<Rightarrow> bool" "series_id option"
  | DepositCollateral principal deposit_collateral_params
  | WithdrawCollateral principal withdraw_collateral_params
  | MigrateDomain principal migrate_domain_params
  | ReassignAccount principal string user user
  | WithdrawFund principal withdraw_fund_params
  | CancelFundWithdrawal principal string
  | SetRegistryCanister principal principal
  | UpdateConfig principal config
  | UpdateDomainPolicy principal balance_domain domain_policy
  | UpdateCollateralAsset principal collateral_asset_config
  | UpdateAssetMetrics principal asset_id asset_metrics
  | RegisterIcrcAsset principal register_icrc_asset_params
  | RefreshIcrcMetadata principal asset_id
  | UpdateAssetPrice principal asset_id price
  | UpdateAllowedDomains principal asset_id "balance_domain list"
  | GetAccountState principal get_account_state_params

text \<open>A synchronous call that only controllers may make.\<close>

definition controlled :: "principal \<Rightarrow> (env \<Rightarrow> clearing \<Rightarrow> clearing) \<Rightarrow> ctx \<Rightarrow> (unit, unit) cproc" where
  "controlled caller f c =
     guarded (caller_is_controller (fst c) caller) (sync (\<lambda>e s. (Ok (), f e s))) c"

fun clearing_handler :: "clearing_call \<Rightarrow> ctx \<Rightarrow> (request, reply, ctx) task" where
  "clearing_handler (SubmitLimitOrder u x) c = silent (submit_limit_order u x c)"
| "clearing_handler (CancelLimitOrder u i) c = silent (cancel_limit_order u i c)"
| "clearing_handler (SubmitMarketOrder u t i q) c = silent (submit_market_order u t i q c)"
| "clearing_handler (SubmitMatchedTrade u x) c = silent (submit_matched_trade u x c)"
| "clearing_handler (MintCompleteSet u sid q) c = silent (mint_complete_set u sid q c)"
| "clearing_handler (RedeemCompleteSet u sid q) c = silent (redeem_complete_set u sid q c)"
| "clearing_handler (FreezePosition u x) c =
     silent (controlled u (\<lambda>e s. snd (freeze_position_for_transfer e x s)) c)"
| "clearing_handler (AcceptPosition u x) c = silent (accept_position_transfer u x c)"
| "clearing_handler (SettleSeries u x) c = silent (settle_series u x c)"
| "clearing_handler (ResumeSettlement u sid) c = silent (sync (\<lambda>e. resume_settlement e u sid) c)"
| "clearing_handler (SettlementTimer x) c = silent (sync (\<lambda>e. settle_series_inner e x) c)"
| "clearing_handler (BackfillEvents u b a) c =
     silent (controlled u (\<lambda>e s. snd (backfill_settlement_events e b a s)) c)"
| "clearing_handler (DepositCollateral u x) c = silent (deposit_collateral u x c)"
| "clearing_handler (WithdrawCollateral u x) c = silent (withdraw_collateral u x c)"
| "clearing_handler (MigrateDomain u x) c =
     silent (guarded (caller_is_not_anonymous u) (sync (\<lambda>e. migrate_domain_impl e u x)) c)"
| "clearing_handler (ReassignAccount u rid old new) c = silent (admin_reassign_account u rid old new c)"
| "clearing_handler (WithdrawFund u x) c = silent (withdraw_fund u x c)"
| "clearing_handler (CancelFundWithdrawal u rid) c =
     silent (controlled u (\<lambda>_ s. snd (cancel_fund_withdrawal rid s)) c)"
| "clearing_handler (SetRegistryCanister u p) c = silent (controlled u (\<lambda>_. set_registry_canister p) c)"
| "clearing_handler (UpdateConfig u cfg) c = silent (controlled u (\<lambda>_. update_config cfg) c)"
| "clearing_handler (UpdateDomainPolicy u d p) c = silent (controlled u (\<lambda>_. update_domain_policy d p) c)"
| "clearing_handler (UpdateCollateralAsset u cfg) c =
     silent (guarded (caller_is_controller (fst c) u) (sync (\<lambda>_. update_collateral_asset cfg)) c)"
| "clearing_handler (UpdateAssetMetrics u aid m) c = silent (controlled u (\<lambda>_. update_asset_metrics aid m) c)"
| "clearing_handler (RegisterIcrcAsset u x) c = silent (register_icrc_asset u x c)"
| "clearing_handler (RefreshIcrcMetadata u aid) c = silent (refresh_icrc_asset_metadata u aid c)"
| "clearing_handler (UpdateAssetPrice u aid p) c = silent (update_asset_price u aid p c)"
| "clearing_handler (UpdateAllowedDomains u aid ds) c =
     silent (controlled u (\<lambda>_ s. snd (update_collateral_allowed_domains aid ds s)) c)"
| "clearing_handler (GetAccountState u x) c =
     silent (guarded (caller_is_not_anonymous u) (get_account_state u x) c)"

text \<open>An upgrade, and a schedule of the canister.\<close>

definition clearing_upgrade :: "clearing \<Rightarrow> clearing" where
  "clearing_upgrade s = restore_state (save_state s)"

type_synonym clearing_schedule = "(clearing_call, reply, env) scheduled list"
type_synonym canister = "clearing \<times> (request, reply, ctx) waiting"

definition clearing_runs :: "clearing_schedule \<Rightarrow> canister \<Rightarrow> canister" where
  "clearing_runs = run_schedule clearing_handler clearing_upgrade"

section \<open>What holds across every schedule\<close>

text \<open>The part of the state that the guarantees are about.\<close>

definition core ::
  "clearing \<Rightarrow> ((user, account_state) btmap \<times> positions_map \<times> (order_id, limit_order) btmap \<times>
     (series_id, series) btmap) \<times>
     (trade_id, u64) btmap \<times> (series_id, settlement_plan) btmap \<times> event list \<times>
     (transfer_id, position_proof) btmap \<times> (transfer_id, bool) btmap" where
  "core s = ((cl_accounts s, cl_positions s, cl_limit_orders s, cl_series s), cl_executed_trades s,
     cl_settlement_plans s, cl_events s, cl_frozen_transfers s, cl_accepted_transfers s)"

named_theorems guaranteed \<open>handlers that keep a guarantee\<close>

fun places :: "book_call \<Rightarrow> bool" where
  "places (PlaceCall u ser x) = True"
| "places call = False"

locale clearing_calls =
  fixes A :: "request \<Rightarrow> reply \<Rightarrow> bool"
    and G :: "clearing \<Rightarrow> clearing \<Rightarrow> bool"
  assumes refl: "reflp G"
    and trans: "transp G"
    and frame: "core s' = core s \<Longrightarrow> G s s'"
    and cache: "A (GetSeries registry sid) (RSeries (Some ser)) \<Longrightarrow> ser_payout_unit ser = payout_usd \<Longrightarrow>
      G s (cache_series ser s)"
begin

lemma G_refl [simp, intro]: "G s s"
  using refl by (rule reflpD)

lemma G_frame: "G t s \<Longrightarrow> core s' = core s \<Longrightarrow> G t s'"
  by (rule transpD [OF trans _ frame])

lemma G_then: "G t s \<Longrightarrow> (\<And>s. G s (f s)) \<Longrightarrow> G t (f s)"
  by (blast intro: transpD [OF trans])

lemma preturn [guaranteed]: "G t (snd c) \<Longrightarrow> guarantees A G t (preturn r c)"
  by (simp add: preturn_def)

lemma icall [guaranteed]: "G t (snd c) \<Longrightarrow> guarantees A G t (icall q d c)"
  by (simp add: icall_def)

lemma pbind [guaranteed]:
  "guarantees A G t pr \<Longrightarrow> (\<And>x c. guarantees A G (snd c) (f x c)) \<Longrightarrow> guarantees A G t (pbind pr f)"
  by (rule guarantees_pbind [OF trans])

lemma pcatch [guaranteed]:
  "guarantees A G t pr \<Longrightarrow> (\<And>r c. guarantees A G (snd c) (f r c)) \<Longrightarrow> guarantees A G t (pcatch pr f)"
  by (rule guarantees_pcatch [OF trans])

lemmas pmap_err [guaranteed] = guarantees_pmap_err [where G = G]

lemma pure_step [guaranteed]:
  "G t (snd c) \<Longrightarrow> (\<And>x. guarantees A G t (f x c)) \<Longrightarrow> guarantees A G t (pure_step r c f)"
  by (cases r) (simp_all add: pure_step_def)

lemma guarded [guaranteed]:
  "G t (snd c) \<Longrightarrow> guarantees A G t (h c) \<Longrightarrow> guarantees A G t (guarded ok h c)"
  by (simp add: guarded_def preturn)

lemma sync [guaranteed]:
  assumes "G t (snd c)" "\<And>e s. G s (snd (f e s))"
  shows "guarantees A G t (sync f c)"
proof (cases "f (fst c) (snd c)")
  case (Pair r s)
  then have "G (snd c) s" using assms(2) [of "snd c" "fst c"] by simp
  with assms(1) Pair show ?thesis by (auto simp: sync_def preturn_def intro: transpD [OF trans])
qed

lemma controlled [guaranteed]:
  "G t (snd c) \<Longrightarrow> (\<And>e s. G s (f e s)) \<Longrightarrow> guarantees A G t (controlled u f c)"
  unfolding controlled_def by (intro guarded sync) simp_all

text \<open>The calls to other canisters change nothing of the core.\<close>

lemma send_settled [guaranteed]: "G t (snd c) \<Longrightarrow> guarantees A G t (send_settled l x c)"
  unfolding send_settled_def send_icrc1_transfer_def by (auto intro!: guaranteed)

lemma refresh_fee: "G t (snd c) \<Longrightarrow> G t (snd (refresh_fee aid fee c))"
  by (auto simp: refresh_fee_def update_cached_transfer_fee_def core_def split: prod.split intro: G_frame)

lemma cached_fee_transfer [guaranteed]:
  "G t (snd c) \<Longrightarrow> guarantees A G t (run_cached_fee_transfer aid fee args (send_settled l) c)"
  unfolding run_cached_fee_transfer_def
  by (auto intro!: guaranteed refresh_fee split: settled_transfer.split)

lemma transfer [guaranteed]: "G t (snd c) \<Longrightarrow> guarantees A G t (handler_transfer h x c)"
  by (cases h) (auto simp: icrc_transfer_def intro!: guaranteed)

lemma transfer_from [guaranteed]: "G t (snd c) \<Longrightarrow> guarantees A G t (handler_transfer_from h x c)"
  by (cases h) (auto simp: icrc_transfer_from_def intro!: guaranteed)

lemma get_fee [guaranteed]: "G t (snd c) \<Longrightarrow> guarantees A G t (handler_get_fee h a c)"
  by (cases h) (auto simp: icrc_get_fee_def intro!: guaranteed)

lemma fetch_address [guaranteed]: "G t (snd c) \<Longrightarrow> guarantees A G t (get_or_fetch_address p c)"
  unfolding get_or_fetch_address_def client_defs
  by (auto intro!: guaranteed G_frame [OF G_refl] simp: core_def split: option.split)

lemma resolve [guaranteed]: "G t (snd c) \<Longrightarrow> guarantees A G t (evm_resolve_account a c)"
  by (cases "(a, c)" rule: evm_resolve_account.cases) (auto intro!: guaranteed)

lemma evm_balance [guaranteed]: "G t (snd c) \<Longrightarrow> guarantees A G t (evm_balance_of a acct c)"
  unfolding evm_balance_of_def client_defs Let_def by (auto intro!: guaranteed split: evm_asset_ref.split)

lemma balance_of [guaranteed]: "G t (snd c) \<Longrightarrow> guarantees A G t (handler_balance_of h a acct c)"
  by (cases h) (auto simp: icrc_balance_of_def intro!: guaranteed)

lemma metadata [guaranteed]: "G t (snd c) \<Longrightarrow> guarantees A G t (icrc_get_metadata a c)"
  unfolding icrc_get_metadata_def icrc_get_symbol_def icrc_get_decimals_def icrc_get_fee_def
  by (auto intro!: guaranteed)

text \<open>The gates of a trading call.\<close>

lemma fetch [guaranteed]: "G t (snd c) \<Longrightarrow> guarantees A G t (fetch_series sid c)"
  by (auto simp: fetch_series_def Let_def icall_def preturn_def registry_decode_def ok_or_def
      intro: cache split: option.splits reply.splits)

lemma gates [guaranteed]: "G t (snd c) \<Longrightarrow> guarantees A G t (ensure_series_registered sid a c)"
  unfolding ensure_series_registered_def by (auto intro!: guaranteed split: option.split)

lemma trading_access [guaranteed]: "G t (snd c) \<Longrightarrow> guarantees A G t (check_trading_access ser u c)"
  unfolding check_trading_access_def is_trading_authorized_def Let_def by (auto intro!: guaranteed)

lemma guard [guaranteed]:
  "G t (snd c) \<Longrightarrow> guarantees A G t (acquire u c)" "G t (snd c) \<Longrightarrow> guarantees A G t (revalidate g c)"
  by (simp_all add: acquire_def revalidate_def preturn)

text \<open>An order, if its placing keeps the guarantee.\<close>

lemma submit_order:
  "(\<And>ser s. G s (snd (place_limit_order u ser x s))) \<Longrightarrow> G t (snd c) \<Longrightarrow>
   guarantees A G t (submit_limit_order u x c)"
  unfolding submit_limit_order_def by (auto intro!: guaranteed)

end

text \<open>
  The whole canister.  \<open>I\<close> is what a starting call may rely on.  Every synchronous step keeps the
  guarantee, but for the placing of an order, whose call may have to pass its gates for that.
\<close>

locale clearing_guarantee = clearing_calls +
  fixes I :: "clearing \<Rightarrow> bool"
  assumes keep: "I s \<Longrightarrow> G s s' \<Longrightarrow> I s'"
    and step: "\<not> places call \<Longrightarrow> G s (book_step e call s)"
    and submit: "I (snd c) \<Longrightarrow> guarantees A G (snd c) (submit_limit_order u x c)"
    and backfill: "G s (snd (backfill_settlement_events e b after s))"
    and upgrade: "G s (clearing_upgrade s)"
begin

text \<open>The synchronous parts.\<close>

lemmas trade_step = step [where call = "TradeCall ser x" for ser x, simplified]
  and cancel_step = step [where call = "CancelCall u i" for u i, simplified]
  and market_step = step [where call = "MarketCall u order t ser q" for u order t ser q, simplified]
  and mint_step = step [where call = "MintCall u sid ser q" for u sid ser q, simplified]
  and redeem_step = step [where call = "RedeemCall u sid ser q" for u sid ser q, simplified]
  and freeze_step = step [where call = "FreezeCall x" for x, simplified]
  and accept_step = step [where call = "AcceptCall ser x v" for ser x v, simplified]
  and settle_step = step [where call = "SettleCall x" for x, simplified]
  and migrate_step = step [where call = "MigrateCall u x" for u x, simplified]
  and rekey_step = step [where call = "RekeyCall rid old new" for rid old new, simplified]
  and credit_step = step [where call = "CreditCall u x plan" for u x plan, simplified]
  and debit_step = step [where call = "DebitCall u x config metric plan" for u x config metric plan, simplified]
  and refund_step = step [where call = "RefundCall u x plan" for u x plan, simplified]

lemma cancel_limit_order [guaranteed]: "G t (snd c) \<Longrightarrow> guarantees A G t (cancel_limit_order u i c)"
  unfolding cancel_limit_order_def by (auto intro!: guaranteed cancel_step)

lemma submit_market_order [guaranteed]:
  "G t (snd c) \<Longrightarrow> guarantees A G t (submit_market_order u tid i q c)"
  unfolding submit_market_order_def by (auto intro!: guaranteed market_step)

lemma submit_matched_trade [guaranteed]:
  "G t (snd c) \<Longrightarrow> guarantees A G t (submit_matched_trade u x c)"
  unfolding submit_matched_trade_def internal_execute_trade_def by (auto intro!: guaranteed trade_step)

lemma mint_set [guaranteed]: "G t (snd c) \<Longrightarrow> guarantees A G t (mint_complete_set u sid q c)"
  unfolding mint_complete_set_def by (auto intro!: guaranteed mint_step)

lemma redeem_set [guaranteed]: "G t (snd c) \<Longrightarrow> guarantees A G t (redeem_complete_set u sid q c)"
  unfolding redeem_complete_set_def by (auto intro!: guaranteed redeem_step)

lemma accept_transfer [guaranteed]: "G t (snd c) \<Longrightarrow> guarantees A G t (accept_position_transfer u x c)"
  unfolding accept_position_transfer_def by (auto intro!: guaranteed accept_step)

lemma settle_series [guaranteed]: "G t (snd c) \<Longrightarrow> guarantees A G t (settle_series u x c)"
  unfolding settle_series_def authorize_settlement_def is_oracle_authorized_def Let_def
  by (auto intro!: guaranteed settle_step)

lemma resume_settlement: "G s (snd (resume_settlement e u sid s))"
  by (auto simp: resume_settlement_def settle_step split: option.split)

text \<open>Collateral: the plans are outside the core.\<close>

lemma plan_frames:
  "deposit_plan_get_or_create now x s = (p, s') \<Longrightarrow> core s' = core s"
  "withdrawal_plan_get_or_create now y s = (q, s') \<Longrightarrow> core s' = core s"
  "fund_withdrawal_plan_get_or_create now z s = (r, s') \<Longrightarrow> core s' = core s"
  by (auto simp: deposit_plan_get_or_create_def withdrawal_plan_get_or_create_def
      fund_withdrawal_plan_get_or_create_def core_def split: prod.splits)

lemma stored [guaranteed]:
  "G t s \<Longrightarrow> G t (store_deposit_plan dp dk s)"
  "G t s \<Longrightarrow> G t (store_withdrawal_plan wp wk s)"
  "G t s \<Longrightarrow> G t (store_fund_plan rid fp s)"
  "G t s \<Longrightarrow> G t (persist rp s)"
  by (auto elim!: G_frame simp: core_def store_deposit_plan_def store_withdrawal_plan_def
      store_fund_plan_def persist_def)

lemma created:
  "deposit_plan_get_or_create now x s = (p, s') \<Longrightarrow> G t s \<Longrightarrow> G t s'"
  "withdrawal_plan_get_or_create now y s = (q, s') \<Longrightarrow> G t s \<Longrightarrow> G t s'"
  "fund_withdrawal_plan_get_or_create now z s = (r, s') \<Longrightarrow> G t s \<Longrightarrow> G t s'"
  by (blast intro: G_frame plan_frames)+

lemma transfer_deposit [guaranteed]:
  "G t (snd c) \<Longrightarrow> guarantees A G t (transfer_deposit u x config plan c)"
  unfolding transfer_deposit_def Let_def
  by (auto intro!: guaranteed split: result.split)

lemma deposit [guaranteed]: "G t (snd c) \<Longrightarrow> guarantees A G t (deposit_collateral u x c)"
  unfolding deposit_collateral_def
  by (auto intro!: guaranteed credit_step split: prod.split) (erule created(1), assumption)+

lemma transfer_withdrawal [guaranteed]:
  "G t (snd c) \<Longrightarrow> guarantees A G t (transfer_withdrawal u x config plan c)"
  unfolding transfer_withdrawal_def Let_def
  by (auto intro!: guaranteed refund_step split: result.split)

lemma finalise_withdrawal: "G s (snd (finalise_withdrawal u x plan s))"
  by (auto simp: finalise_withdrawal_def intro!: guaranteed)

lemma withdraw [guaranteed]: "G t (snd c) \<Longrightarrow> guarantees A G t (withdraw_collateral u x c)"
  unfolding withdraw_collateral_def
  by (auto intro!: guaranteed debit_step finalise_withdrawal split: prod.split) (erule created(2), assumption)+

text \<open>Reassignment.\<close>

lemma start_reassignment: "G s (snd (start_reassignment e rid old new s))"
  by (auto simp: start_reassignment_def rekey_step split: result.split option.split)

lemma finish_reassignment: "G s (snd (finish_reassignment old new plan s))"
  by (auto simp: finish_reassignment_def unlock_after_reassignment_def persist_def core_def intro: frame)

lemma sweep_asset [guaranteed]: "G t (snd c) \<Longrightarrow> guarantees A G t (sweep_asset i plan c)"
  unfolding sweep_asset_def Let_def sweep_fee_def
  by (auto intro!: guaranteed split: option.split)

lemma sweep_from [guaranteed]: "G t (snd c) \<Longrightarrow> guarantees A G t (sweep_from is plan c)"
  by (induction "is" arbitrary: t plan c) (auto intro!: guaranteed)

lemma reassign [guaranteed]: "G t (snd c) \<Longrightarrow> guarantees A G t (admin_reassign_account u rid old new c)"
  unfolding admin_reassign_account_def reassign_account_def sweep_custody_def
  by (auto intro!: guaranteed start_reassignment finish_reassignment)

text \<open>Administration.\<close>

lemma deduct_fund: "G s (snd (deduct_fund x plan s))"
  by (auto simp: deduct_fund_def deduct_fund_balance_impl_def store_fund_plan_def set_fund_def core_def Let_def
      intro!: frame split: fund_type.split)

lemma transfer_fund [guaranteed]: "G t (snd c) \<Longrightarrow> guarantees A G t (transfer_fund x a plan c)"
  unfolding transfer_fund_def
  by (auto intro!: guaranteed split: option.split)

lemma withdraw_fund [guaranteed]: "G t (snd c) \<Longrightarrow> guarantees A G t (withdraw_fund u x c)"
  unfolding withdraw_fund_def
  by (auto intro!: guaranteed deduct_fund split: prod.split) (erule created(3), assumption)+

lemma register_asset [guaranteed]: "G t (snd c) \<Longrightarrow> guarantees A G t (register_icrc_asset u x c)"
  unfolding register_icrc_asset_def
  by (auto intro!: guaranteed frame simp: upsert_asset_state_impl_def insert_asset_metrics_impl_def
      insert_collateral_asset_impl_def core_def)

lemma refresh_metadata [guaranteed]:
  "G t (snd c) \<Longrightarrow> guarantees A G t (refresh_icrc_asset_metadata u aid c)"
  unfolding refresh_icrc_asset_metadata_def
  by (auto intro!: guaranteed frame simp: update_cached_transfer_fee_def insert_collateral_asset_impl_def
      core_def split: asset.split)

lemma update_price [guaranteed]: "G t (snd c) \<Longrightarrow> guarantees A G t (update_asset_price u aid p c)"
  unfolding update_asset_price_def authorize_price_def is_oracle_authorized_def Let_def
  by (auto intro!: guaranteed frame simp: set_asset_price_def insert_asset_metrics_impl_def core_def
      split: option.split)

lemma refresh_balances [guaranteed]: "G t (snd c) \<Longrightarrow> guarantees A G t (refresh_balances u configs c)"
  by (induction configs arbitrary: t c) (auto intro!: guaranteed)

lemma account_state [guaranteed]: "G t (snd c) \<Longrightarrow> guarantees A G t (get_account_state u x c)"
  unfolding get_account_state_def Let_def by (auto intro!: guaranteed)

lemma cancel_fund: "G s (snd (cancel_fund_withdrawal rid s))"
  by (auto simp: cancel_fund_withdrawal_def store_fund_plan_def set_fund_def core_def Let_def
      intro!: frame split: option.split fund_type.split)

lemma update_domains: "G s (snd (update_collateral_allowed_domains aid ds s))"
  by (auto simp: update_collateral_allowed_domains_def core_def intro!: frame split: option.split)

lemma settings:
  "G s (set_registry_canister p s)" "G s (update_config cfg s)" "G s (update_domain_policy d dp s)"
  "G s (update_asset_metrics aid m s)" "G s (snd (update_collateral_asset ac s))"
  by (auto simp: set_registry_canister_def update_config_def update_domain_policy_def update_asset_metrics_def
      insert_asset_metrics_impl_def update_collateral_asset_def insert_collateral_asset_impl_def core_def
      intro!: frame split: asset.split)

text \<open>Every call, and every schedule.\<close>

lemma handler: "I (snd c) \<Longrightarrow> guarantees A G (snd c) (clearing_handler call c)"
  by (cases call)
    (auto intro!: guaranteed submit freeze_step settle_step resume_settlement backfill migrate_step cancel_fund
      update_domains settings)

lemma runs:
  assumes "I s" "safe_waiting A G ks" "honest clearing_handler clearing_upgrade A xs (s, ks)"
    "clearing_runs xs (s, ks) = (s', ks')"
  shows "G s s'" "safe_waiting A G ks'"
  using run_schedule_guarantees [where I = I, OF refl trans handler upgrade keep assms(1-3)
      assms(4) [unfolded clearing_runs_def]]
  by simp_all

text \<open>From an installation on, the guarantee holds at every moment.\<close>

lemma installed:
  assumes "I (clearing_init cfg)" "honest clearing_handler clearing_upgrade A xs (clearing_init cfg, [])"
  shows "G (clearing_init cfg) (fst (clearing_runs xs (clearing_init cfg, [])))"
    "safe_waiting A G (snd (clearing_runs xs (clearing_init cfg, [])))"
  using runs [OF assms(1) _ assms(2) surjective_pairing] by (simp_all add: safe_waiting_def)

end

end
