(* ===== verification/SystemProperties.thy ===== *)
theory SystemProperties
  imports ClearingSystem Samples
begin

text \<open>
  The clearing canister under every schedule of its calls, timers and upgrades, with any number of
  calls waiting at a time: what is recorded is never taken back, and the books stay well typed.
\<close>

section \<open>What is recorded\<close>

definition records :: "clearing \<Rightarrow> event list \<times> (trade_id, u64) btmap \<times> (series_id, settlement_plan) btmap \<times>
    (transfer_id, position_proof) btmap \<times> (transfer_id, bool) btmap" where
  "records s = (cl_events s, cl_executed_trades s, cl_settlement_plans s, cl_frozen_transfers s,
     cl_accepted_transfers s)"

text \<open>A plan only advances: its terms stay, and once applied or finalised it stays as it is.\<close>

definition plan_terms :: "settlement_plan \<Rightarrow> series_id \<times> settlement_input \<times> string \<times> u128 \<times> u128 \<times>
    settlement_position list \<times> payment_idempotency \<times> balance_domain" where
  "plan_terms p = (spl_series_id p, spl_settlement p, spl_oracle_source p, spl_fee_usd p,
     spl_insurance_fee_usd p, spl_positions p, spl_idempotency_ns p, spl_balance_domain p)"

definition plan_advances :: "settlement_plan \<Rightarrow> settlement_plan \<Rightarrow> bool" where
  "plan_advances p p' \<longleftrightarrow>
     plan_terms p' = plan_terms p \<and>
     (spl_accounting_applied p \<longrightarrow>
        spl_accounting_applied p' \<and> spl_accounting_cursor p' = spl_accounting_cursor p) \<and>
     (spl_status p = Finalised \<longrightarrow> p' = p)"

definition permanent :: "clearing \<Rightarrow> clearing \<Rightarrow> bool" where
  "permanent s s' \<longleftrightarrow>
     (\<exists>new. cl_events s' = cl_events s @ new) \<and>
     (\<forall>t i. bt_get (cl_executed_trades s) t = Some i \<longrightarrow> bt_get (cl_executed_trades s') t = Some i) \<and>
     (\<forall>sid p. bt_get (cl_settlement_plans s) sid = Some p \<longrightarrow>
        (\<exists>p'. bt_get (cl_settlement_plans s') sid = Some p' \<and> plan_advances p p')) \<and>
     (\<forall>t f. bt_get (cl_frozen_transfers s) t = Some f \<longrightarrow> bt_get (cl_frozen_transfers s') t = Some f) \<and>
     (\<forall>t. bt_contains_key (cl_accepted_transfers s) t \<longrightarrow> bt_contains_key (cl_accepted_transfers s') t)"

lemma plan_advances_refl [simp]: "plan_advances p p"
  by (simp add: plan_advances_def)

lemma plan_advances_trans: "plan_advances p q \<Longrightarrow> plan_advances q r \<Longrightarrow> plan_advances p r"
  by (auto simp: plan_advances_def)

lemma permanent_refl: "reflp permanent"
  by (auto intro!: reflpI simp: permanent_def)

lemma permanent_trans: "transp permanent"
proof (rule transpI)
  fix s t u assume st: "permanent s t" and tu: "permanent t u"
  obtain new new' where "cl_events t = cl_events s @ new" "cl_events u = cl_events t @ new'"
    using st tu unfolding permanent_def by blast
  then have "\<exists>new. cl_events u = cl_events s @ new" by simp
  moreover have "\<exists>p'. bt_get (cl_settlement_plans u) sid = Some p' \<and> plan_advances p p'"
    if "bt_get (cl_settlement_plans s) sid = Some p" for sid p
    using that st tu plan_advances_trans unfolding permanent_def by metis
  ultimately show "permanent s u" using st tu unfolding permanent_def by blast
qed

lemma permanent_same: "records s' = records s \<Longrightarrow> permanent s s'"
  by (auto simp: records_def permanent_def)

lemmas permanent_then = transpD [OF permanent_trans]

section \<open>The steps\<close>

lemma records_put_account [simp]: "records (put_account u a s) = records s"
  by (simp add: records_def put_account_def)

lemma records_set [simp]:
  "records (s\<lparr>cl_positions := m\<rparr>) = records s"
  "records (s\<lparr>cl_limit_orders := os\<rparr>) = records s"
  by (simp_all add: records_def)

lemma records_release [simp]: "records (release_reserved u d v s) = records s"
  by (simp add: release_reserved_def split: option.split)

lemma records_cancel_open [simp]: "records (cancel_open_limit_orders sid s) = records s"
proof -
  have "records (fold (\<lambda>o1. remove_order (fst o1)) os t) = records t"
    for os :: "(order_id \<times> limit_order) list" and t
    by (induction os arbitrary: t) (auto simp: remove_order_def)
  moreover have "records (fold (\<lambda>o1. release_reserved (lo_creator (snd o1))
      (lo_balance_domain (snd o1)) (lo_blocked_margin_usd (snd o1))) os t) = records t"
    for os :: "(order_id \<times> limit_order) list" and t
    by (induction os arbitrary: t) auto
  ultimately show ?thesis by (simp add: cancel_open_limit_orders_def Let_def)
qed

lemma permanent_trade: "permanent s (snd (execute_trade_impl e ser x s))"
proof (cases "execute_trade_impl e ser x s")
  case (Pair r s')
  then show ?thesis
  proof (cases rule: execute_trade_cases)
    case unchanged
    then show ?thesis using Pair permanent_same by simp
  next
    case (applied td)
    then show ?thesis using Pair
      by (auto simp: permanent_def apply_trade_def Let_def record_trade_def next_event_id_def
          index_executed_trade_def update_side_position_def update_side_account_def put_account_def
          split: prod.splits)
  qed
qed

text \<open>A settlement: the plan is opened once, and each call advances it.\<close>

lemma permanent_prepare:
  assumes "prepare_settlement_impl e ser sid st ir pr s = (Ok plan, s')"
    "bt_get (cl_settlement_plans s) sid = None"
  shows "permanent s s'" "bt_get (cl_settlement_plans s') sid = Some plan"
proof -
  obtain tot ps where "gather_positions ser sid st ir pr (cl_positions s) no_totals [] = Ok (tot, ps)"
    "check_settlement_solvency (ser_balance_domain ser) (tot_net_payoff tot) ps s = Ok ()"
    and create: "(plan, s') = settlement_plan_get_or_create (env_now e)
        \<lparr> spp_series_id = sid, spp_settlement = st, spp_oracle_source = ser_oracle_source ser,
          spp_fee = tot_protocol_fee tot, spp_insurance_fee = tot_insurance_fee tot,
          spp_positions = ps, spp_balance_domain = ser_balance_domain ser \<rparr>
        (cancel_open_limit_orders sid (remove_positions sid ps s))"
    using assms(1) by (rule prepare_settlement_Ok)
  have "records (cancel_open_limit_orders sid (remove_positions sid ps s)) = records s"
    by (simp add: remove_positions_def)
  with create assms(2) show "permanent s s'" "bt_get (cl_settlement_plans s') sid = Some plan"
    by (auto simp: settlement_plan_get_or_create_def get_or_create_def permanent_def records_def
        split: prod.splits)
qed

lemma permanent_build:
  assumes "build_or_resume e x s = (r, s')"
  shows "permanent s s'"
    "r = Ok plan \<Longrightarrow> bt_get (cl_settlement_plans s') (sse_series_id x) = Some plan"
  using assms permanent_same
  by (auto simp: build_or_resume_def dest: prepare_settlement_error permanent_prepare
      split: option.splits if_splits)

lemma permanent_store:
  assumes "bt_get (cl_settlement_plans s) sid = Some p" "plan_advances p p'"
  shows "permanent s (store_settlement_plan sid p' s)"
  using assms by (auto simp: permanent_def store_settlement_plan_def)

lemma permanent_accounting:
  assumes "apply_settlement_accounting_logic e plan s = (newly, plan', s')"
  shows "permanent s s'" "cl_settlement_plans s' = cl_settlement_plans s"
    "plan_terms plan' = plan_terms plan" "spl_status plan' = spl_status plan"
  using assms
  by (auto simp: apply_settlement_accounting_logic_def Let_def index_settled_events_def permanent_def
      plan_terms_def split: prod.splits if_splits)

lemma permanent_chunk:
  assumes "account_chunk e sid plan s = (plan', s')" "bt_get (cl_settlement_plans s) sid = Some plan"
    "spl_status plan \<noteq> Finalised"
  shows "permanent s s' \<and> bt_get (cl_settlement_plans s') sid = Some plan' \<and> spl_status plan' \<noteq> Finalised"
proof (cases "spl_accounting_applied plan")
  case True
  then show ?thesis using assms permanent_same by (simp add: account_chunk_def)
next
  case False
  let ?plan = "if spl_status plan = Planned then plan\<lparr>spl_status := Executing\<rparr> else plan"
  obtain newly s2 where app: "apply_settlement_accounting_logic e ?plan s = (newly, plan', s2)"
    and s': "s' = (if newly then credit_fees plan' (store_settlement_plan sid plan' s2)
                   else store_settlement_plan sid plan' s2)"
    using assms(1) False by (auto simp: account_chunk_def Let_def split: prod.splits)
  note acc = permanent_accounting [OF app]
  have "plan_advances plan plan'"
    using acc(3) False assms(3) by (auto simp: plan_advances_def plan_terms_def split: if_splits)
  then have "permanent s2 (store_settlement_plan sid plan' s2)"
    using assms(2) acc(2) by (intro permanent_store) simp_all
  moreover have "permanent t (credit_fees plan' t)" for t
    by (rule permanent_same) (simp add: records_def credit_fees_def Let_def)
  ultimately have "permanent s s'" unfolding s' using acc(1) permanent_then by (metis (full_types))
  moreover have "bt_get (cl_settlement_plans s') sid = Some plan'"
    by (simp add: s' credit_fees_def Let_def store_settlement_plan_def)
  ultimately show ?thesis using acc(4) assms(3) by (auto split: if_splits)
qed

lemma permanent_settle: "permanent s (snd (settle_series_inner e x s))"
proof -
  obtain r s1 where build: "build_or_resume e x s = (r, s1)" by fastforce
  show ?thesis
  proof (cases "\<exists>plan. r = Ok plan \<and> spl_status plan \<noteq> Finalised")
    case True
    then obtain plan where plan: "r = Ok plan" "spl_status plan \<noteq> Finalised" by blast
    obtain plan' s2 where chunk: "account_chunk e (sse_series_id x) plan s1 = (plan', s2)" by fastforce
    note opened = permanent_build [OF build] and done1 = permanent_chunk [OF chunk opened(2) [OF plan(1)] plan(2)]
    have s2: "permanent s s2" using permanent_then opened(1) done1 by blast
    have "permanent s2 ((store_settlement_plan (sse_series_id x) (plan'\<lparr>spl_status := Finalised\<rparr>) s2)
        \<lparr>cl_series := bt_remove (sse_series_id x) (cl_series s2)\<rparr>)"
    proof (rule permanent_then [OF permanent_store permanent_same])
      show "bt_get (cl_settlement_plans s2) (sse_series_id x) = Some plan'" using done1 by blast
      show "plan_advances plan' (plan'\<lparr>spl_status := Finalised\<rparr>)"
        using done1 by (simp add: plan_advances_def plan_terms_def)
    qed (simp add: records_def)
    with s2 permanent_then build plan chunk show ?thesis
      by (auto simp: settle_series_inner_def store_settlement_plan_def)
  next
    case False
    then have "snd (settle_series_inner e x s) = s1"
      using build by (auto simp: settle_series_inner_def split: result.split)
    with permanent_build(1) [OF build] show ?thesis by simp
  qed
qed

text \<open>Every other step leaves the records as they are, or adds to one of them.\<close>

lemma permanent_shrink: "permanent s (shrink_order order q b s)"
  by (rule permanent_same) (simp add: records_def shrink_order_def remove_order_def)

lemma permanent_fill: "permanent s (snd (fill_order e u t ser q order s))"
proof -
  have "permanent s s'" if "execute_trade_impl e ser x s = (r, s')" for x r s'
    using permanent_trade [of s e ser x] that by simp
  then show ?thesis using permanent_then [OF _ permanent_shrink] permanent_same
    by (auto simp: fill_order_def Let_def split: result.split prod.split)
qed

lemma permanent_market: "permanent s (snd (submit_market_order_impl e u order t ser q s))"
  using permanent_fill permanent_same by (auto simp: submit_market_order_impl_def split: option.split)

lemma permanent_place: "permanent s (snd (place_limit_order u ser x s))"
  by (rule permanent_same) (auto simp: place_limit_order_def Let_def records_def put_account_def
      split: result.splits option.splits)

lemma permanent_cancel: "permanent s (snd (cancel_order u i s))"
  by (rule permanent_same) (auto simp: cancel_order_def records_def release_reserved_def put_account_def
      remove_order_def split: option.splits)

lemma permanent_mint: "permanent s (snd (mint_complete_set_logic u sid ser q s))"
  by (rule permanent_same) (auto simp: mint_complete_set_logic_def Let_def records_def put_account_def
      split: result.splits option.splits)

lemma records_redeem:
  "redeem_outcomes u sid d q os s = Some s' \<Longrightarrow> records s' = records s"
proof (induction os arbitrary: s)
  case (Cons o1 os)
  have "records t = records s" if "redeem_outcome u sid d q o1 s = Some t" for t
    using that by (auto simp: redeem_outcome_def Let_def split: option.splits)
  with Cons show ?case by (auto split: option.splits)
qed simp

lemma permanent_redeem: "permanent s (snd (redeem_complete_set_logic u sid ser q s))"
  by (rule permanent_same) (auto simp: redeem_complete_set_logic_def dest: records_redeem
      split: result.splits option.splits)

lemma permanent_freeze: "permanent s (snd (freeze_position_for_transfer e x s))"
  by (auto simp: freeze_position_for_transfer_def Let_def permanent_def split: option.split)

lemma permanent_accept: "permanent s (snd (accept_position ser x v s))"
  by (auto simp: accept_position_def Let_def permanent_def put_account_def split: result.split)

lemma permanent_migrate: "permanent s (snd (migrate_domain_impl e u x s))"
  by (rule permanent_same) (auto simp: migrate_domain_impl_def Let_def migration_plan_get_or_create_def
      apply_migration_def store_migration_plan_def records_def put_account_def split: result.split prod.splits)

lemma permanent_rekey: "permanent s (snd (validate_and_rekey e rid old new s))"
  by (rule permanent_same) (auto simp: validate_and_rekey_def Let_def reassignment_plan_get_or_create_def
      persist_def lock_for_reassignment_def rekey_account_def rekey_positions_def records_def put_account_def
      split: result.split prod.splits option.split)

lemma permanent_collateral:
  "permanent s (snd (finalise_deposit u x dplan s))"
  "permanent s (snd (reserve_withdrawal u y config metric wplan s))"
  "permanent s (refund_withdrawal u y wplan s)"
  by (rule permanent_same; auto simp: finalise_deposit_def credit_balance_def reserve_withdrawal_def
      refund_withdrawal_def modify_account_def store_deposit_plan_def store_withdrawal_plan_def Let_def
      records_def put_account_def split: result.split option.split)+

lemma permanent_step: "permanent s (book_step e call s)"
  by (cases call) (simp_all add: permanent_trade permanent_place permanent_cancel permanent_market
      permanent_mint permanent_redeem permanent_freeze permanent_accept permanent_settle
      permanent_migrate permanent_rekey permanent_collateral)

lemma permanent_backfill: "permanent s (snd (backfill_settlement_events e b after s))"
  by (auto simp: backfill_settlement_events_def Let_def index_settled_events_def permanent_def
      split: prod.split)

lemma records_upgrade: "records (clearing_upgrade s) = records s"
  by (simp add: clearing_upgrade_def restore_state_def save_state_def records_def Let_def
      rebuild_reassignment_marks_def rebuild_leaderboard_def rebuild_series_trade_history_def
      split: prod.split)

lemma tables_upgrade:
  "cl_accounts (clearing_upgrade s) = cl_accounts s"
  "cl_limit_orders (clearing_upgrade s) = cl_limit_orders s"
  "cl_positions (clearing_upgrade s) =
     fold (\<lambda>p. bt_insert (position_key_of p) p) (bt_values (cl_positions s)) []"
  by (simp_all add: clearing_upgrade_def restore_state_def save_state_def Let_def
      rebuild_reassignment_marks_def rebuild_leaderboard_def rebuild_series_trade_history_def
      split: prod.split)

lemma upgrade_typed:
  assumes "well_typed s"
  shows "well_typed (clearing_upgrade s)"
proof -
  have "pos_typed m \<Longrightarrow> pos_typed (fold (\<lambda>p. bt_insert (position_key_of p) p) ps m)" for ps m
    by (induction ps arbitrary: m) (simp_all add: pos_typed_insert)
  moreover have "pos_typed []" by (simp add: pos_typed_def)
  ultimately have "pos_typed (cl_positions (clearing_upgrade s))"
    unfolding tables_upgrade(3) by blast
  with assms show ?thesis by (simp only: well_typed_def tables_upgrade(1,2))
qed

section \<open>The guarantees hold\<close>

lemma core_records: "core s' = core s \<Longrightarrow> records s' = records s"
  by (simp add: core_def records_def)

lemma records_cache: "records (cache_series ser s) = records s"
  by (simp add: records_def cache_series_def)

interpretation recorded_calls: clearing_calls "\<lambda>_ _. True" permanent
  by unfold_locales (auto intro: permanent_refl permanent_trans permanent_same core_records records_cache)

interpretation recorded: clearing_guarantee "\<lambda>_ _. True" permanent "\<lambda>_. True"
  by unfold_locales (auto intro: permanent_step permanent_backfill permanent_same records_upgrade
      recorded_calls.submit_order permanent_place)

definition keeps_types :: "clearing \<Rightarrow> clearing \<Rightarrow> bool" where
  "keeps_types s s' \<longleftrightarrow> (well_typed s \<longrightarrow> well_typed s')"

lemma backfill_typed: "well_typed s \<Longrightarrow> well_typed (snd (backfill_settlement_events e b after s))"
  by (erule iffD1 [OF well_typed_cong, rotated -1])
    (simp_all add: backfill_settlement_events_def Let_def index_settled_events_def split: prod.split)

interpretation typed_calls: clearing_calls "\<lambda>_ _. True" keeps_types
proof unfold_locales
  show "keeps_types s s'" if "core s' = core s" for s s'
    using that well_typed_cong [of s' s] by (simp add: core_def keeps_types_def)
  show "keeps_types s (cache_series ser s)" for ser s
    by (simp add: keeps_types_def cache_series_def)
qed (simp_all add: keeps_types_def reflp_def transp_def)

interpretation typed: clearing_guarantee "\<lambda>_ _. True" keeps_types "\<lambda>_. True"
proof unfold_locales
  show "keeps_types s (book_step e call s)" for s e call
    using book_step_typed by (simp add: keeps_types_def)
  show "guarantees (\<lambda>_ _. True) keeps_types (snd c) (submit_limit_order u x c)" for c u x
    by (rule typed_calls.submit_order) (simp_all add: keeps_types_def place_limit_order_typed)
  show "keeps_types s (snd (backfill_settlement_events e b after s))" for s e b after
    using backfill_typed by (simp add: keeps_types_def)
  show "keeps_types s (clearing_upgrade s)" for s using upgrade_typed by (simp add: keeps_types_def)
qed simp

section \<open>Every schedule\<close>

lemma init_typed: "well_typed (clearing_init cfg)"
  by (simp add: well_typed_def clearing_init_def clearing_empty_def acc_typed_def pos_typed_def ord_typed_def)

text \<open>
  C4. Whatever calls, timers, answers of other canisters and upgrades follow each other from an
  installation on, in whatever order and with whatever calls waiting at the same time: between any
  two moments the event log is only appended to, an executed trade keeps its entry, a settlement
  plan keeps its terms and lines and never leaves \<open>applied\<close> or \<open>Finalised\<close>, and a frozen or
  accepted transfer stays so.
\<close>

theorem records_are_permanent:
  "permanent (fst (clearing_runs xs (clearing_init cfg, [])))
     (fst (clearing_runs ys (clearing_runs xs (clearing_init cfg, []))))"
proof -
  let ?c = "clearing_runs xs (clearing_init cfg, [])"
  have "clearing_runs ys (fst ?c, snd ?c) = (fst (clearing_runs ys ?c), snd (clearing_runs ys ?c))" by simp
  from recorded.runs(1) [OF TrueI recorded.installed(2) [OF TrueI honest_True] honest_True this] show ?thesis .
qed

text \<open>
  C24. Under every such schedule the books stay well typed: each account, position and order is
  stored under the key that it carries itself, in tables without duplicate keys, and each account's
  own tables are canonical.
\<close>

theorem schedules_stay_well_typed: "well_typed (fst (clearing_runs xs (clearing_init cfg, [])))"
  using typed.installed(1) [OF TrueI honest_True] init_typed by (simp add: keeps_types_def)

section \<open>An upgrade\<close>

lemma typed_keyed:
  assumes "well_typed s"
  shows "positions_keyed s"
proof -
  have pos: "pos_typed (cl_positions s)" by (rule well_typed_tables [OF assms])
  then have inv: "bt_inv (cl_positions s)" by (simp add: pos_typed_def)
  have "position_key_of p = k" if "(k, p) \<in> set (cl_positions s)" for k p
    using pos_typed_get [OF pos] bt_mem [OF inv] that by blast
  with inv show ?thesis by (auto simp: positions_keyed_def list_all_iff)
qed

lemma indices_currentD:
  "indices_current s \<Longrightarrow> cl_leaderboard s = rebuilt_leaderboard (cl_events s) \<and>
     cl_traded_volume s = fst (rebuilt_trade_index (cl_events s)) \<and>
     cl_trade_history s = snd (rebuilt_trade_index (cl_events s))"
  by (simp add: indices_current_def prod_eq_iff)

lemma indices_currentI:
  "cl_leaderboard s = rebuilt_leaderboard (cl_events s) \<Longrightarrow>
   cl_traded_volume s = fst (rebuilt_trade_index (cl_events s)) \<Longrightarrow>
   cl_trade_history s = snd (rebuilt_trade_index (cl_events s)) \<Longrightarrow> indices_current s"
  by (simp add: indices_current_def)

text \<open>The state with its indices rebuilt from the log.\<close>

definition reindexed :: "clearing \<Rightarrow> clearing" where
  "reindexed s = s\<lparr>cl_leaderboard := rebuilt_leaderboard (cl_events s),
     cl_traded_volume := fst (rebuilt_trade_index (cl_events s)),
     cl_trade_history := snd (rebuilt_trade_index (cl_events s))\<rparr>"

lemma reindexed_current: "indices_current (reindexed s)"
  by (rule indices_currentI) (simp_all add: reindexed_def)

lemma reindexed_same: "indices_current s \<longleftrightarrow> reindexed s = s"
proof
  assume "indices_current s"
  from indices_currentD [OF this] have "reindexed s = s\<lparr>cl_leaderboard := cl_leaderboard s,
      cl_traded_volume := cl_traded_volume s, cl_trade_history := cl_trade_history s\<rparr>"
    by (simp add: reindexed_def)
  then show "reindexed s = s" by simp
qed (metis reindexed_current)

lemma restore_reindexes:
  assumes "positions_keyed s"
  shows "restore_state (save_state s) = rebuild_reassignment_marks (reindexed s)"
proof -
  have "restore_state (save_state s) = restore_state (save_state (reindexed s))"
    by (simp add: save_state_def reindexed_def)
  also have "\<dots> = rebuild_reassignment_marks (reindexed s)"
    using assms by (intro restore_save reindexed_current) (simp add: positions_keyed_def reindexed_def)
  finally show ?thesis .
qed

text \<open>
  C28. An upgrade loses nothing of what is saved.  At any moment of any schedule, restoring gives the
  state back but for what is not saved: the leaderboard, the traded volumes and the price histories
  are what a rebuild from the event log gives, and the reassignment marks are made anew, so that a
  principal is locked exactly if a reassignment that is not finished names it as the old or the new
  owner.  Apart from these marks the state is unchanged if and only if the three indices agreed with
  the log, and a second upgrade changes nothing more.
\<close>

theorem upgrade_round_trip:
  fixes xs :: clearing_schedule and u :: user and cfg :: config
  defines "s \<equiv> fst (clearing_runs xs (clearing_init cfg, []))"
  defines "t \<equiv> restore_state (save_state s)"
  shows "t = s\<lparr>cl_leaderboard := rebuilt_leaderboard (cl_events s),
        cl_traded_volume := fst (rebuilt_trade_index (cl_events s)),
        cl_trade_history := snd (rebuilt_trade_index (cl_events s)),
        cl_reassignment_marks := cl_reassignment_marks t\<rparr> \<and>
    is_locked t u = under_reassignment (bt_values (cl_reassignment_plans s)) u \<and>
    (indices_current s \<longleftrightarrow> t\<lparr>cl_reassignment_marks := cl_reassignment_marks s\<rparr> = s) \<and>
    restore_state (save_state t) = t"
proof -
  have typed: "well_typed s"
    using typed.installed(1) [OF TrueI honest_True] init_typed by (simp add: keeps_types_def s_def)
  have t: "t = rebuild_reassignment_marks (reindexed s)"
    unfolding t_def by (rule restore_reindexes [OF typed_keyed [OF typed]])
  have marks: "rebuild_reassignment_marks x = x\<lparr>cl_reassignment_marks := cl_reassignment_marks (rebuild_reassignment_marks x)\<rparr>" for x
    by (simp add: rebuild_reassignment_marks_def)
  have first: "t = (reindexed s)\<lparr>cl_reassignment_marks := cl_reassignment_marks t\<rparr>"
    using marks [of "reindexed s"] by (simp only: t)
  have "is_locked t u = under_reassignment (bt_values (cl_reassignment_plans s)) u"
    by (simp add: t is_locked_def mark_of_def rebuilt_marks_get default_mark_def reindexed_def split: option.splits)
  moreover have "indices_current s \<longleftrightarrow> t\<lparr>cl_reassignment_marks := cl_reassignment_marks s\<rparr> = s"
    using reindexed_same [of s] by (subst first) (simp add: reindexed_def)
  moreover have "restore_state (save_state t) = t"
  proof -
    have "well_typed t" using upgrade_typed [OF typed] by (simp add: clearing_upgrade_def t_def)
    moreover have "reindexed t = t" by (simp add: t reindexed_def rebuild_reassignment_marks_def)
    moreover have "rebuild_reassignment_marks t = t" by (simp add: t rebuild_reassignment_marks_def)
    ultimately show ?thesis by (simp add: restore_reindexes typed_keyed)
  qed
  ultimately show ?thesis using first by (simp add: reindexed_def)
qed

end
