(* ===== verification/SeriesRules.thy ===== *)
theory SeriesRules
  imports ClearingState Paging
begin

text \<open>
  The functions of \<open>src/src/shared/src/types/series.rs\<close> on series: the id a series is registered
  under, its status in time, the locale tags, the filters of the listings and their pagination.
\<close>

section \<open>Text of the standard library\<close>

text \<open>
  Case mapping and the escapes of \<open>{:?}\<close> follow tables of the Unicode standard, and the text of a
  principal is computed by the crate \<open>candid\<close>: these functions are parameters.
\<close>

record text_env =
  tx_lowercase :: "string \<Rightarrow> string"
  tx_uppercase :: "string \<Rightarrow> string"
  tx_debug :: "string option \<Rightarrow> string"
  tx_principal :: "principal \<Rightarrow> string"

fun be_bytes :: "nat \<Rightarrow> nat \<Rightarrow> string" where
  "be_bytes 0 n = []"
| "be_bytes (Suc k) n = be_bytes k (n div 256) @ [char_of (n mod 256)]"

definition hex_char :: "nat \<Rightarrow> char" where
  "hex_char d = (if d < 10 then char_of (48 + d) else char_of (87 + d))"

definition hex_encode :: "string \<Rightarrow> string" where
  "hex_encode bs = concat (map (\<lambda>c. [hex_char (byte c div 16), hex_char (byte c mod 16)]) bs)"

lemma length_be_bytes [simp]: "length (be_bytes k n) = k"
  by (induction k n rule: be_bytes.induct) auto

section \<open>Series ids\<close>

fun asset_to_string :: "text_env \<Rightarrow> asset \<Rightarrow> string" where
  "asset_to_string t (Icrc p) = ''ICRC-'' @ tx_principal t p"
| "asset_to_string t (NativeEvm n) = ''NATIVE-'' @ show_nat (unat (nat_chain_id n))"
| "asset_to_string t (Erc20 c) =
     ''ERC20-'' @ show_nat (unat (erc_chain_id c)) @ ''-'' @ erc_token_address c"

fun payout_id_bytes :: "text_env \<Rightarrow> payout_unit \<Rightarrow> string" where
  "payout_id_bytes t (Fiat f) = ''FIAT-'' @ fiat_as_str f"
| "payout_id_bytes t (PayAsset a) = ''ASSET-'' @ tx_uppercase t (asset_to_string t a)"
| "payout_id_bytes t (NonMonetary Points) = ''POINTS''"
| "payout_id_bytes t (NonMonetary (SocialUnit r)) =
     ''SOCIAL-'' @ sr_title r @ ''-'' @ tx_debug t (sr_description r) @ ''-'' @ tx_debug t (sr_icon_url r)"

fun domain_id_bytes :: "balance_domain \<Rightarrow> string" where
  "domain_id_bytes Playground = ''PLAYGROUND''"
| "domain_id_bytes Settlement = ''SETTLEMENT''"
| "domain_id_bytes ViciXp = ''VICI_XP''"
| "domain_id_bytes Social = ''SOCIAL''"

record series_id_params =
  sip_underlying :: string
  sip_expiry_ns :: u64
  sip_start_ns :: "u64 option"
  sip_payoff_type :: payoff_type
  sip_strike :: "price option"
  sip_price_precision :: u8
  sip_payout_unit :: payout_unit
  sip_outcomes :: "outcome list option"
  sip_oracle_source :: string
  sip_balance_domain :: balance_domain
  sip_forked_from :: "series_id option"
  sip_fork_caller :: "principal option"
  sip_fork_index :: "u64 option"

definition u64_bytes :: "u64 \<Rightarrow> string" where
  "u64_bytes n = be_bytes 8 (unat n)"

definition strike_bytes :: "price option \<Rightarrow> string" where
  "strike_bytes strike =
     (case strike of
        Some p \<Rightarrow> be_bytes 16 (unat (price_value p)) @ be_bytes 1 (unat (price_decimals p))
      | None \<Rightarrow> ''NONE'')"

definition outcomes_bytes :: "outcome list option \<Rightarrow> string" where
  "outcomes_bytes outs =
     (case outs of Some os \<Rightarrow> concat (map (\<lambda>o1. out_id o1 @ '','') os) | None \<Rightarrow> ''NONE'')"

definition fork_bytes :: "series_id_params \<Rightarrow> string" where
  "fork_bytes p =
     (case sip_forked_from p of
        None \<Rightarrow> []
      | Some source \<Rightarrow>
          ''|FORKED_FROM|'' @ source @
          (case sip_fork_caller p of None \<Rightarrow> [] | Some c \<Rightarrow> ''|FORK_CALLER|'' @ c) @
          (case sip_fork_index p of None \<Rightarrow> [] | Some i \<Rightarrow> ''|FORK_INDEX|'' @ u64_bytes i))"

text \<open>What is hashed, in the order of the \<open>update\<close> calls.\<close>

definition id_preimage :: "text_env \<Rightarrow> series_id_params \<Rightarrow> string" where
  "id_preimage t p =
     (if sip_forked_from p \<noteq> None then ''DERIV_SERIES_V4'' else ''DERIV_SERIES_V3'') @
     ''|DOMAIN|'' @ domain_id_bytes (sip_balance_domain p) @
     ''|UNDERLYING|'' @ sip_underlying p @
     ''|EXPIRY|'' @ u64_bytes (sip_expiry_ns p) @
     (case sip_start_ns p of None \<Rightarrow> [] | Some s \<Rightarrow> ''|START|'' @ u64_bytes s) @
     ''|PAYOFF|'' @ payoff_id_bytes (sip_payoff_type p) @
     ''|STRIKE|'' @ strike_bytes (sip_strike p) @
     ''|PRECISION|'' @ be_bytes 1 (unat (sip_price_precision p)) @
     ''|PAYOUT_UNIT|'' @ payout_id_bytes t (sip_payout_unit p) @
     ''|OUTCOMES|'' @ outcomes_bytes (sip_outcomes p) @
     ''|ORACLE|'' @ sip_oracle_source p @ fork_bytes p"

definition generate_id :: "env \<Rightarrow> text_env \<Rightarrow> series_id_params \<Rightarrow> series_id" where
  "generate_id e t p = hex_encode (env_sha256 e (id_preimage t p))"

section \<open>Status in time\<close>

datatype series_status = Upcoming | Live | Expired

definition series_status_at :: "series \<Rightarrow> u64 \<Rightarrow> series_status" where
  "series_status_at ser now =
     (if ser_expiry_ns ser \<le> now then Expired
      else if (case ser_start_ns ser of None \<Rightarrow> False | Some start \<Rightarrow> now < start) then Upcoming
      else Live)"

definition is_tradeable_at :: "series \<Rightarrow> u64 \<Rightarrow> bool" where
  "is_tradeable_at ser now = (series_status_at ser now = Live)"

definition has_resolvable_payoff :: "series \<Rightarrow> bool" where
  "has_resolvable_payoff ser =
     (case ser_payoff_type ser of
        Binary \<Rightarrow> True
      | Call \<Rightarrow> ser_strike ser \<noteq> None
      | Put \<Rightarrow> ser_strike ser \<noteq> None
      | Categorical \<Rightarrow> (case ser_outcomes ser of None \<Rightarrow> False | Some os \<Rightarrow> os \<noteq> []))"

section \<open>Locale tags\<close>

definition is_valid_locale :: "string \<Rightarrow> bool" where
  "is_valid_locale locale_tag =
     (if locale_tag = [] \<or> MAX_LOCALE_LEN < char_count locale_tag then False
      else if \<not> is_ascii locale_tag then False
      else case str_split (CHR ''-'') locale_tag of
             [] \<Rightarrow> False
           | primary # subtags \<Rightarrow>
               (length primary = 2 \<or> length primary = 3) \<and> list_all is_ascii_alphabetic primary \<and>
               list_all (\<lambda>t. 2 \<le> length t \<and> length t \<le> 8 \<and> list_all is_ascii_alphanumeric t)
                 subtags)"

section \<open>Listings\<close>

record pagination_params =
  pag_limit :: "u64 option"
  pag_cursor :: "series_id option"

record list_series_params =
  lsp_underlying :: "string option"
  lsp_balance_domain :: "balance_domain option"
  lsp_payoff_type :: "payoff_type option"
  lsp_strike :: "price option"
  lsp_payout_unit :: "payout_unit option"
  lsp_oracle_source :: "string option"
  lsp_creator :: "principal option"
  lsp_search_term :: "string option"
  lsp_only_unexpired :: "bool option"
  lsp_tradeable_now :: "bool option"
  lsp_due :: "bool option"
  lsp_pagination :: "pagination_params option"

text \<open>A filter that is not set lets every series pass.\<close>

definition passes :: "'a option \<Rightarrow> ('a \<Rightarrow> bool) \<Rightarrow> bool" where
  "passes f test = (case f of None \<Rightarrow> True | Some v \<Rightarrow> test v)"

definition matches_search :: "text_env \<Rightarrow> series \<Rightarrow> string \<Rightarrow> bool" where
  "matches_search t ser term =
     (let low = tx_lowercase t; term = low term
      in str_contains (low (ser_title ser)) term \<or>
         str_contains (low (desc_plain (ser_description ser))) term \<or>
         str_contains (low (ser_series_id ser)) term)"

definition matches :: "text_env \<Rightarrow> list_series_params \<Rightarrow> series \<Rightarrow> bool" where
  "matches t p ser =
     (let low = tx_lowercase t
      in passes (lsp_underlying p) (\<lambda>u. low (ser_underlying ser) = low u) \<and>
         passes (lsp_balance_domain p) (\<lambda>d. ser_balance_domain ser = d) \<and>
         passes (lsp_payoff_type p) (\<lambda>k. ser_payoff_type ser = k) \<and>
         passes (lsp_strike p) (\<lambda>s. ser_strike ser = Some s) \<and>
         passes (lsp_payout_unit p) (\<lambda>u. ser_payout_unit ser = u) \<and>
         passes (lsp_oracle_source p) (\<lambda>o1. str_contains (low (ser_oracle_source ser)) (low o1)) \<and>
         passes (lsp_creator p) (\<lambda>c. ser_creator ser = c) \<and>
         passes (lsp_search_term p) (matches_search t ser))"

definition matches_expiry :: "list_series_params \<Rightarrow> series \<Rightarrow> u64 \<Rightarrow> bool" where
  "matches_expiry p ser now = (if lsp_only_unexpired p = Some True then now < ser_expiry_ns ser else True)"

definition matches_tradeable_now :: "list_series_params \<Rightarrow> series \<Rightarrow> u64 \<Rightarrow> bool" where
  "matches_tradeable_now p ser now =
     (if lsp_tradeable_now p = Some True then is_tradeable_at ser now else True)"

definition matches_due :: "list_series_params \<Rightarrow> series \<Rightarrow> u64 \<Rightarrow> bool" where
  "matches_due p ser now =
     (if lsp_due p = Some True
      then ser_expiry_ns ser \<le> now \<and> trim (res_clause (ser_resolution ser)) \<noteq> [] \<and>
           has_resolvable_payoff ser
      else True)"

definition matches_time :: "list_series_params \<Rightarrow> series \<Rightarrow> u64 \<Rightarrow> bool" where
  "matches_time p ser now =
     (matches_expiry p ser now \<and> matches_tradeable_now p ser now \<and> matches_due p ser now)"

text \<open>\<open>PaginationParams::apply\<close>: skip to the cursor, take a page, name the next cursor.\<close>

definition apply_pagination ::
  "pagination_params option \<Rightarrow> (series_id \<times> series) list \<Rightarrow> series list \<times> series_id option" where
  "apply_pagination p it =
     (let cursor = (case p of None \<Rightarrow> None | Some pg \<Rightarrow> pag_cursor pg);
          limit = page_limit (case p of None \<Rightarrow> None | Some pg \<Rightarrow> pag_limit pg);
          rest = dropWhile (\<lambda>(i, _). case cursor of None \<Rightarrow> False | Some c \<Rightarrow> i \<le> c) it
      in case cut_page fst limit rest of (items, next_cursor) \<Rightarrow> (map snd items, next_cursor))"

section \<open>Facts\<close>

text \<open>The status of a series only moves forward.\<close>

fun status_rank :: "series_status \<Rightarrow> nat" where
  "status_rank Upcoming = 0" | "status_rank Live = 1" | "status_rank Expired = 2"

lemma status_monotone:
  "now \<le> later \<Longrightarrow>
   status_rank (series_status_at ser now) \<le> status_rank (series_status_at ser later)"
  by (auto simp: series_status_at_def split: option.splits)

end
