(* ===== verification/RegistryState.thy ===== *)
theory RegistryState
  imports SeriesRules
begin

text \<open>
  The state of the registry canister (\<open>src/src/registry/src/memory.rs\<close>), the types of its groups,
  engines and oracles (\<open>types/groups.rs\<close>, \<open>types/engine.rs\<close>, \<open>types/oracle.rs\<close> of the shared crate)
  and its guards (\<open>guards.rs\<close>, \<open>utils.rs\<close>).  A call whose guard rejects the caller runs no code.
\<close>

section \<open>Groups, engines and oracles\<close>

record group =
  grp_group_id :: group_id
  grp_name :: string
  grp_description :: "string option"
  grp_icon_url :: "string option"
  grp_creator :: principal
  grp_admins :: "principal btset"
  grp_members :: "principal btset"
  grp_created_at_ns :: u64
  grp_updated_at_ns :: u64
  grp_updated_by :: principal

datatype engine_role = Creator | OracleAdmin

fun role_rank :: "engine_role \<Rightarrow> nat" where
  "role_rank Creator = 0" | "role_rank OracleAdmin = 1"

lemma role_rank_inj [simp]: "role_rank a = role_rank b \<longleftrightarrow> a = b"
  by (cases a; cases b) auto

instantiation engine_role :: linorder
begin

definition less_eq_engine_role :: "engine_role \<Rightarrow> engine_role \<Rightarrow> bool" where
  "less_eq_engine_role a b = (role_rank a \<le> role_rank b)"

definition less_engine_role :: "engine_role \<Rightarrow> engine_role \<Rightarrow> bool" where
  "less_engine_role a b = (role_rank a < role_rank b)"

instance
  by standard (auto simp: less_eq_engine_role_def less_engine_role_def)

end

record role_grant =
  rgt_grantee :: principal
  rgt_role :: engine_role
  rgt_granted_by :: principal
  rgt_granted_at_ns :: u64

record engine =
  eng_engine_id :: engine_id
  eng_name :: string
  eng_description :: "string option"
  eng_icon_url :: "string option"
  eng_creator :: principal
  eng_admins :: "principal btset"
  eng_allowed_roles :: "engine_role btset"
  eng_role_grants :: "role_grant list"
  eng_social_limits :: "social_limits option"
  eng_created_at_ns :: u64
  eng_updated_at_ns :: u64
  eng_updated_by :: principal

record oracle_metadata =
  om_name :: string
  om_website :: "string option"
  om_description :: "description option"

record price_oracle =
  orc_oracle_id :: string
  orc_metadata :: oracle_metadata
  orc_authorized_principals :: "principal btset"
  orc_manager :: principal
  orc_registered_at_ns :: u64

section \<open>The state\<close>

record registry =
  reg_series :: "(series_id, series) btmap"
  reg_oracles :: "(string, price_oracle) btmap"
  reg_groups :: "(group_id, group) btmap"
  reg_next_group_id :: u64
  reg_social_log :: "(principal, u64 list) btmap"
  reg_social_limits :: social_limits
  reg_engines :: "(engine_id, engine) btmap"
  reg_next_engine_id :: u64

definition registry_empty :: registry where
  "registry_empty =
     \<lparr> reg_series = [], reg_oracles = [], reg_groups = [], reg_next_group_id = 0,
       reg_social_log = [], reg_social_limits = default_social_limits, reg_engines = [],
       reg_next_engine_id = 0 \<rparr>"

section \<open>Guards\<close>

definition registry_caller_is_not_anonymous :: "principal \<Rightarrow> bool" where
  "registry_caller_is_not_anonymous caller = (caller \<noteq> anonymous)"

definition registry_caller_is_controller :: "env \<Rightarrow> principal \<Rightarrow> bool" where
  "registry_caller_is_controller e caller = env_is_controller e caller"

definition behind :: "bool \<Rightarrow> (registry \<Rightarrow> ('e, 'a) result \<times> registry) \<Rightarrow> registry \<Rightarrow>
    ('e, 'a) result \<times> registry" where
  "behind ok body r = (if ok then body r else (Trap, r))"

definition engine_grants :: "engine \<Rightarrow> principal \<Rightarrow> engine_role \<Rightarrow> bool" where
  "engine_grants eng p role =
     (role \<in> set (eng_allowed_roles eng) \<and>
      list_ex (\<lambda>g. rgt_grantee g = p \<and> rgt_role g = role) (eng_role_grants eng))"

definition has_engine_role :: "registry \<Rightarrow> principal \<Rightarrow> engine_role \<Rightarrow> bool" where
  "has_engine_role r p role = list_ex (\<lambda>eng. engine_grants eng p role) (bt_values (reg_engines r))"

definition has_engine_role_on :: "registry \<Rightarrow> principal \<Rightarrow> engine_role \<Rightarrow> engine_id \<Rightarrow> bool" where
  "has_engine_role_on r p role eid =
     (case bt_get (reg_engines r) eid of None \<Rightarrow> False | Some eng \<Rightarrow> engine_grants eng p role)"

definition is_engine_creator :: "env \<Rightarrow> registry \<Rightarrow> principal \<Rightarrow> bool" where
  "is_engine_creator e r p = (env_is_controller e p \<or> has_engine_role r p Creator)"

definition is_engine_oracle_admin :: "env \<Rightarrow> registry \<Rightarrow> principal \<Rightarrow> bool" where
  "is_engine_oracle_admin e r p = (env_is_controller e p \<or> has_engine_role r p OracleAdmin)"

section \<open>Identifiers\<close>

fun has_whitespace :: "string \<Rightarrow> bool" where
  "has_whitespace [] = False"
| "has_whitespace (c # s) = (strip_any utf8_whitespace (c # s) \<noteq> None \<or> has_whitespace s)"

definition is_id_char :: "char \<Rightarrow> bool" where
  "is_id_char c = (is_ascii_alphanumeric c \<or> c = CHR ''_'' \<or> c = CHR ''-'')"

text \<open>\<open>None\<close> is the trap on whitespace or on an invalid character.\<close>

definition canonical_id_part :: "string \<Rightarrow> string option" where
  "canonical_id_part s =
     (let trimmed = to_ascii_uppercase (trim s)
      in if has_whitespace trimmed then None
         else if \<not> list_all is_id_char trimmed then None
         else Some trimmed)"

text \<open>Two decimal numerals are equal only if the numbers are: reading one gives the number back.\<close>

definition read_nat :: "string \<Rightarrow> nat" where
  "read_nat = foldl (\<lambda>n c. 10 * n + (byte c - 48)) 0"

lemma read_show_nat [simp]: "read_nat (show_nat n) = n"
proof (induction n rule: show_nat.induct)
  case (1 n)
  show ?case
  proof (cases "n < 10")
    case True
    then show ?thesis by (subst show_nat.simps) (simp add: read_nat_def byte_def)
  next
    case False
    have "byte (char_of (48 + n mod 10)) = 48 + n mod 10" by (simp add: byte_def)
    with False 1 show ?thesis
      by (subst show_nat.simps) (simp add: read_nat_def)
  qed
qed

lemma show_nat_inj [simp]: "show_nat a = show_nat b \<longleftrightarrow> a = b"
  by (metis read_show_nat)

end
