(* ===== verification/RegistryGroups.thy ===== *)
theory RegistryGroups
  imports RegistryState
begin

text \<open>
  \<open>src/src/registry/src/api/groups.rs\<close>: the closed circles, their admins and members, and who may
  see and trade a series.
\<close>

datatype group_error =
    GroupNotFound | GroupUnauthorized | GroupNameTooLong | GroupAlreadyExists
  | GroupSeriesNotFound | EmptyTradingAccess

definition MAX_GROUP_NAME_LEN :: nat where "MAX_GROUP_NAME_LEN = 128"

definition caller_is_group_admin :: "env \<Rightarrow> group \<Rightarrow> principal \<Rightarrow> bool" where
  "caller_is_group_admin e g caller =
     (env_is_controller e caller \<or> caller = grp_creator g \<or> caller \<in> set (grp_admins g))"

definition stamp_audit :: "env \<Rightarrow> principal \<Rightarrow> group \<Rightarrow> group" where
  "stamp_audit e caller g = g\<lparr>grp_updated_at_ns := env_now e, grp_updated_by := caller\<rparr>"

section \<open>Lifecycle\<close>

record create_group_params =
  cgp_name :: string
  cgp_description :: "string option"
  cgp_icon_url :: "string option"

definition group_id_of :: "u64 \<Rightarrow> group_id" where
  "group_id_of n = ''grp_'' @ show_nat (unat n)"

definition new_group :: "env \<Rightarrow> principal \<Rightarrow> create_group_params \<Rightarrow> group_id \<Rightarrow> group" where
  "new_group e caller x gid =
     \<lparr> grp_group_id = gid, grp_name = cgp_name x, grp_description = cgp_description x,
       grp_icon_url = cgp_icon_url x, grp_creator = caller, grp_admins = [],
       grp_members = bs_insert caller [], grp_created_at_ns = env_now e,
       grp_updated_at_ns = env_now e, grp_updated_by = caller \<rparr>"

definition create_group ::
  "env \<Rightarrow> principal \<Rightarrow> create_group_params \<Rightarrow> registry \<Rightarrow> (group_error, group_id) result \<times> registry"
where
  "create_group e caller x =
     behind (registry_caller_is_not_anonymous caller) (\<lambda>r.
       if MAX_GROUP_NAME_LEN < char_count (cgp_name x) then (Err GroupNameTooLong, r)
       else let gid = group_id_of (reg_next_group_id r)
            in (Ok gid,
                r\<lparr>reg_next_group_id := reg_next_group_id r + 1,
                  reg_groups := bt_insert gid (new_group e caller x gid) (reg_groups r)\<rparr>))"

text \<open>What every call that changes an existing group does: find it, check the caller, change it.\<close>

definition edit_group ::
  "env \<Rightarrow> principal \<Rightarrow> group_id \<Rightarrow> (group \<Rightarrow> group) \<Rightarrow> registry \<Rightarrow> (group_error, bool) result \<times> registry"
where
  "edit_group e caller gid f r =
     (case bt_get (reg_groups r) gid of
        None \<Rightarrow> (Err GroupNotFound, r)
      | Some g \<Rightarrow>
          if \<not> caller_is_group_admin e g caller then (Err GroupUnauthorized, r)
          else (Ok True,
                r\<lparr>reg_groups := bt_insert gid (stamp_audit e caller (f g)) (reg_groups r)\<rparr>))"

record update_group_params =
  ugp_group_id :: group_id
  ugp_name :: "string option"
  ugp_description :: "string option option"
  ugp_icon_url :: "string option option"

definition or_keep :: "'a option \<Rightarrow> 'a \<Rightarrow> 'a" where
  "or_keep new old = (case new of None \<Rightarrow> old | Some v \<Rightarrow> v)"

definition update_group ::
  "env \<Rightarrow> principal \<Rightarrow> update_group_params \<Rightarrow> registry \<Rightarrow> (group_error, bool) result \<times> registry" where
  "update_group e caller x =
     behind (registry_caller_is_not_anonymous caller) (\<lambda>r.
       if (case ugp_name x of None \<Rightarrow> False | Some n \<Rightarrow> MAX_GROUP_NAME_LEN < char_count n)
       then (Err GroupNameTooLong, r)
       else edit_group e caller (ugp_group_id x)
              (\<lambda>g. g\<lparr>grp_name := or_keep (ugp_name x) (grp_name g),
                     grp_description := or_keep (ugp_description x) (grp_description g),
                     grp_icon_url := or_keep (ugp_icon_url x) (grp_icon_url g)\<rparr>) r)"

definition delete_group ::
  "env \<Rightarrow> principal \<Rightarrow> group_id \<Rightarrow> registry \<Rightarrow> (group_error, bool) result \<times> registry" where
  "delete_group e caller gid =
     behind (registry_caller_is_not_anonymous caller) (\<lambda>r.
       case bt_get (reg_groups r) gid of
         None \<Rightarrow> (Err GroupNotFound, r)
       | Some g \<Rightarrow>
           if \<not> caller_is_group_admin e g caller then (Err GroupUnauthorized, r)
           else (Ok True, r\<lparr>reg_groups := bt_remove gid (reg_groups r)\<rparr>))"

section \<open>Admins and members\<close>

record update_principals_params =
  upp_group_id :: group_id
  upp_principals :: "principal list"

definition add_group_admins ::
  "env \<Rightarrow> principal \<Rightarrow> update_principals_params \<Rightarrow> registry \<Rightarrow> (group_error, bool) result \<times> registry"
where
  "add_group_admins e caller x =
     behind (registry_caller_is_not_anonymous caller)
       (edit_group e caller (upp_group_id x)
          (\<lambda>g. g\<lparr>grp_admins := fold bs_insert (upp_principals x) (grp_admins g)\<rparr>))"

definition remove_group_admins ::
  "env \<Rightarrow> principal \<Rightarrow> update_principals_params \<Rightarrow> registry \<Rightarrow> (group_error, bool) result \<times> registry"
where
  "remove_group_admins e caller x =
     behind (registry_caller_is_not_anonymous caller)
       (edit_group e caller (upp_group_id x)
          (\<lambda>g. g\<lparr>grp_admins := fold bs_remove (upp_principals x) (grp_admins g)\<rparr>))"

definition add_group_members ::
  "env \<Rightarrow> principal \<Rightarrow> update_principals_params \<Rightarrow> registry \<Rightarrow> (group_error, bool) result \<times> registry"
where
  "add_group_members e caller x =
     behind (registry_caller_is_not_anonymous caller)
       (edit_group e caller (upp_group_id x)
          (\<lambda>g. g\<lparr>grp_members := fold bs_insert (upp_principals x) (grp_members g)\<rparr>))"

definition remove_group_members ::
  "env \<Rightarrow> principal \<Rightarrow> update_principals_params \<Rightarrow> registry \<Rightarrow> (group_error, bool) result \<times> registry"
where
  "remove_group_members e caller x =
     behind (registry_caller_is_not_anonymous caller)
       (edit_group e caller (upp_group_id x)
          (\<lambda>g. g\<lparr>grp_members := fold bs_remove (upp_principals x) (grp_members g)\<rparr>))"

section \<open>Queries\<close>

definition get_group :: "group_id \<Rightarrow> registry \<Rightarrow> group option" where
  "get_group gid r = bt_get (reg_groups r) gid"

definition list_groups :: "principal option \<Rightarrow> registry \<Rightarrow> group list" where
  "list_groups creator r =
     (case creator of
        Some c \<Rightarrow> filter (\<lambda>g. grp_creator g = c) (bt_values (reg_groups r))
      | None \<Rightarrow> bt_values (reg_groups r))"

definition is_group_member :: "group_id \<Rightarrow> principal \<Rightarrow> registry \<Rightarrow> bool" where
  "is_group_member gid p r =
     (case bt_get (reg_groups r) gid of None \<Rightarrow> False | Some g \<Rightarrow> p \<in> set (grp_members g))"

section \<open>Trading access\<close>

text \<open>The loop over the policies: the first that grants access ends it.\<close>

fun access_granted :: "registry \<Rightarrow> principal \<Rightarrow> trading_access list \<Rightarrow> bool" where
  "access_granted r p [] = False"
| "access_granted r p (Open # ps) = True"
| "access_granted r p (Restricted groups # ps) =
     (if list_ex (\<lambda>gid. is_group_member gid p r) groups then True else access_granted r p ps)"

definition can_principal_see_series :: "env \<Rightarrow> registry \<Rightarrow> series \<Rightarrow> principal \<Rightarrow> bool" where
  "can_principal_see_series e r ser p =
     (if env_is_controller e p then True
      else if ser_creator ser = p then True
      else access_granted r p (ser_trading_access ser))"

definition registry_is_trading_authorized :: "env \<Rightarrow> principal \<Rightarrow> series_id \<Rightarrow> registry \<Rightarrow> bool" where
  "registry_is_trading_authorized e p sid r =
     (if env_is_controller e p then True
      else case bt_get (reg_series r) sid of
             None \<Rightarrow> False
           | Some ser \<Rightarrow> access_granted r p (ser_trading_access ser))"

record update_trading_access_params =
  uta_series_id :: series_id
  uta_trading_access :: "trading_access list"

definition update_trading_access ::
  "env \<Rightarrow> principal \<Rightarrow> update_trading_access_params \<Rightarrow> registry \<Rightarrow>
     (group_error, bool) result \<times> registry" where
  "update_trading_access e caller x =
     behind (registry_caller_is_not_anonymous caller) (\<lambda>r.
       if \<not> env_is_controller e caller then (Err GroupUnauthorized, r)
       else if uta_trading_access x = [] then (Err EmptyTradingAccess, r)
       else case bt_get (reg_series r) (uta_series_id x) of
              None \<Rightarrow> (Err GroupSeriesNotFound, r)
            | Some ser \<Rightarrow>
                (Ok True,
                 r\<lparr>reg_series := bt_insert (uta_series_id x)
                      (ser\<lparr>ser_trading_access := uta_trading_access x\<rparr>) (reg_series r)\<rparr>))"

section \<open>Facts\<close>

lemma access_granted_iff:
  "access_granted r p ps \<longleftrightarrow>
     (\<exists>policy\<in>set ps. policy = Open \<or>
        (\<exists>groups gid. policy = Restricted groups \<and> gid \<in> set groups \<and> is_group_member gid p r))"
  by (induction r p ps rule: access_granted.induct) (auto simp: list_ex_iff)

lemma group_id_of_inj [simp]: "group_id_of a = group_id_of b \<longleftrightarrow> a = b"
  by (simp add: group_id_of_def word_unat_eq_iff)

end
