(* ===== verification/RegistryEngines.thy ===== *)
theory RegistryEngines
  imports RegistryGroups
begin

text \<open>
  \<open>api/engines.rs\<close> and \<open>api/oracles.rs\<close> of the registry: the engines with their admins and role
  grants, and the oracles with the principals that may settle.
\<close>

section \<open>Engines\<close>

datatype engine_error =
    EngineNotFound | EngineUnauthorized | EngineNameTooLong | EngineAlreadyExists
  | RoleNotAllowed | RoleAlreadyGranted | RoleNotGranted | CannotRemoveCreator

definition MAX_ENGINE_NAME_LEN :: nat where "MAX_ENGINE_NAME_LEN = 128"

definition is_engine_admin :: "env \<Rightarrow> engine \<Rightarrow> principal \<Rightarrow> bool" where
  "is_engine_admin e eng p =
     (env_is_controller e p \<or> p = eng_creator eng \<or> p \<in> set (eng_admins eng))"

record register_engine_params =
  rep_name :: string
  rep_description :: "string option"
  rep_icon_url :: "string option"
  rep_admins :: "principal list"
  rep_allowed_roles :: "engine_role list"

definition engine_id_of :: "u64 \<Rightarrow> engine_id" where
  "engine_id_of n = ''eng_'' @ show_nat (unat n)"

definition new_engine :: "env \<Rightarrow> principal \<Rightarrow> register_engine_params \<Rightarrow> engine_id \<Rightarrow> engine" where
  "new_engine e caller x eid =
     \<lparr> eng_engine_id = eid, eng_name = rep_name x, eng_description = rep_description x,
       eng_icon_url = rep_icon_url x, eng_creator = caller,
       eng_admins = bs_insert caller (bs_of_list (rep_admins x)),
       eng_allowed_roles = bs_of_list (rep_allowed_roles x), eng_role_grants = [],
       eng_social_limits = None, eng_created_at_ns = env_now e, eng_updated_at_ns = env_now e,
       eng_updated_by = caller \<rparr>"

definition register_engine ::
  "env \<Rightarrow> principal \<Rightarrow> register_engine_params \<Rightarrow> registry \<Rightarrow>
     (engine_error, engine_id) result \<times> registry" where
  "register_engine e caller x =
     behind (registry_caller_is_controller e caller) (\<lambda>r.
       if MAX_ENGINE_NAME_LEN < char_count (rep_name x) then (Err EngineNameTooLong, r)
       else if list_ex (\<lambda>eng. eng_name eng = rep_name x) (bt_values (reg_engines r))
       then (Err EngineAlreadyExists, r)
       else let eid = engine_id_of (reg_next_engine_id r)
            in (Ok eid,
                r\<lparr>reg_next_engine_id := reg_next_engine_id r + 1,
                  reg_engines := bt_insert eid (new_engine e caller x eid) (reg_engines r)\<rparr>))"

definition stamp_engine :: "env \<Rightarrow> principal \<Rightarrow> engine \<Rightarrow> engine" where
  "stamp_engine e caller eng = eng\<lparr>eng_updated_at_ns := env_now e, eng_updated_by := caller\<rparr>"

text \<open>
  What the calls that change an existing engine do: find it, check the caller, check what the
  call asks for, change the engine and stamp it.
\<close>

definition edit_engine ::
  "env \<Rightarrow> principal \<Rightarrow> engine_id \<Rightarrow> (engine \<Rightarrow> (engine_error, engine) result) \<Rightarrow> registry \<Rightarrow>
     (engine_error, unit) result \<times> registry" where
  "edit_engine e caller eid f r =
     (case bt_get (reg_engines r) eid of
        None \<Rightarrow> (Err EngineNotFound, r)
      | Some eng \<Rightarrow>
          if \<not> is_engine_admin e eng caller then (Err EngineUnauthorized, r)
          else case f eng of
                 Err err \<Rightarrow> (Err err, r)
               | Trap \<Rightarrow> (Trap, r)
               | Ok eng' \<Rightarrow>
                   (Ok (),
                    r\<lparr>reg_engines := bt_insert eid (stamp_engine e caller eng') (reg_engines r)\<rparr>))"

record update_engine_params =
  uep_engine_id :: engine_id
  uep_name :: "string option"
  uep_description :: "string option option"
  uep_icon_url :: "string option option"

definition check_engine_name ::
  "engine_id \<Rightarrow> string option \<Rightarrow> registry \<Rightarrow> (engine_error, unit) result" where
  "check_engine_name eid name r =
     (case name of
        None \<Rightarrow> Ok ()
      | Some n \<Rightarrow>
          if MAX_ENGINE_NAME_LEN < char_count n then Err EngineNameTooLong
          else if list_ex (\<lambda>(i, eng). i \<noteq> eid \<and> eng_name eng = n) (reg_engines r)
          then Err EngineAlreadyExists else Ok ())"

definition update_engine ::
  "env \<Rightarrow> principal \<Rightarrow> update_engine_params \<Rightarrow> registry \<Rightarrow> (engine_error, unit) result \<times> registry" where
  "update_engine e caller x =
     behind (registry_caller_is_not_anonymous caller) (\<lambda>r.
       edit_engine e caller (uep_engine_id x)
         (\<lambda>eng. obind (check_engine_name (uep_engine_id x) (uep_name x) r) (\<lambda>_.
            Ok (eng\<lparr>eng_name := or_keep (uep_name x) (eng_name eng),
                    eng_description := or_keep (uep_description x) (eng_description eng),
                    eng_icon_url := or_keep (uep_icon_url x) (eng_icon_url eng)\<rparr>))) r)"

definition update_engine_allowed_roles ::
  "env \<Rightarrow> principal \<Rightarrow> engine_id \<Rightarrow> engine_role list \<Rightarrow> registry \<Rightarrow>
     (engine_error, unit) result \<times> registry" where
  "update_engine_allowed_roles e caller eid roles =
     behind (registry_caller_is_controller e caller) (\<lambda>r.
       case bt_get (reg_engines r) eid of
         None \<Rightarrow> (Err EngineNotFound, r)
       | Some eng \<Rightarrow>
           (Ok (),
            r\<lparr>reg_engines := bt_insert eid
                 (stamp_engine e caller (eng\<lparr>eng_allowed_roles := bs_of_list roles\<rparr>))
                 (reg_engines r)\<rparr>))"

definition granted_to :: "principal \<Rightarrow> engine_role \<Rightarrow> role_grant \<Rightarrow> bool" where
  "granted_to p role g = (rgt_grantee g = p \<and> rgt_role g = role)"

definition grant_engine_role ::
  "env \<Rightarrow> principal \<Rightarrow> engine_id \<Rightarrow> principal \<Rightarrow> engine_role \<Rightarrow> registry \<Rightarrow>
     (engine_error, unit) result \<times> registry" where
  "grant_engine_role e caller eid grantee role =
     behind (registry_caller_is_not_anonymous caller)
       (edit_engine e caller eid (\<lambda>eng.
          if role \<notin> set (eng_allowed_roles eng) then Err RoleNotAllowed
          else if list_ex (granted_to grantee role) (eng_role_grants eng) then Err RoleAlreadyGranted
          else Ok (eng\<lparr>eng_role_grants := eng_role_grants eng @
                 [\<lparr> rgt_grantee = grantee, rgt_role = role, rgt_granted_by = caller,
                    rgt_granted_at_ns = env_now e \<rparr>]\<rparr>)))"

definition revoke_engine_role ::
  "env \<Rightarrow> principal \<Rightarrow> engine_id \<Rightarrow> principal \<Rightarrow> engine_role \<Rightarrow> registry \<Rightarrow>
     (engine_error, unit) result \<times> registry" where
  "revoke_engine_role e caller eid grantee role =
     behind (registry_caller_is_not_anonymous caller)
       (edit_engine e caller eid (\<lambda>eng.
          let kept = filter (\<lambda>g. \<not> granted_to grantee role g) (eng_role_grants eng)
          in if length kept = length (eng_role_grants eng) then Err RoleNotGranted
             else Ok (eng\<lparr>eng_role_grants := kept\<rparr>)))"

definition add_engine_admins ::
  "env \<Rightarrow> principal \<Rightarrow> engine_id \<Rightarrow> principal list \<Rightarrow> registry \<Rightarrow> (engine_error, unit) result \<times> registry"
where
  "add_engine_admins e caller eid ps =
     behind (registry_caller_is_not_anonymous caller)
       (edit_engine e caller eid (\<lambda>eng.
          Ok (eng\<lparr>eng_admins := fold bs_insert ps (eng_admins eng)\<rparr>)))"

definition remove_engine_admins ::
  "env \<Rightarrow> principal \<Rightarrow> engine_id \<Rightarrow> principal list \<Rightarrow> registry \<Rightarrow> (engine_error, unit) result \<times> registry"
where
  "remove_engine_admins e caller eid ps =
     behind (registry_caller_is_not_anonymous caller)
       (edit_engine e caller eid (\<lambda>eng.
          if eng_creator eng \<in> set ps then Err CannotRemoveCreator
          else Ok (eng\<lparr>eng_admins := fold bs_remove ps (eng_admins eng)\<rparr>)))"

definition get_engine :: "engine_id \<Rightarrow> registry \<Rightarrow> engine option" where
  "get_engine eid r = bt_get (reg_engines r) eid"

definition list_engines :: "registry \<Rightarrow> engine list" where
  "list_engines r = bt_values (reg_engines r)"

section \<open>Oracles\<close>

datatype oracle_error = OracleAlreadyExists | OracleNotFound | UnauthorizedOracleManager

record add_oracle_params =
  aop_oracle_id :: string
  aop_metadata :: oracle_metadata
  aop_authorized_principals :: "principal list"

definition add_oracle ::
  "env \<Rightarrow> principal \<Rightarrow> add_oracle_params \<Rightarrow> registry \<Rightarrow> (oracle_error, unit) result \<times> registry" where
  "add_oracle e caller x =
     behind (registry_caller_is_not_anonymous caller) (\<lambda>r.
       if \<not> is_engine_oracle_admin e r caller then (Err UnauthorizedOracleManager, r)
       else case canonical_id_part (aop_oracle_id x) of
              None \<Rightarrow> (Trap, r)
            | Some oid \<Rightarrow>
                if bt_contains_key (reg_oracles r) oid then (Err OracleAlreadyExists, r)
                else (Ok (),
                  r\<lparr>reg_oracles := bt_insert oid
                       \<lparr> orc_oracle_id = oid, orc_metadata = aop_metadata x,
                         orc_authorized_principals = bs_of_list (aop_authorized_principals x),
                         orc_manager = caller, orc_registered_at_ns = env_now e \<rparr>
                       (reg_oracles r)\<rparr>))"

definition edit_oracle ::
  "env \<Rightarrow> principal \<Rightarrow> string \<Rightarrow> (price_oracle \<Rightarrow> price_oracle) \<Rightarrow> registry \<Rightarrow>
     (oracle_error, unit) result \<times> registry" where
  "edit_oracle e caller oid f r =
     (case bt_get (reg_oracles r) oid of
        None \<Rightarrow> (Err OracleNotFound, r)
      | Some orc \<Rightarrow>
          if \<not> env_is_controller e caller \<and> caller \<noteq> orc_manager orc \<and>
             \<not> is_engine_oracle_admin e r caller
          then (Err UnauthorizedOracleManager, r)
          else (Ok (), r\<lparr>reg_oracles := bt_insert oid (f orc) (reg_oracles r)\<rparr>))"

definition update_oracle_metadata ::
  "env \<Rightarrow> principal \<Rightarrow> string \<Rightarrow> oracle_metadata \<Rightarrow> registry \<Rightarrow> (oracle_error, unit) result \<times> registry"
where
  "update_oracle_metadata e caller oid md =
     behind (registry_caller_is_not_anonymous caller)
       (edit_oracle e caller oid (\<lambda>orc. orc\<lparr>orc_metadata := md\<rparr>))"

definition manage_oracle_principals ::
  "env \<Rightarrow> principal \<Rightarrow> string \<Rightarrow> principal list \<Rightarrow> principal list \<Rightarrow> registry \<Rightarrow>
     (oracle_error, unit) result \<times> registry" where
  "manage_oracle_principals e caller oid adds removes =
     behind (registry_caller_is_not_anonymous caller)
       (edit_oracle e caller oid (\<lambda>orc.
          orc\<lparr>orc_authorized_principals :=
                fold bs_remove removes (fold bs_insert adds (orc_authorized_principals orc))\<rparr>))"

definition get_oracle :: "string \<Rightarrow> registry \<Rightarrow> price_oracle option" where
  "get_oracle oid r = bt_get (reg_oracles r) oid"

definition registry_is_oracle_authorized :: "string \<Rightarrow> principal \<Rightarrow> registry \<Rightarrow> bool" where
  "registry_is_oracle_authorized oid p r =
     (case bt_get (reg_oracles r) oid of
        None \<Rightarrow> False | Some orc \<Rightarrow> p \<in> set (orc_authorized_principals orc))"

lemma engine_id_of_inj [simp]: "engine_id_of a = engine_id_of b \<longleftrightarrow> a = b"
  by (simp add: engine_id_of_def word_unat_eq_iff)

end
