(* ===== verification/RegistrySeries.thy ===== *)
theory RegistrySeries
  imports RegistryEngines
begin

text \<open>
  \<open>src/src/registry/src/api/series.rs\<close>: registering and forking series, the rate limits of social
  markets, metadata updates and the listings.
\<close>

datatype creation_tier = CreatorTier | SocialTier

definition is_all_restricted :: "trading_access list \<Rightarrow> bool" where
  "is_all_restricted ps =
     (ps \<noteq> [] \<and> list_all (\<lambda>ta. case ta of Restricted _ \<Rightarrow> True | Open \<Rightarrow> False) ps)"

section \<open>Rate limits\<close>

definition creation_times :: "principal \<Rightarrow> registry \<Rightarrow> u64 list" where
  "creation_times caller r = (case bt_get (reg_social_log r) caller of None \<Rightarrow> [] | Some ts \<Rightarrow> ts)"

definition check_social_rate_limits :: "principal \<Rightarrow> u64 \<Rightarrow> registry \<Rightarrow> (series_error, unit) result" where
  "check_social_rate_limits caller now r =
     (let ts = creation_times caller r;
          cutoff = saturating_sub now HOUR_NS
      in if sl_max_per_user (reg_social_limits r) \<le> of_nat (length ts)
         then Err SocialMaxPerUserReached
         else if sl_max_per_hour (reg_social_limits r) \<le> of_nat (length (filter (\<lambda>t. cutoff \<le> t) ts))
         then Err SocialRateLimitExceeded
         else Ok ())"

definition record_social_creation :: "principal \<Rightarrow> u64 \<Rightarrow> registry \<Rightarrow> registry" where
  "record_social_creation caller now r =
     r\<lparr>reg_social_log := bt_entry caller [] (\<lambda>ts. ts @ [now]) (reg_social_log r)\<rparr>"

text \<open>The controllers' calls of \<open>api/access.rs\<close>.\<close>

definition set_social_limits ::
  "env \<Rightarrow> principal \<Rightarrow> social_limits \<Rightarrow> registry \<Rightarrow> (series_error, unit) result \<times> registry" where
  "set_social_limits e caller limits =
     behind (registry_caller_is_controller e caller)
       (\<lambda>r. (Ok (), r\<lparr>reg_social_limits := limits\<rparr>))"

definition get_social_limits :: "registry \<Rightarrow> social_limits" where
  "get_social_limits r = reg_social_limits r"

section \<open>Validation\<close>

definition check_texts ::
  "string \<Rightarrow> description \<Rightarrow> resolution \<Rightarrow> string option \<Rightarrow> (series_error, unit) result" where
  "check_texts ser_tit descr res locale_tag =
     (if MAX_SERIES_TITLE_LEN < char_count ser_tit then Err TitleTooLong
      else if MAX_SERIES_DESCRIPTION_LEN < char_count (desc_plain descr) then Err DescriptionTooLong
      else if trim (res_clause res) = [] then Err ResolutionClauseEmpty
      else if MAX_SERIES_RESOLUTION_CLAUSE_LEN < char_count (res_clause res)
      then Err ResolutionClauseTooLong
      else if (case locale_tag of None \<Rightarrow> False | Some tag \<Rightarrow> \<not> is_valid_locale tag)
      then Err InvalidLocale
      else Ok ())"

definition check_window :: "u64 option \<Rightarrow> u64 \<Rightarrow> u64 \<Rightarrow> (series_error, unit) result" where
  "check_window start_ns expiry_ns now =
     (case start_ns of
        None \<Rightarrow> Ok ()
      | Some start \<Rightarrow>
          if start \<le> now then Err StartNotInFuture
          else if expiry_ns \<le> start then Err StartNotBeforeExpiry
          else Ok ())"

section \<open>Adding a series\<close>

record add_series_params =
  asp_underlying :: string
  asp_balance_domain :: balance_domain
  asp_expiry_ns :: u64
  asp_start_ns :: "u64 option"
  asp_payoff_type :: payoff_type
  asp_strike :: "price option"
  asp_price_precision :: u8
  asp_payout_unit :: payout_unit
  asp_oracle_source :: string
  asp_title :: string
  asp_description :: description
  asp_resolution :: resolution
  asp_outcomes :: "outcome list option"
  asp_icon_url :: "string option"
  asp_banner_url :: "string option"
  asp_trading_access :: "trading_access list"
  asp_engine_id :: "engine_id option"
  asp_locale :: "string option"

definition is_social_market :: "balance_domain \<Rightarrow> payout_unit \<Rightarrow> bool" where
  "is_social_market d u = (d = Social \<and> is_non_monetary u)"

definition check_social_domain :: "add_series_params \<Rightarrow> (series_error, unit) result" where
  "check_social_domain x =
     (if asp_balance_domain x = Social
      then (if \<not> is_non_monetary (asp_payout_unit x) then Err SocialMarketRequiresNonMonetaryPayout
            else if \<not> is_all_restricted (asp_trading_access x) then Err SocialMarketMustBeRestricted
            else Ok ())
      else Ok ())"

definition check_tier ::
  "creation_tier \<Rightarrow> add_series_params \<Rightarrow> principal \<Rightarrow> u64 \<Rightarrow> registry \<Rightarrow> (series_error, unit) result"
where
  "check_tier tier x caller now r =
     (case tier of
        CreatorTier \<Rightarrow>
          if \<not> is_social_market (asp_balance_domain x) (asp_payout_unit x) \<and>
             asp_payout_unit x \<noteq> payout_usd
          then Err UnsupportedPayoutUnit else Ok ()
      | SocialTier \<Rightarrow> check_social_rate_limits caller now r)"

definition check_reward :: "payout_unit \<Rightarrow> (series_error, unit) result" where
  "check_reward u =
     (case u of NonMonetary (SocialUnit reward) \<Rightarrow> reward_validate reward | _ \<Rightarrow> Ok ())"

definition check_add_series ::
  "creation_tier \<Rightarrow> add_series_params \<Rightarrow> principal \<Rightarrow> u64 \<Rightarrow> registry \<Rightarrow> (series_error, unit) result"
where
  "check_add_series tier x caller now r =
     obind (check_social_domain x) (\<lambda>_.
     obind (check_tier tier x caller now r) (\<lambda>_.
     obind (check_reward (asp_payout_unit x)) (\<lambda>_.
     obind (check_texts (asp_title x) (asp_description x) (asp_resolution x) (asp_locale x)) (\<lambda>_.
       check_window (asp_start_ns x) (asp_expiry_ns x) now))))"

definition add_id_params :: "add_series_params \<Rightarrow> string \<Rightarrow> string \<Rightarrow> series_id_params" where
  "add_id_params x underlying oracle_source =
     \<lparr> sip_underlying = underlying, sip_expiry_ns = asp_expiry_ns x, sip_start_ns = asp_start_ns x,
       sip_payoff_type = asp_payoff_type x, sip_strike = asp_strike x,
       sip_price_precision = asp_price_precision x, sip_payout_unit = asp_payout_unit x,
       sip_outcomes = asp_outcomes x, sip_oracle_source = oracle_source,
       sip_balance_domain = asp_balance_domain x, sip_forked_from = None, sip_fork_caller = None,
       sip_fork_index = None \<rparr>"

definition open_if_empty :: "trading_access list \<Rightarrow> trading_access list" where
  "open_if_empty ps = (if ps = [] then [Open] else ps)"

definition added_series ::
  "add_series_params \<Rightarrow> principal \<Rightarrow> u64 \<Rightarrow> string \<Rightarrow> string \<Rightarrow> series_id \<Rightarrow> series" where
  "added_series x caller now underlying oracle_source sid =
     \<lparr> ser_series_id = sid, ser_underlying = underlying, ser_expiry_ns = asp_expiry_ns x,
       ser_start_ns = asp_start_ns x, ser_payoff_type = asp_payoff_type x, ser_strike = asp_strike x,
       ser_price_precision = asp_price_precision x, ser_payout_unit = asp_payout_unit x,
       ser_outcomes = asp_outcomes x, ser_oracle_source = oracle_source, ser_creator = caller,
       ser_created_at_ns = now, ser_title = asp_title x, ser_description = asp_description x,
       ser_resolution = asp_resolution x, ser_icon_url = asp_icon_url x,
       ser_banner_url = asp_banner_url x, ser_balance_domain = asp_balance_domain x,
       ser_trading_access = open_if_empty (asp_trading_access x), ser_engine_id = asp_engine_id x,
       ser_forked_from = None, ser_locale = asp_locale x \<rparr>"

definition log_if_social :: "creation_tier \<Rightarrow> principal \<Rightarrow> u64 \<Rightarrow> registry \<Rightarrow> registry" where
  "log_if_social tier caller now r =
     (if tier = SocialTier then record_social_creation caller now r else r)"

definition store_series :: "series_id \<Rightarrow> series \<Rightarrow> registry \<Rightarrow> registry" where
  "store_series sid ser r = r\<lparr>reg_series := bt_insert sid ser (reg_series r)\<rparr>"

definition add_series_impl ::
  "env \<Rightarrow> text_env \<Rightarrow> add_series_params \<Rightarrow> principal \<Rightarrow> u64 \<Rightarrow> creation_tier \<Rightarrow> registry \<Rightarrow>
     (series_error, series_id) result \<times> registry" where
  "add_series_impl e t x caller now tier r =
     (case obind (check_add_series tier x caller now r) (\<lambda>_.
             obind (or_trap (canonical_id_part (asp_underlying x))) (\<lambda>underlying.
             obind (or_trap (canonical_id_part (asp_oracle_source x))) (\<lambda>oracle_source.
               Ok (underlying, oracle_source)))) of
        Err err \<Rightarrow> (Err err, r)
      | Trap \<Rightarrow> (Trap, r)
      | Ok (underlying, oracle_source) \<Rightarrow>
          (let sid = generate_id e t (add_id_params x underlying oracle_source)
           in if bt_contains_key (reg_series r) sid then (Err SeriesAlreadyExists, r)
              else (Ok sid,
                    log_if_social tier caller now
                      (store_series sid (added_series x caller now underlying oracle_source sid) r))))"

definition add_tier ::
  "env \<Rightarrow> add_series_params \<Rightarrow> principal \<Rightarrow> registry \<Rightarrow> (series_error, creation_tier) result" where
  "add_tier e x caller r =
     (if env_is_controller e caller then Ok CreatorTier
      else case asp_engine_id x of
             Some eid \<Rightarrow>
               if \<not> has_engine_role_on r caller Creator eid then Err EngineRoleNotHeld
               else Ok CreatorTier
           | None \<Rightarrow>
               if is_social_market (asp_balance_domain x) (asp_payout_unit x) then Ok SocialTier
               else Err EngineIdRequired)"

definition add_series ::
  "env \<Rightarrow> text_env \<Rightarrow> principal \<Rightarrow> add_series_params \<Rightarrow> registry \<Rightarrow>
     (series_error, series_id) result \<times> registry" where
  "add_series e t caller x =
     behind (registry_caller_is_not_anonymous caller) (\<lambda>r.
       case add_tier e x caller r of
         Err err \<Rightarrow> (Err err, r)
       | Trap \<Rightarrow> (Trap, r)
       | Ok tier \<Rightarrow> add_series_impl e t x caller (env_now e) tier r)"

section \<open>Forking a series\<close>

record fork_series_params =
  fsp_source_series_id :: series_id
  fsp_title :: "string option"
  fsp_description :: "description option"
  fsp_resolution :: "resolution option"
  fsp_trading_access :: "trading_access list"
  fsp_engine_id :: "engine_id option"
  fsp_locale :: "string option"

definition fork_index_of :: "series_id \<Rightarrow> principal \<Rightarrow> registry \<Rightarrow> u64" where
  "fork_index_of source_id caller r =
     of_nat (length (filter (\<lambda>s. ser_forked_from s = Some source_id \<and> ser_creator s = caller)
               (bt_values (reg_series r))))"

definition fork_id_params :: "series \<Rightarrow> principal \<Rightarrow> u64 \<Rightarrow> series_id_params" where
  "fork_id_params source caller index =
     \<lparr> sip_underlying = ser_underlying source, sip_expiry_ns = ser_expiry_ns source,
       sip_start_ns = ser_start_ns source, sip_payoff_type = ser_payoff_type source,
       sip_strike = ser_strike source, sip_price_precision = ser_price_precision source,
       sip_payout_unit = ser_payout_unit source, sip_outcomes = ser_outcomes source,
       sip_oracle_source = ser_oracle_source source,
       sip_balance_domain = ser_balance_domain source,
       sip_forked_from = Some (ser_series_id source), sip_fork_caller = Some caller,
       sip_fork_index = Some index \<rparr>"

definition or_else :: "'a option \<Rightarrow> 'a option \<Rightarrow> 'a option" where
  "or_else a b = (case a of Some v \<Rightarrow> Some v | None \<Rightarrow> b)"

definition forked_series ::
  "series \<Rightarrow> fork_series_params \<Rightarrow> principal \<Rightarrow> u64 \<Rightarrow> series_id \<Rightarrow> series" where
  "forked_series source x caller now sid =
     source\<lparr> ser_series_id := sid, ser_creator := caller, ser_created_at_ns := now,
             ser_title := or_keep (fsp_title x) (ser_title source),
             ser_description := or_keep (fsp_description x) (ser_description source),
             ser_resolution := or_keep (fsp_resolution x) (ser_resolution source),
             ser_trading_access := fsp_trading_access x, ser_engine_id := fsp_engine_id x,
             ser_forked_from := Some (ser_series_id source),
             ser_locale := or_else (fsp_locale x) (ser_locale source) \<rparr>"

definition check_fork ::
  "fork_series_params \<Rightarrow> series \<Rightarrow> principal \<Rightarrow> registry \<Rightarrow> (series_error, u64) result" where
  "check_fork x source caller r =
     obind (check_texts (or_keep (fsp_title x) (ser_title source))
              (or_keep (fsp_description x) (ser_description source))
              (or_keep (fsp_resolution x) (ser_resolution source))
              (or_else (fsp_locale x) (ser_locale source))) (\<lambda>_.
       let index = fork_index_of (ser_series_id source) caller r
       in if MAX_FORKS_PER_SOURCE_PER_USER \<le> index then Err ForkLimitReached else Ok index)"

definition fork_series_impl ::
  "env \<Rightarrow> text_env \<Rightarrow> fork_series_params \<Rightarrow> principal \<Rightarrow> u64 \<Rightarrow> creation_tier \<Rightarrow> registry \<Rightarrow>
     (series_error, series_id) result \<times> registry" where
  "fork_series_impl e t x caller now tier r =
     (case obind (if tier = SocialTier then check_social_rate_limits caller now r else Ok ()) (\<lambda>_.
             obind (ok_or SourceSeriesNotFound (bt_get (reg_series r) (fsp_source_series_id x)))
               (\<lambda>source. obind (check_fork x source caller r) (\<lambda>index. Ok (source, index)))) of
        Err err \<Rightarrow> (Err err, r)
      | Trap \<Rightarrow> (Trap, r)
      | Ok (source, index) \<Rightarrow>
          (let sid = generate_id e t (fork_id_params source caller index)
           in if bt_contains_key (reg_series r) sid then (Err SeriesAlreadyExists, r)
              else (Ok sid,
                    log_if_social tier caller now
                      (store_series sid (forked_series source x caller now sid) r))))"

definition fork_tier ::
  "env \<Rightarrow> fork_series_params \<Rightarrow> principal \<Rightarrow> registry \<Rightarrow> (series_error, creation_tier) result" where
  "fork_tier e x caller r =
     (if \<not> is_all_restricted (fsp_trading_access x) then Err ForkMustBeRestricted
      else if env_is_controller e caller then Ok CreatorTier
      else case fsp_engine_id x of
             Some eid \<Rightarrow>
               if \<not> has_engine_role_on r caller Creator eid then Err EngineRoleNotHeld
               else Ok CreatorTier
           | None \<Rightarrow>
               (case bt_get (reg_series r) (fsp_source_series_id x) of
                  Some s \<Rightarrow>
                    if is_social_market (ser_balance_domain s) (ser_payout_unit s)
                    then Ok SocialTier else Err EngineIdRequired
                | None \<Rightarrow> Err SourceSeriesNotFound))"

definition fork_series ::
  "env \<Rightarrow> text_env \<Rightarrow> principal \<Rightarrow> fork_series_params \<Rightarrow> registry \<Rightarrow>
     (series_error, series_id) result \<times> registry" where
  "fork_series e t caller x =
     behind (registry_caller_is_not_anonymous caller) (\<lambda>r.
       case fork_tier e x caller r of
         Err err \<Rightarrow> (Err err, r)
       | Trap \<Rightarrow> (Trap, r)
       | Ok tier \<Rightarrow> fork_series_impl e t x caller (env_now e) tier r)"

section \<open>Metadata\<close>

definition caller_can_manage_series_metadata :: "registry \<Rightarrow> series \<Rightarrow> principal \<Rightarrow> bool \<Rightarrow> bool" where
  "caller_can_manage_series_metadata r ser caller is_ctrl =
     (is_ctrl \<or> ser_creator ser = caller \<or>
      (case ser_engine_id ser of
         None \<Rightarrow> False
       | Some eid \<Rightarrow>
           (case bt_get (reg_engines r) eid of
              None \<Rightarrow> False | Some eng \<Rightarrow> caller \<in> set (eng_admins eng))))"

record update_series_metadata_params =
  usm_series_id :: series_id
  usm_description :: "description option"
  usm_icon_url :: "string option option"
  usm_banner_url :: "string option option"
  usm_locale :: "string option option"

definition with_metadata :: "update_series_metadata_params \<Rightarrow> series \<Rightarrow> series" where
  "with_metadata x ser =
     ser\<lparr> ser_description := or_keep (usm_description x) (ser_description ser),
          ser_icon_url := or_keep (usm_icon_url x) (ser_icon_url ser),
          ser_banner_url := or_keep (usm_banner_url x) (ser_banner_url ser),
          ser_locale := or_keep (usm_locale x) (ser_locale ser) \<rparr>"

definition update_series_metadata_impl ::
  "update_series_metadata_params \<Rightarrow> principal \<Rightarrow> bool \<Rightarrow> registry \<Rightarrow>
     (series_error, series) result \<times> registry" where
  "update_series_metadata_impl x caller is_ctrl r =
     (if (case usm_description x of
            None \<Rightarrow> False | Some d \<Rightarrow> MAX_SERIES_DESCRIPTION_LEN < char_count (desc_plain d))
      then (Err DescriptionTooLong, r)
      else if (case usm_locale x of Some (Some tag) \<Rightarrow> \<not> is_valid_locale tag | _ \<Rightarrow> False)
      then (Err InvalidLocale, r)
      else case bt_get (reg_series r) (usm_series_id x) of
             None \<Rightarrow> (Err SeriesNotFoundInRegistry, r)
           | Some ser \<Rightarrow>
               if \<not> caller_can_manage_series_metadata r ser caller is_ctrl
               then (Err SeriesUnauthorized, r)
               else (Ok (with_metadata x ser),
                     store_series (usm_series_id x) (with_metadata x ser) r))"

definition update_series_metadata ::
  "env \<Rightarrow> principal \<Rightarrow> update_series_metadata_params \<Rightarrow> registry \<Rightarrow>
     (series_error, series) result \<times> registry" where
  "update_series_metadata e caller x =
     behind (registry_caller_is_not_anonymous caller)
       (update_series_metadata_impl x caller (env_is_controller e caller))"

section \<open>Queries\<close>

definition registry_get_series :: "series_id \<Rightarrow> registry \<Rightarrow> series option" where
  "registry_get_series sid r = bt_get (reg_series r) sid"

definition get_series_status :: "env \<Rightarrow> series_id \<Rightarrow> registry \<Rightarrow> series_status option" where
  "get_series_status e sid r =
     map_option (\<lambda>s. series_status_at s (env_now e)) (bt_get (reg_series r) sid)"

definition listed_for :: "env \<Rightarrow> text_env \<Rightarrow> list_series_params \<Rightarrow> principal \<Rightarrow> registry \<Rightarrow> series \<Rightarrow> bool"
where
  "listed_for e t p caller r ser =
     (matches t p ser \<and> matches_time p ser (env_now e) \<and> can_principal_see_series e r ser caller)"

definition list_series_with ::
  "env \<Rightarrow> text_env \<Rightarrow> principal \<Rightarrow> list_series_params \<Rightarrow> registry \<Rightarrow> series list \<times> series_id option" where
  "list_series_with e t caller p r =
     (let in_range =
            (case lsp_pagination p of
               None \<Rightarrow> reg_series r
             | Some pg \<Rightarrow> (case pag_cursor pg of
                            None \<Rightarrow> reg_series r | Some c \<Rightarrow> bt_range_after c (reg_series r)))
      in apply_pagination (lsp_pagination p) (filter (\<lambda>(_, s). listed_for e t p caller r s) in_range))"

definition default_list_params :: "pagination_params \<Rightarrow> list_series_params" where
  "default_list_params pg =
     \<lparr> lsp_underlying = None, lsp_balance_domain = None, lsp_payoff_type = None, lsp_strike = None,
       lsp_payout_unit = None, lsp_oracle_source = None, lsp_creator = None, lsp_search_term = None,
       lsp_only_unexpired = None, lsp_tradeable_now = None, lsp_due = None,
       lsp_pagination = Some pg \<rparr>"

definition list_series ::
  "env \<Rightarrow> text_env \<Rightarrow> principal \<Rightarrow> pagination_params \<Rightarrow> registry \<Rightarrow> series list \<times> series_id option" where
  "list_series e t caller pg r = list_series_with e t caller (default_list_params pg) r"

end
