(* ===== verification/RegistryUpgrade.thy ===== *)
theory RegistryUpgrade
  imports RegistrySeries
begin

text \<open>
  The upgrade path of the registry: \<open>save_state\<close>, \<open>restore_state\<close> and the conversion of the flat
  creator and forker maps of \<open>registry/src/memory.rs\<close>, the older layouts of
  \<open>registry/src/migrations/mod.rs\<close> and the series of before the resolution clause of
  \<open>shared/src/migrations/mod.rs\<close>.  What stable memory holds is a blob of one of the layouts; that
  candid decodes a blob as the layout that wrote it, and as no other, is assumed.
\<close>

section \<open>Series without a resolution\<close>

record legacy_series =
  ls_series_id :: series_id
  ls_underlying :: string
  ls_expiry_ns :: u64
  ls_payoff_type :: payoff_type
  ls_strike :: "price option"
  ls_price_precision :: u8
  ls_payout_unit :: payout_unit
  ls_outcomes :: "outcome list option"
  ls_oracle_source :: string
  ls_creator :: principal
  ls_created_at_ns :: u64
  ls_title :: string
  ls_description :: description
  ls_icon_url :: "string option"
  ls_banner_url :: "string option"
  ls_balance_domain :: balance_domain
  ls_trading_access :: "trading_access list"
  ls_engine_id :: "engine_id option"
  ls_forked_from :: "series_id option"
  ls_locale :: "string option"

definition NO_RESOLUTION_PLACEHOLDER :: string where
  "NO_RESOLUTION_PLACEHOLDER = ''no resolution data''"

definition resolution_from_description :: "description \<Rightarrow> resolution" where
  "resolution_from_description d =
     \<lparr> res_clause = (if trim (desc_plain d) = [] then NO_RESOLUTION_PLACEHOLDER else desc_plain d) \<rparr>"

definition upgrade_series :: "legacy_series \<Rightarrow> series" where
  "upgrade_series old =
     \<lparr> ser_series_id = ls_series_id old, ser_underlying = ls_underlying old,
       ser_expiry_ns = ls_expiry_ns old, ser_start_ns = None, ser_payoff_type = ls_payoff_type old,
       ser_strike = ls_strike old, ser_price_precision = ls_price_precision old,
       ser_payout_unit = ls_payout_unit old, ser_outcomes = ls_outcomes old,
       ser_oracle_source = ls_oracle_source old, ser_creator = ls_creator old,
       ser_created_at_ns = ls_created_at_ns old, ser_title = ls_title old,
       ser_description = ls_description old,
       ser_resolution = resolution_from_description (ls_description old),
       ser_icon_url = ls_icon_url old, ser_banner_url = ls_banner_url old,
       ser_balance_domain = ls_balance_domain old, ser_trading_access = ls_trading_access old,
       ser_engine_id = ls_engine_id old, ser_forked_from = ls_forked_from old,
       ser_locale = ls_locale old \<rparr>"

definition upgrade_series_map :: "(series_id, legacy_series) btmap \<Rightarrow> (series_id, series) btmap" where
  "upgrade_series_map old = bt_map_values upgrade_series old"

section \<open>The layouts\<close>

record stable_state_v5 =
  v5_series :: "(series_id, series) btmap"
  v5_oracles :: "(string, price_oracle) btmap"
  v5_groups :: "(group_id, group) btmap"
  v5_next_group_id :: u64
  v5_social_log :: "(principal, u64 list) btmap"
  v5_social_limits :: social_limits
  v5_engines :: "(engine_id, engine) btmap"
  v5_next_engine_id :: u64

record stable_state_v4 =
  v4_series :: "(series_id, legacy_series) btmap"
  v4_oracles :: "(string, price_oracle) btmap"
  v4_groups :: "(group_id, group) btmap"
  v4_next_group_id :: u64
  v4_social_log :: "(principal, u64 list) btmap"
  v4_social_limits :: social_limits
  v4_engines :: "(engine_id, engine) btmap"
  v4_next_engine_id :: u64

record stable_state_v3 =
  v3_series :: "(series_id, legacy_series) btmap"
  v3_oracles :: "(string, price_oracle) btmap"
  v3_creators :: "(principal, bool) btmap"
  v3_groups :: "(group_id, group) btmap"
  v3_next_group_id :: u64
  v3_forkers :: "(principal, bool) btmap"
  v3_social_log :: "(principal, u64 list) btmap"
  v3_social_limits :: social_limits

record stable_state_v2 =
  v2_series :: "(series_id, legacy_series) btmap"
  v2_oracles :: "(string, price_oracle) btmap"
  v2_creators :: "(principal, bool) btmap"
  v2_groups :: "(group_id, group) btmap"
  v2_next_group_id :: u64

datatype registry_blob =
    V5 stable_state_v5
  | V4 stable_state_v4
  | V3 stable_state_v3
  | V2 stable_state_v2
  | LegacyTuple "(series_id, legacy_series) btmap" "(string, price_oracle) btmap"
      "(principal, bool) btmap"

definition eng_0 :: engine_id where "eng_0 = ''eng_0''"

definition legacy_grant :: "principal \<Rightarrow> role_grant" where
  "legacy_grant p =
     \<lparr> rgt_grantee = p, rgt_role = Creator, rgt_granted_by = management_canister,
       rgt_granted_at_ns = 0 \<rparr>"

definition legacy_engine :: "principal list \<Rightarrow> engine" where
  "legacy_engine ps =
     \<lparr> eng_engine_id = eng_0, eng_name = ''Legacy'',
       eng_description = Some ''Auto-migrated from flat creator/forker maps'', eng_icon_url = None,
       eng_creator = management_canister, eng_admins = [], eng_allowed_roles = [Creator],
       eng_role_grants = map legacy_grant ps, eng_social_limits = None, eng_created_at_ns = 0,
       eng_updated_at_ns = 0, eng_updated_by = management_canister \<rparr>"

definition migrate_v3_to_engines ::
  "(principal, bool) btmap \<Rightarrow> (principal, bool) btmap \<Rightarrow> (engine_id, engine) btmap \<times> u64" where
  "migrate_v3_to_engines creators forkers =
     (let all_principals = bs_of_list (bt_keys creators @ bt_keys forkers)
      in if all_principals = [] then ([], 0)
         else (bt_insert eng_0 (legacy_engine all_principals) [], 1))"

definition registry_save_state :: "registry \<Rightarrow> registry_blob" where
  "registry_save_state r =
     V5 \<lparr> v5_series = reg_series r, v5_oracles = reg_oracles r, v5_groups = reg_groups r,
          v5_next_group_id = reg_next_group_id r, v5_social_log = reg_social_log r,
          v5_social_limits = reg_social_limits r, v5_engines = reg_engines r,
          v5_next_engine_id = reg_next_engine_id r \<rparr>"

definition with_engines :: "(engine_id, engine) btmap \<times> u64 \<Rightarrow> registry \<Rightarrow> registry" where
  "with_engines en r = r\<lparr>reg_engines := fst en, reg_next_engine_id := snd en\<rparr>"

fun registry_restore_state :: "registry_blob \<Rightarrow> registry" where
  "registry_restore_state (V5 st) =
     registry_empty\<lparr> reg_series := v5_series st, reg_oracles := v5_oracles st,
       reg_groups := v5_groups st, reg_next_group_id := v5_next_group_id st,
       reg_social_log := v5_social_log st, reg_social_limits := v5_social_limits st,
       reg_engines := v5_engines st, reg_next_engine_id := v5_next_engine_id st \<rparr>"
| "registry_restore_state (V4 st) =
     registry_empty\<lparr> reg_series := upgrade_series_map (v4_series st), reg_oracles := v4_oracles st,
       reg_groups := v4_groups st, reg_next_group_id := v4_next_group_id st,
       reg_social_log := v4_social_log st, reg_social_limits := v4_social_limits st,
       reg_engines := v4_engines st, reg_next_engine_id := v4_next_engine_id st \<rparr>"
| "registry_restore_state (V3 st) =
     with_engines (migrate_v3_to_engines (v3_creators st) (v3_forkers st))
       (registry_empty\<lparr> reg_series := upgrade_series_map (v3_series st),
          reg_oracles := v3_oracles st, reg_groups := v3_groups st,
          reg_next_group_id := v3_next_group_id st, reg_social_log := v3_social_log st,
          reg_social_limits := v3_social_limits st \<rparr>)"
| "registry_restore_state (V2 st) =
     with_engines (migrate_v3_to_engines (v2_creators st) [])
       (registry_empty\<lparr> reg_series := upgrade_series_map (v2_series st),
          reg_oracles := v2_oracles st, reg_groups := v2_groups st,
          reg_next_group_id := v2_next_group_id st \<rparr>)"
| "registry_restore_state (LegacyTuple sers oracles creators) =
     with_engines (migrate_v3_to_engines creators [])
       (registry_empty\<lparr> reg_series := upgrade_series_map sers, reg_oracles := oracles \<rparr>)"

end
