(* ===== verification/RegistryInvariant.thy ===== *)
theory RegistryInvariant
  imports RegistryUpgrade
begin

text \<open>
  The calls of the registry and its invariant.  \<open>registry_call\<close> lists its update calls, \<open>registry_step\<close> runs
  one, and \<open>registry_reachable\<close> are the states that calls and upgrades lead to.
\<close>

section \<open>Calls and reachable states\<close>

datatype registry_call =
    AddSeries add_series_params
  | ForkSeries fork_series_params
  | UpdateSeriesMetadata update_series_metadata_params
  | UpdateTradingAccess update_trading_access_params
  | CreateGroup create_group_params
  | UpdateGroup update_group_params
  | DeleteGroup group_id
  | AddGroupAdmins update_principals_params
  | RemoveGroupAdmins update_principals_params
  | AddGroupMembers update_principals_params
  | RemoveGroupMembers update_principals_params
  | RegisterEngine register_engine_params
  | UpdateEngine update_engine_params
  | UpdateEngineAllowedRoles engine_id "engine_role list"
  | GrantEngineRole engine_id principal engine_role
  | RevokeEngineRole engine_id principal engine_role
  | AddEngineAdmins engine_id "principal list"
  | RemoveEngineAdmins engine_id "principal list"
  | AddOracle add_oracle_params
  | UpdateOracleMetadata string oracle_metadata
  | ManageOraclePrincipals string "principal list" "principal list"
  | SetSocialLimits social_limits

fun registry_step :: "env \<Rightarrow> text_env \<Rightarrow> principal \<Rightarrow> registry_call \<Rightarrow> registry \<Rightarrow> registry" where
  "registry_step e t c (AddSeries x) r = snd (add_series e t c x r)"
| "registry_step e t c (ForkSeries x) r = snd (fork_series e t c x r)"
| "registry_step e t c (UpdateSeriesMetadata x) r = snd (update_series_metadata e c x r)"
| "registry_step e t c (UpdateTradingAccess x) r = snd (update_trading_access e c x r)"
| "registry_step e t c (CreateGroup x) r = snd (create_group e c x r)"
| "registry_step e t c (UpdateGroup x) r = snd (update_group e c x r)"
| "registry_step e t c (DeleteGroup gid) r = snd (delete_group e c gid r)"
| "registry_step e t c (AddGroupAdmins x) r = snd (add_group_admins e c x r)"
| "registry_step e t c (RemoveGroupAdmins x) r = snd (remove_group_admins e c x r)"
| "registry_step e t c (AddGroupMembers x) r = snd (add_group_members e c x r)"
| "registry_step e t c (RemoveGroupMembers x) r = snd (remove_group_members e c x r)"
| "registry_step e t c (RegisterEngine x) r = snd (register_engine e c x r)"
| "registry_step e t c (UpdateEngine x) r = snd (update_engine e c x r)"
| "registry_step e t c (UpdateEngineAllowedRoles eid roles) r =
     snd (update_engine_allowed_roles e c eid roles r)"
| "registry_step e t c (GrantEngineRole eid p role) r = snd (grant_engine_role e c eid p role r)"
| "registry_step e t c (RevokeEngineRole eid p role) r = snd (revoke_engine_role e c eid p role r)"
| "registry_step e t c (AddEngineAdmins eid ps) r = snd (add_engine_admins e c eid ps r)"
| "registry_step e t c (RemoveEngineAdmins eid ps) r = snd (remove_engine_admins e c eid ps r)"
| "registry_step e t c (AddOracle x) r = snd (add_oracle e c x r)"
| "registry_step e t c (UpdateOracleMetadata oid md) r = snd (update_oracle_metadata e c oid md r)"
| "registry_step e t c (ManageOraclePrincipals oid xs ys) r =
     snd (manage_oracle_principals e c oid xs ys r)"
| "registry_step e t c (SetSocialLimits limits) r = snd (set_social_limits e c limits r)"

inductive registry_reachable :: "registry \<Rightarrow> bool" where
  installed: "registry_reachable registry_empty"
| called: "registry_reachable r \<Longrightarrow> reg_next_group_id r + 1 \<noteq> 0 \<Longrightarrow> reg_next_engine_id r + 1 \<noteq> 0 \<Longrightarrow>
    registry_reachable (registry_step e t c call r)"
| upgraded: "registry_reachable r \<Longrightarrow>
    registry_reachable (registry_restore_state (registry_save_state r))"

lemma registry_restore_save [simp]: "registry_restore_state (registry_save_state r) = r"
  by (simp add: registry_save_state_def)

section \<open>The invariant\<close>

definition series_ok :: "series_id \<Rightarrow> series \<Rightarrow> bool" where
  "series_ok sid ser \<longleftrightarrow>
     ser_series_id ser = sid \<and> ser_trading_access ser \<noteq> [] \<and>
     check_texts (ser_title ser) (ser_description ser) (ser_resolution ser) (ser_locale ser) = Ok () \<and>
     (if ser_balance_domain ser = Social then is_non_monetary (ser_payout_unit ser)
      else ser_payout_unit ser = payout_usd) \<and>
     ser_creator ser \<noteq> anonymous"

definition series_store_ok :: "registry \<Rightarrow> bool" where
  "series_store_ok r \<longleftrightarrow>
     bt_inv (reg_series r) \<and> (\<forall>sid ser. bt_get (reg_series r) sid = Some ser \<longrightarrow> series_ok sid ser)"

definition group_ok :: "u64 \<Rightarrow> group_id \<Rightarrow> group \<Rightarrow> bool" where
  "group_ok next gid g \<longleftrightarrow>
     grp_group_id g = gid \<and> char_count (grp_name g) \<le> MAX_GROUP_NAME_LEN \<and>
     (\<exists>n<next. gid = group_id_of n)"

definition groups_ok :: "registry \<Rightarrow> bool" where
  "groups_ok r \<longleftrightarrow>
     bt_inv (reg_groups r) \<and>
     (\<forall>gid g. bt_get (reg_groups r) gid = Some g \<longrightarrow> group_ok (reg_next_group_id r) gid g)"

definition engine_ok :: "u64 \<Rightarrow> engine_id \<Rightarrow> engine \<Rightarrow> bool" where
  "engine_ok next eid eng \<longleftrightarrow>
     eng_engine_id eng = eid \<and> char_count (eng_name eng) \<le> MAX_ENGINE_NAME_LEN \<and>
     eng_creator eng \<in> set (eng_admins eng) \<and>
     distinct (map (\<lambda>g. (rgt_grantee g, rgt_role g)) (eng_role_grants eng)) \<and>
     (\<exists>n<next. eid = engine_id_of n)"

definition engines_ok :: "registry \<Rightarrow> bool" where
  "engines_ok r \<longleftrightarrow>
     bt_inv (reg_engines r) \<and>
     (\<forall>eid eng. bt_get (reg_engines r) eid = Some eng \<longrightarrow> engine_ok (reg_next_engine_id r) eid eng) \<and>
     (\<forall>a b x y. bt_get (reg_engines r) a = Some x \<and> bt_get (reg_engines r) b = Some y \<and>
        eng_name x = eng_name y \<longrightarrow> a = b)"

definition oracles_ok :: "registry \<Rightarrow> bool" where
  "oracles_ok r \<longleftrightarrow>
     bt_inv (reg_oracles r) \<and>
     (\<forall>oid orc. bt_get (reg_oracles r) oid = Some orc \<longrightarrow>
        orc_oracle_id orc = oid \<and> list_all is_id_char oid)"

text \<open>Every logged creation of a user is a social market in the store that names the user as creator.\<close>

definition social_market_of :: "principal \<Rightarrow> series_id \<Rightarrow> series \<Rightarrow> nat" where
  "social_market_of p sid ser =
     (if ser_creator ser = p \<and> ser_balance_domain ser = Social then 1 else 0)"

definition social_log_ok :: "registry \<Rightarrow> bool" where
  "social_log_ok r \<longleftrightarrow>
     (\<forall>p. length (creation_times p r) \<le> bt_total (social_market_of p) (reg_series r))"

definition registry_inv :: "registry \<Rightarrow> bool" where
  "registry_inv r \<longleftrightarrow>
     series_store_ok r \<and> groups_ok r \<and> engines_ok r \<and> oracles_ok r \<and> social_log_ok r"

lemma registry_inv_empty: "registry_inv registry_empty"
  by (simp add: registry_inv_def series_store_ok_def groups_ok_def engines_ok_def oracles_ok_def
      social_log_ok_def registry_empty_def creation_times_def)

section \<open>Every call keeps it\<close>

lemma snd_behind: "registry_inv r \<Longrightarrow> registry_inv (snd (body r)) \<Longrightarrow> registry_inv (snd (behind ok body r))"
  by (simp add: behind_def)

text \<open>Rewriting a stored series in place keeps its creator and its domain.\<close>

lemma inv_store_series:
  assumes "registry_inv r" "series_ok sid ser" "bt_get (reg_series r) sid = Some old"
    "ser_creator ser = ser_creator old" "ser_balance_domain ser = ser_balance_domain old"
  shows "registry_inv (store_series sid ser r)"
proof -
  have "bt_total (social_market_of p) (bt_insert sid ser (reg_series r)) =
      bt_total (social_market_of p) (reg_series r)" for p
    using bt.total_put [of "reg_series r" "social_market_of p" sid ser] assms
    by (simp add: registry_inv_def series_store_ok_def social_market_of_def split: if_splits)
  then show ?thesis
    using assms(1,2)
    by (auto simp: registry_inv_def series_store_ok_def groups_ok_def engines_ok_def oracles_ok_def
        social_log_ok_def store_series_def creation_times_def)
qed

lemma inv_put_group:
  assumes "registry_inv r" "group_ok (reg_next_group_id r) gid g"
  shows "registry_inv (r\<lparr>reg_groups := bt_insert gid g (reg_groups r)\<rparr>)"
  using assms
  by (auto simp: registry_inv_def series_store_ok_def groups_ok_def engines_ok_def oracles_ok_def
      social_log_ok_def creation_times_def)

lemma inv_edit_group:
  assumes "registry_inv r"
    and "\<And>g. grp_group_id (f g) = grp_group_id g \<and>
           (char_count (grp_name g) \<le> MAX_GROUP_NAME_LEN \<longrightarrow>
            char_count (grp_name (f g)) \<le> MAX_GROUP_NAME_LEN)"
  shows "registry_inv (snd (edit_group e c gid f r))"
proof -
  have "group_ok (reg_next_group_id r) gid (stamp_audit e c (f g))" if "bt_get (reg_groups r) gid = Some g" for g
    using assms that by (auto simp: registry_inv_def groups_ok_def group_ok_def stamp_audit_def)
  then show ?thesis
    using assms(1) by (auto simp: edit_group_def intro: inv_put_group split: option.splits)
qed

lemma groups_ok_next:
  assumes "groups_ok r" "reg_next_group_id r + 1 \<noteq> 0"
  shows "groups_ok (r\<lparr>reg_next_group_id := reg_next_group_id r + 1\<rparr>)"
    and "group_ok (reg_next_group_id r) gid g \<Longrightarrow> group_ok (reg_next_group_id r + 1) gid g"
  using assms below_next [OF assms(2)] unfolding groups_ok_def group_ok_def
  by (auto intro: less_imp_le) (metis less_imp_le)

lemma inv_create_group:
  assumes "registry_inv r" "reg_next_group_id r + 1 \<noteq> 0"
  shows "registry_inv (snd (create_group e c x r))"
proof -
  let ?r = "r\<lparr>reg_next_group_id := reg_next_group_id r + 1\<rparr>"
  let ?gid = "group_id_of (reg_next_group_id r)"
  have inv: "registry_inv ?r"
    using assms groups_ok_next(1) [of r]
    by (simp add: registry_inv_def series_store_ok_def engines_ok_def oracles_ok_def
        social_log_ok_def creation_times_def)
  have new: "group_ok (reg_next_group_id ?r) ?gid (new_group e c x ?gid)"
    if "char_count (cgp_name x) \<le> MAX_GROUP_NAME_LEN"
    using that below_next [OF assms(2), of "reg_next_group_id r"]
    by (auto simp: group_ok_def new_group_def)
  show ?thesis
    using inv_put_group [OF inv new] assms(1)
    by (auto simp: create_group_def behind_def Let_def not_less)
qed

lemma inv_delete_group: "registry_inv r \<Longrightarrow> registry_inv (snd (delete_group e c gid r))"
  by (auto simp: delete_group_def behind_def registry_inv_def series_store_ok_def groups_ok_def
      engines_ok_def oracles_ok_def social_log_ok_def creation_times_def split: option.splits)

lemma inv_put_engine:
  assumes "registry_inv r" "engine_ok (reg_next_engine_id r) eid eng"
    and "\<And>i other. bt_get (reg_engines r) i = Some other \<Longrightarrow> i \<noteq> eid \<Longrightarrow> eng_name other \<noteq> eng_name eng"
  shows "registry_inv (r\<lparr>reg_engines := bt_insert eid eng (reg_engines r)\<rparr>)"
proof -
  have "engines_ok (r\<lparr>reg_engines := bt_insert eid eng (reg_engines r)\<rparr>)"
    using assms unfolding registry_inv_def engines_ok_def by (auto split: if_splits) metis+
  then show ?thesis
    using assms(1) by (simp add: registry_inv_def series_store_ok_def groups_ok_def oracles_ok_def
        social_log_ok_def creation_times_def)
qed

text \<open>An edit that keeps the entry in order and either keeps the name or takes a free one.\<close>

lemma inv_edit_engine:
  assumes inv: "registry_inv r"
    and ok: "\<And>eng eng'. f eng = Ok eng' \<Longrightarrow> engine_ok (reg_next_engine_id r) eid eng \<Longrightarrow>
           engine_ok (reg_next_engine_id r) eid eng'"
    and name: "\<And>eng eng' i other. f eng = Ok eng' \<Longrightarrow> bt_get (reg_engines r) i = Some other \<Longrightarrow>
           i \<noteq> eid \<Longrightarrow> eng_name eng' = eng_name eng \<or> eng_name other \<noteq> eng_name eng'"
  shows "registry_inv (snd (edit_engine e c eid f r))"
proof -
  have "registry_inv (r\<lparr>reg_engines := bt_insert eid (stamp_engine e c eng') (reg_engines r)\<rparr>)"
    if eng: "bt_get (reg_engines r) eid = Some eng" "f eng = Ok eng'" for eng eng'
  proof (rule inv_put_engine [OF inv])
    show "engine_ok (reg_next_engine_id r) eid (stamp_engine e c eng')"
      using ok [OF eng(2)] inv eng(1)
      by (auto simp: registry_inv_def engines_ok_def engine_ok_def stamp_engine_def)
    show "eng_name other \<noteq> eng_name (stamp_engine e c eng')"
      if "bt_get (reg_engines r) i = Some other" "i \<noteq> eid" for i other
      using name [OF eng(2) that] inv eng(1) that
      by (auto simp: registry_inv_def engines_ok_def stamp_engine_def)
  qed
  then show ?thesis
    using inv by (auto simp: edit_engine_def split: option.splits result.splits)
qed

lemma inv_register_engine:
  assumes "registry_inv r" "reg_next_engine_id r + 1 \<noteq> 0"
  shows "registry_inv (snd (register_engine e c x r))"
proof -
  let ?r = "r\<lparr>reg_next_engine_id := reg_next_engine_id r + 1\<rparr>"
  let ?eid = "engine_id_of (reg_next_engine_id r)"
  have "engine_ok (reg_next_engine_id r + 1) eid eng"
    if "engine_ok (reg_next_engine_id r) eid eng" for eid eng
    using that below_next [OF assms(2)] by (auto simp: engine_ok_def intro: less_imp_le)
  then have inv: "registry_inv ?r"
    using assms(1)
    by (auto simp: registry_inv_def series_store_ok_def groups_ok_def engines_ok_def oracles_ok_def
        social_log_ok_def creation_times_def)
  have new: "engine_ok (reg_next_engine_id ?r) ?eid (new_engine e c x ?eid)"
    if "char_count (rep_name x) \<le> MAX_ENGINE_NAME_LEN"
    using that below_next [OF assms(2), of "reg_next_engine_id r"]
    by (auto simp: engine_ok_def new_engine_def)
  have names: "eng_name other \<noteq> eng_name (new_engine e c x ?eid)"
    if "\<not> list_ex (\<lambda>eng. eng_name eng = rep_name x) (bt_values (reg_engines r))"
      "bt_get (reg_engines ?r) i = Some other" for i other
    using that bt_get_mem [of "reg_engines r" i other]
    by (force simp: list_ex_iff bt_values_def new_engine_def)
  show ?thesis
    using inv_put_engine [OF inv new] names assms(1)
    by (auto simp: register_engine_def behind_def Let_def not_less)
qed

lemma check_engine_name_Ok:
  "check_engine_name eid name r = Ok () \<Longrightarrow> name = Some n \<Longrightarrow>
   char_count n \<le> MAX_ENGINE_NAME_LEN \<and>
   (\<forall>i other. bt_get (reg_engines r) i = Some other \<and> i \<noteq> eid \<longrightarrow> eng_name other \<noteq> n)"
  by (auto simp: check_engine_name_def list_ex_iff not_less split: if_splits dest: bt_get_mem)

lemma inv_update_engine: "registry_inv r \<Longrightarrow> registry_inv (snd (update_engine e c x r))"
  unfolding update_engine_def
  by (intro snd_behind inv_edit_engine)
    (auto simp: obind_Ok engine_ok_def or_keep_def dest: check_engine_name_Ok
      split: option.splits)

lemma inv_allowed_roles:
  assumes "registry_inv r"
  shows "registry_inv (snd (update_engine_allowed_roles e c eid roles r))"
proof -
  have "registry_inv (r\<lparr>reg_engines := bt_insert eid
      (stamp_engine e c (eng\<lparr>eng_allowed_roles := bs_of_list roles\<rparr>)) (reg_engines r)\<rparr>)"
    if "bt_get (reg_engines r) eid = Some eng" for eng
    using assms that
    by (intro inv_put_engine)
      (auto simp: registry_inv_def engines_ok_def engine_ok_def stamp_engine_def)
  then show ?thesis
    using assms by (auto simp: update_engine_allowed_roles_def behind_def split: option.splits)
qed

lemma inv_grants:
  assumes "registry_inv r"
  shows "registry_inv (snd (grant_engine_role e c eid p role r))"
    and "registry_inv (snd (revoke_engine_role e c eid p role r))"
    and "registry_inv (snd (add_engine_admins e c eid ps r))"
    and "registry_inv (snd (remove_engine_admins e c eid ps r))"
proof -
  show "registry_inv (snd (grant_engine_role e c eid p role r))"
    unfolding grant_engine_role_def
    by (intro snd_behind inv_edit_engine assms)
      (auto simp: engine_ok_def granted_to_def list_ex_iff split: if_splits)
  show "registry_inv (snd (revoke_engine_role e c eid p role r))"
    unfolding revoke_engine_role_def
    by (intro snd_behind inv_edit_engine assms)
      (auto simp: engine_ok_def Let_def distinct_map_filter split: if_splits)
  show "registry_inv (snd (add_engine_admins e c eid ps r))"
    unfolding add_engine_admins_def
    by (intro snd_behind inv_edit_engine assms) (auto simp: engine_ok_def)
  show "registry_inv (snd (remove_engine_admins e c eid ps r))"
    unfolding remove_engine_admins_def
    by (intro snd_behind inv_edit_engine assms) (auto simp: engine_ok_def split: if_splits)
qed

lemma canonical_chars: "canonical_id_part s = Some t \<Longrightarrow> list_all is_id_char t"
  by (auto simp: canonical_id_part_def Let_def split: if_splits)

lemma inv_oracles:
  assumes "registry_inv r"
  shows "registry_inv (snd (add_oracle e c x r))"
    and "registry_inv (snd (update_oracle_metadata e c oid md r))"
    and "registry_inv (snd (manage_oracle_principals e c oid xs ys r))"
  using assms canonical_chars
  by (auto simp: add_oracle_def update_oracle_metadata_def manage_oracle_principals_def
      edit_oracle_def behind_def registry_inv_def series_store_ok_def groups_ok_def engines_ok_def
      oracles_ok_def social_log_ok_def creation_times_def split: option.splits)

text \<open>A new series, logged when its creator used the social tier.\<close>

lemma inv_new_series:
  assumes "registry_inv r" "series_ok sid ser" "bt_get (reg_series r) sid = None"
    and "tier = SocialTier \<Longrightarrow> ser_creator ser = c \<and> ser_balance_domain ser = Social"
  shows "registry_inv (log_if_social tier c now (store_series sid ser r))"
proof -
  let ?r = "log_if_social tier c now (store_series sid ser r)"
  have "length (creation_times p ?r) \<le> bt_total (social_market_of p) (reg_series ?r)" for p
  proof -
    have "bt_total (social_market_of p) (reg_series ?r) =
        bt_total (social_market_of p) (reg_series r) + social_market_of p sid ser"
      using bt.total_put [of "reg_series r" "social_market_of p" sid ser] assms(1,3)
      by (simp add: registry_inv_def series_store_ok_def log_if_social_def record_social_creation_def
          store_series_def)
    moreover have "length (creation_times p r) \<le> bt_total (social_market_of p) (reg_series r)"
      using assms(1) by (simp add: registry_inv_def social_log_ok_def)
    moreover have "length (creation_times p ?r) \<le>
        length (creation_times p r) + social_market_of p sid ser"
      using assms(4)
      by (auto simp: log_if_social_def record_social_creation_def creation_times_def
          store_series_def social_market_of_def split: option.splits)
    ultimately show ?thesis by linarith
  qed
  then show ?thesis
    using assms(1,2)
    by (auto simp: registry_inv_def series_store_ok_def groups_ok_def engines_ok_def oracles_ok_def
        social_log_ok_def log_if_social_def record_social_creation_def store_series_def)
qed

lemma add_series_Ok:
  assumes "add_series e t c x r = (Ok sid, r')"
  obtains tier underlying oracle_source where "c \<noteq> anonymous" "add_tier e x c r = Ok tier"
    "check_add_series tier x c (env_now e) r = Ok ()"
    "canonical_id_part (asp_underlying x) = Some underlying"
    "canonical_id_part (asp_oracle_source x) = Some oracle_source"
    "sid = generate_id e t (add_id_params x underlying oracle_source)"
    "bt_get (reg_series r) sid = None"
    "r' = log_if_social tier c (env_now e)
       (store_series sid (added_series x c (env_now e) underlying oracle_source sid) r)"
  using assms
  by (auto simp: add_series_def behind_def registry_caller_is_not_anonymous_def add_series_impl_def
      obind_Ok or_trap_Ok Let_def split: result.splits if_splits)

lemma fork_series_Ok:
  assumes "fork_series e t c x r = (Ok sid, r')"
  obtains tier source index where "c \<noteq> anonymous" "fork_tier e x c r = Ok tier"
    "tier = SocialTier \<longrightarrow> check_social_rate_limits c (env_now e) r = Ok ()"
    "bt_get (reg_series r) (fsp_source_series_id x) = Some source"
    "check_fork x source c r = Ok index"
    "sid = generate_id e t (fork_id_params source c index)"
    "bt_get (reg_series r) sid = None"
    "r' = log_if_social tier c (env_now e)
       (store_series sid (forked_series source x c (env_now e) sid) r)"
  using assms
  by (auto simp: fork_series_def behind_def registry_caller_is_not_anonymous_def
      fork_series_impl_def obind_Ok ok_or_Ok Let_def split: result.splits if_splits)

lemma add_series_refused:
  "add_series e t c x r = (res, r') \<Longrightarrow> \<nexists>sid. res = Ok sid \<Longrightarrow> r' = r"
  by (auto simp: add_series_def behind_def add_series_impl_def Let_def
      split: result.splits if_splits)

lemma fork_series_refused:
  "fork_series e t c x r = (res, r') \<Longrightarrow> \<nexists>sid. res = Ok sid \<Longrightarrow> r' = r"
  by (auto simp: fork_series_def behind_def fork_series_impl_def Let_def
      split: result.splits if_splits)

lemma inv_add_series:
  assumes "registry_inv r"
  shows "registry_inv (snd (add_series e t c x r))"
proof (cases "add_series e t c x r")
  case (Pair res r')
  show ?thesis
  proof (cases "\<exists>sid. res = Ok sid")
    case False
    then show ?thesis using add_series_refused [OF Pair] Pair assms by auto
  next
    case True
    then obtain sid where "add_series e t c x r = (Ok sid, r')" using Pair by auto
    then show ?thesis
    proof (cases rule: add_series_Ok)
      case (1 tier underlying oracle_source)
      have checks: "check_social_domain x = Ok ()" "check_tier tier x c (env_now e) r = Ok ()"
        "check_texts (asp_title x) (asp_description x) (asp_resolution x) (asp_locale x) = Ok ()"
        using 1(3) by (auto simp: check_add_series_def obind_Ok)
      have "series_ok sid (added_series x c (env_now e) underlying oracle_source sid)"
        using checks 1(1,2)
        by (auto simp: series_ok_def added_series_def open_if_empty_def check_social_domain_def
            check_tier_def is_social_market_def add_tier_def
            split: if_splits creation_tier.splits option.splits)
      moreover have "asp_balance_domain x = Social" if "tier = SocialTier"
        using 1(2) that
        by (auto simp: add_tier_def is_social_market_def split: if_splits option.splits)
      ultimately show ?thesis
        using 1(7,8) Pair assms by (auto intro!: inv_new_series simp: added_series_def)
    qed
  qed
qed

lemma inv_fork_series:
  assumes "registry_inv r"
  shows "registry_inv (snd (fork_series e t c x r))"
proof (cases "fork_series e t c x r")
  case (Pair res r')
  show ?thesis
  proof (cases "\<exists>sid. res = Ok sid")
    case False
    then show ?thesis using fork_series_refused [OF Pair] Pair assms by auto
  next
    case True
    then obtain sid where "fork_series e t c x r = (Ok sid, r')" using Pair by auto
    then show ?thesis
    proof (cases rule: fork_series_Ok)
      case (1 tier source index)
      have "series_ok (fsp_source_series_id x) source"
        using assms 1(4) by (auto simp: registry_inv_def series_store_ok_def)
      then have "series_ok sid (forked_series source x c (env_now e) sid)"
        using 1(1,2,5)
        by (auto simp: series_ok_def forked_series_def check_fork_def obind_Ok Let_def fork_tier_def
            is_all_restricted_def split: if_splits)
      moreover have "ser_balance_domain source = Social" if "tier = SocialTier"
        using 1(2,4) that
        by (auto simp: fork_tier_def is_social_market_def split: if_splits option.splits)
      ultimately show ?thesis
        using 1(7,8) Pair assms by (auto intro!: inv_new_series simp: forked_series_def)
    qed
  qed
qed

lemma inv_metadata:
  assumes "registry_inv r"
  shows "registry_inv (snd (update_series_metadata e c x r))"
proof -
  have "series_ok (usm_series_id x) (with_metadata x ser)"
    if "bt_get (reg_series r) (usm_series_id x) = Some ser"
      "\<not> (case usm_description x of None \<Rightarrow> False
          | Some d \<Rightarrow> MAX_SERIES_DESCRIPTION_LEN < char_count (desc_plain d))"
      "\<not> (case usm_locale x of Some (Some tag) \<Rightarrow> \<not> is_valid_locale tag | _ \<Rightarrow> False)" for ser
  proof -
    have "series_ok (usm_series_id x) ser"
      using assms that(1) by (auto simp: registry_inv_def series_store_ok_def)
    with that(2,3) show ?thesis
      by (auto simp: series_ok_def with_metadata_def check_texts_def or_keep_def
          split: if_splits option.splits)
  qed
  then show ?thesis
    unfolding update_series_metadata_def
    using assms by (intro snd_behind) (auto simp: update_series_metadata_impl_def
        intro: inv_store_series simp: with_metadata_def split: option.splits)
qed

lemma inv_access:
  assumes "registry_inv r"
  shows "registry_inv (snd (update_trading_access e c x r))"
proof -
  have "registry_inv (store_series (uta_series_id x)
      (ser\<lparr>ser_trading_access := uta_trading_access x\<rparr>) r)"
    if "bt_get (reg_series r) (uta_series_id x) = Some ser" "uta_trading_access x \<noteq> []" for ser
    using assms that
    by (intro inv_store_series [where old = ser])
      (auto simp: registry_inv_def series_store_ok_def series_ok_def)
  then show ?thesis
    using assms by (auto simp: update_trading_access_def behind_def store_series_def split: option.splits)
qed

lemma inv_group_calls:
  assumes "registry_inv r"
  shows "registry_inv (snd (update_group e c x r))"
    and "registry_inv (snd (add_group_admins e c y r))"
    and "registry_inv (snd (remove_group_admins e c y r))"
    and "registry_inv (snd (add_group_members e c y r))"
    and "registry_inv (snd (remove_group_members e c y r))"
  unfolding update_group_def add_group_admins_def remove_group_admins_def add_group_members_def
    remove_group_members_def
  by (intro snd_behind assms; auto simp: assms or_keep_def intro!: inv_edit_group split: option.splits)+

lemma inv_social_limits: "registry_inv r \<Longrightarrow> registry_inv (snd (set_social_limits e c limits r))"
  by (simp add: set_social_limits_def behind_def registry_inv_def series_store_ok_def groups_ok_def
      engines_ok_def oracles_ok_def social_log_ok_def creation_times_def)

lemma inv_registry_step:
  assumes "registry_inv r" "reg_next_group_id r + 1 \<noteq> 0" "reg_next_engine_id r + 1 \<noteq> 0"
  shows "registry_inv (registry_step e t c call r)"
  using assms(1)
  by (cases call)
    (simp_all add: inv_add_series inv_fork_series inv_metadata inv_access inv_create_group
      inv_delete_group inv_group_calls inv_register_engine inv_update_engine inv_allowed_roles
      inv_grants inv_oracles inv_social_limits assms(2,3))

lemma reachable_inv: "registry_reachable r \<Longrightarrow> registry_inv r"
  by (induction rule: registry_reachable.induct)
    (simp_all add: registry_inv_empty inv_registry_step)

end
