(* ===== verification/RegistrySamples.thy ===== *)
theory RegistrySamples
  imports RegistryInvariant Samples
begin

text \<open>
  The replica of the samples with a short digest, one group, one engine with a
  creator, an open market of that engine and a restricted social market.
\<close>

definition renv0 :: env where "renv0 = env0\<lparr>env_sha256 := (\<lambda>m. [m ! 14, m ! 24, last m])\<rparr>"

definition tx0 :: text_env where
  "tx0 = \<lparr> tx_lowercase = (\<lambda>s. s), tx_uppercase = (\<lambda>s. s), tx_debug = (\<lambda>_. ''None''),
           tx_principal = (\<lambda>p. p) \<rparr>"

definition descr0 :: description where
  "descr0 = \<lparr> desc_plain = ''d'', desc_markdown = None, desc_html = None \<rparr>"

definition points :: payout_unit where "points = NonMonetary Points"

definition market :: "string \<Rightarrow> balance_domain \<Rightarrow> payout_unit \<Rightarrow> trading_access list \<Rightarrow>
    engine_id option \<Rightarrow> add_series_params" where
  "market name d u access eid =
     \<lparr> asp_underlying = name, asp_balance_domain = d, asp_expiry_ns = 5, asp_start_ns = None,
       asp_payoff_type = Binary, asp_strike = None, asp_price_precision = 4, asp_payout_unit = u,
       asp_oracle_source = ''o'', asp_title = name, asp_description = descr0,
       asp_resolution = \<lparr> res_clause = ''r'' \<rparr>, asp_outcomes = None, asp_icon_url = None,
       asp_banner_url = None, asp_trading_access = access, asp_engine_id = eid, asp_locale = None \<rparr>"

definition usd_market :: add_series_params where
  "usd_market = market ''i'' Settlement payout_usd [] (Some eng_0)"

definition social_market :: add_series_params where
  "social_market = market ''r'' Social points [Restricted [''grp_0'']] None"

definition setup_calls :: "(principal \<times> registry_call) list" where
  "setup_calls =
     [(alice, CreateGroup \<lparr> cgp_name = ''friends'', cgp_description = None, cgp_icon_url = None \<rparr>),
      (''admin'', RegisterEngine \<lparr> rep_name = ''E'', rep_description = None, rep_icon_url = None,
         rep_admins = [], rep_allowed_roles = [Creator] \<rparr>),
      (''admin'', GrantEngineRole eng_0 bob Creator),
      (bob, AddSeries usd_market), (alice, AddSeries social_market)]"

definition run_calls :: "env \<Rightarrow> text_env \<Rightarrow> (principal \<times> registry_call) list \<Rightarrow> registry \<Rightarrow> registry" where
  "run_calls e t calls r = fold (\<lambda>(c, call). registry_step e t c call) calls r"

definition usd_id :: series_id where "usd_id = ''33454f''"
definition social_id :: series_id where "social_id = ''334f4f''"

definition usd_series :: series where
  "usd_series = added_series usd_market bob 1000 ''I'' ''O'' usd_id"

definition social_series :: series where
  "social_series = added_series social_market alice 1000 ''R'' ''O'' social_id"

definition friends :: group where
  "friends =
     \<lparr> grp_group_id = ''grp_0'', grp_name = ''friends'', grp_description = None, grp_icon_url = None,
       grp_creator = alice, grp_admins = [], grp_members = [alice], grp_created_at_ns = 1000,
       grp_updated_at_ns = 1000, grp_updated_by = alice \<rparr>"

definition engine0 :: engine where
  "engine0 =
     \<lparr> eng_engine_id = eng_0, eng_name = ''E'', eng_description = None, eng_icon_url = None,
       eng_creator = ''admin'', eng_admins = [''admin''], eng_allowed_roles = [Creator],
       eng_role_grants = [\<lparr> rgt_grantee = bob, rgt_role = Creator, rgt_granted_by = ''admin'',
                             rgt_granted_at_ns = 1000 \<rparr>],
       eng_social_limits = None, eng_created_at_ns = 1000, eng_updated_at_ns = 1000,
       eng_updated_by = ''admin'' \<rparr>"

definition registry0 :: registry where
  "registry0 =
     registry_empty\<lparr> reg_series := [(usd_id, usd_series), (social_id, social_series)],
       reg_groups := [(''grp_0'', friends)], reg_next_group_id := 1,
       reg_social_log := [(alice, [1000])], reg_engines := [(eng_0, engine0)],
       reg_next_engine_id := 1 \<rparr>"

fun counters_free :: "env \<Rightarrow> text_env \<Rightarrow> (principal \<times> registry_call) list \<Rightarrow> registry \<Rightarrow> bool" where
  "counters_free e t [] r = True"
| "counters_free e t ((c, call) # calls) r =
     (reg_next_group_id r + 1 \<noteq> 0 \<and> reg_next_engine_id r + 1 \<noteq> 0 \<and>
      counters_free e t calls (registry_step e t c call r))"

lemma reachable_run:
  "registry_reachable r \<Longrightarrow> counters_free e t calls r \<Longrightarrow> registry_reachable (run_calls e t calls r)"
  by (induction e t calls r rule: counters_free.induct)
    (auto simp: run_calls_def intro: registry_reachable.called)

lemma registry0_run:
  "counters_free renv0 tx0 setup_calls registry_empty \<and>
   run_calls renv0 tx0 setup_calls registry_empty = registry0"
  by code_simp

lemma registry0_reachable: "registry_reachable registry0"
  using reachable_run [OF registry_reachable.installed] registry0_run by metis

lemma registry0_get:
  "bt_get (reg_series registry0) sid =
     (if sid = usd_id then Some usd_series else if sid = social_id then Some social_series else None)"
  by (simp add: registry0_def bt_get_def)

end
