(* ===== verification/RegistryProperties.thy ===== *)
theory RegistryProperties
  imports RegistrySamples
begin

text \<open>The properties of the registry.\<close>

section \<open>The invariant of every reachable registry\<close>



section \<open>Which calls write series\<close>

lemma reg_series_step:
  assumes "\<And>x. call \<noteq> AddSeries x" "\<And>x. call \<noteq> ForkSeries x"
    "\<And>x. call \<noteq> UpdateSeriesMetadata x" "\<And>x. call \<noteq> UpdateTradingAccess x"
  shows "reg_series (registry_step e t c call r) = reg_series r"
  using assms
  by (cases call)
    (auto simp: behind_def Let_def create_group_def update_group_def delete_group_def edit_group_def
      add_group_admins_def remove_group_admins_def add_group_members_def remove_group_members_def
      register_engine_def update_engine_def update_engine_allowed_roles_def grant_engine_role_def
      revoke_engine_role_def add_engine_admins_def remove_engine_admins_def edit_engine_def
      add_oracle_def update_oracle_metadata_def manage_oracle_principals_def edit_oracle_def
      set_social_limits_def
      split: option.splits result.splits)

lemma reg_series_log [simp]: "reg_series (log_if_social tier c now r) = reg_series r"
  by (simp add: log_if_social_def record_social_creation_def)

lemma store_series_get [simp]:
  "bt_get (reg_series (store_series sid ser r)) i =
     (if i = sid then Some ser else bt_get (reg_series r) i)"
  by (simp add: store_series_def)

lemma added_stored:
  "add_series e t c x r = (Ok sid, r') \<Longrightarrow>
   bt_get (reg_series r) sid = None \<and>
   (\<exists>u o1. bt_get (reg_series r') sid = Some (added_series x c (env_now e) u o1 sid)) \<and>
   (\<forall>i. i \<noteq> sid \<longrightarrow> bt_get (reg_series r') i = bt_get (reg_series r) i)"
  by (erule add_series_Ok) auto

lemma forked_stored:
  "fork_series e t c x r = (Ok sid, r') \<Longrightarrow>
   bt_get (reg_series r) sid = None \<and>
   (\<exists>source. bt_get (reg_series r) (fsp_source_series_id x) = Some source \<and>
      bt_get (reg_series r') sid = Some (forked_series source x c (env_now e) sid)) \<and>
   (\<forall>i. i \<noteq> sid \<longrightarrow> bt_get (reg_series r') i = bt_get (reg_series r) i)"
  by (erule fork_series_Ok) auto

lemma added_keeps:
  assumes "bt_get (reg_series r) i = Some s"
  shows "bt_get (reg_series (snd (add_series e t c x r))) i = Some s"
proof (cases "add_series e t c x r")
  case (Pair res r')
  show ?thesis
  proof (cases "\<exists>sid. res = Ok sid")
    case True
    then obtain sid where "add_series e t c x r = (Ok sid, r')" using Pair by blast
    from added_stored [OF this] assms Pair show ?thesis by (cases "i = sid") auto
  next
    case False
    from add_series_refused [OF Pair False] assms Pair show ?thesis by simp
  qed
qed

lemma forked_keeps:
  assumes "bt_get (reg_series r) i = Some s"
  shows "bt_get (reg_series (snd (fork_series e t c x r))) i = Some s"
proof (cases "fork_series e t c x r")
  case (Pair res r')
  show ?thesis
  proof (cases "\<exists>sid. res = Ok sid")
    case True
    then obtain sid where "fork_series e t c x r = (Ok sid, r')" using Pair by blast
    from forked_stored [OF this] assms Pair show ?thesis by (cases "i = sid") auto
  next
    case False
    from fork_series_refused [OF Pair False] assms Pair show ?thesis by simp
  qed
qed

section \<open>A series keeps its terms\<close>

text \<open>What a series promises its traders: everything but its texts, images, locale and access list.\<close>

definition market_terms :: "series \<Rightarrow> _" where
  "market_terms s =
     ((ser_series_id s, ser_underlying s, ser_expiry_ns s, ser_start_ns s, ser_payoff_type s,
       ser_strike s, ser_price_precision s, ser_payout_unit s, ser_outcomes s),
      (ser_oracle_source s, ser_balance_domain s, ser_title s, ser_resolution s),
      (ser_creator s, ser_created_at_ns s, ser_engine_id s, ser_forked_from s))"

text \<open>How one call may change a stored series, and by whom.\<close>

definition allowed_change :: "env \<Rightarrow> principal \<Rightarrow> registry \<Rightarrow> series \<Rightarrow> series \<Rightarrow> bool" where
  "allowed_change e c r s s' \<longleftrightarrow>
     market_terms s' = market_terms s \<and>
     (s' \<noteq> s \<longrightarrow> c \<noteq> anonymous \<and> caller_can_manage_series_metadata r s c (env_is_controller e c)) \<and>
     (ser_trading_access s' \<noteq> ser_trading_access s \<longrightarrow> env_is_controller e c)"

lemma allowed_same: "allowed_change e c r s s"
  by (simp add: allowed_change_def)

lemma step_changes_allowed:
  assumes "bt_get (reg_series r) sid = Some s"
  shows "\<exists>s'. bt_get (reg_series (registry_step e t c call r)) sid = Some s' \<and>
              allowed_change e c r s s'"
proof (cases call)
  case (AddSeries x)
  then show ?thesis using added_keeps [OF assms] by (simp add: allowed_same)
next
  case (ForkSeries x)
  then show ?thesis using forked_keeps [OF assms] by (simp add: allowed_same)
next
  case (UpdateSeriesMetadata x)
  with assms show ?thesis
    by (auto simp: update_series_metadata_def update_series_metadata_impl_def behind_def
        registry_caller_is_not_anonymous_def allowed_change_def market_terms_def with_metadata_def
        split: option.splits)
next
  case (UpdateTradingAccess x)
  with assms show ?thesis
    by (auto simp: update_trading_access_def behind_def registry_caller_is_not_anonymous_def
        allowed_change_def market_terms_def caller_can_manage_series_metadata_def
        split: option.splits)
qed (use assms reg_series_step [where call = call] in \<open>auto intro: allowed_same\<close>)

text \<open>
  C32. A registered series is never removed and no call changes what it promises its traders:
  whatever call anyone makes, its id, underlying, times, payoff, strike, precision, payout unit,
  outcomes, oracle, domain, title, resolution, creator and origin stay as they were.  What may
  change (description, images, locale, access list) changes only for the controller, the creator
  or an admin of the series' engine, and the access list only for a controller.
\<close>

theorem registered_terms_are_final:
  assumes "bt_get (reg_series r) sid = Some s"
  shows "\<exists>s'. bt_get (reg_series (registry_step e t c call r)) sid = Some s' \<and>
    market_terms s' = market_terms s \<and>
    (s' \<noteq> s \<longrightarrow> c \<noteq> anonymous \<and> caller_can_manage_series_metadata r s c (env_is_controller e c)) \<and>
    (ser_trading_access s' \<noteq> ser_trading_access s \<longrightarrow> env_is_controller e c)"
  using step_changes_allowed [OF assms] by (simp add: allowed_change_def)

definition open_up :: "series_id \<Rightarrow> registry_call" where
  "open_up sid = UpdateTradingAccess \<lparr> uta_series_id = sid, uta_trading_access = [Open] \<rparr>"

lemma registered_terms_are_final_witness:
  "\<exists>s'. bt_get (reg_series (registry_step renv0 tx0 ''admin'' (open_up social_id) registry0)) social_id
          = Some s' \<and> market_terms s' = market_terms social_series"
  using registered_terms_are_final [of registry0 social_id social_series renv0 tx0 "''admin''"
      "open_up social_id"]
  by (auto simp: registry0_get usd_id_def social_id_def)

section \<open>Who may register a series\<close>

text \<open>A caller that may create under the social tier: a market of points and below both limits.\<close>

definition may_create :: "env \<Rightarrow> registry \<Rightarrow> principal \<Rightarrow> series \<Rightarrow> bool" where
  "may_create e r c s \<longleftrightarrow>
     env_is_controller e c \<or>
     (\<exists>eid. ser_engine_id s = Some eid \<and> has_engine_role_on r c Creator eid) \<or>
     (is_social_market (ser_balance_domain s) (ser_payout_unit s) \<and>
      is_all_restricted (ser_trading_access s) \<and>
      check_social_rate_limits c (env_now e) r = Ok ())"

lemma added_may_create:
  assumes "add_series e t c x r = (Ok sid, r')"
  shows "c \<noteq> anonymous \<and> may_create e r c (added_series x c (env_now e) u o1 sid)"
  using assms
  by (elim add_series_Ok)
    (auto simp: may_create_def added_series_def add_tier_def check_add_series_def obind_Ok
      check_social_domain_def check_tier_def is_social_market_def open_if_empty_def
      is_all_restricted_def split: if_splits option.splits)

lemma forked_may_create:
  assumes "fork_series e t c x r = (Ok sid, r')"
    "bt_get (reg_series r) (fsp_source_series_id x) = Some source"
  shows "c \<noteq> anonymous \<and> may_create e r c (forked_series source x c (env_now e) sid)"
  using assms
  by (elim fork_series_Ok)
    (auto simp: may_create_def forked_series_def fork_tier_def is_social_market_def
      split: if_splits option.splits)

text \<open>
  C33. A series enters the registry, by registration or as a fork, only by a call of a caller that is
  not anonymous and that is a controller, holds the creator role on the engine the series belongs to,
  or creates a social market: non-monetary, restricted to groups, and with the caller below the social
  limits.  The series names the caller as its creator, is dated by the call and is stored under its
  id.
\<close>

theorem new_series_needs_authority:
  assumes "bt_get (reg_series r) sid = None"
    and "bt_get (reg_series (registry_step e t c call r)) sid = Some s"
  shows "c \<noteq> anonymous \<and> may_create e r c s \<and> ser_creator s = c \<and> ser_series_id s = sid \<and>
    ser_created_at_ns s = env_now e"
proof (cases call)
  case (AddSeries x)
  obtain res r' where run: "add_series e t c x r = (res, r')" by fastforce
  then obtain sid' where ok: "add_series e t c x r = (Ok sid', r')"
    using assms AddSeries add_series_refused [OF run] by (cases "\<exists>i. res = Ok i") auto
  show ?thesis
    using assms AddSeries added_stored [OF ok] added_may_create [OF ok] ok
    by (cases "sid = sid'") (auto simp: added_series_def)
next
  case (ForkSeries x)
  obtain res r' where run: "fork_series e t c x r = (res, r')" by fastforce
  then obtain sid' where ok: "fork_series e t c x r = (Ok sid', r')"
    using assms ForkSeries fork_series_refused [OF run] by (cases "\<exists>i. res = Ok i") auto
  show ?thesis
    using assms ForkSeries forked_stored [OF ok] forked_may_create [OF ok] ok
    by (cases "sid = sid'") (auto simp: forked_series_def)
next
  case (UpdateSeriesMetadata x)
  with assms show ?thesis
    by (auto simp: update_series_metadata_def update_series_metadata_impl_def behind_def
        split: option.splits if_splits)
next
  case (UpdateTradingAccess x)
  with assms show ?thesis
    by (auto simp: update_trading_access_def behind_def split: option.splits if_splits)
qed (use assms reg_series_step [where call = call] in auto)

text \<open>A market that differs from the first only in its underlying.\<close>

definition gold_market :: add_series_params where
  "gold_market = market ''g'' Settlement payout_usd [] (Some eng_0)"

definition gold_env :: env where "gold_env = renv0\<lparr>env_sha256 := (\<lambda>m. ''g'')\<rparr>"

lemma gold_added:
  "bt_get (reg_series (registry_step gold_env tx0 bob (AddSeries gold_market) registry0)) ''67'' =
     Some (added_series gold_market bob 1000 ''G'' ''O'' ''67'')"
  by code_simp

lemma new_series_needs_authority_witness:
  "bob \<noteq> anonymous \<and>
   may_create gold_env registry0 bob (added_series gold_market bob 1000 ''G'' ''O'' ''67'')"
  using new_series_needs_authority [OF _ gold_added]
  by (simp add: registry0_get usd_id_def social_id_def)

section \<open>One market per set of terms\<close>

text \<open>Two registrations of the same market: the same terms up to case and blanks of the two names.\<close>

definition same_market :: "add_series_params \<Rightarrow> add_series_params \<Rightarrow> bool" where
  "same_market x y \<longleftrightarrow>
     canonical_id_part (asp_underlying x) = canonical_id_part (asp_underlying y) \<and>
     canonical_id_part (asp_oracle_source x) = canonical_id_part (asp_oracle_source y) \<and>
     add_id_params x [] [] = add_id_params y [] []"

lemma same_market_id:
  "same_market x y \<Longrightarrow> add_id_params x u o1 = add_id_params y u o1"
  by (simp add: same_market_def add_id_params_def)

text \<open>Calls at any times: each with its own clock, controllers and caller.\<close>

type_synonym dated_call = "env \<times> text_env \<times> principal \<times> registry_call"

definition run_dated :: "dated_call list \<Rightarrow> registry \<Rightarrow> registry" where
  "run_dated calls r = fold (\<lambda>(e, t, c, call). registry_step e t c call) calls r"

lemma run_keeps_series:
  "bt_get (reg_series r) sid \<noteq> None \<Longrightarrow> bt_get (reg_series (run_dated calls r)) sid \<noteq> None"
proof (induction calls arbitrary: r)
  case Nil
  then show ?case by (simp add: run_dated_def)
next
  case (Cons a calls)
  obtain e t c call where a: "a = (e, t, c, call)" by (metis prod.exhaust)
  obtain s where "bt_get (reg_series r) sid = Some s" using Cons.prems by auto
  then have "bt_get (reg_series (registry_step e t c call r)) sid \<noteq> None"
    using step_changes_allowed [of r sid s e t c call] by auto
  then show ?case using Cons.IH a by (simp add: run_dated_def)
qed

text \<open>
  C34. Once a market is registered, nobody registers it again: after any further calls, each at its
  own time and by any caller, whoever the controllers are by then, a registration with the same terms
  is refused and changes nothing, at any later time, whoever sends it and whatever title, description,
  access list, engine or images it gives.  Only the hash function and the case mapping of the two
  registrations are the same.
\<close>

theorem duplicate_market_refused:
  fixes calls :: "dated_call list"
  assumes "add_series e t c x r = (Ok sid, r1)" and "same_market x y"
    and "env_sha256 e' = env_sha256 e"
  defines "r2 \<equiv> run_dated calls r1"
  shows "(\<nexists>sid'. fst (add_series e' t c' y r2) = Ok sid') \<and> snd (add_series e' t c' y r2) = r2"
proof -
  have stored: "bt_get (reg_series r2) sid \<noteq> None"
    using added_stored [OF assms(1)] unfolding r2_def by (intro run_keeps_series) auto
  have "\<nexists>sid'. fst (add_series e' t c' y r2) = Ok sid'"
  proof
    assume "\<exists>sid'. fst (add_series e' t c' y r2) = Ok sid'"
    then obtain sid' r3 where again: "add_series e' t c' y r2 = (Ok sid', r3)"
      by (cases "add_series e' t c' y r2") auto
    have "sid' = sid"
      using assms(1-3) again same_market_id [OF assms(2)]
      by (elim add_series_Ok) (auto simp: same_market_def generate_id_def)
    with again stored show False by (elim add_series_Ok) auto
  qed
  then show ?thesis
    using add_series_refused [of e' t c' y r2] by (cases "add_series e' t c' y r2") auto
qed

definition later :: "dated_call list" where
  "later = [(gold_env\<lparr>env_now := 2000\<rparr>, tx0, ''admin'', open_up social_id)]"

lemma duplicate_market_refused_witness:
  "snd (add_series (gold_env\<lparr>env_now := 3000\<rparr>) tx0 ''admin'' (gold_market\<lparr>asp_underlying := ''G'', asp_title := ''z''\<rparr>)
     (run_dated later (registry_step gold_env tx0 bob (AddSeries gold_market) registry0))) =
   run_dated later (registry_step gold_env tx0 bob (AddSeries gold_market) registry0)"
proof -
  have ok: "add_series gold_env tx0 bob gold_market registry0 =
      (Ok ''67'', registry_step gold_env tx0 bob (AddSeries gold_market) registry0)"
    unfolding prod_eq_iff registry_step.simps by (rule conjI, code_simp, simp)
  have same: "same_market gold_market (gold_market\<lparr>asp_underlying := ''G'', asp_title := ''z''\<rparr>)"
    by code_simp
  have sha: "env_sha256 (gold_env\<lparr>env_now := 3000\<rparr>) = env_sha256 gold_env" by simp
  show ?thesis using duplicate_market_refused [OF ok same sha] by blast
qed

end
