(* ===== verification/Deployment.thy ===== *)
theory Deployment
  imports ClearingSystem RegistryProperties
begin

text \<open>
  The registry and the clearing canister together.  The registry runs its calls, the clearing
  canister its own, and what the clearing canister is told about series and rights is what the
  registry answered at some moment of its history.  There is one registry: whatever principal the
  clearing canister is configured with for it (\<open>set_registry_canister\<close>, a controller's call) is taken
  to be this canister's.
\<close>

section \<open>The registry's answers\<close>

fun registry_answer :: "env \<Rightarrow> registry \<Rightarrow> request \<Rightarrow> reply option" where
  "registry_answer e r (GetSeries canister sid) = Some (RSeries (registry_get_series sid r))"
| "registry_answer e r (IsTradingAuthorized canister p sid) =
     Some (RBool (registry_is_trading_authorized e p sid r))"
| "registry_answer e r (IsOracleAuthorized canister oid p) =
     Some (RBool (registry_is_oracle_authorized oid p r))"
| "registry_answer e r q = None"

fun undelivered :: "reply \<Rightarrow> bool" where
  "undelivered (CallRejected code msg) = True"
| "undelivered (CallNotSent msg) = True"
| "undelivered p = False"

text \<open>
  The moments of the registry, the latest first.  A query may fail on the way; otherwise its answer
  is that of one of these moments.  The ledgers, the EVM and the signer answer anything.
\<close>

type_synonym history = "(env \<times> registry) list"

definition genuine :: "history \<Rightarrow> request \<Rightarrow> reply \<Rightarrow> bool" where
  "genuine rs q p =
     (undelivered p \<or>
      list_ex (\<lambda>(e, r). case registry_answer e r q of None \<Rightarrow> True | Some answer \<Rightarrow> p = answer) rs)"

section \<open>The two canisters\<close>

datatype deployment_event =
    Clearing "(clearing_call, reply, env) scheduled"
  | Registry env text_env principal registry_call
  | RegistryUpgrade env

type_synonym deployment = "canister \<times> history"

fun deployment_step :: "deployment_event \<Rightarrow> deployment \<Rightarrow> deployment" where
  "deployment_step (Clearing x) (c, rs) =
     (if honest_step (genuine rs) x (snd c)
      then (schedule_step clearing_handler clearing_upgrade x c, rs) else (c, rs))"
| "deployment_step (Registry e t caller call) (c, rs) =
     (c, (e, registry_step e t caller call (snd (hd rs))) # rs)"
| "deployment_step (RegistryUpgrade e) (c, rs) =
     (c, (e, registry_restore_state (registry_save_state (snd (hd rs)))) # rs)"

definition deployment_init :: "env \<Rightarrow> config \<Rightarrow> deployment" where
  "deployment_init e cfg = ((clearing_init cfg, []), [(e, registry_empty)])"

definition deployment_run :: "env \<Rightarrow> config \<Rightarrow> deployment_event list \<Rightarrow> deployment" where
  "deployment_run e cfg xs = fold deployment_step xs (deployment_init e cfg)"

definition history_of :: "env \<Rightarrow> config \<Rightarrow> deployment_event list \<Rightarrow> history" where
  "history_of e cfg xs = snd (deployment_run e cfg xs)"

definition clearing_of :: "deployment \<Rightarrow> clearing" where
  "clearing_of d = fst (fst d)"

definition registry_of :: "deployment \<Rightarrow> registry" where
  "registry_of d = snd (hd (snd d))"

section \<open>The clearing canister's part is a schedule of its own\<close>

lemma genuine_mono: "set rs \<subseteq> set rs' \<Longrightarrow> genuine rs q p \<Longrightarrow> genuine rs' q p"
  by (auto simp: genuine_def list_ex_iff)

lemma honest_step_mono: "set rs \<subseteq> set rs' \<Longrightarrow> honest_step (genuine rs) x ks \<Longrightarrow> honest_step (genuine rs') x ks"
  by (cases x) (auto intro: genuine_mono split: if_splits)

lemma deployment_step_history: "set (snd d) \<subseteq> set (snd (deployment_step x d))"
  by (cases "(x, d)" rule: deployment_step.cases) auto

lemma fold_history: "set (snd d) \<subseteq> set (snd (fold deployment_step xs d))"
proof (induction xs arbitrary: d)
  case (Cons x xs)
  then show ?case using subset_trans [OF deployment_step_history Cons.IH] by simp
qed simp

lemma fold_projects:
  "\<exists>ys. clearing_runs ys (fst d) = fst (fold deployment_step xs d) \<and>
     honest clearing_handler clearing_upgrade (genuine (snd (fold deployment_step xs d))) ys (fst d)"
proof (induction xs arbitrary: d)
  case Nil
  show ?case by (intro exI [of _ "[]"]) (simp add: clearing_runs_def run_schedule_def)
next
  case (Cons x xs)
  obtain ys where ys: "clearing_runs ys (fst (deployment_step x d)) = fst (fold deployment_step (x # xs) d)"
    "honest clearing_handler clearing_upgrade (genuine (snd (fold deployment_step (x # xs) d))) ys
       (fst (deployment_step x d))"
    using Cons.IH [of "deployment_step x d"] by auto
  show ?case
  proof (cases "fst (deployment_step x d) = fst d")
    case True
    with ys show ?thesis by auto
  next
    case False
    then obtain a c rs where x: "x = Clearing a" and d: "d = (c, rs)" "honest_step (genuine rs) a (snd c)"
      by (cases "(x, d)" rule: deployment_step.cases) (auto split: if_splits)
    have "set rs \<subseteq> set (snd (fold deployment_step (x # xs) d))"
      using fold_history [of d "x # xs"] d by simp
    with d(2) have "honest_step (genuine (snd (fold deployment_step (x # xs) d))) a (snd c)"
      using honest_step_mono by blast
    with ys x d show ?thesis
      by (intro exI [of _ "a # ys"]) (simp add: clearing_runs_def run_schedule_def)
  qed
qed

section \<open>What a history of the registry holds\<close>

text \<open>A registered series is stored under its id, and only a market outside \<open>Social\<close> pays in USD.\<close>

definition registered :: "registry \<Rightarrow> bool" where
  "registered r \<longleftrightarrow> (\<forall>sid ser. bt_get (reg_series r) sid = Some ser \<longrightarrow>
     ser_series_id ser = sid \<and> (ser_balance_domain ser = Social \<longrightarrow> ser_payout_unit ser \<noteq> payout_usd))"

lemma added_social: "add_series e t c x r = (Ok sid, r') \<Longrightarrow> check_social_domain x = Ok ()"
  by (elim add_series_Ok) (auto simp: check_add_series_def obind_Ok)

lemma registered_step:
  assumes "registered r"
  shows "registered (registry_step e t c call r)"
proof -
  have kept: "ser_series_id s = sid \<and> (ser_balance_domain s = Social \<longrightarrow> ser_payout_unit s \<noteq> payout_usd)"
    if s: "bt_get (reg_series (registry_step e t c call r)) sid = Some s"
      and old: "bt_get (reg_series r) sid = Some s0" for sid s s0
  proof -
    have "market_terms s = market_terms s0"
      using step_changes_allowed [OF old, of e t c call] s by (auto simp: allowed_change_def)
    then show ?thesis using assms old by (auto simp: market_terms_def registered_def)
  qed
  moreover have "ser_series_id s = sid \<and> (ser_balance_domain s = Social \<longrightarrow> ser_payout_unit s \<noteq> payout_usd)"
    if s: "bt_get (reg_series (registry_step e t c call r)) sid = Some s"
      and new: "bt_get (reg_series r) sid = None" for sid s
  proof (cases call)
    case (AddSeries x)
    obtain res r' where run: "add_series e t c x r = (res, r')" by fastforce
    then obtain sid' where ok: "add_series e t c x r = (Ok sid', r')"
      using s new AddSeries add_series_refused [OF run] by (cases "\<exists>i. res = Ok i") auto
    from added_stored [OF ok] added_social [OF ok] s new AddSeries ok show ?thesis
      by (cases "sid = sid'") (auto simp: added_series_def check_social_domain_def payout_usd_def split: if_splits)
  next
    case (ForkSeries x)
    obtain res r' where run: "fork_series e t c x r = (res, r')" by fastforce
    then obtain sid' where ok: "fork_series e t c x r = (Ok sid', r')"
      using s new ForkSeries fork_series_refused [OF run] by (cases "\<exists>i. res = Ok i") auto
    from forked_stored [OF ok] s new ForkSeries ok assms show ?thesis
      by (cases "sid = sid'") (auto simp: forked_series_def registered_def)
  next
    case (UpdateSeriesMetadata x)
    with s new show ?thesis
      by (auto simp: update_series_metadata_def update_series_metadata_impl_def behind_def
          split: option.splits if_splits)
  next
    case (UpdateTradingAccess x)
    with s new show ?thesis
      by (auto simp: update_trading_access_def behind_def split: option.splits if_splits)
  qed (use s new reg_series_step [where call = call] in auto)
  ultimately show ?thesis unfolding registered_def
    by (metis (no_types, opaque_lifting) not_Some_eq)
qed

text \<open>The series of an earlier moment are in the latest one, with the same terms.\<close>

definition history_inv :: "history \<Rightarrow> bool" where
  "history_inv rs \<longleftrightarrow> rs \<noteq> [] \<and>
     (\<forall>(e, r)\<in>set rs. registered r \<and>
        (\<forall>sid ser. bt_get (reg_series r) sid = Some ser \<longrightarrow>
           (\<exists>cur. bt_get (reg_series (snd (hd rs))) sid = Some cur \<and> market_terms cur = market_terms ser)))"

lemma history_inv_Cons:
  assumes "history_inv rs" "registered r"
    "\<And>sid ser. bt_get (reg_series (snd (hd rs))) sid = Some ser \<Longrightarrow>
       \<exists>cur. bt_get (reg_series r) sid = Some cur \<and> market_terms cur = market_terms ser"
  shows "history_inv ((e, r) # rs)"
  unfolding history_inv_def
proof (intro conjI ballI, simp, clarify)
  fix e1 r1 assume "(e1, r1) \<in> set ((e, r) # rs)"
  then consider "r1 = r" | "(e1, r1) \<in> set rs" by auto
  then show "registered r1 \<and> (\<forall>sid ser. bt_get (reg_series r1) sid = Some ser \<longrightarrow>
      (\<exists>cur. bt_get (reg_series (snd (hd ((e, r) # rs)))) sid = Some cur \<and> market_terms cur = market_terms ser))"
  proof cases
    case 1
    then show ?thesis using assms(2) by simp
  next
    case 2
    with assms(1) have "registered r1" and
      "\<And>sid ser. bt_get (reg_series r1) sid = Some ser \<Longrightarrow>
         \<exists>cur. bt_get (reg_series (snd (hd rs))) sid = Some cur \<and> market_terms cur = market_terms ser"
      unfolding history_inv_def by blast+
    with assms(3) show ?thesis by (metis list.sel(1) snd_conv)
  qed
qed

lemma history_inv_step:
  assumes "history_inv (snd d)"
  shows "history_inv (snd (deployment_step x d))"
proof -
  have "(fst (hd (snd d)), snd (hd (snd d))) \<in> set (snd d)" using assms by (simp add: history_inv_def)
  with assms have reg: "registered (snd (hd (snd d)))" unfolding history_inv_def by blast
  show ?thesis
  proof (cases "(x, d)" rule: deployment_step.cases)
    case (1 a c rs)
    with assms show ?thesis by simp
  next
    case (2 e t caller call c rs)
    then show ?thesis using assms reg step_changes_allowed
      by (auto intro!: history_inv_Cons registered_step simp: allowed_change_def) metis
  next
    case (3 e c rs)
    then show ?thesis using assms reg by (auto intro!: history_inv_Cons)
  qed
qed

lemma history_inv: "history_inv (history_of e cfg xs)"
proof -
  have "history_inv (snd (fold deployment_step ys d))" if "history_inv (snd d)" for ys d
    using that
  proof (induction ys arbitrary: d)
    case (Cons y ys)
    then show ?case using history_inv_step [of d y] by simp
  qed simp
  moreover have "history_inv (snd (deployment_init e cfg))"
    by (simp add: deployment_init_def history_inv_def registered_def registry_empty_def)
  ultimately show ?thesis by (simp add: history_of_def deployment_run_def)
qed

end
