(* ===== verification/DeploymentProperties.thy ===== *)
theory DeploymentProperties
  imports Deployment SystemProperties
begin

text \<open>
  What the two canisters guarantee together: the clearing canister's copies of series are the
  registry's, and who has an order on the book was allowed to trade by the registry.
\<close>

section \<open>The series and the orders of the clearing canister\<close>

definition listed :: "clearing \<Rightarrow> (series_id, series) btmap \<times> (order_id, limit_order) btmap" where
  "listed s = (cl_series s, cl_limit_orders s)"

definition order_key :: "order_id \<times> limit_order \<Rightarrow> user \<times> series_id" where
  "order_key p = (lo_creator (snd p), lo_series_id (snd p))"

definition order_keys :: "clearing \<Rightarrow> (user \<times> series_id) set" where
  "order_keys s = set (map order_key (cl_limit_orders s))"

text \<open>No series and no order of another user or series comes in.\<close>

definition narrows :: "clearing \<Rightarrow> clearing \<Rightarrow> bool" where
  "narrows s s' \<longleftrightarrow> set (cl_series s') \<subseteq> set (cl_series s) \<and> order_keys s' \<subseteq> order_keys s"

lemma narrows_same: "listed s' = listed s \<Longrightarrow> narrows s s'"
  by (simp add: narrows_def listed_def order_keys_def)

lemma narrows_trans: "narrows s t \<Longrightarrow> narrows t u \<Longrightarrow> narrows s u"
  unfolding narrows_def by blast

lemma listed_put_account [simp]: "listed (put_account u a s) = listed s"
  by (simp add: listed_def put_account_def)

lemma listed_set [simp]:
  "listed (s\<lparr>cl_positions := m\<rparr>) = listed s"
  "listed (s\<lparr>cl_accounts := as\<rparr>) = listed s"
  by (simp_all add: listed_def)

lemma listed_plans [simp]: "listed (s\<lparr>cl_settlement_plans := m\<rparr>) = listed s"
  by (simp add: listed_def)

lemma listed_release [simp]: "listed (release_reserved u d v s) = listed s"
  by (simp add: release_reserved_def split: option.split)

lemma listed_trade: "listed (snd (execute_trade_impl e ser x s)) = listed s"
proof (cases "execute_trade_impl e ser x s")
  case (Pair r s')
  then have "listed s' = listed s"
    by (cases rule: execute_trade_cases)
      (auto simp: listed_def apply_trade_def Let_def record_trade_def next_event_id_def
          index_executed_trade_def update_side_position_def update_side_account_def put_account_def
          split: prod.splits)
  with Pair show ?thesis by simp
qed

lemma narrows_remove [simp]: "narrows s (remove_order i s)"
  by (auto simp: narrows_def order_keys_def remove_order_def bt_remove_def)

lemma order_keys_insert:
  "order_keys (s\<lparr>cl_limit_orders := bt_insert k v (cl_limit_orders s)\<rparr>)
     \<subseteq> insert (lo_creator v, lo_series_id v) (order_keys s)"
  using image_mono [OF set_bt_insert_subset [of k v "cl_limit_orders s"],
      of order_key]
  by (simp add: order_keys_def order_key_def)

lemma narrows_shrink:
  assumes "bt_get (cl_limit_orders s) i = Some order" "listed t = listed s"
  shows "narrows s (shrink_order order q b t)"
proof -
  have "(i, order) \<in> set (cl_limit_orders s)" using assms(1) by (rule bt_get_mem)
  then have "(lo_creator order, lo_series_id order) \<in> order_keys s" by (force simp: order_keys_def order_key_def)
  moreover have "order_keys (shrink_order order q b t)
      \<subseteq> insert (lo_creator order, lo_series_id order) (order_keys t)"
    using order_keys_insert [where s = t and k = "lo_order_id order"
        and v = "order\<lparr>lo_qty := q, lo_blocked_margin_usd := b\<rparr>"]
      narrows_remove [of t "lo_order_id order"]
    by (auto simp: shrink_order_def narrows_def)
  moreover have "cl_series (shrink_order order q b t) = cl_series t"
    by (simp add: shrink_order_def remove_order_def)
  ultimately show ?thesis using assms(2) by (auto simp: narrows_def listed_def order_keys_def)
qed

lemma narrows_market: "narrows s (snd (submit_market_order_impl e u order t ser q s))"
proof -
  have "listed s' = listed s" if "execute_trade_impl e ser x s = (r, s')" for x r s'
    using listed_trade [of e ser x s] that by simp
  then show ?thesis
    by (auto simp: submit_market_order_impl_def fill_order_def Let_def narrows_same intro: narrows_shrink
        split: option.split result.split prod.split)
qed

lemma narrows_cancel: "narrows s (snd (cancel_order u i s))"
  by (auto simp: cancel_order_def narrows_same intro: narrows_trans [OF narrows_remove narrows_same]
      split: option.split)

lemma listed_mint: "listed (snd (mint_complete_set_logic u sid ser q s)) = listed s"
  by (auto simp: mint_complete_set_logic_def Let_def split: result.splits option.splits)

lemma listed_redeem:
  "redeem_outcomes u sid d q os s = Some s' \<Longrightarrow> listed s' = listed s"
proof (induction os arbitrary: s)
  case (Cons o1 os)
  have "listed t = listed s" if "redeem_outcome u sid d q o1 s = Some t" for t
    using that by (auto simp: redeem_outcome_def Let_def split: option.splits)
  with Cons show ?case by (auto split: option.splits)
qed simp

lemma listed_redeem_set: "listed (snd (redeem_complete_set_logic u sid ser q s)) = listed s"
  by (auto simp: redeem_complete_set_logic_def dest: listed_redeem split: result.splits option.splits)

lemma listed_transfers:
  "listed (snd (freeze_position_for_transfer e x s)) = listed s"
  "listed (snd (accept_position ser y v s)) = listed s"
  by (auto simp: freeze_position_for_transfer_def accept_position_def Let_def listed_def put_account_def
      split: option.split result.split)

lemma narrows_migrate: "narrows s (snd (migrate_domain_impl e u x s))"
proof -
  have "map order_key (bt_modify k (retag_order u d d') os) = map order_key os" for k os d d'
    by (auto simp: bt_modify_def retag_order_def order_key_def)
  then have "map order_key (fold (\<lambda>m. bt_modify (mo_order_id m) (retag_order u d d')) ps os)
      = map order_key os" for ps :: "migrated_order list" and os d d'
    by (induction ps arbitrary: os) simp_all
  then have "narrows t (apply_migration u d d' plan t)" for d d' plan t
    by (simp add: narrows_def order_keys_def apply_migration_def Let_def store_migration_plan_def
        put_account_def del: set_map)
  moreover have "narrows s t" if "migration_plan_get_or_create now y s = (plan, t)" for now y plan t
    using that by (intro narrows_same) (auto simp: migration_plan_get_or_create_def listed_def split: prod.splits)
  moreover have "narrows t (store_migration_plan u plan t)" for t plan
    by (rule narrows_same) (simp add: store_migration_plan_def listed_def)
  ultimately show ?thesis
    by (auto simp: migrate_domain_impl_def Let_def narrows_same split: result.split prod.split)
      (meson narrows_trans)+
qed

lemma listed_rekey: "listed (snd (validate_and_rekey e rid old new s)) = listed s"
  by (auto simp: validate_and_rekey_def Let_def reassignment_plan_get_or_create_def
      persist_def lock_for_reassignment_def rekey_account_def rekey_positions_def listed_def put_account_def
      split: result.split prod.splits option.split)

lemma listed_collateral:
  "listed (snd (finalise_deposit u x dplan s)) = listed s"
  "listed (snd (reserve_withdrawal u y config metric wplan s)) = listed s"
  "listed (refund_withdrawal u y wplan s) = listed s"
  by (auto simp: finalise_deposit_def credit_balance_def reserve_withdrawal_def
      refund_withdrawal_def modify_account_def store_deposit_plan_def store_withdrawal_plan_def Let_def
      listed_def put_account_def split: result.split option.split)

lemma narrows_cancel_open: "narrows s (cancel_open_limit_orders sid s)"
proof -
  have "narrows t (fold (\<lambda>o1. remove_order (fst o1)) os t)" for os :: "(order_id \<times> limit_order) list" and t
    by (induction os arbitrary: t) (auto intro: narrows_trans [OF narrows_remove] simp: narrows_same)
  moreover have "listed (fold (\<lambda>o1. release_reserved (lo_creator (snd o1))
      (lo_balance_domain (snd o1)) (lo_blocked_margin_usd (snd o1))) os t) = listed t"
    for os :: "(order_id \<times> limit_order) list" and t
    by (induction os arbitrary: t) auto
  ultimately show ?thesis
    unfolding cancel_open_limit_orders_def Let_def by (blast intro: narrows_trans narrows_same)
qed

lemma narrows_opened:
  assumes "prepare_settlement_impl e ser sid st ir pr s = (Ok plan, s')"
  shows "narrows s s'"
proof -
  obtain tot ps where "gather_positions ser sid st ir pr (cl_positions s) no_totals [] = Ok (tot, ps)"
    "check_settlement_solvency (ser_balance_domain ser) (tot_net_payoff tot) ps s = Ok ()"
    and create: "(plan, s') = settlement_plan_get_or_create (env_now e)
        \<lparr> spp_series_id = sid, spp_settlement = st, spp_oracle_source = ser_oracle_source ser,
          spp_fee = tot_protocol_fee tot, spp_insurance_fee = tot_insurance_fee tot,
          spp_positions = ps, spp_balance_domain = ser_balance_domain ser \<rparr>
        (cancel_open_limit_orders sid (remove_positions sid ps s))"
    using assms by (rule prepare_settlement_Ok)
  have "listed s' = listed (cancel_open_limit_orders sid (remove_positions sid ps s))"
    using settlement_plan_create_frame [OF create [symmetric]] by (metis listed_plans)
  moreover have "listed (remove_positions sid ps s) = listed s" by (simp add: remove_positions_def)
  ultimately show ?thesis using narrows_cancel_open narrows_same narrows_trans by metis
qed

lemma narrows_prepare:
  "prepare_settlement_impl e ser sid st ir pr s = (r, s') \<Longrightarrow> narrows s s'"
  using narrows_opened prepare_settlement_error narrows_same by (cases "\<exists>plan. r = Ok plan") blast+

lemma listed_chunk: "account_chunk e sid plan s = (plan', s') \<Longrightarrow> listed s' = listed s"
  by (auto simp: account_chunk_def apply_settlement_accounting_logic_def Let_def index_settled_events_def
      store_settlement_plan_def credit_fees_def listed_def split: if_splits prod.splits)

lemma narrows_settle: "narrows s (snd (settle_series_inner e x s))"
proof -
  obtain r s1 where build: "build_or_resume e x s = (r, s1)" by fastforce
  have opened: "narrows s s1" using build
    by (auto simp: build_or_resume_def narrows_same intro: narrows_prepare split: option.splits if_splits)
  show ?thesis
  proof (cases "\<exists>plan. r = Ok plan \<and> spl_status plan \<noteq> Finalised")
    case True
    then obtain plan where plan: "r = Ok plan" "spl_status plan \<noteq> Finalised" by blast
    obtain plan' s2 where chunk: "account_chunk e (sse_series_id x) plan s1 = (plan', s2)" by fastforce
    then have "listed s2 = listed s1" by (rule listed_chunk)
    then have "narrows s1 ((store_settlement_plan (sse_series_id x) (plan'\<lparr>spl_status := Finalised\<rparr>) s2)
        \<lparr>cl_series := bt_remove (sse_series_id x) (cl_series s2)\<rparr>)" "narrows s1 s2"
      by (auto simp: narrows_def order_keys_def listed_def store_settlement_plan_def bt_remove_def)
    then show ?thesis using build plan chunk narrows_trans [OF opened]
      by (auto simp: settle_series_inner_def store_settlement_plan_def)
  next
    case False
    then have "snd (settle_series_inner e x s) = s1"
      using build by (auto simp: settle_series_inner_def split: result.split)
    with opened show ?thesis by simp
  qed
qed

lemma narrows_step: "\<not> places call \<Longrightarrow> narrows s (book_step e call s)"
  by (cases call) (simp_all add: narrows_same listed_trade narrows_market narrows_cancel listed_mint
      listed_redeem_set listed_transfers narrows_settle narrows_migrate listed_rekey listed_collateral)

section \<open>What the registry has told\<close>

definition copied :: "history \<Rightarrow> series_id \<Rightarrow> series \<Rightarrow> bool" where
  "copied rs sid ser =
     (ser_payout_unit ser = payout_usd \<and> (\<exists>(e, r)\<in>set rs. registry_get_series sid r = Some ser))"

definition authorised :: "history \<Rightarrow> user \<Rightarrow> series_id \<Rightarrow> bool" where
  "authorised rs u sid = (\<exists>(e, r)\<in>set rs. registry_is_trading_authorized e u sid r)"

definition faithful :: "history \<Rightarrow> clearing \<Rightarrow> bool" where
  "faithful rs s \<longleftrightarrow>
     (\<forall>(sid, ser)\<in>set (cl_series s). copied rs sid ser) \<and>
     (\<forall>(u, sid)\<in>order_keys s. authorised rs u sid)"

definition keeps_faith :: "history \<Rightarrow> clearing \<Rightarrow> clearing \<Rightarrow> bool" where
  "keeps_faith rs s s' \<longleftrightarrow> (faithful rs s \<longrightarrow> faithful rs s')"

lemma narrows_faith: "narrows s s' \<Longrightarrow> keeps_faith rs s s'"
  unfolding narrows_def keeps_faith_def faithful_def by blast

lemma copied_id:
  assumes "history_inv rs" "copied rs sid ser"
  shows "ser_series_id ser = sid"
proof -
  obtain e r where "(e, r) \<in> set rs" "bt_get (reg_series r) sid = Some ser"
    using assms(2) by (auto simp: copied_def registry_get_series_def)
  with assms(1) show ?thesis unfolding history_inv_def registered_def by blast
qed

lemma genuine_series:
  "genuine rs (GetSeries canister sid) (RSeries (Some ser)) \<Longrightarrow> ser_payout_unit ser = payout_usd \<Longrightarrow>
   copied rs sid ser"
  by (fastforce simp: genuine_def copied_def list_ex_iff)

lemma genuine_right:
  "genuine rs (IsTradingAuthorized canister u sid) (RBool True) \<Longrightarrow> authorised rs u sid"
  by (fastforce simp: genuine_def authorised_def list_ex_iff)

lemma open_granted: "list_ex (\<lambda>p. p = Open) ps \<Longrightarrow> access_granted r u ps"
  by (induction ps rule: access_granted.induct) auto

lemma open_authorised: "copied rs sid ser \<Longrightarrow> dominated_by_open ser \<Longrightarrow> authorised rs u sid"
proof -
  assume cp: "copied rs sid ser" and op: "dominated_by_open ser"
  obtain e r where "(e, r) \<in> set rs" "bt_get (reg_series r) sid = Some ser"
    using cp by (auto simp: copied_def registry_get_series_def)
  moreover from this(2) op have "registry_is_trading_authorized e u sid r"
    using open_granted by (simp add: registry_is_trading_authorized_def dominated_by_open_def)
  ultimately show "authorised rs u sid" unfolding authorised_def by blast
qed

section \<open>The gates of an order\<close>

lemma returns_gates:
  assumes "faithful rs (snd c)"
  shows "returns (genuine rs) (copied rs sid) (ensure_series_registered sid a c)"
proof (cases "bt_get (cl_series (snd c)) sid")
  case None
  then show ?thesis
    by (auto simp: ensure_series_registered_def pure_step_def fetch_series_def icall_def preturn_def
        registry_decode_def ok_or_def Let_def intro: genuine_series
        split: result.splits option.splits reply.splits)
next
  case (Some ser)
  then have "copied rs sid ser" using assms bt_get_mem unfolding faithful_def by fast
  with Some show ?thesis
    by (auto simp: ensure_series_registered_def pure_step_def preturn_def split: result.splits)
qed

lemma returns_access:
  assumes "history_inv rs" "copied rs sid ser"
  shows "returns (genuine rs) (\<lambda>_. authorised rs u sid) (check_trading_access ser u c)"
  using open_authorised [OF assms(2)] copied_id [OF assms]
  by (auto simp: check_trading_access_def is_trading_authorized_def icall_def preturn_def
      registry_decode_def ok_or_def Let_def intro: genuine_right
      split: option.splits reply.splits if_splits)

lemma place_faith:
  assumes "authorised rs u (slo_series_id x)"
  shows "keeps_faith rs s (snd (place_limit_order u ser x s))"
proof -
  have "keeps_faith rs s (t\<lparr>cl_limit_orders := bt_insert i (new_order u ser x m) (cl_limit_orders s)\<rparr>)"
    if "cl_series t = cl_series s" "cl_limit_orders t = cl_limit_orders s" for t i m
  proof -
    have "order_keys (t\<lparr>cl_limit_orders := bt_insert i (new_order u ser x m) (cl_limit_orders s)\<rparr>)
        \<subseteq> insert (u, slo_series_id x) (order_keys s)"
      using order_keys_insert [where s = t and k = i and v = "new_order u ser x m"] that
      by (simp add: order_keys_def new_order_def)
    with that assms show ?thesis unfolding keeps_faith_def faithful_def by auto
  qed
  then show ?thesis
    by (auto simp: place_limit_order_def Let_def narrows_faith narrows_same put_account_def
        split: result.split option.split)
qed

section \<open>The guarantee\<close>

interpretation faith_calls: clearing_calls "genuine (history_of e cfg xs)" "keeps_faith (history_of e cfg xs)"
  for e cfg xs
proof unfold_locales
  let ?rs = "history_of e cfg xs"
  show "keeps_faith ?rs s s'" if "core s' = core s" for s s'
    using that by (intro narrows_faith narrows_same) (simp add: core_def listed_def)
  show "keeps_faith ?rs s (cache_series ser s)"
    if "genuine ?rs (GetSeries canister sid) (RSeries (Some ser))" "ser_payout_unit ser = payout_usd"
    for canister sid ser s
  proof -
    have "copied ?rs sid ser" using that by (rule genuine_series)
    with copied_id [OF history_inv] have "copied ?rs (ser_series_id ser) ser" by metis
    moreover have "set (cl_series (cache_series ser s)) \<subseteq> insert (ser_series_id ser, ser) (set (cl_series s))"
      "order_keys (cache_series ser s) = order_keys s"
      by (simp_all add: cache_series_def set_bt_insert_subset order_keys_def)
    ultimately show ?thesis unfolding keeps_faith_def faithful_def by auto
  qed
qed (auto simp: keeps_faith_def reflp_def transp_def)

lemma submit_faith:
  assumes "faithful (history_of e cfg xs) (snd c)"
  shows "guarantees (genuine (history_of e cfg xs)) (keeps_faith (history_of e cfg xs)) (snd c)
    (submit_limit_order u x c)"
proof -
  let ?rs = "history_of e cfg xs"
  note rules = guarantees_pbind_returns [OF faith_calls.trans]
  have "guarantees (genuine ?rs) (keeps_faith ?rs) (snd c)
      (pbind (ensure_series_registered (slo_series_id x) OpenExposure c) (\<lambda>ser c.
       pbind (check_trading_access ser u c) (\<lambda>_ c.
       pure_step (validate_no_arbitrage ser x (snd c)) c (\<lambda>_ c.
       pbind (revalidate g c) (\<lambda>_. sync (\<lambda>_. place_limit_order u ser x))))))" for g
    by (rule rules [OF faith_calls.gates returns_gates [OF assms]], simp)
      (rule rules [OF faith_calls.trading_access returns_access [OF history_inv]],
        auto intro!: faith_calls.pure_step faith_calls.pbind faith_calls.guard faith_calls.sync place_faith)
  then show ?thesis
    by (auto simp: submit_limit_order_def guarded_def acquire_def preturn_def guard_acquire_def Let_def)
qed

interpretation faith: clearing_guarantee "genuine (history_of e cfg xs)" "keeps_faith (history_of e cfg xs)"
    "faithful (history_of e cfg xs)"
  for e cfg xs
proof unfold_locales
  let ?rs = "history_of e cfg xs"
  show "keeps_faith ?rs s (snd (backfill_settlement_events ev b after s))" for s ev b after
    by (intro narrows_faith narrows_same)
      (simp add: backfill_settlement_events_def Let_def index_settled_events_def listed_def split: prod.split)
  show "keeps_faith ?rs s (clearing_upgrade s)" for s
    by (intro narrows_faith narrows_same)
      (simp add: listed_def clearing_upgrade_def restore_state_def save_state_def Let_def
        rebuild_reassignment_marks_def rebuild_leaderboard_def rebuild_series_trade_history_def
        split: prod.split)
qed (simp_all add: narrows_faith narrows_step submit_faith, simp add: keeps_faith_def)

lemma deployment_faithful: "faithful (history_of e cfg xs) (clearing_of (deployment_run e cfg xs))"
proof -
  let ?d = "deployment_run e cfg xs" and ?rs = "history_of e cfg xs"
  obtain ys where ys: "clearing_runs ys (clearing_init cfg, []) = fst ?d"
    "honest clearing_handler clearing_upgrade (genuine ?rs) ys (clearing_init cfg, [])"
    using fold_projects [of "deployment_init e cfg" xs]
    by (auto simp: deployment_run_def history_of_def deployment_init_def)
  have init: "faithful ?rs (clearing_init cfg)"
    by (simp add: faithful_def clearing_init_def clearing_empty_def order_keys_def)
  from faith.installed(1) [OF init ys(2)] init show ?thesis
    by (simp add: keeps_faith_def ys(1) clearing_of_def)
qed

section \<open>The properties\<close>

text \<open>
  The clearing canister refines its schedules: whatever the registry does meanwhile, what the
  clearing canister goes through beside it is one of the schedules of its own calls, answers and
  upgrades, in which every answer about a series or a right is one that the registry gave at some
  moment of its history, or a failure of the call.
\<close>

lemma deployment_refines_schedule:
  "\<exists>ys. clearing_runs ys (clearing_init cfg, []) = fst (deployment_run e cfg xs) \<and>
     honest clearing_handler clearing_upgrade (genuine (history_of e cfg xs)) ys (clearing_init cfg, [])"
  using fold_projects [of "deployment_init e cfg" xs]
  by (simp add: deployment_run_def history_of_def deployment_init_def)

text \<open>A cached series agrees with the registry: the terms are those of the registered market.\<close>

definition agrees :: "registry \<Rightarrow> series_id \<times> series \<Rightarrow> bool" where
  "agrees r p =
     (ser_series_id (snd p) = fst p \<and> ser_payout_unit (snd p) = payout_usd \<and>
      ser_balance_domain (snd p) \<noteq> Social \<and>
      (case registry_get_series (fst p) r of
         None \<Rightarrow> False | Some cur \<Rightarrow> market_terms cur = market_terms (snd p)))"

text \<open>
  C6. The clearing canister never refreshes its copies of series and need not, as far as their terms
  go: however the calls of both canisters interleave, each cached series is still registered, under
  the id it is cached by, with the very terms of the copy - underlying, times, payoff, strike,
  precision, outcomes, oracle, domain and the others that \<open>market_terms\<close> lists.  It pays in USD, and
  is therefore never a market of the \<open>Social\<close> domain.
\<close>

theorem cached_series_agree:
  "list_all (agrees (registry_of (deployment_run e cfg xs)))
     (cl_series (clearing_of (deployment_run e cfg xs)))"
proof -
  let ?rs = "history_of e cfg xs"
  have "agrees (registry_of (deployment_run e cfg xs)) (sid, ser)"
    if "(sid, ser) \<in> set (cl_series (clearing_of (deployment_run e cfg xs)))" for sid ser
  proof -
    have copy: "copied ?rs sid ser" using deployment_faithful that unfolding faithful_def by blast
    then obtain ev r where r: "(ev, r) \<in> set ?rs" "bt_get (reg_series r) sid = Some ser"
      "ser_payout_unit ser = payout_usd"
      by (auto simp: copied_def registry_get_series_def)
    with history_inv [of e cfg xs] have "registered r" and
      "\<exists>cur. bt_get (reg_series (snd (hd ?rs))) sid = Some cur \<and> market_terms cur = market_terms ser"
      unfolding history_inv_def by blast+
    with r copied_id [OF history_inv copy] show ?thesis
      unfolding registered_def by (auto simp: agrees_def registry_of_def history_of_def registry_get_series_def)
  qed
  then show ?thesis by (auto simp: list_all_iff)
qed

text \<open>
  C5. Who has an open order on the book of the clearing canister was allowed to trade that series by
  the registry: at some moment of the registry's history, its access list was open, or the user was
  a member of a group on it or a controller - whatever groups and lists have become since.
\<close>

theorem orders_were_authorised:
  "list_all (\<lambda>(i, o1). authorised (history_of e cfg xs) (lo_creator o1) (lo_series_id o1))
     (cl_limit_orders (clearing_of (deployment_run e cfg xs)))"
  using deployment_faithful [of e cfg xs]
  by (force simp: faithful_def order_keys_def order_key_def list_all_iff)

end
