(* ===== verification/Answers.thy ===== *)
theory Answers
  imports Funds Collateral Settlements Migration Reassignment Accounts RegistryGroups RegistryEngines RegistrySeries
begin

text \<open>
  What the entry points answer: every update call turns its result into an enum of its own for
  Candid (\<open>results.rs\<close>).  A call that traps answers nothing.
\<close>

section \<open>The two shapes\<close>

datatype ('e, 'a) answer = AnswerOk 'a | AnswerErr 'e
datatype 'e ack = AckOk | AckErr 'e

fun into_answer :: "('e, 'a) result \<Rightarrow> ('e, 'a) answer option" where
  "into_answer (Ok v) = Some (AnswerOk v)"
| "into_answer (Err e) = Some (AnswerErr e)"
| "into_answer Trap = None"

fun into_ack :: "('e, unit) result \<Rightarrow> 'e ack option" where
  "into_ack (Ok _) = Some AckOk"
| "into_ack (Err e) = Some (AckErr e)"
| "into_ack Trap = None"

text \<open>Nothing of a result is lost on the way out.\<close>

lemma into_answer_inject: "into_answer r = into_answer r' \<longleftrightarrow> r = r'"
  by (cases r; cases r') simp_all

lemma into_ack_inject: "into_ack r = into_ack r' \<longleftrightarrow> r = r'"
  by (cases r; cases r') simp_all

section \<open>The enums of the entry points\<close>

definition withdraw_fund_answer ::
  "(withdraw_fund_error, nat) result \<Rightarrow> (withdraw_fund_error, nat) answer option" where
  "withdraw_fund_answer = into_answer"

definition cancel_fund_withdrawal_answer ::
  "(cancel_fund_withdrawal_error, unit) result \<Rightarrow> cancel_fund_withdrawal_error ack option" where
  "cancel_fund_withdrawal_answer = into_ack"

definition update_asset_price_answer ::
  "(update_asset_price_error, unit) result \<Rightarrow> update_asset_price_error ack option" where
  "update_asset_price_answer = into_ack"

definition register_icrc_asset_answer ::
  "(register_icrc_asset_error, unit) result \<Rightarrow> register_icrc_asset_error ack option" where
  "register_icrc_asset_answer = into_ack"

definition update_collateral_allowed_domains_answer ::
  "(update_collateral_allowed_domains_error, unit) result \<Rightarrow> update_collateral_allowed_domains_error ack option" where
  "update_collateral_allowed_domains_answer = into_ack"

definition refresh_icrc_asset_metadata_answer ::
  "(refresh_icrc_asset_metadata_error, unit) result \<Rightarrow> refresh_icrc_asset_metadata_error ack option" where
  "refresh_icrc_asset_metadata_answer = into_ack"

definition reassign_account_answer ::
  "(reassign_account_error, unit) result \<Rightarrow> reassign_account_error ack option" where
  "reassign_account_answer = into_ack"

definition deposit_collateral_answer ::
  "(deposit_collateral_error, unit) result \<Rightarrow> deposit_collateral_error ack option" where
  "deposit_collateral_answer = into_ack"

definition withdraw_collateral_answer ::
  "(withdraw_collateral_error, unit) result \<Rightarrow> withdraw_collateral_error ack option" where
  "withdraw_collateral_answer = into_ack"

definition migrate_domain_answer ::
  "(migration_error, unit) result \<Rightarrow> migration_error ack option" where
  "migrate_domain_answer = into_ack"

definition get_account_state_answer ::
  "(account_state_error, account_state_response) result \<Rightarrow> (account_state_error, account_state_response) answer option" where
  "get_account_state_answer = into_answer"

definition submit_matched_trade_answer ::
  "(trade_error, bool) result \<Rightarrow> (trade_error, bool) answer option" where
  "submit_matched_trade_answer = into_answer"

definition accept_position_transfer_answer ::
  "(trade_error, bool) result \<Rightarrow> (trade_error, bool) answer option" where
  "accept_position_transfer_answer = into_answer"

definition add_series_answer ::
  "(series_error, series_id) result \<Rightarrow> (series_error, series_id) answer option" where
  "add_series_answer = into_answer"

definition update_series_answer ::
  "(series_error, series) result \<Rightarrow> (series_error, series) answer option" where
  "update_series_answer = into_answer"

definition create_group_answer ::
  "(group_error, group_id) result \<Rightarrow> (group_error, group_id) answer option" where
  "create_group_answer = into_answer"

definition group_answer ::
  "(group_error, bool) result \<Rightarrow> (group_error, bool) answer option" where
  "group_answer = into_answer"

definition register_engine_answer ::
  "(engine_error, engine_id) result \<Rightarrow> (engine_error, engine_id) answer option" where
  "register_engine_answer = into_answer"

definition engine_answer ::
  "(engine_error, unit) result \<Rightarrow> engine_error ack option" where
  "engine_answer = into_ack"

definition oracle_answer ::
  "(oracle_error, unit) result \<Rightarrow> oracle_error ack option" where
  "oracle_answer = into_ack"

text \<open>A settlement also answers that it is still processing.\<close>

datatype settle_series_answer = SettleSeriesOk | SettleSeriesProcessing | SettleSeriesErr settlement_error

fun settle_answer :: "(settlement_error, settle_outcome) result \<Rightarrow> settle_series_answer option" where
  "settle_answer (Ok SettleDone) = Some SettleSeriesOk"
| "settle_answer (Ok SettleProcessing) = Some SettleSeriesProcessing"
| "settle_answer (Err e) = Some (SettleSeriesErr e)"
| "settle_answer Trap = None"

text \<open>What the caller of an asynchronous entry point gets in the world \<open>w\<close>.\<close>

definition answered ::
  "(('e, 'a) result \<Rightarrow> 'b option) \<Rightarrow> (request \<Rightarrow> ctx \<Rightarrow> reply \<times> ctx) \<Rightarrow>
     (ctx \<Rightarrow> ('e, 'a) cproc) \<Rightarrow> ctx \<Rightarrow> 'b option" where
  "answered into w h c = into (fst (run w h c))"

lemma answered_ok:
  "answered into_answer w h c = Some (AnswerOk v) \<longleftrightarrow> fst (run w h c) = Ok v"
  by (cases "fst (run w h c)") (simp_all add: answered_def)

end
