(* ===== verification/GuardProperties.thy ===== *)
theory GuardProperties
  imports CompleteSets Reassignment Samples
begin

text \<open>
  The reassignment guard: a trading call that is waiting for the registry when its account is
  re-keyed is refused when it resumes, before it has touched the books.
\<close>

section \<open>Calls that only read until they are validated\<close>

definition books :: "ctx \<Rightarrow> (user, account_state) btmap \<times> positions_map \<times> (order_id, limit_order) btmap \<times>
    (user, reassignment_mark) btmap" where
  "books c = (cl_accounts (snd c), cl_positions (snd c), cl_limit_orders (snd c),
     cl_reassignment_marks (snd c))"

text \<open>Between two resumptions the call changes nothing of the books.\<close>

primrec reading :: "ctx \<Rightarrow> ('e, 'a) cproc \<Rightarrow> bool" where
  "reading c0 (Return r c) = (books c = books c0)"
| "reading c0 (Await q c k) = (\<forall>p c'. reading c' (k p c'))"

text \<open>
  If the mark of \<open>u\<close> at the last resumption is not the one of the entry, the call ends without
  success and without a change of the books.
\<close>

primrec guarded_by :: "user \<Rightarrow> reassignment_mark \<Rightarrow> ctx \<Rightarrow> ('e, 'a) cproc \<Rightarrow> bool" where
  "guarded_by u m c0 (Return r c) =
     (mark_of (snd c0) u \<noteq> m \<longrightarrow> (\<forall>v. r \<noteq> Ok v) \<and> books c = books c0)"
| "guarded_by u m c0 (Await q c k) = (\<forall>p c'. guarded_by u m c' (k p c'))"

lemma guarded_run:
  assumes "guarded_by u m c0 pr" "run_from w pr c0 = (r, c')" "mark_of (snd (resumed_at w pr c0)) u \<noteq> m"
  shows "(\<forall>v. r \<noteq> Ok v) \<and> books c' = books (resumed_at w pr c0)"
  using assms
proof (induction pr arbitrary: c0 rule: proc_induct)
  case (Return r0 c)
  then show ?case by (auto split: if_splits)
next
  case (Await q c k)
  obtain p s' where w: "w q c = (p, s')" by (cases "w q c")
  have "guarded_by u m s' (k p s')" "run_from w (k p s') s' = (r, c')"
    "mark_of (snd (resumed_at w (k p s') s')) u \<noteq> m"
    using Await.prems w by (simp_all del: split_paired_All)
  from Await.IH [OF this] w show ?case by simp
qed

lemma guarded_pbind:
  assumes "reading c0 pr" "\<And>x c c1. books c = books c1 \<Longrightarrow> guarded_by u m c1 (f x c)"
  shows "guarded_by u m c0 (pbind pr f)"
  using assms(1)
proof (induction pr arbitrary: c0 rule: proc_induct)
  case (Return r c)
  then show ?case using assms(2) by (cases r) auto
next
  case (Await q c k)
  then show ?case by auto
qed

lemma reading_pbind:
  assumes "reading c0 pr" "\<And>x c c1. books c = books c1 \<Longrightarrow> reading c1 (f x c)"
  shows "reading c0 (pbind pr f)"
  using assms(1)
proof (induction pr arbitrary: c0 rule: proc_induct)
  case (Return r c)
  then show ?case using assms(2) by (cases r) auto
next
  case (Await q c k)
  then show ?case by auto
qed

lemma reading_pmap_err: "reading c0 pr \<Longrightarrow> reading c0 (pmap_err g pr)"
  by (induction pr arbitrary: c0 rule: proc_induct) auto

lemma reading_simps [simp]:
  "reading c0 (preturn r c) \<longleftrightarrow> books c = books c0"
  "reading c0 (icall q decode c)"
  by (simp_all add: preturn_def icall_def)

lemma reading_pure_step:
  "books c = books c0 \<Longrightarrow> (\<And>x. reading c0 (f x c)) \<Longrightarrow> reading c0 (pure_step r c f)"
  by (cases r) (simp_all add: pure_step_def)

lemma guarded_pure_step:
  "books c = books c0 \<Longrightarrow> (\<And>x. guarded_by u m c0 (f x c)) \<Longrightarrow> guarded_by u m c0 (pure_step r c f)"
  by (cases r) (simp_all add: pure_step_def)

lemma reading_fetch_series: "books c = books c0 \<Longrightarrow> reading c0 (fetch_series sid c)"
  unfolding fetch_series_def Let_def
  by (auto intro!: reading_pbind reading_pmap_err simp: books_def cache_series_def split: option.split)

lemma reading_ensure_series: "books c = books c0 \<Longrightarrow> reading c0 (ensure_series_registered sid a c)"
  unfolding ensure_series_registered_def
  by (intro reading_pure_step reading_pbind)
    (auto intro!: reading_fetch_series reading_pure_step split: option.split)

lemma reading_trading_access: "books c = books c0 \<Longrightarrow> reading c0 (check_trading_access ser u c)"
  unfolding check_trading_access_def Let_def is_trading_authorized_def
  by (auto intro!: reading_pbind reading_pmap_err)

lemma books_mark: "books c = books c1 \<Longrightarrow> mark_of (snd c) u = mark_of (snd c1) u"
  by (simp add: books_def mark_of_def)

lemma guarded_revalidate:
  assumes "books c = books c1" "\<not> rm_locked m"
  shows "guarded_by u m c1
    (pbind (revalidate \<lparr> rg_user = u, rg_generation = rm_generation m \<rparr> c) (\<lambda>_. sync body))"
proof (cases "mark_of (snd c1) u = m")
  case True
  then show ?thesis using books_mark [OF assms(1), of u] assms(2)
    by (simp add: revalidate_def preturn_def sync_def guard_revalidate_def split: prod.split)
next
  case False
  then have "\<not> (\<not> rm_locked (mark_of (snd c) u) \<and> rm_generation (mark_of (snd c) u) = rm_generation m)"
    using books_mark [OF assms(1), of u] assms(2) by (auto intro: reassignment_mark.equality)
  then show ?thesis using assms(1)
    by (auto simp: revalidate_def preturn_def guard_revalidate_def Let_def)
qed

section \<open>The trading calls\<close>

datatype trading_call =
    LimitOrder submit_limit_order_params
  | MarketOrder trade_id order_id "i128 option"
  | MintSet series_id i128
  | RedeemSet series_id i128

fun trading_proc :: "principal \<Rightarrow> trading_call \<Rightarrow> ctx \<Rightarrow> (trade_error, bool) cproc" where
  "trading_proc u (LimitOrder x) = submit_limit_order u x"
| "trading_proc u (MarketOrder t i q) = submit_market_order u t i q"
| "trading_proc u (MintSet sid q) = mint_complete_set u sid q"
| "trading_proc u (RedeemSet sid q) = redeem_complete_set u sid q"

text \<open>A call enters with the mark of its account unlocked, or ends at once with nothing done.\<close>

lemma guarded_acquire:
  assumes "\<not> rm_locked (mark_of (snd c) u) \<Longrightarrow>
      guarded_by u (mark_of (snd c) u) c
        (f \<lparr> rg_user = u, rg_generation = rm_generation (mark_of (snd c) u) \<rparr> c)"
  shows "guarded_by u (mark_of (snd c) u) c (pbind (acquire u c) f)"
  using assms by (auto simp: acquire_def preturn_def guard_acquire_def)

lemma trading_proc_guarded: "guarded_by u (mark_of (snd c) u) c (trading_proc u call c)"
proof -
  note parts = guarded_pbind reading_ensure_series reading_trading_access guarded_revalidate
  have "guarded_by u (mark_of (snd c) u) c (submit_limit_order u x c)" for x
    unfolding submit_limit_order_def guarded_def
    by (auto simp: preturn_def intro!: guarded_acquire parts guarded_pure_step)
  moreover have "guarded_by u (mark_of (snd c) u) c (submit_market_order u t i q c)" for t i q
    unfolding submit_market_order_def guarded_def
    by (auto simp: preturn_def intro!: guarded_acquire parts guarded_pure_step)
  moreover have "guarded_by u (mark_of (snd c) u) c (mint_complete_set u sid q c)" for sid q
    unfolding mint_complete_set_def guarded_def
    by (auto simp: preturn_def intro!: guarded_acquire parts)
  moreover have "guarded_by u (mark_of (snd c) u) c (redeem_complete_set u sid q c)" for sid q
    unfolding redeem_complete_set_def guarded_def
    by (auto simp: preturn_def intro!: guarded_acquire parts)
  ultimately show ?thesis by (cases call) simp_all
qed

text \<open>Re-keying an account advances the generation of both principals and locks them.\<close>

lemma rekey_marks:
  assumes "validate_and_rekey e rid old new s = (Ok plan, s')" "old \<noteq> new" "u = old \<or> u = new"
  shows "mark_of s' u = \<lparr> rm_generation = rm_generation (mark_of s u) + 1, rm_locked = True \<rparr>"
proof -
  obtain t where t: "cl_reassignment_marks s' = cl_reassignment_marks (lock_for_reassignment old new t)"
    "cl_reassignment_marks t = cl_reassignment_marks s"
    using assms(1) by (auto simp: validate_and_rekey_def Let_def reassignment_plan_get_or_create_def
        rekey_positions_def rekey_account_def persist_def split: result.splits prod.splits option.splits)
  then have "mark_of s' u = mark_of (lock_for_reassignment old new t) u" "mark_of t u = mark_of s u"
    by (simp_all add: mark_of_def)
  with assms(2,3) show ?thesis by (auto simp: mark_of_lock Let_def)
qed

text \<open>
  C25. A trading call that straddles a re-keying of its account is refused.  Whatever happens while
  a limit order, a market order, or the minting or redeeming of a complete set waits for the
  registry: if at its last resumption the reassignment mark of the caller is no longer the one it
  entered with, because the account was locked or re-keyed meanwhile, the call does not succeed,
  and the accounts, positions, orders and marks are exactly as the others left them.
\<close>

theorem straddling_call_is_refused:
  fixes call :: trading_call
  assumes "run w (trading_proc u call) (e, s) = (r, c')"
  defines "resumed \<equiv> resumed_at w (trading_proc u call (e, s)) (e, s)"
  assumes "mark_of (snd resumed) u \<noteq> mark_of s u"
  shows "(\<forall>v. r \<noteq> Ok v) \<and> books c' = books resumed"
  using guarded_run [OF trading_proc_guarded [of u "(e, s)" call]] assms by (simp add: run_def)

text \<open>An order of Alice that waits for the registry while an administrator re-keys her account.\<close>

definition state_g :: clearing where
  "state_g = state0\<lparr>cl_series := []\<rparr>"

definition order_g :: submit_limit_order_params where
  "order_g = \<lparr> slo_order_id = ''o1'', slo_series_id = ''bin'', slo_outcome_id = None, slo_side = Buy,
     slo_qty = 10, slo_price = price_new 5000 4 \<rparr>"

definition rekeying :: "request \<Rightarrow> ctx \<Rightarrow> reply \<times> ctx" where
  "rekeying q c = (RSeries (Some binary0), fst c,
     snd (validate_and_rekey env0 ''r1'' alice ''alice2'' (snd c)))"

lemma straddling_call_is_refused_witness:
  "\<forall>v. fst (run rekeying (trading_proc alice (LimitOrder order_g)) (env0, state_g)) \<noteq> Ok v"
proof -
  let ?run = "run rekeying (trading_proc alice (LimitOrder order_g)) (env0, state_g)"
  have run: "?run = (fst ?run, snd ?run)" by simp
  have "mark_of (snd (resumed_at rekeying (trading_proc alice (LimitOrder order_g) (env0, state_g))
      (env0, state_g))) alice \<noteq> mark_of state_g alice"
    by code_simp
  from straddling_call_is_refused [OF run this] show ?thesis by blast
qed

end
