(* ===== verification/QueryProperties.thy ===== *)
theory QueryProperties
  imports SettlementFacts Samples
begin

text \<open>
  The paged listing of settled series (\<open>api/settlement/api.rs\<close>) satisfies the paging interface, so
  a client that follows its cursors sees every settled series once.
\<close>

definition settled_ids :: "balance_domain option \<Rightarrow> clearing \<Rightarrow> series_id list" where
  "settled_ids d s =
     map fst (filter (\<lambda>(sid, plan). case d of None \<Rightarrow> True | Some dm \<Rightarrow> spl_balance_domain plan = dm)
       (cl_settlement_plans s))"

lemma settled_ids_sorted: "bt_inv (cl_settlement_plans s) \<Longrightarrow> sorted_wrt (<) (settled_ids d s)"
  unfolding settled_ids_def bt_inv_def [symmetric] by (rule bt_inv_filter)

lemma settled_ids_after:
  "settled_ids d (s\<lparr>cl_settlement_plans := bt_range_after a (cl_settlement_plans s)\<rparr>) =
   filter (\<lambda>i. a < i) (settled_ids d s)"
  by (simp add: settled_ids_def bt_range_after_def filter_map comp_def case_prod_unfold conj_commute)

interpretation settled_pages: paging
  "\<lambda>s. bt_inv (cl_settlement_plans s)" "settled_ids d" "\<lambda>i. i" "list_settled_series d"
proof unfold_locales
  fix s cursor limit
  show "bt_inv (cl_settlement_plans s) \<Longrightarrow> sorted_wrt (<) (map (\<lambda>i. i) (settled_ids d s))"
    by (simp add: settled_ids_sorted)
  show "list_settled_series d s cursor limit =
      cut_page (\<lambda>i. i) (page_limit limit) (after_cursor (\<lambda>i. i) cursor (settled_ids d s))"
    using settled_ids_after [where d = d and s = s]
    by (simp add: list_settled_series_def after_cursor_def settled_ids_def split: option.splits)
qed

lemma settled_ids_mem:
  "bt_inv (cl_settlement_plans s) \<Longrightarrow> sid \<in> set (settled_ids d s) \<longleftrightarrow>
   (\<exists>plan. bt_get (cl_settlement_plans s) sid = Some plan \<and>
           (\<forall>dm. d = Some dm \<longrightarrow> spl_balance_domain plan = dm))"
  by (force simp: settled_ids_def image_iff bt_mem split: option.splits)

text \<open>
  A client that lists the series in settlement page by page, passing each answer's cursor to
  the next call, receives every series of the domain exactly once, in ascending order, whatever
  page size it asks for, and needs no more calls than there are series and one.
\<close>

theorem settled_series_listed_once:
  fixes d :: "balance_domain option" and limit :: "u64 option"
  assumes "bt_inv (cl_settlement_plans s)" and "length (cl_settlement_plans s) < n"
  defines "ids \<equiv> follow_cursors (\<lambda>c. list_settled_series d s c limit) n None"
  shows "sorted_wrt (<) ids \<and> distinct ids \<and>
    (\<forall>sid. sid \<in> set ids \<longleftrightarrow>
       (\<exists>plan. bt_get (cl_settlement_plans s) sid = Some plan \<and>
               (\<forall>dm. d = Some dm \<longrightarrow> spl_balance_domain plan = dm)))"
proof -
  have "length (settled_ids d s) < n"
    using assms(2) length_filter_le [of _ "cl_settlement_plans s"]
    by (simp add: settled_ids_def) (meson le_less_trans length_filter_le)
  then have "ids = settled_ids d s"
    unfolding ids_def by (rule settled_pages.traverse_all [OF assms(1)])
  then show ?thesis
    using settled_ids_sorted [OF assms(1), of d] settled_ids_mem [OF assms(1)]
    by (simp add: strict_sorted_iff)
qed

definition plan0 :: "series_id \<Rightarrow> settlement_plan" where
  "plan0 sid = fst (settlement_plan_get_or_create 1
     \<lparr> spp_series_id = sid, spp_settlement = Outcome ''A'', spp_oracle_source = ''oracle'',
       spp_fee = 0, spp_insurance_fee = 0, spp_positions = [], spp_balance_domain = Settlement \<rparr>
     clearing_empty)"

definition listed0 :: clearing where
  "listed0 = state0\<lparr>cl_settlement_plans :=
     bt_of_list [(''a'', plan0 ''a''), (''b'', plan0 ''b''), (''c'', plan0 ''c'')]\<rparr>"

lemma settled_series_listed_once_witness:
  "set (follow_cursors (\<lambda>c. list_settled_series None listed0 c (Some 2)) 4 None) =
     {''a'', ''b'', ''c''}"
proof -
  have inv: "bt_inv (cl_settlement_plans listed0)" by code_simp
  have len: "length (cl_settlement_plans listed0) < 4" by code_simp
  have get: "bt_get (cl_settlement_plans listed0) sid =
      (if sid = ''a'' then Some (plan0 ''a'') else if sid = ''b'' then Some (plan0 ''b'')
       else if sid = ''c'' then Some (plan0 ''c'') else None)" for sid
    by (simp add: listed0_def bt_of_list_def bt_get_def)
  show ?thesis
    using settled_series_listed_once [OF inv len, of None "Some 2"] by (auto simp: get split: if_splits)
qed

end
