(* ===== verification/Leaderboard.thy ===== *)
theory Leaderboard
  imports Memory Paging
begin

text \<open>
  \<open>src/src/clearing/src/api/leaderboard/api.rs\<close>: the ranked standings of a calendar window with
  their competition ranks, the ranks of the window before, and the settlement accuracy of a set
  of principals over any span.  The standard library's partial selection and sorting are modelled
  by what they leave in the slice.
\<close>

definition MAX_LEADERBOARD_MEMBERS :: nat where "MAX_LEADERBOARD_MEMBERS = 10000"

text \<open>\<open>usize::try_from(v).unwrap_or(usize::MAX)\<close> on a 32-bit target.\<close>

definition usize_of :: "u64 \<Rightarrow> nat" where
  "usize_of v = min (unat v) (2 ^ 32 - 1)"

type_synonym standing = "principal \<times> pnl_aggregate"

section \<open>Ranking\<close>

text \<open>\<open>by_rank\<close>: higher \<open>PnL\<close> first, then the smaller principal.\<close>

definition rank_key :: "standing \<Rightarrow> int \<times> principal" where
  "rank_key x = (- sint (pnl_realized_pnl (snd x)), fst x)"

definition by_rank :: "standing \<Rightarrow> standing \<Rightarrow> bool" where
  "by_rank a b \<longleftrightarrow> rank_key a < rank_key b"

definition sort_by_rank :: "standing list \<Rightarrow> standing list" where
  "sort_by_rank = sort_key rank_key"

text \<open>
  \<open>select_nth_unstable_by(n, by_rank)\<close> puts the element of rank \<open>n\<close> at its place, those before it in
  the order to its left and the others to its right.
\<close>

definition select_nth :: "nat \<Rightarrow> standing list \<Rightarrow> standing list" where
  "select_nth n xs =
     (let pivot = sort_by_rank xs ! n
      in filter (\<lambda>x. by_rank x pivot) xs @
         filter (\<lambda>x. \<not> by_rank x pivot \<and> \<not> by_rank pivot x) xs @
         filter (\<lambda>x. by_rank pivot x) xs)"

fun ranks_from :: "nat \<Rightarrow> i128 option \<Rightarrow> u64 \<Rightarrow> standing list \<Rightarrow> u64 list" where
  "ranks_from position last_pnl last_rank [] = []"
| "ranks_from position last_pnl last_rank ((p, agg) # rest) =
     (let rank = (if last_pnl = Some (pnl_realized_pnl agg) then last_rank
                  else of_nat position + 1)
      in rank # ranks_from (position + 1) (Some (pnl_realized_pnl agg)) rank rest)"

definition competition_ranks :: "standing list \<Rightarrow> u64 list" where
  "competition_ranks xs = ranks_from 0 None 0 xs"

definition dedup_members :: "principal list \<Rightarrow> principal list" where
  "dedup_members ps = fold (\<lambda>p seen. if p \<in> set seen then seen else seen @ [p]) ps []"

definition bucket_of ::
  "leaderboard_index \<Rightarrow> leaderboard_window \<Rightarrow> u64 \<Rightarrow> (user, pnl_aggregate) btmap option" where
  "bucket_of idx w period = bt_get idx (w, period)"

definition member_standing :: "(user, pnl_aggregate) btmap option \<Rightarrow> principal \<Rightarrow> standing" where
  "member_standing bucket p =
     (p, case bucket of
           None \<Rightarrow> pnl_default
         | Some b \<Rightarrow> (case bt_get b p of None \<Rightarrow> pnl_default | Some a \<Rightarrow> a))"

definition collect_population ::
  "leaderboard_index \<Rightarrow> leaderboard_window \<Rightarrow> u64 \<Rightarrow> principal list option \<Rightarrow> standing list" where
  "collect_population idx w period members =
     (let bucket = bucket_of idx w period
      in case members of
           Some ps \<Rightarrow> map (member_standing bucket) (dedup_members ps)
         | None \<Rightarrow> (case bucket of None \<Rightarrow> [] | Some b \<Rightarrow> b))"

section \<open>Ranks of the window before\<close>

fun dedup_adjacent :: "'a list \<Rightarrow> 'a list" where
  "dedup_adjacent (a # b # xs) =
     (if a = b then dedup_adjacent (a # xs) else a # dedup_adjacent (b # xs))"
| "dedup_adjacent xs = xs"

text \<open>\<open>partition_point\<close> on a sorted slice: how many elements are below \<open>v\<close>.\<close>

definition points_below :: "int list \<Rightarrow> int \<Rightarrow> nat" where
  "points_below targets v = length (takeWhile (\<lambda>t. t < v) targets)"

type_synonym i64 = "64 word"

definition count_entry :: "int list \<Rightarrow> pnl_aggregate \<Rightarrow> i64 list \<Rightarrow> i64 list" where
  "count_entry targets agg diff =
     (let j = points_below targets (sint (pnl_realized_pnl agg))
      in if 0 < j then (let diff = diff[0 := diff ! 0 + 1] in diff[j := diff ! j - 1]) else diff)"

fun prefix_sums :: "i64 \<Rightarrow> i64 list \<Rightarrow> i64 list" where
  "prefix_sums running [] = []"
| "prefix_sums running (d # ds) = (running + d) # prefix_sums (running + d) ds"

definition present_pnls ::
  "(user, pnl_aggregate) btmap \<Rightarrow> standing list \<Rightarrow> (principal \<times> int) list" where
  "present_pnls bucket page =
     List.map_filter (\<lambda>(p, _). map_option (\<lambda>agg. (p, sint (pnl_realized_pnl agg))) (bt_get bucket p))
       page"

definition rank_of_count :: "i64 \<Rightarrow> u64" where
  "rank_of_count g = (if sint (g + 1) < 0 then 1 else g + 1)"

definition global_prior_ranks ::
  "(user, pnl_aggregate) btmap option \<Rightarrow> standing list \<Rightarrow> (principal, u64) btmap" where
  "global_prior_ranks bucket page =
     (case bucket of
        None \<Rightarrow> []
      | Some b \<Rightarrow>
          (let present = present_pnls b page
           in if present = [] then []
              else let targets = dedup_adjacent (sort (map snd present));
                       diff = fold (count_entry targets) (bt_values b)
                                (replicate (length targets + 1) 0);
                       greater = take (length targets) (prefix_sums 0 diff)
                   in bt_of_list
                        (map (\<lambda>(p, pnl). (p, rank_of_count (greater ! points_below targets pnl)))
                           present)))"

definition prior_ranks_for ::
  "leaderboard_index \<Rightarrow> leaderboard_window \<Rightarrow> u64 \<Rightarrow> principal list option \<Rightarrow> standing list \<Rightarrow>
     (principal, u64) btmap" where
  "prior_ranks_for idx w period members page =
     (case members of
        Some ps \<Rightarrow>
          (let prior = sort_by_rank (collect_population idx w period (Some ps))
           in bt_of_list (zip (map fst prior) (competition_ranks prior)))
      | None \<Rightarrow> global_prior_ranks (bucket_of idx w period) page)"

section \<open>The page\<close>

record list_leaderboard_params =
  llp_window :: leaderboard_window
  llp_members :: "principal list option"
  llp_start_after :: "u64 option"
  llp_limit :: "u64 option"

record leaderboard_entry =
  lbe_principal :: principal
  lbe_rank :: u64
  lbe_prior_rank :: "u64 option"
  lbe_realized_pnl :: i128
  lbe_settled_count :: u64
  lbe_win_count :: u64

record leaderboard_page =
  lbp_items :: "leaderboard_entry list"
  lbp_next_cursor :: "u64 option"
  lbp_total :: u64

definition leaderboard_item ::
  "(principal, u64) btmap option \<Rightarrow> u64 \<Rightarrow> standing \<Rightarrow> leaderboard_entry" where
  "leaderboard_item prior rank x =
     \<lparr> lbe_principal = fst x, lbe_rank = rank,
       lbe_prior_rank = (case prior of None \<Rightarrow> None | Some m \<Rightarrow> bt_get m (fst x)),
       lbe_realized_pnl = pnl_realized_pnl (snd x),
       lbe_settled_count = pnl_settled_count (snd x), lbe_win_count = pnl_win_count (snd x) \<rparr>"

text \<open>The top \<open>e\<close> of a population in order: selection, then sorting of the prefix.\<close>

definition top_ranked :: "nat \<Rightarrow> standing list \<Rightarrow> standing list" where
  "top_ranked e xs = sort_by_rank (take e (if e < length xs then select_nth e xs else xs))"

definition list_leaderboard_impl ::
  "leaderboard_index \<Rightarrow> list_leaderboard_params \<Rightarrow> u64 \<Rightarrow> leaderboard_page" where
  "list_leaderboard_impl idx x now_ns =
     (let w = llp_window x;
          members = map_option (take MAX_LEADERBOARD_MEMBERS) (llp_members x);
          current = collect_population idx w (period_id w now_ns) members;
          total = length current;
          start = min (usize_of (case llp_start_after x of None \<Rightarrow> 0 | Some n \<Rightarrow> n)) total;
          limit = page_limit (llp_limit x);
          end_at = min (min (start + limit) (2 ^ 32 - 1)) total;
          ranked = top_ranked end_at current;
          ranks = competition_ranks ranked;
          page = drop start ranked;
          prior = map_option (\<lambda>period. prior_ranks_for idx w period members page)
                    (prior_period_id w now_ns)
      in \<lparr> lbp_items = map (\<lambda>(rank, entry). leaderboard_item prior rank entry)
                        (zip (drop start ranks) page),
           lbp_next_cursor = (if end_at < total then Some (of_nat end_at) else None),
           lbp_total = of_nat total \<rparr>)"

definition list_leaderboard :: "env \<Rightarrow> list_leaderboard_params \<Rightarrow> clearing \<Rightarrow> leaderboard_page" where
  "list_leaderboard e x s = list_leaderboard_impl (cl_leaderboard s) x (env_now e)"

section \<open>Accuracy over a span\<close>

record accuracy_params =
  acp_members :: "principal list"
  acp_from_ts :: "u64 option"
  acp_to_ts :: "u64 option"
  acp_series_ids :: "series_id list option"

record accuracy_entry =
  ace_principal :: principal
  ace_settled_count :: u64
  ace_win_count :: u64
  ace_realized_pnl :: i128

definition counts_for_accuracy :: "accuracy_params \<Rightarrow> principal list \<Rightarrow> event \<Rightarrow> bool" where
  "counts_for_accuracy x members ev =
     (ev_event_type ev = Settled \<and> ev_user ev \<in> set members \<and>
      (case acp_series_ids x of None \<Rightarrow> True | Some ids \<Rightarrow> ev_series_id ev \<in> set ids) \<and>
      (case acp_from_ts x of None \<Rightarrow> True | Some from_ts \<Rightarrow> from_ts \<le> ev_timestamp ev) \<and>
      (case acp_to_ts x of None \<Rightarrow> True | Some to_ts \<Rightarrow> ev_timestamp ev < to_ts))"

definition accuracy_of :: "principal \<times> pnl_aggregate \<Rightarrow> accuracy_entry" where
  "accuracy_of x =
     \<lparr> ace_principal = fst x, ace_settled_count = pnl_settled_count (snd x),
       ace_win_count = pnl_win_count (snd x), ace_realized_pnl = pnl_realized_pnl (snd x) \<rparr>"

definition aggregate_settlement_accuracy ::
  "accuracy_params \<Rightarrow> event list \<Rightarrow> accuracy_entry list" where
  "aggregate_settlement_accuracy x events =
     (let members = bs_of_list (take MAX_LEADERBOARD_MEMBERS (acp_members x))
      in if members = [] then []
         else if acp_series_ids x = Some [] then []
         else if (case (acp_from_ts x, acp_to_ts x) of
                    (Some from_ts, Some to_ts) \<Rightarrow> to_ts \<le> from_ts | _ \<Rightarrow> False) then []
         else map accuracy_of
                (fold (\<lambda>ev acc. bt_entry (ev_user ev) pnl_default (pnl_record (ev_qty ev)) acc)
                   (filter (counts_for_accuracy x members) events) []))"

end
