(* ===== verification/LeaderboardProperties.thy ===== *)
theory LeaderboardProperties
  imports Leaderboard Samples
begin

text \<open>
  The leaderboard's page against its definition: the standings in order, each with one more than
  the number of strictly better ones.
\<close>

abbreviation pnl_of :: "standing \<Rightarrow> int" where
  "pnl_of x \<equiv> sint (pnl_realized_pnl (snd x))"

definition better :: "standing list \<Rightarrow> int \<Rightarrow> nat" where
  "better pop v = length (filter (\<lambda>x. v < pnl_of x) pop)"

definition standing_rank :: "standing list \<Rightarrow> int \<Rightarrow> u64" where
  "standing_rank pop v = of_nat (better pop v) + 1"

section \<open>Competition ranks\<close>

lemma better_split:
  assumes "sorted (map (\<lambda>x. - pnl_of x) (pre @ x # rest))" "pre \<noteq> []"
  shows "pnl_of (last pre) = pnl_of x \<or> better (pre @ x # rest) (pnl_of x) = length pre"
proof (rule disjCI)
  assume ne: "better (pre @ x # rest) (pnl_of x) \<noteq> length pre"
  have le: "\<forall>y\<in>set pre. pnl_of x \<le> pnl_of y" and rest: "\<forall>y\<in>set rest. pnl_of y \<le> pnl_of x"
    using assms(1) by (auto simp: sorted_append)
  have "filter (\<lambda>y. pnl_of x < pnl_of y) rest = []" using rest by (auto simp: filter_empty_conv)
  with ne have "filter (\<lambda>y. pnl_of x < pnl_of y) pre \<noteq> pre" by (auto simp: better_def)
  then obtain y where y: "y \<in> set pre" "\<not> pnl_of x < pnl_of y" by (auto simp: filter_id_conv)
  obtain us where us: "pre = us @ [last pre]" using assms(2) by (metis append_butlast_last_id)
  have "pnl_of (last pre) \<le> pnl_of y"
    using assms(1) y(1) by (subst (asm) us, subst (asm) (2) us) (auto simp: sorted_append)
  moreover have "pnl_of x \<le> pnl_of (last pre)" using le assms(2) by simp
  ultimately show "pnl_of (last pre) = pnl_of x" using y(2) by linarith
qed

lemma ranks_from_standing:
  assumes "sorted (map (\<lambda>x. - pnl_of x) (pre @ xs))"
    and "pre = [] \<Longrightarrow> l = None"
    and "pre \<noteq> [] \<Longrightarrow> l = Some (pnl_realized_pnl (snd (last pre))) \<and>
           r = standing_rank (pre @ xs) (pnl_of (last pre))"
  shows "ranks_from (length pre) l r xs = map (\<lambda>x. standing_rank (pre @ xs) (pnl_of x)) xs"
  using assms
proof (induction xs arbitrary: pre l r)
  case Nil
  then show ?case by simp
next
  case (Cons x xs)
  obtain p agg where x: "x = (p, agg)" by fastforce
  let ?rank = "if l = Some (pnl_realized_pnl agg) then r else of_nat (length pre) + 1"
  have rank: "?rank = standing_rank (pre @ x # xs) (pnl_of x)"
  proof (cases "pre = []")
    case True
    then have "better (x # xs) (pnl_of x) = 0"
      using Cons.prems(1) by (auto simp: better_def filter_empty_conv)
    with True Cons.prems(2) show ?thesis by (simp add: standing_rank_def)
  next
    case False
    note l = Cons.prems(3) [OF False]
    show ?thesis
    proof (cases "pnl_of (last pre) = pnl_of x")
      case True
      then show ?thesis using l x by (simp add: signed_word_eqI)
    next
      case ne: False
      then have "l \<noteq> Some (pnl_realized_pnl agg)" using l x by auto
      moreover have "better (pre @ x # xs) (pnl_of x) = length pre"
        using better_split [OF Cons.prems(1) False] ne by blast
      ultimately show ?thesis by (simp add: standing_rank_def)
    qed
  qed
  have "ranks_from (length (pre @ [x])) (Some (pnl_realized_pnl agg)) ?rank xs =
      map (\<lambda>y. standing_rank ((pre @ [x]) @ xs) (pnl_of y)) xs"
    by (rule Cons.IH) (use Cons.prems(1) rank x in auto)
  with rank show ?case by (simp add: x)
qed

lemma sorted_by_pnl: "sorted (map rank_key xs) \<Longrightarrow> sorted (map (\<lambda>x. - pnl_of x) xs)"
  by (induction xs) (auto simp: rank_key_def)

lemma competition_ranks_standing:
  assumes "sorted (map rank_key xs)"
  shows "competition_ranks xs = map (\<lambda>x. standing_rank xs (pnl_of x)) xs"
  using ranks_from_standing [of "[]" xs None 0] sorted_by_pnl [OF assms]
  by (simp add: competition_ranks_def)

lemma take_ranks_from: "take n (ranks_from k l r xs) = ranks_from k l r (take n xs)"
proof (induction xs arbitrary: n k l r)
  case (Cons x xs)
  then show ?case by (cases n; cases x) (simp_all add: Let_def)
qed simp

lemma better_sort: "better (sort_by_rank xs) v = better xs v"
  by (simp add: better_def sort_by_rank_def filter_sort)

section \<open>Selection\<close>

lemma rank_key_inj: "distinct (map fst xs) \<Longrightarrow> distinct (map rank_key xs)"
  by (auto simp: distinct_map inj_on_def rank_key_def)

text \<open>Selecting and sorting the prefix gives the prefix of the sorted population.\<close>

lemma top_ranked_take:
  assumes "distinct (map fst xs)"
  shows "top_ranked e xs = take e (sort_by_rank xs)"
proof (cases "e < length xs")
  case False
  then show ?thesis by (simp add: top_ranked_def sort_by_rank_def)
next
  case True
  let ?s = "sort_by_rank xs" and ?k = "rank_key"
  let ?p = "?s ! e" and ?low = "filter (\<lambda>x. by_rank x (sort_by_rank xs ! e)) xs"
  have len: "e < length ?s" using True by (simp add: sort_by_rank_def)
  have "sorted (map ?k ?s)" by (simp add: sort_by_rank_def)
  moreover have "distinct (map ?k ?s)"
    using rank_key_inj [OF assms] by (simp add: sort_by_rank_def distinct_map)
  ultimately have strict: "sorted_wrt (<) (map ?k ?s)" by (simp add: strict_sorted_iff)
  have "filter (\<lambda>x. by_rank x ?p) ?s = take e ?s"
  proof -
    have "?s = take e ?s @ ?p # drop (Suc e) ?s" using len by (simp add: id_take_nth_drop)
    with strict have st: "sorted_wrt (<) (map ?k (take e ?s @ ?p # drop (Suc e) ?s))" by simp
    have "\<forall>x\<in>set (take e ?s). by_rank x ?p" "\<forall>x\<in>set (drop (Suc e) ?s). \<not> by_rank x ?p"
      using st by (auto simp: sorted_wrt_append by_rank_def dest: less_asym)
    moreover have "\<not> by_rank ?p ?p" by (simp add: by_rank_def)
    ultimately have "filter (\<lambda>x. by_rank x ?p) (take e ?s @ ?p # drop (Suc e) ?s) = take e ?s"
      by (simp add: filter_id_conv filter_empty_conv)
    with \<open>?s = take e ?s @ ?p # drop (Suc e) ?s\<close> show ?thesis by simp
  qed
  then have low: "sort_by_rank ?low = take e ?s"
    unfolding sort_by_rank_def by (simp add: filter_sort)
  then have "length ?low = e"
    using len by (metis length_sort length_take min.absorb4 sort_by_rank_def)
  then have "take e (select_nth e xs) = ?low" by (simp add: select_nth_def Let_def)
  with True low show ?thesis by (simp add: top_ranked_def)
qed

section \<open>The ranks of the window before\<close>

lemma set_dedup_adjacent [simp]: "set (dedup_adjacent xs) = set xs"
  by (induction xs rule: dedup_adjacent.induct) auto

lemma sorted_dedup_adjacent: "sorted xs \<Longrightarrow> sorted (dedup_adjacent xs)"
  by (induction xs rule: dedup_adjacent.induct) auto

lemma points_below_iff:
  "sorted ts \<Longrightarrow> i < length ts \<Longrightarrow> i < points_below ts v \<longleftrightarrow> ts ! i < v"
proof (induction ts arbitrary: i)
  case (Cons t ts)
  then show ?case by (cases i) (auto simp: points_below_def intro: le_less_trans)
qed simp

lemma points_below_at:
  assumes "sorted ts" "v \<in> set ts"
  shows "points_below ts v < length ts \<and> ts ! points_below ts v = v"
proof -
  let ?i = "points_below ts v"
  obtain k where k: "k < length ts" "ts ! k = v" using assms(2) by (auto simp: in_set_conv_nth)
  have ik: "?i \<le> k" using points_below_iff [OF assms(1) k(1), of v] k(2) by auto
  then have len: "?i < length ts" using k(1) by linarith
  moreover have "ts ! ?i \<le> v" using sorted_nth_mono [OF assms(1) ik k(1)] k(2) by simp
  moreover have "v \<le> ts ! ?i" using points_below_iff [OF assms(1) len, of v] by simp
  ultimately show ?thesis by simp
qed

lemma points_below_le: "points_below ts v \<le> length ts"
  by (simp add: points_below_def length_takeWhile_le)

lemma sum_take_update:
  fixes xs :: "i64 list"
  shows "k < length xs \<Longrightarrow>
    sum_list (take n (xs[k := xs ! k + c])) = sum_list (take n xs) + (if k < n then c else 0)"
proof (induction xs arbitrary: n k)
  case (Cons x xs)
  then show ?case by (cases n; cases k) (auto simp: algebra_simps)
qed simp

lemma nth_prefix_sums:
  "i < length ds \<Longrightarrow> prefix_sums r ds ! i = r + sum_list (take (Suc i) ds)"
proof (induction ds arbitrary: r i)
  case (Cons d ds)
  then show ?case by (cases i) (auto simp: algebra_simps)
qed simp

lemma length_prefix_sums [simp]: "length (prefix_sums r ds) = length ds"
  by (induction r ds rule: prefix_sums.induct) auto

text \<open>One entry of the bucket adds one to the running sum of every target below it.\<close>

lemma count_entry_sum:
  assumes "sorted ts" "length diff = length ts + 1" "i < length ts"
  shows "sum_list (take (Suc i) (count_entry ts agg diff)) =
    sum_list (take (Suc i) diff) + (if ts ! i < sint (pnl_realized_pnl agg) then 1 else 0)"
proof -
  let ?j = "points_below ts (sint (pnl_realized_pnl agg))"
  let ?d = "diff[0 := diff ! 0 + 1]"
  have j: "?j < length diff" using points_below_le [of ts] assms(2) by (simp add: less_Suc_eq_le)
  have "sum_list (take (Suc i) (?d[?j := ?d ! ?j + - 1])) =
      sum_list (take (Suc i) diff) + 1 + (if ?j < Suc i then - 1 else 0)"
    using sum_take_update [of ?j ?d "Suc i" "- 1"] sum_take_update [of 0 diff "Suc i" 1] j assms(2)
    by fastforce
  moreover have "i < ?j \<longleftrightarrow> ts ! i < sint (pnl_realized_pnl agg)"
    by (rule points_below_iff [OF assms(1,3)])
  ultimately show ?thesis
    by (auto simp: count_entry_def Let_def)
qed

lemma length_count_entry [simp]: "length (count_entry ts agg diff) = length diff"
  by (simp add: count_entry_def Let_def)

lemma length_fold_count [simp]: "length (fold (count_entry ts) aggs diff) = length diff"
  by (induction aggs arbitrary: diff) auto

lemma counted_sum:
  assumes "sorted ts" "i < length ts" "length diff = length ts + 1"
  shows "sum_list (take (Suc i) (fold (count_entry ts) aggs diff)) =
    sum_list (take (Suc i) diff) +
    of_nat (length (filter (\<lambda>a. ts ! i < sint (pnl_realized_pnl a)) aggs))"
  using assms(3)
proof (induction aggs arbitrary: diff)
  case (Cons a aggs)
  then show ?case using count_entry_sum [OF assms(1) Cons.prems assms(2)] by simp
qed simp

lemma bt_of_list_get: "distinct (map fst xs) \<Longrightarrow> bt_get (bt_of_list xs) k = map_of xs k"
proof -
  have "distinct (map fst xs) \<Longrightarrow> bt_get (fold (\<lambda>(k, v). bt_insert k v) xs m) k =
      (case map_of xs k of None \<Rightarrow> bt_get m k | Some v \<Rightarrow> Some v)" for m
  proof (induction xs arbitrary: m)
    case (Cons x xs)
    obtain k' v where x: "x = (k', v)" by fastforce
    have "map_of xs k' = None" using Cons.prems x by (simp add: map_of_eq_None_iff)
    then show ?case
      using Cons.IH [of "bt_insert k' v m"] Cons.prems by (auto simp: x split: option.splits)
  qed simp
  then show "distinct (map fst xs) \<Longrightarrow> bt_get (bt_of_list xs) k = map_of xs k"
    by (simp add: bt_of_list_def bt_get_def split: option.splits)
qed

text \<open>The rank that a principal has in a population, if it is in it.\<close>

definition rank_within :: "standing list \<Rightarrow> principal \<Rightarrow> u64 option" where
  "rank_within pop p =
     map_option (\<lambda>agg. standing_rank pop (sint (pnl_realized_pnl agg))) (map_of pop p)"

lemma better_values:
  "better b v = length (filter (\<lambda>a. v < sint (pnl_realized_pnl a)) (bt_values b))"
  by (simp add: better_def bt_values_def filter_map comp_def)

lemma rank_of_count_small:
  assumes "n < 2 ^ 63 - 1"
  shows "rank_of_count (of_nat n) = of_nat n + 1"
proof -
  have "of_nat n + 1 = (of_nat (Suc n) :: i64)" by simp
  moreover have "sint (of_nat (Suc n) :: i64) = int (Suc n)"
    using assms by (simp add: signed_of_nat signed_take_bit_int_eq_self del: of_nat_Suc)
  ultimately show ?thesis by (simp add: rank_of_count_def add.commute)
qed

lemma map_of_values: "map_of (map (\<lambda>x. (fst x, f (snd x))) xs) p = map_option f (map_of xs p)"
  by (induction xs) auto

lemma present_keys: "fst ` set (present_pnls b page) \<subseteq> fst ` set page"
  by (induction page) (auto simp: present_pnls_def List.map_filter_simps split: option.splits)

lemma present_pnls_get:
  assumes "distinct (map fst page)"
  shows "distinct (map fst (present_pnls b page))"
    and "map_of (present_pnls b page) p =
      (if p \<in> fst ` set page then map_option (\<lambda>a. sint (pnl_realized_pnl a)) (bt_get b p) else None)"
proof -
  have step: "present_pnls b ((q, a) # ps) =
      (case bt_get b q of None \<Rightarrow> present_pnls b ps
       | Some agg \<Rightarrow> (q, sint (pnl_realized_pnl agg)) # present_pnls b ps)" for q a ps
    by (simp add: present_pnls_def List.map_filter_simps split: option.splits)
  show "distinct (map fst (present_pnls b page))"
    using assms
  proof (induction page)
    case (Cons x ps)
    then show ?case using present_keys [of b ps] by (cases x) (auto simp: step split: option.splits)
  qed (simp add: present_pnls_def List.map_filter_simps)
  show "map_of (present_pnls b page) p =
      (if p \<in> fst ` set page then map_option (\<lambda>a. sint (pnl_realized_pnl a)) (bt_get b p) else None)"
    using assms
  proof (induction page)
    case (Cons x ps)
    then show ?case by (cases x) (auto simp: step split: option.splits)
  qed (simp add: present_pnls_def List.map_filter_simps)
qed

lemma global_prior_ranks_within:
  assumes "bt_inv b" "length b < 2 ^ 63 - 1" "distinct (map fst page)" "p \<in> fst ` set page"
  shows "bt_get (global_prior_ranks (Some b) page) p = rank_within b p"
proof -
  let ?present = "present_pnls b page"
  let ?ts = "dedup_adjacent (sort (map snd ?present))"
  let ?diff = "fold (count_entry ?ts) (bt_values b) (replicate (length ?ts + 1) 0)"
  let ?greater = "take (length ?ts) (prefix_sums 0 ?diff)"
  have present: "map_of ?present p = map_option (\<lambda>a. sint (pnl_realized_pnl a)) (bt_get b p)"
    "distinct (map fst ?present)"
    using present_pnls_get [OF assms(3), of b] assms(4) by simp_all
  have st: "sorted ?ts" by (rule sorted_dedup_adjacent) simp
  have len: "length ?diff = length ?ts + 1" by simp
  have greater: "?greater ! points_below ?ts v = of_nat (better b v)" if "v \<in> snd ` set ?present" for v
  proof -
    have v: "points_below ?ts v < length ?ts" "?ts ! points_below ?ts v = v"
      using points_below_at [OF st, of v] that by auto
    then have "?greater ! points_below ?ts v = sum_list (take (Suc (points_below ?ts v)) ?diff)"
      using len by (simp add: nth_prefix_sums)
    also have "\<dots> = of_nat (better b v)"
      using counted_sum [OF st v(1), of "replicate (length ?ts + 1) 0" "bt_values b"] v(2)
      by (simp add: better_values sum_list_replicate take_replicate min_def)
    finally show ?thesis .
  qed
  have count: "rank_of_count (?greater ! points_below ?ts v) = standing_rank b v"
    if "v \<in> snd ` set ?present" for v
  proof -
    have "better b v < 2 ^ 63 - 1"
      using assms(2) length_filter_le [of _ b] unfolding better_def by (rule le_less_trans [rotated])
    then show ?thesis using greater [OF that] by (simp add: rank_of_count_small standing_rank_def)
  qed
  have "bt_get (global_prior_ranks (Some b) page) p =
      map_of (map (\<lambda>(p, v). (p, rank_of_count (?greater ! points_below ?ts v))) ?present) p"
    using present(2) bt_of_list_get [of "map (\<lambda>(p, v). (p, rank_of_count
        (?greater ! points_below ?ts v))) ?present" p]
    by (simp add: global_prior_ranks_def Let_def comp_def case_prod_unfold bt_get_def)
  also have "\<dots> = map_option (\<lambda>v. rank_of_count (?greater ! points_below ?ts v)) (map_of ?present p)"
    by (simp only: case_prod_unfold
        map_of_values [where f = "\<lambda>v. rank_of_count (?greater ! points_below ?ts v)"])
  also have "\<dots> = map_option (standing_rank b) (map_of ?present p)"
  proof (cases "map_of ?present p")
    case (Some v)
    have "v \<in> snd ` set ?present" using map_of_SomeD [OF Some] by (metis snd_conv image_eqI)
    from count [OF this] Some show ?thesis by (simp only: option.map)
  qed (simp only: option.map)
  finally show ?thesis
    using present(1) by (simp add: rank_within_def bt_get_def option.map_comp comp_def)
qed

lemma ranked_members_within:
  assumes "distinct (map fst pop)"
  shows "bt_get (bt_of_list (zip (map fst (sort_by_rank pop)) (competition_ranks (sort_by_rank pop)))) p =
    rank_within pop p"
proof -
  let ?s = "sort_by_rank pop"
  have "sorted (map rank_key ?s)" by (simp add: sort_by_rank_def)
  then have "competition_ranks ?s = map (\<lambda>x. standing_rank pop (pnl_of x)) ?s"
    by (simp add: competition_ranks_standing standing_rank_def better_sort)
  then have zip: "zip (map fst ?s) (competition_ranks ?s) =
      map (\<lambda>(p, a). (p, standing_rank pop (sint (pnl_realized_pnl a)))) ?s"
    by (simp add: zip_map_map zip_same_conv_map case_prod_unfold)
  have dist: "distinct (map fst ?s)"
    using assms by (simp add: sort_by_rank_def distinct_map)
  have "map_of ?s p = map_of pop p"
    using map_of_inject_set [OF dist assms] by (metis set_sort sort_by_rank_def)
  then show ?thesis
    using dist
    by (simp add: zip bt_of_list_get comp_def case_prod_unfold rank_within_def
        map_of_values [where f = "\<lambda>a. standing_rank pop (sint (pnl_realized_pnl a))"])
qed

section \<open>The page\<close>

lemma dedup_members_set: "set (dedup_members ps) = set ps" "distinct (dedup_members ps)"
proof -
  let ?add = "\<lambda>p seen. if p \<in> set seen then seen else seen @ [p]"
  have "distinct seen \<Longrightarrow> set (fold ?add ps seen) = set seen \<union> set ps \<and> distinct (fold ?add ps seen)" for seen
    by (induction ps arbitrary: seen) auto
  from this [of "[]"] show "set (dedup_members ps) = set ps" "distinct (dedup_members ps)"
    by (simp_all add: dedup_members_def)
qed

lemma distinct_population:
  assumes "\<And>b. bt_get idx (w, period) = Some b \<Longrightarrow> bt_inv b"
  shows "distinct (map fst (collect_population idx w period members))"
  using assms dedup_members_set(2) bt.distinct_keys
  by (auto simp: collect_population_def bucket_of_def member_standing_def comp_def
      Let_def split: option.splits)

lemma prior_ranks_within:
  assumes "\<And>b. bt_get idx (w, period) = Some b \<Longrightarrow> bt_inv b \<and> length b < 2 ^ 63 - 1"
    and "distinct (map fst page)" "p \<in> fst ` set page"
  shows "bt_get (prior_ranks_for idx w period members page) p =
    rank_within (collect_population idx w period members) p"
proof (cases members)
  case None
  then show ?thesis
    using global_prior_ranks_within [OF _ _ assms(2,3)] assms(1)
    by (auto simp: prior_ranks_for_def collect_population_def bucket_of_def global_prior_ranks_def
        rank_within_def split: option.splits)
next
  case (Some ps)
  have "distinct (map fst (collect_population idx w period (Some ps)))"
    using assms(1) by (intro distinct_population) blast
  from ranked_members_within [OF this] Some show ?thesis
    by (simp add: prior_ranks_for_def Let_def)
qed

text \<open>
  A league ranks its absent members in the period before as well: in an empty index, a member that
  never settled anything has the prior rank 1, while a global query gives it none.
\<close>

lemma absent_member_has_prior_rank:
  "prior_ranks_for [] w period (Some [alice]) page = [(alice, 1)]"
  "prior_ranks_for [] w period None page = []"
  by (simp_all add: prior_ranks_for_def collect_population_def bucket_of_def dedup_members_def bt_get_def
      sort_by_rank_def competition_ranks_def member_standing_def bt_of_list_def global_prior_ranks_def)

text \<open>The entry that the definition of the leaderboard gives a standing.\<close>

definition reference_entry ::
  "standing list \<Rightarrow> standing list option \<Rightarrow> standing \<Rightarrow> leaderboard_entry" where
  "reference_entry pop prior x =
     \<lparr> lbe_principal = fst x, lbe_rank = standing_rank pop (pnl_of x),
       lbe_prior_rank = (case prior of None \<Rightarrow> None | Some q \<Rightarrow> rank_within q (fst x)),
       lbe_realized_pnl = pnl_realized_pnl (snd x),
       lbe_settled_count = pnl_settled_count (snd x), lbe_win_count = pnl_win_count (snd x) \<rparr>"

definition buckets_ok :: "leaderboard_index \<Rightarrow> bool" where
  "buckets_ok idx \<longleftrightarrow>
     (\<forall>k b. bt_get idx k = Some b \<longrightarrow> bt_inv b \<and> length b < 2 ^ 63 - 1)"

text \<open>
  C39. A page of the leaderboard is what sorting and ranking everybody would give: its entries are
  the stretch from the cursor to the page's end of the whole population in order (higher profit
  first, ties by principal), each with one more than the number of principals with a strictly
  higher profit as its rank, in this period and in the population of the one before.  The population
  is everybody who settled something in the period or, when the call names members, the first 10000
  of these, each once, with a zero for those who settled nothing: so an absent member has a rank in
  the period before, and outside such a league a principal who was absent has none.  So the partial
  selection, the running ranks and the difference array that counts the period before never change an
  answer, as long as no bucket of the index has 2^63 - 1 entries.
\<close>

theorem leaderboard_page_is_exact:
  fixes idx :: leaderboard_index and x :: list_leaderboard_params and now :: u64
  assumes "buckets_ok idx"
  defines "members \<equiv> map_option (take MAX_LEADERBOARD_MEMBERS) (llp_members x)"
  defines "pop \<equiv> collect_population idx (llp_window x) (period_id (llp_window x) now) members"
  defines "prior \<equiv> map_option (\<lambda>p. collect_population idx (llp_window x) p members)
                     (prior_period_id (llp_window x) now)"
  defines "start \<equiv> min (usize_of (case llp_start_after x of None \<Rightarrow> 0 | Some n \<Rightarrow> n)) (length pop)"
  defines "end_at \<equiv> min (min (start + page_limit (llp_limit x)) (2 ^ 32 - 1)) (length pop)"
  shows "lbp_items (list_leaderboard_impl idx x now) =
           map (reference_entry pop prior) (drop start (take end_at (sort_by_rank pop))) \<and>
    lbp_next_cursor (list_leaderboard_impl idx x now) =
      (if end_at < length pop then Some (of_nat end_at) else None) \<and>
    lbp_total (list_leaderboard_impl idx x now) = of_nat (length pop)"
proof -
  let ?w = "llp_window x" and ?s = "sort_by_rank pop"
  let ?page = "drop start (take end_at ?s)"
  have dist: "distinct (map fst pop)"
    using assms(1) unfolding pop_def buckets_ok_def by (intro distinct_population) blast
  have top: "top_ranked end_at pop = take end_at ?s" by (rule top_ranked_take [OF dist])
  have "sorted (map rank_key ?s)" by (simp add: sort_by_rank_def)
  then have "competition_ranks ?s = map (\<lambda>x. standing_rank pop (pnl_of x)) ?s"
    by (simp add: competition_ranks_standing standing_rank_def better_sort)
  then have ranks: "competition_ranks (take end_at ?s) =
      map (\<lambda>x. standing_rank pop (pnl_of x)) (take end_at ?s)"
    by (metis competition_ranks_def take_map take_ranks_from)
  have dp: "distinct (map fst ?page)"
  proof -
    have "distinct (map fst ?s)" using dist by (simp add: sort_by_rank_def distinct_map)
    then have "distinct (drop start (take end_at (map fst ?s)))" by simp
    then show ?thesis by (simp only: drop_map take_map)
  qed
  have ref: "leaderboard_item (map_option (\<lambda>p. prior_ranks_for idx ?w p members ?page)
      (prior_period_id ?w now)) (standing_rank pop (pnl_of y)) y = reference_entry pop prior y"
    if "y \<in> set ?page" for y
    using that assms(1) prior_ranks_within [OF _ dp, where idx = idx and w = ?w and p = "fst y"]
    by (auto simp: leaderboard_item_def reference_entry_def prior_def buckets_ok_def
        split: option.splits)
  have impl: "list_leaderboard_impl idx x now =
      \<lparr> lbp_items = map (\<lambda>(rank, entry). leaderboard_item
          (map_option (\<lambda>p. prior_ranks_for idx ?w p members (drop start (top_ranked end_at pop)))
             (prior_period_id ?w now)) rank entry)
          (zip (drop start (competition_ranks (top_ranked end_at pop)))
             (drop start (top_ranked end_at pop))),
        lbp_next_cursor = (if end_at < length pop then Some (of_nat end_at) else None),
        lbp_total = of_nat (length pop) \<rparr>"
    unfolding list_leaderboard_impl_def Let_def members_def pop_def start_def end_at_def ..
  have "zip (drop start (competition_ranks (take end_at ?s))) ?page =
      map (\<lambda>y. (standing_rank pop (pnl_of y), y)) ?page"
    by (simp only: ranks drop_map zip_map1 zip_same_conv_map map_map comp_def case_prod_conv)
  then show ?thesis using ref by (simp add: impl top)
qed

definition pnl0 :: "i128 \<Rightarrow> pnl_aggregate" where
  "pnl0 v = pnl_record v pnl_default"

definition index0 :: leaderboard_index where
  "index0 = [((AllTime, 0), [(alice, pnl0 5), (bob, pnl0 9), (''carol'', pnl0 5)])]"

definition board_call0 :: list_leaderboard_params where
  "board_call0 = \<lparr> llp_window = AllTime, llp_members = None, llp_start_after = Some 1,
                   llp_limit = Some 1 \<rparr>"

lemma leaderboard_page_is_exact_witness:
  "map (\<lambda>i. (lbe_principal i, lbe_rank i)) (lbp_items (list_leaderboard_impl index0 board_call0 7)) =
     [(alice, 2)]"
proof -
  have "buckets_ok index0"
    by (auto simp: buckets_ok_def index0_def bt_get_def bt_inv_def alice_def bob_def split: if_splits)
  note page = conjunct1 [OF leaderboard_page_is_exact [OF this, of board_call0 7]]
  let ?pop = "collect_population index0 AllTime 0 None"
  have eval: "sort_by_rank ?pop = [(bob, pnl0 9), (alice, pnl0 5), (''carol'', pnl0 5)]"
    "length ?pop = 3" "standing_rank ?pop 5 = 2" "sint (pnl_realized_pnl (pnl0 5)) = 5"
    by code_simp+
  show ?thesis
    unfolding page
    by (simp add: board_call0_def usize_of_def page_limit_def period_id_def eval reference_entry_def)
qed

end
