(* ===== verification/AccountProperties.thy ===== *)
theory AccountProperties
  imports Accounts Samples
begin

text \<open>
  The lean of a set of principals, computed by seeking each principal's run in the key order,
  against the count over all positions.
\<close>

section \<open>One principal's run\<close>

definition of_series :: "user \<Rightarrow> series_id \<Rightarrow> position_key \<times> position \<Rightarrow> bool" where
  "of_series user sid x \<longleftrightarrow> fst (fst x) = user \<and> fst (snd (fst x)) = sid"

definition run_step :: "position_key \<times> position \<Rightarrow> lean_counts \<times> bool \<Rightarrow> lean_counts \<times> bool" where
  "run_step x acc =
     (count_position (snd (snd (fst x))) (snd x) (fst acc), snd acc \<or> sint (pos_net_qty (snd x)) \<noteq> 0)"

text \<open>Ending the run at the first other key loses nothing: the keys are in order.\<close>

lemma lean_run_filter:
  assumes "sorted_wrt (<) (map fst xs)" "\<forall>x\<in>set xs. (user, sid, None) \<le> fst x"
  shows "lean_run user sid xs acc = fold run_step (filter (of_series user sid) xs) acc"
  using assms
proof (induction user sid xs acc rule: lean_run.induct)
  case (2 user sid u i oid p rest m holds)
  show ?case
  proof (cases "u = user \<and> i = sid")
    case True
    with 2 show ?thesis by (simp add: run_step_def of_series_def)
  next
    case False
    have "(user, sid, None) < (u, i, oid)" using 2(3) False by (auto simp: less_le)
    then have lt: "user < u \<or> user = u \<and> sid < i" using False by auto
    have "\<not> of_series user sid y" if "y \<in> set rest" for y
    proof -
      have "(u, i, oid) < fst y" using 2(2) that by auto
      with lt show ?thesis by (cases y) (auto simp: of_series_def)
    qed
    with False show ?thesis by (auto simp: of_series_def filter_empty_conv)
  qed
qed simp

definition run_of :: "positions_map \<Rightarrow> user \<Rightarrow> series_id \<Rightarrow> (position_key \<times> position) list" where
  "run_of positions user sid = filter (of_series user sid) positions"

lemma lean_run_range:
  assumes "bt_inv positions"
  shows "lean_run user sid (bt_range_from (user, sid, None) positions) acc =
    fold run_step (run_of positions user sid) acc"
proof -
  let ?r = "bt_range_from (user, sid, None) positions"
  have "filter (of_series user sid) ?r = run_of positions user sid"
    unfolding bt_range_from_def run_of_def filter_filter
    by (rule filter_cong) (auto simp: of_series_def less_eq_option_None)
  moreover have "bt_inv ?r" using assms by (simp add: bt_range_from_def bt_inv_filter)
  ultimately show ?thesis
    using lean_run_filter [of ?r user sid acc] by (auto simp: bt_inv_def bt_range_from_def)
qed

section \<open>Counting\<close>

definition counts :: "lean_counts \<Rightarrow> outcome_id option \<Rightarrow> u64 \<times> u64" where
  "counts m oid = (case bt_get m oid of None \<Rightarrow> (0, 0) | Some c \<Rightarrow> c)"

definition sides :: "position option \<Rightarrow> u64 \<times> u64" where
  "sides p =
     (case p of
        None \<Rightarrow> (0, 0)
      | Some p \<Rightarrow> (if 0 < sint (pos_net_qty p) then 1 else 0, if sint (pos_net_qty p) < 0 then 1 else 0))"

definition open_at :: "position option \<Rightarrow> bool" where
  "open_at p \<longleftrightarrow> (\<exists>q. p = Some q \<and> sint (pos_net_qty q) \<noteq> 0)"

definition plus2 :: "u64 \<times> u64 \<Rightarrow> u64 \<times> u64 \<Rightarrow> u64 \<times> u64" where
  "plus2 a b = (fst a + fst b, snd a + snd b)"

lemma count_position_counts:
  "counts (count_position o1 p m) oid =
     (if o1 = oid then plus2 (counts m oid) (sides (Some p)) else counts m oid)"
  "bt_get (count_position o1 p m) oid \<noteq> None \<longleftrightarrow>
     bt_get m oid \<noteq> None \<or> (o1 = oid \<and> open_at (Some p))"
  "bt_inv m \<Longrightarrow> bt_inv (count_position o1 p m)"
  by (auto simp: counts_def count_position_def sides_def plus2_def open_at_def
      split: option.splits prod.splits)

lemma ex_at: "\<not> P (g k) \<Longrightarrow> (\<exists>i. P (if k = i then a else g i)) \<longleftrightarrow> P a \<or> (\<exists>i. P (g i))"
  by metis

text \<open>A list of entries of one principal with distinct outcomes counts each outcome once.\<close>

lemma run_counts:
  assumes "distinct (map (\<lambda>x. snd (snd (fst x))) xs)"
  defines "at \<equiv> \<lambda>oid. map_of (map (\<lambda>x. (snd (snd (fst x)), snd x)) xs) oid"
  shows "counts (fst (fold run_step xs (m, h))) oid = plus2 (counts m oid) (sides (at oid)) \<and>
    (bt_get (fst (fold run_step xs (m, h))) oid \<noteq> None \<longleftrightarrow> bt_get m oid \<noteq> None \<or> open_at (at oid)) \<and>
    (snd (fold run_step xs (m, h)) \<longleftrightarrow> h \<or> (\<exists>oid. open_at (at oid))) \<and>
    (bt_inv m \<longrightarrow> bt_inv (fst (fold run_step xs (m, h))))"
  using assms(1) unfolding at_def
proof (induction xs arbitrary: m h)
  case Nil
  then show ?case by (simp add: plus2_def sides_def open_at_def)
next
  case (Cons x xs)
  let ?o = "snd (snd (fst x))" and ?xs = "map (\<lambda>x. (snd (snd (fst x)), snd x)) xs"
  have new: "map_of ?xs ?o = None" using Cons.prems by (auto simp: map_of_eq_None_iff image_image)
  have step: "run_step x (m, h) = (count_position ?o (snd x) m, h \<or> open_at (Some (snd x)))"
    by (simp add: run_step_def open_at_def)
  let ?m = "count_position ?o (snd x) m" and ?h = "h \<or> open_at (Some (snd x))"
  let ?at = "\<lambda>oid. if ?o = oid then Some (snd x) else map_of ?xs oid"
  have at: "map_of (map (\<lambda>x. (snd (snd (fst x)), snd x)) (x # xs)) oid = ?at oid" for oid by simp
  have ex: "(\<exists>oid. open_at (?at oid)) \<longleftrightarrow> open_at (Some (snd x)) \<or> (\<exists>oid. open_at (map_of ?xs oid))"
    using ex_at [of open_at "map_of ?xs" ?o] new by (simp add: open_at_def)
  note IH = Cons.IH [of ?m ?h]
  have "counts (fst (fold run_step xs (?m, ?h))) oid = plus2 (counts m oid) (sides (?at oid))"
    using IH Cons.prems new
    by (cases "?o = oid") (auto simp: count_position_counts(1) plus2_def sides_def)
  moreover have "bt_get (fst (fold run_step xs (?m, ?h))) oid \<noteq> None \<longleftrightarrow>
      bt_get m oid \<noteq> None \<or> open_at (?at oid)"
    using IH Cons.prems new count_position_counts(2) [of ?o "snd x" m oid]
    by (cases "?o = oid") (auto simp: open_at_def)
  moreover have "snd (fold run_step xs (?m, ?h)) \<longleftrightarrow> h \<or> (\<exists>oid. open_at (?at oid))"
    using IH Cons.prems unfolding ex by simp
  moreover have "bt_inv m \<longrightarrow> bt_inv (fst (fold run_step xs (?m, ?h)))"
    using IH Cons.prems count_position_counts(3) by simp
  ultimately show ?case unfolding at by (simp only: fold.simps comp_apply step)
qed

lemma run_of_map:
  assumes "bt_inv positions"
  shows "distinct (map (\<lambda>x. snd (snd (fst x))) (run_of positions user sid))"
    and "map_of (map (\<lambda>x. (snd (snd (fst x)), snd x)) (run_of positions user sid)) oid =
      bt_get positions (user, sid, oid)"
proof -
  let ?f = "\<lambda>x. snd (snd (fst x))" and ?L = "run_of positions user sid"
  have "distinct (map fst ?L)"
    using bt.distinct_keys [OF bt_inv_filter [OF assms]] by (simp add: run_of_def)
  moreover have "map fst ?L = map (\<lambda>o1. (user, sid, o1)) (map ?f ?L)"
    by (auto simp: run_of_def of_series_def)
  ultimately show dist: "distinct (map ?f ?L)" by (metis distinct_map)
  show "map_of (map (\<lambda>x. (snd (snd (fst x)), snd x)) (run_of positions user sid)) oid =
      bt_get positions (user, sid, oid)"
  proof (cases "bt_get positions (user, sid, oid)")
    case None
    then have "\<forall>p. ((user, sid, oid), p) \<notin> set positions" using bt_mem [OF assms] by simp
    with None show ?thesis
      by (auto simp: map_of_eq_None_iff run_of_def of_series_def image_iff)
  next
    case (Some p)
    then have "((user, sid, oid), p) \<in> set (run_of positions user sid)"
      using bt_get_mem by (force simp: run_of_def of_series_def)
    then have "(oid, p) \<in> set (map (\<lambda>x. (snd (snd (fst x)), snd x)) (run_of positions user sid))"
      by force
    with dist Some show ?thesis by (simp add: comp_def)
  qed
qed

lemma lean_user_counts:
  assumes "bt_inv positions"
  shows "counts (fst (lean_user positions sid u (m, n))) oid =
      plus2 (counts m oid) (sides (bt_get positions (u, sid, oid)))"
    and "bt_get (fst (lean_user positions sid u (m, n))) oid \<noteq> None \<longleftrightarrow>
      bt_get m oid \<noteq> None \<or> open_at (bt_get positions (u, sid, oid))"
    and "snd (lean_user positions sid u (m, n)) =
      n + (if \<exists>oid. open_at (bt_get positions (u, sid, oid)) then 1 else 0)"
    and "bt_inv m \<Longrightarrow> bt_inv (fst (lean_user positions sid u (m, n)))"
  using run_counts [OF run_of_map(1) [OF assms, of u sid], of m False]
  by (auto simp: lean_user_def lean_run_range [OF assms] run_of_map(2) [OF assms]
      case_prod_unfold)

section \<open>All principals\<close>

definition holders :: "(position \<Rightarrow> bool) \<Rightarrow> positions_map \<Rightarrow> series_id \<Rightarrow> outcome_id option \<Rightarrow>
    principal list \<Rightarrow> u64" where
  "holders P positions sid oid us =
     of_nat (length (filter (\<lambda>u. case bt_get positions (u, sid, oid) of
        None \<Rightarrow> False | Some p \<Rightarrow> P p) us))"

definition is_open :: "positions_map \<Rightarrow> series_id \<Rightarrow> principal \<Rightarrow> bool" where
  "is_open positions sid u \<longleftrightarrow> (\<exists>oid. open_at (bt_get positions (u, sid, oid)))"

lemma lean_fold:
  fixes sid :: series_id
  assumes "bt_inv positions"
  defines "long \<equiv> holders (\<lambda>p. 0 < sint (pos_net_qty p)) positions sid"
    and "short \<equiv> holders (\<lambda>p. sint (pos_net_qty p) < 0) positions sid"
  shows "counts (fst (fold (lean_user positions sid) us (m, n))) oid =
      plus2 (counts m oid) (long oid us, short oid us) \<and>
    (bt_get (fst (fold (lean_user positions sid) us (m, n))) oid \<noteq> None \<longleftrightarrow>
      bt_get m oid \<noteq> None \<or> (\<exists>u\<in>set us. open_at (bt_get positions (u, sid, oid)))) \<and>
    snd (fold (lean_user positions sid) us (m, n)) =
      n + of_nat (length (filter (is_open positions sid) us)) \<and>
    (bt_inv m \<longrightarrow> bt_inv (fst (fold (lean_user positions sid) us (m, n))))"
proof (induction us arbitrary: m n)
  case Nil
  then show ?case by (simp add: plus2_def long_def short_def holders_def)
next
  case (Cons u us)
  obtain m' n' where u: "lean_user positions sid u (m, n) = (m', n')" by fastforce
  show ?case
    using Cons.IH [of m' n'] lean_user_counts [OF assms(1), where sid = sid and u = u and m = m and n = n, unfolded u]
    by (auto simp: u plus2_def long_def short_def holders_def sides_def is_open_def
        split: option.splits)
qed

text \<open>
  The lean of a set of principals on a series is the count over all positions: for every
  outcome, how many of the requested principals hold a positive and how many a negative position
  on it, and how many hold any open position on the series, each principal counted once however
  often it was listed.  An outcome is reported exactly when some of them has an open position on
  it.  Seeking each principal's run of keys and leaving it at the first other key misses nothing.
\<close>

theorem lean_is_exact:
  fixes sid :: series_id and ps :: "principal list"
  assumes "bt_inv positions"
  defines "r \<equiv> aggregate_lean sid ps positions" and "us \<equiv> requested_set ps []"
  shows "distinct (map ol_outcome_id (al_outcomes r)) \<and>
    (\<forall>oid. oid \<in> ol_outcome_id ` set (al_outcomes r) \<longleftrightarrow>
       (\<exists>u\<in>set us. \<exists>p. bt_get positions (u, sid, oid) = Some p \<and> sint (pos_net_qty p) \<noteq> 0)) \<and>
    (\<forall>l\<in>set (al_outcomes r).
       ol_long l = holders (\<lambda>p. 0 < sint (pos_net_qty p)) positions sid (ol_outcome_id l) us \<and>
       ol_short l = holders (\<lambda>p. sint (pos_net_qty p) < 0) positions sid (ol_outcome_id l) us \<and>
       ol_total l = ol_long l + ol_short l) \<and>
    al_total r = of_nat (length (filter (is_open positions sid) us))"
proof -
  obtain m n where run: "fold (lean_user positions sid) us ([], 0) = (m, n)" by fastforce
  note all = lean_fold [OF assms(1), where sid = sid and us = us and m = "[]" and n = 0, unfolded run]
  have inv: "bt_inv m" using all by simp
  have get: "counts m oid = (holders (\<lambda>p. 0 < sint (pos_net_qty p)) positions sid oid us,
      holders (\<lambda>p. sint (pos_net_qty p) < 0) positions sid oid us)"
    "bt_get m oid \<noteq> None \<longleftrightarrow> (\<exists>u\<in>set us. open_at (bt_get positions (u, sid, oid)))" for oid
    using all [of oid] by (simp_all add: counts_def plus2_def)
  let ?entry = "\<lambda>(oid, long, short). \<lparr> ol_outcome_id = oid, ol_long = long, ol_short = short,
      ol_total = long + short \<rparr>"
  have r: "al_outcomes r = map ?entry m" "al_total r = n"
    using run by (simp_all add: r_def us_def aggregate_lean_def)
  have keys: "map ol_outcome_id (al_outcomes r) = map fst m"
    by (auto simp: r)
  have dom: "oid \<in> set (map fst m) \<longleftrightarrow> bt_get m oid \<noteq> None" for oid
    using bt.keys_dom [OF inv] by (simp add: dom_def)
  have entries: "ol_long l = fst (counts m (ol_outcome_id l)) \<and>
      ol_short l = snd (counts m (ol_outcome_id l)) \<and> ol_total l = ol_long l + ol_short l"
    if "l \<in> set (al_outcomes r)" for l
    using that inv by (auto simp: r counts_def bt_mem)
  show ?thesis
    using bt.distinct_keys [OF inv] dom get entries all
    by (auto simp: keys [symmetric] r(2) open_at_def simp flip: set_map)
qed

definition held0 :: "user \<Rightarrow> i128 \<Rightarrow> position_key \<times> position" where
  "held0 u q = ((u, ''bin'', None),
     \<lparr> pos_user = u, pos_series_id = ''bin'', pos_outcome_id = None, pos_net_qty = q,
       pos_reserved_margin_usd = 0 \<rparr>)"

definition positions0 :: positions_map where
  "positions0 = [held0 alice 10, held0 bob (- 10)]"

lemma lean_is_exact_witness:
  "al_total (aggregate_lean ''bin'' [bob, alice, bob] positions0) = 2"
proof -
  have inv: "bt_inv positions0"
    by (simp add: positions0_def held0_def bt_inv_def alice_def bob_def)
  have us: "requested_set [bob, alice, bob] [] = [alice, bob]"
    by (simp add: MAX_AGGREGATE_PRINCIPALS_def alice_def bob_def)
  have "is_open positions0 ''bin'' alice" "is_open positions0 ''bin'' bob"
    unfolding is_open_def
    by (rule exI [of _ None], simp add: open_at_def positions0_def held0_def bt_get_def alice_def bob_def)+
  then show ?thesis
    using lean_is_exact [OF inv, of "''bin''" "[bob, alice, bob]"] us by simp
qed

end
