(* ===== verification/TradeQueries.thy ===== *)
theory TradeQueries
  imports Memory Paging
begin

text \<open>
  The history queries of \<open>src/src/clearing/src/api/trade/api.rs\<close>: a caller's own events, the paged
  tape of a series, its price candles and the traded volumes.
\<close>

section \<open>The caller's history\<close>

definition moves_cash :: "event_type \<Rightarrow> bool" where
  "moves_cash t = (t = Executed \<or> t = Settled \<or> t = Liquidated)"

definition get_trade_history :: "principal \<Rightarrow> clearing \<Rightarrow> event list" where
  "get_trade_history caller s =
     sort_key (\<lambda>ev. (ev_timestamp ev, ev_event_id ev))
       (filter (\<lambda>ev. ev_user ev = caller \<and> moves_cash (ev_event_type ev)) (cl_events s))"

section \<open>The tape of a series\<close>

text \<open>\<open>partition_point\<close> on the tape, which is in the order of the event ids.\<close>

definition list_series_trade_history ::
  "series_id \<Rightarrow> clearing \<Rightarrow> u64 option \<Rightarrow> u64 option \<Rightarrow> series_trade_point list \<times> u64 option" where
  "list_series_trade_history sid s start_after limit =
     (case bt_get (cl_trade_history s) sid of
        None \<Rightarrow> ([], None)
      | Some points \<Rightarrow>
          (let start = (case start_after of
                          Some cursor \<Rightarrow> length (takeWhile (\<lambda>p. stp_event_id p \<le> cursor) points)
                        | None \<Rightarrow> 0)
           in cut_page stp_event_id (page_limit limit) (drop start points)))"

section \<open>Price candles\<close>

definition MAX_PRICE_HISTORY_POINTS :: nat where "MAX_PRICE_HISTORY_POINTS = 1000"

record series_price_candle =
  spc_bucket_start_ns :: u64
  spc_open :: price
  spc_high :: price
  spc_low :: price
  spc_close :: price
  spc_volume :: i128
  spc_trade_count :: u64

definition first_point :: "u64 \<Rightarrow> series_trade_point \<Rightarrow> series_price_candle" where
  "first_point bucket p =
     \<lparr> spc_bucket_start_ns = bucket, spc_open = stp_price p, spc_high = stp_price p,
       spc_low = stp_price p, spc_close = stp_price p, spc_volume = stp_qty p,
       spc_trade_count = 1 \<rparr>"

definition fold_older_point :: "series_trade_point \<Rightarrow> series_price_candle \<Rightarrow> series_price_candle" where
  "fold_older_point p c =
     c\<lparr> spc_high := (if price_value (spc_high c) < price_value (stp_price p)
                     then stp_price p else spc_high c),
        spc_low := (if price_value (stp_price p) < price_value (spc_low c)
                    then stp_price p else spc_low c),
        spc_open := stp_price p, spc_volume := spc_volume c + stp_qty p,
        spc_trade_count := spc_trade_count c + 1 \<rparr>"

text \<open>The scan from the newest point, ended below the window or by a bucket beyond the cap.\<close>

fun scan_points ::
  "price_history_interval \<Rightarrow> u64 option \<Rightarrow> u64 option \<Rightarrow> series_trade_point list \<Rightarrow>
     (u64, series_price_candle) btmap \<Rightarrow> (u64, series_price_candle) btmap" where
  "scan_points i from_ts to_ts [] buckets = buckets"
| "scan_points i from_ts to_ts (p # ps) buckets =
     (if (case to_ts of None \<Rightarrow> False | Some t \<Rightarrow> t \<le> stp_timestamp p)
      then scan_points i from_ts to_ts ps buckets
      else if (case from_ts of None \<Rightarrow> False | Some t \<Rightarrow> stp_timestamp p < t) then buckets
      else let k = bucket_start i (stp_timestamp p)
           in case bt_get buckets k of
                Some c \<Rightarrow>
                  scan_points i from_ts to_ts ps (bt_insert k (fold_older_point p c) buckets)
              | None \<Rightarrow>
                  if length buckets = MAX_PRICE_HISTORY_POINTS then buckets
                  else scan_points i from_ts to_ts ps (bt_insert k (first_point k p) buckets))"

definition aggregate_price_history ::
  "series_trade_point list \<Rightarrow> price_history_interval \<Rightarrow> u64 option \<Rightarrow> u64 option \<Rightarrow>
     series_price_candle list" where
  "aggregate_price_history points i from_ts to_ts =
     bt_values (scan_points i from_ts to_ts (rev points) [])"

definition get_series_price_history ::
  "series_id \<Rightarrow> price_history_interval \<Rightarrow> u64 option \<Rightarrow> u64 option \<Rightarrow> clearing \<Rightarrow>
     series_price_candle list" where
  "get_series_price_history sid i from_ts to_ts s =
     (case bt_get (cl_trade_history s) sid of
        None \<Rightarrow> [] | Some points \<Rightarrow> aggregate_price_history points i from_ts to_ts)"

section \<open>Traded volumes\<close>

record series_traded_volume =
  stv_series_id :: series_id
  stv_volume :: i128
  stv_trade_count :: u64

definition list_series_traded_volumes ::
  "series_id list \<Rightarrow> clearing \<Rightarrow> series_traded_volume list" where
  "list_series_traded_volumes ids s =
     map (\<lambda>sid. case bt_get (cl_traded_volume s) sid of
            None \<Rightarrow> \<lparr> stv_series_id = sid, stv_volume = 0, stv_trade_count = 0 \<rparr>
          | Some t \<Rightarrow> \<lparr> stv_series_id = sid, stv_volume = sva_notional_usd t,
                        stv_trade_count = sva_trade_count t \<rparr>) ids"

section \<open>The tape as a paged listing\<close>

definition tape :: "series_id \<Rightarrow> clearing \<Rightarrow> series_trade_point list" where
  "tape sid s = (case bt_get (cl_trade_history s) sid of None \<Rightarrow> [] | Some ps \<Rightarrow> ps)"

definition tape_ordered :: "series_id \<Rightarrow> clearing \<Rightarrow> bool" where
  "tape_ordered sid s = sorted_wrt (<) (map stp_event_id (tape sid s))"

lemma drop_takeWhile_sorted:
  fixes key :: "'a \<Rightarrow> 'c::linorder"
  assumes "sorted_wrt (<) (map key xs)"
  shows "drop (length (takeWhile (\<lambda>x. key x \<le> c) xs)) xs = filter (\<lambda>x. c < key x) xs"
  using assms
proof (induction xs)
  case (Cons x xs)
  then show ?case
    by (auto simp: filter_id_conv not_le intro!: filter_True [symmetric] dest: less_trans)
qed simp

lemma cut_page_Nil [simp]: "cut_page key n [] = ([], None)"
  by (simp add: cut_page_def)

interpretation tape_pages: paging
  "tape_ordered sid" "tape sid" stp_event_id "list_series_trade_history sid"
proof unfold_locales
  fix s cursor limit
  assume ok: "tape_ordered sid s"
  then show "sorted_wrt (<) (map stp_event_id (tape sid s))" by (simp add: tape_ordered_def)
  show "list_series_trade_history sid s cursor limit =
      cut_page stp_event_id (page_limit limit) (after_cursor stp_event_id cursor (tape sid s))"
    using ok drop_takeWhile_sorted [of stp_event_id "tape sid s"]
    by (auto simp: list_series_trade_history_def tape_def after_cursor_def tape_ordered_def
        split: option.splits)
qed

end
