(* ===== verification/HistoryProperties.thy ===== *)
theory HistoryProperties
  imports TradeQueries Samples
begin

text \<open>
  The price candles of a series against their definition bucket by bucket, and the tape and the
  caller's history.
\<close>

section \<open>One bucket\<close>

text \<open>The candle of a bucket's trades, oldest first.\<close>

definition candle_of :: "u64 \<Rightarrow> series_trade_point list \<Rightarrow> series_price_candle" where
  "candle_of k ps = foldr fold_older_point (butlast ps) (first_point k (last ps))"

lemma candle_of_Cons: "ps \<noteq> [] \<Longrightarrow> candle_of k (p # ps) = fold_older_point p (candle_of k ps)"
  by (simp add: candle_of_def)

lemma candle_of_single: "candle_of k [p] = first_point k p"
  by (simp add: candle_of_def)

abbreviation pv :: "price \<Rightarrow> u128" where "pv \<equiv> price_value"

text \<open>What the candle says of the bucket's trades.\<close>

lemma candle_of_spec:
  assumes "ps \<noteq> []"
  shows "spc_bucket_start_ns (candle_of k ps) = k" "spc_open (candle_of k ps) = stp_price (hd ps)"
    "spc_close (candle_of k ps) = stp_price (last ps)"
    "spc_high (candle_of k ps) \<in> stp_price ` set ps"
    "\<forall>p\<in>set ps. pv (stp_price p) \<le> pv (spc_high (candle_of k ps))"
    "spc_low (candle_of k ps) \<in> stp_price ` set ps"
    "\<forall>p\<in>set ps. pv (spc_low (candle_of k ps)) \<le> pv (stp_price p)"
    "spc_volume (candle_of k ps) = sum_list (map stp_qty ps)"
    "spc_trade_count (candle_of k ps) = of_nat (length ps)"
  using assms
proof (induction ps rule: list_nonempty_induct)
  case (single p)
  { case 1 show ?case by (simp add: candle_of_single first_point_def) }
  { case 2 show ?case by (simp add: candle_of_single first_point_def) }
  { case 3 show ?case by (simp add: candle_of_single first_point_def) }
  { case 4 show ?case by (simp add: candle_of_single first_point_def) }
  { case 5 show ?case by (simp add: candle_of_single first_point_def) }
  { case 6 show ?case by (simp add: candle_of_single first_point_def) }
  { case 7 show ?case by (simp add: candle_of_single first_point_def) }
  { case 8 show ?case by (simp add: candle_of_single first_point_def) }
  { case 9 show ?case by (simp add: candle_of_single first_point_def) }
next
  case (cons p ps)
  note step = candle_of_Cons [OF cons.hyps, of k p] fold_older_point_def
  { case 1 show ?case using cons by (simp add: step) }
  { case 2 show ?case using cons by (simp add: step) }
  { case 3 show ?case using cons by (simp add: step) }
  { case 4 show ?case using cons by (auto simp: step) }
  { case 5 show ?case using cons by (auto simp: step not_less intro: less_imp_le order_trans) }
  { case 6 show ?case using cons by (auto simp: step) }
  { case 7 show ?case using cons by (auto simp: step not_less intro: less_imp_le order_trans) }
  { case 8 show ?case using cons by (simp add: step add.commute) }
  { case 9 show ?case using cons by (simp add: step add.commute) }
qed

section \<open>The scan\<close>

definition in_window :: "u64 option \<Rightarrow> u64 option \<Rightarrow> series_trade_point \<Rightarrow> bool" where
  "in_window from_ts to_ts p \<longleftrightarrow>
     (case from_ts of None \<Rightarrow> True | Some t \<Rightarrow> t \<le> stp_timestamp p) \<and>
     (case to_ts of None \<Rightarrow> True | Some t \<Rightarrow> stp_timestamp p < t)"

definition bucket_at :: "price_history_interval \<Rightarrow> series_trade_point \<Rightarrow> u64" where
  "bucket_at i p = bucket_start i (stp_timestamp p)"

text \<open>Outside the window the scan only skips, so it may as well run over the window's points.\<close>

lemma scan_window:
  assumes "sorted_wrt (\<lambda>p q. stp_timestamp q \<le> stp_timestamp p) ps"
  shows "scan_points i from_ts to_ts ps b = scan_points i None None (filter (in_window from_ts to_ts) ps) b"
  using assms
proof (induction i from_ts to_ts ps b rule: scan_points.induct)
  case (2 i from_ts to_ts p ps b)
  let ?above = "case to_ts of None \<Rightarrow> False | Some t \<Rightarrow> t \<le> stp_timestamp p"
  let ?below = "case from_ts of None \<Rightarrow> False | Some t \<Rightarrow> stp_timestamp p < t"
  consider "?above" | "\<not> ?above" "?below" | "\<not> ?above" "\<not> ?below" by blast
  then show ?case
  proof cases
    case 1
    then have "\<not> in_window from_ts to_ts p" by (auto simp: in_window_def split: option.splits)
    with 1 2 show ?thesis by simp
  next
    case b: 2
    have "filter (in_window from_ts to_ts) (p # ps) = []"
      using b 2(4) by (auto simp: in_window_def filter_empty_conv split: option.splits)
    with b show ?thesis by simp
  next
    case 3
    then have "in_window from_ts to_ts p" by (auto simp: in_window_def not_le split: option.splits)
    with 3 2 show ?thesis by (auto simp: Let_def split: option.splits)
  qed
qed simp

text \<open>What a list of points, newest first, adds to the candle of a bucket.\<close>

definition extended :: "price_history_interval \<Rightarrow> u64 \<Rightarrow> series_price_candle option \<Rightarrow>
    series_trade_point list \<Rightarrow> series_price_candle option" where
  "extended i k c ps =
     fold (\<lambda>p c. Some (case c of None \<Rightarrow> first_point k p | Some c \<Rightarrow> fold_older_point p c))
       (filter (\<lambda>p. bucket_at i p = k) ps) c"

lemma extended_Cons:
  "extended i k c (p # ps) =
     (if bucket_at i p = k
      then extended i k (Some (case c of None \<Rightarrow> first_point k p | Some c \<Rightarrow> fold_older_point p c)) ps
      else extended i k c ps)"
  by (simp add: extended_def)

text \<open>
  The scan takes a stretch of the newest points; when it leaves some, the candles are at the cap
  and the points it leaves lie in buckets before all of the candles'.
\<close>

lemma scan_prefix:
  assumes "sorted_wrt (\<lambda>p q. bucket_at i q \<le> bucket_at i p) ps" "bt_inv b"
    and "\<forall>k p. bt_get b k \<noteq> None \<longrightarrow> p \<in> set ps \<longrightarrow> bucket_at i p \<le> k"
    and "length b \<le> MAX_PRICE_HISTORY_POINTS"
  shows "\<exists>recent older. ps = recent @ older \<and>
    (\<forall>k. bt_get (scan_points i None None ps b) k = extended i k (bt_get b k) recent) \<and>
    bt_inv (scan_points i None None ps b) \<and>
    length (scan_points i None None ps b) \<le> MAX_PRICE_HISTORY_POINTS \<and>
    (older \<noteq> [] \<longrightarrow> length (scan_points i None None ps b) = MAX_PRICE_HISTORY_POINTS \<and>
       (\<forall>k p. bt_get (scan_points i None None ps b) k \<noteq> None \<longrightarrow> p \<in> set older \<longrightarrow> bucket_at i p < k))"
  using assms
proof (induction ps arbitrary: b)
  case Nil
  then show ?case by (simp add: extended_def)
next
  case (Cons p ps)
  let ?k = "bucket_at i p"
  show ?case
  proof (cases "bt_get b ?k = None \<and> length b = MAX_PRICE_HISTORY_POINTS")
    case True
    then have stop: "scan_points i None None (p # ps) b = b"
      by (simp add: bucket_at_def Let_def)
    have "bucket_at i q < k" if "bt_get b k \<noteq> None" "q \<in> set (p # ps)" for k q
    proof -
      have "?k \<le> k" "?k \<noteq> k" "bucket_at i q \<le> ?k"
        using Cons.prems(1,3) that True by auto
      then show ?thesis by simp
    qed
    with True Cons.prems stop show ?thesis
      by (intro exI [of _ "[]"] exI [of _ "p # ps"]) (auto simp: extended_def)
  next
    case False
    let ?c = "case bt_get b ?k of None \<Rightarrow> first_point ?k p | Some c \<Rightarrow> fold_older_point p c"
    let ?b = "bt_insert ?k ?c b"
    have go: "scan_points i None None (p # ps) b = scan_points i None None ps ?b"
      using False by (auto simp: bucket_at_def Let_def split: option.splits)
    have inv: "bt_inv ?b" using Cons.prems(2) by simp
    have "dom (bt_get ?b) = insert ?k (dom (bt_get b))" by (auto split: if_splits)
    then have len: "length ?b = (if bt_get b ?k = None then length b + 1 else length b)"
      using bt.finite_dom [OF Cons.prems(2)]
      by (auto simp: bt_length [OF inv] bt_length [OF Cons.prems(2)] card_insert_if domIff)
    have "length ?b \<le> MAX_PRICE_HISTORY_POINTS" using len Cons.prems(4) False by (auto split: if_splits)
    moreover have "\<forall>k q. bt_get ?b k \<noteq> None \<longrightarrow> q \<in> set ps \<longrightarrow> bucket_at i q \<le> k"
      using Cons.prems(1,3) by (auto split: if_splits)
    ultimately obtain recent older where r: "ps = recent @ older"
      "\<forall>k. bt_get (scan_points i None None ps ?b) k = extended i k (bt_get ?b k) recent"
      "bt_inv (scan_points i None None ps ?b)"
      "length (scan_points i None None ps ?b) \<le> MAX_PRICE_HISTORY_POINTS"
      "older \<noteq> [] \<longrightarrow> length (scan_points i None None ps ?b) = MAX_PRICE_HISTORY_POINTS \<and>
         (\<forall>k q. bt_get (scan_points i None None ps ?b) k \<noteq> None \<longrightarrow> q \<in> set older \<longrightarrow> bucket_at i q < k)"
      using Cons.IH [of ?b] Cons.prems(1) inv by auto
    then show ?thesis
      unfolding go by (intro exI [of _ "p # recent"] exI [of _ older]) (auto simp: extended_Cons)
  qed
qed

lemma scan_from_empty:
  assumes "sorted_wrt (\<lambda>p q. bucket_at i q \<le> bucket_at i p) ps"
  shows "\<exists>recent older. ps = recent @ older \<and>
    (\<forall>k. bt_get (scan_points i None None ps []) k = extended i k None recent) \<and>
    bt_inv (scan_points i None None ps []) \<and>
    (older \<noteq> [] \<longrightarrow> length (scan_points i None None ps []) = MAX_PRICE_HISTORY_POINTS \<and>
       (\<forall>k p. bt_get (scan_points i None None ps []) k \<noteq> None \<longrightarrow> p \<in> set older \<longrightarrow> bucket_at i p < k))"
proof -
  have none: "bt_get ([] :: (u64, series_price_candle) btmap) k = None" for k by simp
  have "\<forall>k p. bt_get ([] :: (u64, series_price_candle) btmap) k \<noteq> None \<longrightarrow> p \<in> set ps \<longrightarrow>
      bucket_at i p \<le> k" by simp
  moreover have "length ([] :: (u64, series_price_candle) btmap) \<le> MAX_PRICE_HISTORY_POINTS"
    by simp
  ultimately obtain recent older where "ps = recent @ older \<and>
    (\<forall>k. bt_get (scan_points i None None ps []) k = extended i k (bt_get [] k) recent) \<and>
    bt_inv (scan_points i None None ps []) \<and>
    length (scan_points i None None ps []) \<le> MAX_PRICE_HISTORY_POINTS \<and>
    (older \<noteq> [] \<longrightarrow> length (scan_points i None None ps []) = MAX_PRICE_HISTORY_POINTS \<and>
       (\<forall>k p. bt_get (scan_points i None None ps []) k \<noteq> None \<longrightarrow> p \<in> set older \<longrightarrow> bucket_at i p < k))"
    using scan_prefix [OF assms bt_inv_Nil] by blast
  then show ?thesis unfolding none by blast
qed

lemma extended_candle:
  "extended i k None (rev ps) =
     (let here = filter (\<lambda>p. bucket_at i p = k) ps in if here = [] then None else Some (candle_of k here))"
proof (induction ps)
  case Nil
  then show ?case by (simp add: extended_def)
next
  case (Cons p ps)
  then show ?case
    by (auto simp: extended_def Let_def candle_of_Cons candle_of_single rev_filter [symmetric]
        split: if_splits)
qed

lemma unat_div_mult: "unat (a div w * w) = unat a div unat w * unat w" for a w :: u64
proof -
  have "unat (a div w) * unat w \<le> unat a" by (simp add: unat_div)
  then have "unat (a div w) * unat w < 2 ^ LENGTH(64)"
    using unsigned_less [of a, where 'a = nat] by simp
  then show ?thesis by (simp add: unat_mult_lem [THEN iffD1] unat_div)
qed

lemma bucket_mono: "a \<le> b \<Longrightarrow> bucket_start i a \<le> bucket_start i b"
  by (simp add: bucket_start_def word_le_nat_alt unat_div_mult div_le_mono)

section \<open>The candles\<close>

text \<open>A candle tells the trades of its bucket, oldest first.\<close>

definition candle_tells :: "series_price_candle \<Rightarrow> series_trade_point list \<Rightarrow> bool" where
  "candle_tells c ps \<longleftrightarrow>
     ps \<noteq> [] \<and> spc_open c = stp_price (hd ps) \<and> spc_close c = stp_price (last ps) \<and>
     spc_high c \<in> stp_price ` set ps \<and> (\<forall>p\<in>set ps. pv (stp_price p) \<le> pv (spc_high c)) \<and>
     spc_low c \<in> stp_price ` set ps \<and> (\<forall>p\<in>set ps. pv (spc_low c) \<le> pv (stp_price p)) \<and>
     spc_volume c = sum_list (map stp_qty ps) \<and> spc_trade_count c = of_nat (length ps)"

lemma candle_of_tells: "ps \<noteq> [] \<Longrightarrow> candle_tells (candle_of k ps) ps"
  using candle_of_spec [of ps k] by (simp add: candle_tells_def)

text \<open>
  C40. The price history of a series is its trades, candle by candle.  For a tape in time order,
  the trades of the window split into older ones that are left out and recent ones; each bucket
  with recent trades has one candle, in time order, with the first trade's price as its open, the
  last one's as its close, the highest and lowest of their prices (compared by their values), the
  sum of their quantities and their number; and trades are left out only when the history is at
  its cap of 1000 candles, and then only trades of buckets before all of those.
\<close>

theorem candles_are_exact:
  fixes points :: "series_trade_point list" and i :: price_history_interval
    and from_ts to_ts :: "u64 option"
  assumes "sorted (map stp_timestamp points)"
  defines "candles \<equiv> aggregate_price_history points i from_ts to_ts"
    and "window \<equiv> filter (in_window from_ts to_ts) points"
  shows "\<exists>older recent. window = older @ recent \<and>
    sorted_wrt (<) (map spc_bucket_start_ns candles) \<and>
    spc_bucket_start_ns ` set candles = bucket_at i ` set recent \<and>
    (\<forall>c\<in>set candles.
       candle_tells c (filter (\<lambda>p. bucket_at i p = spc_bucket_start_ns c) recent)) \<and>
    (older \<noteq> [] \<longrightarrow> length candles = 1000 \<and>
       (\<forall>p\<in>set older. \<forall>c\<in>set candles. bucket_at i p < spc_bucket_start_ns c))"
proof -
  have time: "sorted_wrt (\<lambda>p q. stp_timestamp q \<le> stp_timestamp p) (rev points)"
    using assms(1) by (simp add: sorted_wrt_rev sorted_wrt_map)
  then have "sorted_wrt (\<lambda>p q. bucket_at i q \<le> bucket_at i p) (rev window)"
    unfolding window_def rev_filter
    by (intro sorted_wrt_filter) (auto elim!: sorted_wrt_mono_rel [rotated] simp: bucket_at_def bucket_mono)
  from scan_from_empty [OF this] obtain recent older where r: "rev window = recent @ older"
      "\<forall>k. bt_get (scan_points i None None (rev window) []) k = extended i k None recent"
      "bt_inv (scan_points i None None (rev window) [])"
      "older \<noteq> [] \<longrightarrow> length (scan_points i None None (rev window) []) = MAX_PRICE_HISTORY_POINTS \<and>
         (\<forall>k p. bt_get (scan_points i None None (rev window) []) k \<noteq> None \<longrightarrow> p \<in> set older \<longrightarrow>
            bucket_at i p < k)"
    by (elim exE conjE)
  let ?m = "scan_points i None None (rev window) []" and ?recent = "rev recent"
  have scan: "candles = bt_values ?m"
    using scan_window [OF time] by (simp add: candles_def aggregate_price_history_def window_def rev_filter)
  have get: "bt_get ?m k = (let here = filter (\<lambda>p. bucket_at i p = k) ?recent in
      if here = [] then None else Some (candle_of k here))" for k
    using r(2) extended_candle [of i k ?recent] by simp
  have entry: "spc_bucket_start_ns c = k" if "(k, c) \<in> set ?m" for k c
    using that r(3) get [of k] by (auto simp: bt_mem Let_def candle_of_spec(1) split: if_splits)
  then have keys: "map spc_bucket_start_ns candles = map fst ?m"
    by (auto simp: scan bt_values_def)
  have candle: "bt_get ?m (spc_bucket_start_ns c) = Some c" if "c \<in> set candles" for c
    using that entry r(3) by (auto simp: scan bt_values_def bt_mem)
  have "window = rev older @ ?recent" using r(1) by (metis rev_append rev_rev_ident)
  moreover have "sorted_wrt (<) (map spc_bucket_start_ns candles)"
    using r(3) by (simp add: keys bt_inv_def)
  moreover have "spc_bucket_start_ns ` set candles = bucket_at i ` set ?recent"
  proof -
    have "k \<in> set (map fst ?m) \<longleftrightarrow> k \<in> bucket_at i ` set ?recent" for k
      using get [of k] bt.keys_dom [OF r(3)]
      by (auto simp: domIff Let_def filter_empty_conv split: if_splits)
    then show ?thesis using keys by (metis set_eqI set_map)
  qed
  moreover have "candle_tells c (filter (\<lambda>p. bucket_at i p = spc_bucket_start_ns c) ?recent)"
    if "c \<in> set candles" for c
  proof -
    let ?here = "filter (\<lambda>p. bucket_at i p = spc_bucket_start_ns c) ?recent"
    have "?here \<noteq> []" "candle_of (spc_bucket_start_ns c) ?here = c"
      using candle [OF that] get [of "spc_bucket_start_ns c"] by (simp_all add: Let_def split: if_splits)
    then show ?thesis using candle_of_tells [of ?here "spc_bucket_start_ns c"] by simp
  qed
  moreover have "rev older \<noteq> [] \<longrightarrow> length candles = 1000 \<and>
       (\<forall>p\<in>set (rev older). \<forall>c\<in>set candles. bucket_at i p < spc_bucket_start_ns c)"
    using r(4) candle by (simp add: scan bt_values_def MAX_PRICE_HISTORY_POINTS_def)
  ultimately show ?thesis by blast
qed

definition point0 :: "u64 \<Rightarrow> u128 \<Rightarrow> i128 \<Rightarrow> u64 \<Rightarrow> series_trade_point" where
  "point0 e p q t =
     \<lparr> stp_event_id = e, stp_price = price_new p 4, stp_qty = q, stp_timestamp = t \<rparr>"

definition points0 :: "series_trade_point list" where
  "points0 = [point0 0 5000 3 10, point0 2 4000 2 20, point0 4 4500 1 30]"

lemma one_key:
  assumes "sorted_wrt (<) (map f xs)" "\<forall>x\<in>set xs. f x = (k :: 'k::linorder)"
  shows "length xs \<le> 1"
proof (cases xs)
  case (Cons a ys)
  with assms show ?thesis by (cases ys) auto
qed simp

lemma candles_are_exact_witness:
  "\<exists>c. aggregate_price_history points0 Hour None None = [c] \<and> spc_volume c = 6 \<and>
     spc_trade_count c = 3 \<and> spc_open c = price_new 5000 4 \<and> spc_close c = price_new 4500 4"
proof -
  let ?c = "aggregate_price_history points0 Hour None None"
  have sorted: "sorted (map stp_timestamp points0)" by (simp add: points0_def point0_def)
  have window: "filter (in_window None None) points0 = points0"
    by (simp add: in_window_def)
  have bucket: "bucket_at Hour p = 0" if "p \<in> set points0" for p
    using that by (auto simp: points0_def point0_def bucket_at_def bucket_start_def NANOS_PER_HOUR_def)
  from candles_are_exact [OF sorted, of None None Hour] obtain older recent where r:
    "points0 = older @ recent" "sorted_wrt (<) (map spc_bucket_start_ns ?c)"
    "spc_bucket_start_ns ` set ?c = bucket_at Hour ` set recent"
    "\<forall>c\<in>set ?c. candle_tells c (filter (\<lambda>p. bucket_at Hour p = spc_bucket_start_ns c) recent)"
    "older \<noteq> [] \<longrightarrow> length ?c = 1000"
    unfolding window by blast
  have sub: "set recent \<subseteq> set points0" unfolding r(1) by simp
  have zero: "spc_bucket_start_ns c = 0" if "c \<in> set ?c" for c
  proof -
    have "spc_bucket_start_ns c \<in> spc_bucket_start_ns ` set ?c" using that by (rule imageI)
    then have "spc_bucket_start_ns c \<in> bucket_at Hour ` set recent" unfolding r(3) .
    then obtain p where "p \<in> set recent" "spc_bucket_start_ns c = bucket_at Hour p" by blast
    with sub bucket [of p] show ?thesis by (simp add: subset_iff)
  qed
  have short: "length ?c \<le> 1"
    using one_key [OF r(2)] zero by blast
  then have "older = []" using r(5) by auto
  then have all: "recent = points0" using r(1) by simp
  then have "?c \<noteq> []" using r(3) by (auto simp: points0_def)
  with short obtain c where c: "?c = [c]"
    by (metis One_nat_def le_SucE le_zero_eq length_0_conv length_Suc_conv)
  have "filter (\<lambda>p. bucket_at Hour p = spc_bucket_start_ns c) recent = points0"
    using zero [of c] c bucket by (simp add: all)
  with r(4) c have "candle_tells c points0" by simp
  with c show ?thesis by (auto simp: candle_tells_def points0_def point0_def)
qed

end
