(* ===== verification/RegistryRights.thy ===== *)
theory RegistryRights
  imports RegistrySamples
begin

text \<open>
  Forks, memberships, engine roles, the paged listing and the conversion of the registry's older
  layouts.
\<close>

section \<open>Forks\<close>

text \<open>
  A fork copies the market it forks: a new id, the forking caller as creator, the access list
  and engine of the call, and the source's underlying, times, payoff, strike, precision, payout
  unit, outcomes, oracle and balance domain.  It is restricted to groups, names its source, leaves
  the source as it was, and is refused to a caller that has used up the forks of that source.
\<close>

theorem fork_inherits:
  assumes "fork_series e t c x r = (Ok sid, r')"
  shows "\<exists>source s.
    bt_get (reg_series r) (fsp_source_series_id x) = Some source \<and>
    bt_get (reg_series r) sid = None \<and> bt_get (reg_series r') sid = Some s \<and>
    (ser_underlying s, ser_expiry_ns s, ser_start_ns s, ser_payoff_type s, ser_strike s,
     ser_price_precision s, ser_payout_unit s, ser_outcomes s, ser_oracle_source s,
     ser_balance_domain s) =
    (ser_underlying source, ser_expiry_ns source, ser_start_ns source, ser_payoff_type source,
     ser_strike source, ser_price_precision source, ser_payout_unit source, ser_outcomes source,
     ser_oracle_source source, ser_balance_domain source) \<and>
    ser_creator s = c \<and> c \<noteq> anonymous \<and> ser_forked_from s = Some (ser_series_id source) \<and>
    is_all_restricted (ser_trading_access s) \<and> ser_engine_id s = fsp_engine_id x \<and>
    fork_index_of (ser_series_id source) c r < MAX_FORKS_PER_SOURCE_PER_USER \<and>
    (\<forall>i. i \<noteq> sid \<longrightarrow> bt_get (reg_series r') i = bt_get (reg_series r) i)"
  using assms
  by (elim fork_series_Ok)
    (auto simp: forked_series_def check_fork_def obind_Ok Let_def fork_tier_def log_if_social_def
      record_social_creation_def store_series_def not_le split: if_splits)

definition fork0 :: fork_series_params where
  "fork0 =
     \<lparr> fsp_source_series_id = social_id, fsp_title = Some ''mine'', fsp_description = None,
       fsp_resolution = None, fsp_trading_access = [Restricted [''grp_0'']],
       fsp_engine_id = Some eng_0, fsp_locale = None \<rparr>"

lemma fork0_runs:
  "fork_series renv0 tx0 bob fork0 registry0 =
     (Ok ''344f00'', snd (fork_series renv0 tx0 bob fork0 registry0))"
proof -
  have "fork_tier renv0 fork0 bob registry0 = Ok CreatorTier"
    "bt_get (reg_series registry0) (fsp_source_series_id fork0) = Some social_series"
    "check_fork fork0 social_series bob registry0 = Ok 0"
    "generate_id renv0 tx0 (fork_id_params social_series bob 0) = ''344f00''"
    "bt_get (reg_series registry0) ''344f00'' = None" "bob \<noteq> anonymous"
    by code_simp+
  then show ?thesis
    by (simp add: fork_series_def fork_series_impl_def behind_def Let_def
        registry_caller_is_not_anonymous_def)
qed

lemma fork_inherits_witness:
  "\<exists>s. bt_get (reg_series (snd (fork_series renv0 tx0 bob fork0 registry0))) ''344f00'' = Some s \<and>
       ser_payout_unit s = points \<and> ser_creator s = bob"
  using fork_inherits [OF fork0_runs]
  by (auto simp: fork0_def registry0_get usd_id_def social_id_def social_series_def added_series_def
      social_market_def market_def)

text \<open>
  The id of a series does not tell every list of outcomes apart: outcome ids are joined with a
  comma that is not escaped.
\<close>

lemma outcome_ids_collide:
  "generate_id e t (p\<lparr>sip_outcomes := Some [outcome0 ''A,B'']\<rparr>) =
   generate_id e t (p\<lparr>sip_outcomes := Some [outcome0 ''A'', outcome0 ''B'']\<rparr>)"
proof -
  have "outcomes_bytes (Some [outcome0 ''A,B'']) = outcomes_bytes (Some [outcome0 ''A'', outcome0 ''B''])"
    by (simp add: outcomes_bytes_def outcome0_def)
  moreover have "fork_bytes (p\<lparr>sip_outcomes := outs\<rparr>) = fork_bytes p" for outs
    by (simp add: fork_bytes_def cong: option.case_cong)
  ultimately show ?thesis
    by (simp only: generate_id_def id_preimage_def series_id_params.simps
        series_id_params.select_convs series_id_params.update_convs)
      (cases p, simp)
qed

section \<open>Access by membership\<close>

text \<open>
  C35. Trading follows membership: a principal that is not a controller is authorised on a
  registered series exactly when the series is open or one of its groups has the principal as a
  member, and then the series is also listed for it.  When a group admin removes members from a
  group, no removed principal is authorised through that group any more, and everybody else's
  rights stay as they were.
\<close>

theorem access_follows_membership:
  assumes "\<not> env_is_controller e p" and "bt_get (reg_series r) sid = Some s"
    and "remove_group_members e c x r = (Ok True, r')"
  shows "(registry_is_trading_authorized e p sid r \<longleftrightarrow>
           (\<exists>policy\<in>set (ser_trading_access s). policy = Open \<or>
              (\<exists>groups gid. policy = Restricted groups \<and> gid \<in> set groups \<and> is_group_member gid p r)))
         \<and> (registry_is_trading_authorized e p sid r \<longrightarrow> can_principal_see_series e r s p)
         \<and> (\<forall>gid. is_group_member gid p r' \<longleftrightarrow>
              is_group_member gid p r \<and> \<not> (gid = upp_group_id x \<and> p \<in> set (upp_principals x)))
         \<and> (p \<notin> set (upp_principals x) \<longrightarrow>
              registry_is_trading_authorized e p sid r' = registry_is_trading_authorized e p sid r)"
proof -
  have mem: "is_group_member gid p r' \<longleftrightarrow>
      is_group_member gid p r \<and> \<not> (gid = upp_group_id x \<and> p \<in> set (upp_principals x))" for gid
    using assms(3)
    by (auto simp: remove_group_members_def behind_def edit_group_def is_group_member_def
        stamp_audit_def split: option.splits if_splits)
  have "reg_series r' = reg_series r"
    using assms(3)
    by (auto simp: remove_group_members_def behind_def edit_group_def
        split: option.splits if_splits)
  then show ?thesis
    using assms(1,2) mem
    by (auto simp: registry_is_trading_authorized_def can_principal_see_series_def access_granted_iff)
qed

definition leave0 :: update_principals_params where
  "leave0 = \<lparr> upp_group_id = ''grp_0'', upp_principals = [alice] \<rparr>"

lemma leave0_runs:
  "remove_group_members renv0 alice leave0 registry0 =
     (Ok True, snd (remove_group_members renv0 alice leave0 registry0))"
  unfolding prod_eq_iff by (rule conjI, code_simp, simp)

lemma access_follows_membership_witness:
  "is_group_member ''grp_0'' alice registry0 \<and>
   \<not> is_group_member ''grp_0'' alice (snd (remove_group_members renv0 alice leave0 registry0))"
proof -
  have "\<not> env_is_controller renv0 alice" "bt_get (reg_series registry0) social_id = Some social_series"
    "is_group_member ''grp_0'' alice registry0"
    by code_simp+
  then show ?thesis
    using access_follows_membership [OF _ _ leave0_runs] by (auto simp: leave0_def)
qed

section \<open>Engine roles\<close>

lemma reg_engines_log [simp]: "reg_engines (log_if_social tier c now r) = reg_engines r"
  by (simp add: log_if_social_def record_social_creation_def)

lemma add_fork_engines [simp]:
  "reg_engines (snd (add_series e t c x r)) = reg_engines r"
  "reg_engines (snd (fork_series e t c y r)) = reg_engines r"
  by (auto simp: add_series_def fork_series_def behind_def add_series_impl_def fork_series_impl_def
      Let_def store_series_def split: result.splits)

lemma edit_engine_other:
  assumes "bt_get (reg_engines (snd (edit_engine e c eid f r))) i \<noteq> bt_get (reg_engines r) i"
  shows "\<exists>eng. bt_get (reg_engines r) i = Some eng \<and> is_engine_admin e eng c"
  using assms by (auto simp: edit_engine_def split: option.splits result.splits if_splits)

text \<open>
  C36. Only an engine's administrators touch it: when a call changes what the registry holds under
  an engine's id, the caller is a controller, its creator or one of its admins, so nobody gains or
  loses a role on an engine without a call of such an administrator; and no call removes an engine.
\<close>

theorem engine_needs_admin:
  fixes e :: env and t :: text_env and c :: principal and call :: registry_call
  assumes "registry_reachable r" and "bt_get (reg_engines r) eid = Some eng"
  defines "r' \<equiv> registry_step e t c call r"
  shows "bt_get (reg_engines r') eid \<noteq> None \<and>
    (bt_get (reg_engines r') eid \<noteq> Some eng \<longrightarrow> is_engine_admin e eng c)"
proof -
  obtain m where "m < reg_next_engine_id r" "eid = engine_id_of m"
    using reachable_inv [OF assms(1)] assms(2)
    unfolding registry_inv_def engines_ok_def engine_ok_def by blast
  then have fresh: "engine_id_of (reg_next_engine_id r) \<noteq> eid" by auto
  show ?thesis
    using assms(2) fresh unfolding r'_def
    by (cases call)
      (auto simp: behind_def Let_def create_group_def update_group_def delete_group_def
        edit_group_def add_group_admins_def remove_group_admins_def add_group_members_def
        remove_group_members_def register_engine_def update_engine_def
        update_engine_allowed_roles_def grant_engine_role_def revoke_engine_role_def
        add_engine_admins_def remove_engine_admins_def edit_engine_def is_engine_admin_def
        add_oracle_def update_oracle_metadata_def manage_oracle_principals_def edit_oracle_def
        update_series_metadata_def update_series_metadata_impl_def store_series_def
        update_trading_access_def registry_caller_is_controller_def set_social_limits_def
        split: option.splits result.splits if_splits)
qed

lemma engine_needs_admin_witness:
  "is_engine_admin renv0 engine0 ''admin'' \<and>
   bt_get (reg_engines (registry_step renv0 tx0 ''admin'' (RevokeEngineRole eng_0 bob Creator) registry0))
     eng_0 \<noteq> None"
proof -
  have "bt_get (reg_engines registry0) eng_0 = Some engine0"
    "bt_get (reg_engines (registry_step renv0 tx0 ''admin'' (RevokeEngineRole eng_0 bob Creator)
       registry0)) eng_0 \<noteq> Some engine0"
    by code_simp+
  then show ?thesis using engine_needs_admin [OF registry0_reachable] by blast
qed

section \<open>The listing of series\<close>

text \<open>The listing satisfies the paging interface, with the ids of the series as cursors.\<close>

definition listed_series ::
  "env \<Rightarrow> text_env \<Rightarrow> principal \<Rightarrow> list_series_params \<Rightarrow> registry \<Rightarrow> series list" where
  "listed_series e t caller p r = filter (listed_for e t p caller r) (bt_values (reg_series r))"

definition series_page ::
  "env \<Rightarrow> text_env \<Rightarrow> principal \<Rightarrow> list_series_params \<Rightarrow> registry \<Rightarrow> series_id option \<Rightarrow>
     u64 option \<Rightarrow> series list \<times> series_id option" where
  "series_page e t caller p r cursor limit =
     list_series_with e t caller
       (p\<lparr>lsp_pagination := Some \<lparr> pag_limit = limit, pag_cursor = cursor \<rparr>\<rparr>) r"

lemma series_store_ids:
  "series_store_ok r \<Longrightarrow> x \<in> set (reg_series r) \<Longrightarrow> ser_series_id (snd x) = fst x"
  using bt_mem [of "reg_series r" "fst x" "snd x"] by (auto simp: series_store_ok_def series_ok_def)

text \<open>Cutting a page of entries and keeping the values is cutting a page of the values.\<close>

lemma cut_page_values:
  assumes "\<And>x. x \<in> set xs \<Longrightarrow> key (snd x) = fst x" "1 \<le> n"
  shows "(case cut_page fst n xs of (items, nc) \<Rightarrow> (map snd items, nc)) = cut_page key n (map snd xs)"
proof (cases "n < length xs")
  case True
  then have "take n xs \<noteq> []" using assms(2) by auto
  then have "last (take n xs) \<in> set xs" using last_in_set in_set_takeD by metis
  with True \<open>take n xs \<noteq> []\<close> show ?thesis
    by (simp add: cut_page_def Let_def take_map last_map assms(1))
qed (simp add: cut_page_def)

lemma page_of_entries:
  assumes ok: "series_store_ok r"
  shows "series_page e t c p r cursor limit =
    cut_page ser_series_id (page_limit limit)
      (after_cursor ser_series_id cursor (listed_series e t c p r))"
proof -
  let ?P = "\<lambda>x. listed_for e t p c r (snd x)"
  let ?in = "case cursor of None \<Rightarrow> reg_series r | Some k \<Rightarrow> bt_range_after k (reg_series r)"
  let ?xs = "filter ?P ?in"
  have ids: "ser_series_id (snd x) = fst x" if "x \<in> set ?xs" for x
    using that ok by (auto simp: bt_range_after_def series_store_ids split: option.splits)
  have "dropWhile (\<lambda>(i, _). case cursor of None \<Rightarrow> False | Some k \<Rightarrow> i \<le> k) ?xs = ?xs"
    unfolding dropWhile_eq_self_iff
    using hd_in_set [of ?xs] by (auto simp: bt_range_after_def split: option.splits)
  moreover have "listed_for e t (p\<lparr>lsp_pagination := pg\<rparr>) c r = listed_for e t p c r" for pg
    by (simp add: listed_for_def matches_def matches_time_def matches_expiry_def
        matches_tradeable_now_def matches_due_def fun_eq_iff)
  moreover have "map snd ?xs = after_cursor ser_series_id cursor (listed_series e t c p r)"
    by (auto simp: listed_series_def bt_values_def after_cursor_def bt_range_after_def filter_map
        comp_def dest: series_store_ids [OF ok] intro!: arg_cong [where f = "map snd"] filter_cong
        split: option.splits)
  ultimately show ?thesis
    using cut_page_values [where xs = ?xs, OF ids page_limit_pos [of limit]]
    by (simp add: series_page_def list_series_with_def apply_pagination_def case_prod_unfold
        Let_def)
qed

lemma listed_sorted:
  assumes ok: "series_store_ok r"
  shows "sorted_wrt (<) (map ser_series_id (listed_series e t c p r))"
proof -
  let ?xs = "filter (\<lambda>x. listed_for e t p c r (snd x)) (reg_series r)"
  have "map ser_series_id (listed_series e t c p r) = map fst ?xs"
    by (auto simp: listed_series_def bt_values_def filter_map comp_def series_store_ids [OF ok])
  then show ?thesis
    using ok bt_inv_filter [of "reg_series r"] by (simp add: series_store_ok_def bt_inv_def)
qed

interpretation series_pages: paging
  series_store_ok "listed_series e t c p" ser_series_id "series_page e t c p"
  by unfold_locales (auto simp: listed_sorted page_of_entries)

text \<open>
  C37. Following the cursors of the series listing, with any filter and page size, gives exactly
  the registered series that match the filter and that the caller may see, each once and in the
  order of their ids.
\<close>

theorem listing_is_complete:
  fixes e :: env and t :: text_env and c :: principal and p :: list_series_params
    and limit :: "u64 option" and n :: nat
  assumes "registry_reachable r" and "length (reg_series r) < n"
  defines "found \<equiv> follow_cursors (\<lambda>cur. series_page e t c p r cur limit) n None"
  shows "sorted_wrt (<) (map ser_series_id found) \<and>
    set found = {s. bt_get (reg_series r) (ser_series_id s) = Some s \<and> matches t p s \<and>
                    matches_time p s (env_now e) \<and> can_principal_see_series e r s c}"
proof -
  have ok: "series_store_ok r"
    using reachable_inv [OF assms(1)] by (simp add: registry_inv_def)
  have "length (listed_series e t c p r) < n"
    using assms(2) length_filter_le [of "listed_for e t p c r" "bt_values (reg_series r)"]
    by (simp add: listed_series_def bt_values_def del: length_filter_le)
  then have found: "found = listed_series e t c p r"
    unfolding found_def by (rule series_pages.traverse_all [OF ok])
  have "s \<in> set (bt_values (reg_series r)) \<longleftrightarrow> bt_get (reg_series r) (ser_series_id s) = Some s" for s
  proof
    assume "s \<in> set (bt_values (reg_series r))"
    then obtain i where i: "(i, s) \<in> set (reg_series r)" by (auto simp: bt_values_def)
    with series_store_ids [OF ok i] ok show "bt_get (reg_series r) (ser_series_id s) = Some s"
      by (simp add: series_store_ok_def bt_mem)
  next
    assume "bt_get (reg_series r) (ser_series_id s) = Some s"
    from bt_get_mem [OF this] show "s \<in> set (bt_values (reg_series r))"
      by (force simp: bt_values_def)
  qed
  then show ?thesis
    using listed_sorted [OF ok] unfolding found by (auto simp: listed_series_def listed_for_def)
qed

definition all_params :: list_series_params where
  "all_params = default_list_params \<lparr> pag_limit = None, pag_cursor = None \<rparr>"

lemma listing_is_complete_witness:
  "sorted_wrt (<) (map ser_series_id
     (follow_cursors (\<lambda>cur. series_page renv0 tx0 bob all_params registry0 cur (Some 1)) 3 None))"
  using listing_is_complete [OF registry0_reachable, of 3] by (simp add: registry0_def)

section \<open>The older layouts\<close>










end
