(* ===== verification/LegacyState.thy ===== *)
theory LegacyState
  imports Upgrade RegistryUpgrade
begin

text \<open>
  \<open>src/src/clearing/src/migrations/mod.rs\<close>: the stable state of before the resolution clause, its
  conversion, and the two attempts of \<open>restore_state\<close> at decoding a blob.
\<close>

record legacy_stable_state =
  lss_config :: config
  lss_positions :: "position list"
  lss_accounts :: "(user, account_state) btmap"
  lss_series :: "(series_id, legacy_series) btmap"
  lss_events :: "event list"
  lss_next_id :: u64
  lss_registry :: principal
  lss_deposit_plans :: "(user \<times> deposit_id, deposit_plan) btmap"
  lss_withdrawal_plans :: "(user \<times> withdrawal_id, withdrawal_plan) btmap"
  lss_fund_withdrawal_plans :: "(string, fund_withdrawal_plan) btmap"
  lss_executed_trades :: "(trade_id, u64) btmap"
  lss_frozen_transfers :: "(transfer_id, position_proof) btmap"
  lss_accepted_transfers :: "(transfer_id, bool) btmap"
  lss_settlement_plans :: "(series_id, settlement_plan) btmap"
  lss_limit_orders :: "(order_id, limit_order) btmap"
  lss_insurance_fund :: "(asset_id, u128) btmap"
  lss_treasury :: "(asset_id, u128) btmap"
  lss_collateral_assets :: "(asset_id, collateral_asset_config) btmap"
  lss_evm_addresses :: "(principal, string) btmap"
  lss_asset_metrics :: "(asset_id, asset_metrics) btmap"
  lss_domain_policies :: "(balance_domain, domain_policy) btmap"
  lss_migration_plans :: "(user \<times> string, migration_plan) btmap"

definition into_current :: "legacy_stable_state \<Rightarrow> stable_state" where
  "into_current l =
     \<lparr> ss_config = lss_config l, ss_positions = lss_positions l, ss_accounts = lss_accounts l,
       ss_series = bt_map_values upgrade_series (lss_series l), ss_events = lss_events l,
       ss_next_id = lss_next_id l, ss_registry = lss_registry l,
       ss_deposit_plans = lss_deposit_plans l, ss_withdrawal_plans = lss_withdrawal_plans l,
       ss_fund_withdrawal_plans = lss_fund_withdrawal_plans l,
       ss_executed_trades = lss_executed_trades l, ss_frozen_transfers = lss_frozen_transfers l,
       ss_accepted_transfers = lss_accepted_transfers l,
       ss_settlement_plans = lss_settlement_plans l, ss_limit_orders = lss_limit_orders l,
       ss_insurance_fund = lss_insurance_fund l, ss_treasury = lss_treasury l,
       ss_collateral_assets = lss_collateral_assets l, ss_evm_addresses = lss_evm_addresses l,
       ss_asset_metrics = lss_asset_metrics l, ss_domain_policies = lss_domain_policies l,
       ss_migration_plans = lss_migration_plans l, ss_reassignment_plans = None \<rparr>"

text \<open>A blob decodes as the layout that wrote it, and as no other; otherwise the upgrade traps.\<close>

datatype clearing_blob =
    CurrentBlob stable_state
  | LegacyBlob legacy_stable_state
  | OtherBlob

definition stable_restore_current :: "clearing_blob \<Rightarrow> stable_state option" where
  "stable_restore_current b = (case b of CurrentBlob st \<Rightarrow> Some st | _ \<Rightarrow> None)"

definition stable_restore_legacy :: "clearing_blob \<Rightarrow> legacy_stable_state option" where
  "stable_restore_legacy b = (case b of LegacyBlob l \<Rightarrow> Some l | _ \<Rightarrow> None)"

definition restore_from :: "clearing_blob \<Rightarrow> clearing option" where
  "restore_from b =
     (case stable_restore_current b of
        Some st \<Rightarrow> Some (restore_state st)
      | None \<Rightarrow> (case stable_restore_legacy b of
                   Some l \<Rightarrow> Some (restore_state (into_current l))
                 | None \<Rightarrow> None))"

section \<open>Facts\<close>

text \<open>
  A blob of the old layout is read as the accounts, orders and plans it holds, with every series
  under its id and no reassignment pending; what is neither layout is refused.
\<close>

lemma restore_legacy:
  assumes "restore_from (LegacyBlob l) = Some s"
  shows "cl_accounts s = lss_accounts l" "cl_limit_orders s = lss_limit_orders l"
    "cl_settlement_plans s = lss_settlement_plans l" "cl_deposit_plans s = lss_deposit_plans l"
    "cl_withdrawal_plans s = lss_withdrawal_plans l" "cl_events s = lss_events l"
    "bt_get (cl_series s) sid = map_option upgrade_series (bt_get (lss_series l) sid)"
    "cl_reassignment_plans s = []"
  using assms
  by (auto simp: restore_from_def stable_restore_current_def stable_restore_legacy_def into_current_def
      restore_state_def Let_def rebuild_reassignment_marks_def rebuild_leaderboard_def
      rebuild_series_trade_history_def split: prod.splits)

lemma restore_other: "restore_from OtherBlob = None"
  by (simp add: restore_from_def stable_restore_current_def stable_restore_legacy_def)

end
