(* ===== verification/Minter.thy ===== *)
theory Minter
  imports AssetHandlers
begin

text \<open>
  The minter canister (\<open>src/src/minter/src\<close>): its configuration, who may mint, the request to the
  ledger and the upgrade that keeps the configuration.  The text of an outside error is a
  parameter of the reply.
\<close>

record minter_config =
  mc_ledger_canister :: principal
  mc_authorized_callers :: "principal list"

record minter_upgrade =
  mu_ledger_canister :: "principal option"
  mu_authorized_callers :: "principal list option"

datatype minter_arg = MinterInit minter_config | MinterUpgrade "minter_upgrade option"

text \<open>The state is the configuration, if it was set; \<open>None\<close> of a hook is a trap.\<close>

type_synonym minter = "minter_config option"

definition read_config :: "minter \<Rightarrow> (string, minter_config) result" where
  "read_config s = ok_or ''Config not initialised'' s"

definition minter_init :: "minter_arg \<Rightarrow> minter option" where
  "minter_init arg = (case arg of MinterInit config \<Rightarrow> Some (Some config) | MinterUpgrade _ \<Rightarrow> None)"

definition apply_upgrade :: "minter_upgrade \<Rightarrow> minter \<Rightarrow> minter" where
  "apply_upgrade u s =
     map_option (\<lambda>config.
       \<lparr> mc_ledger_canister = (case mu_ledger_canister u of
                                 None \<Rightarrow> mc_ledger_canister config | Some p \<Rightarrow> p),
         mc_authorized_callers = (case mu_authorized_callers u of
                                    None \<Rightarrow> mc_authorized_callers config | Some ps \<Rightarrow> ps) \<rparr>) s"

text \<open>\<open>pre_upgrade\<close> saves the configuration as it is, and \<open>post_upgrade\<close> finds it.\<close>

definition minter_post_upgrade :: "minter_arg \<Rightarrow> minter \<Rightarrow> minter option" where
  "minter_post_upgrade arg saved =
     (if saved = None then None
      else case arg of
             MinterUpgrade (Some u) \<Rightarrow> Some (apply_upgrade u saved)
           | MinterUpgrade None \<Rightarrow> Some saved
           | MinterInit _ \<Rightarrow> None)"

definition caller_is_authorized :: "env \<Rightarrow> minter \<Rightarrow> principal \<Rightarrow> bool" where
  "caller_is_authorized e s caller =
     (case s of
        None \<Rightarrow> False
      | Some config \<Rightarrow> caller \<in> set (mc_authorized_callers config) \<or> env_is_controller e caller)"

definition update_config :: "env \<Rightarrow> principal \<Rightarrow> minter_config \<Rightarrow> minter \<Rightarrow> minter" where
  "update_config e caller config s = (if env_is_controller e caller then Some config else s)"

definition to_account :: "principal \<Rightarrow> icrc_account" where
  "to_account p = \<lparr> ica_owner = p, ica_subaccount = None \<rparr>"

definition mint_request :: "principal \<Rightarrow> nat \<Rightarrow> transfer_arg" where
  "mint_request to amount =
     \<lparr> ta_from_subaccount = None, ta_to = to_account to, ta_amount = amount, ta_fee = None,
       ta_created_at_time = None \<rparr>"

text \<open>
  What the ledger or the system answers, and the message the caller gets; a call that the guard
  rejects sends nothing and is a trap.
\<close>

datatype mint_reply =
    LedgerRejected string
  | LedgerUndecodable string
  | LedgerAnswered "(string, nat) result"

type_synonym ('e, 'a) mproc = "(principal \<times> transfer_arg, mint_reply, minter, 'e, 'a) proc"

definition mint_answer :: "mint_reply \<Rightarrow> (string, nat) result" where
  "mint_answer p =
     (case p of
        LedgerRejected m \<Rightarrow> Err (''Ledger call failed: '' @ m)
      | LedgerUndecodable m \<Rightarrow> Err (''Ledger response decode failed: '' @ m)
      | LedgerAnswered r \<Rightarrow> map_err (\<lambda>m. ''Transfer error: '' @ m) r)"

definition mint :: "env \<Rightarrow> principal \<Rightarrow> principal \<Rightarrow> nat \<Rightarrow> minter \<Rightarrow> (string, nat) mproc" where
  "mint e caller to amount s =
     (if \<not> caller_is_authorized e s caller then Return Trap s
      else case read_config s of
             Err m \<Rightarrow> Return (Err m) s
           | Trap \<Rightarrow> Return Trap s
           | Ok config \<Rightarrow>
               Await (mc_ledger_canister config, mint_request to amount) s
                 (\<lambda>p s'. Return (mint_answer p) s'))"

section \<open>Facts\<close>

text \<open>A mint sends at most one request, to the configured ledger, and only for an authorised caller.\<close>

lemma mint_asks:
  "mint e caller to amount s = Await q s' k \<Longrightarrow>
   \<exists>config. s = Some config \<and> s' = s \<and> q = (mc_ledger_canister config, mint_request to amount) \<and>
     (caller \<in> set (mc_authorized_callers config) \<or> env_is_controller e caller) \<and>
     (\<forall>p t. \<exists>r. k p t = Return r t)"
  by (auto simp: mint_def caller_is_authorized_def read_config_def split: if_splits option.splits)

text \<open>An upgrade never leaves the minter without a configuration, and never invents callers.\<close>

lemma upgrade_keeps_config:
  "minter_post_upgrade (MinterUpgrade None) s = Some s' \<Longrightarrow> s' = s \<and> s \<noteq> None"
  "minter_post_upgrade arg None = None"
  by (auto simp: minter_post_upgrade_def split: if_splits)

end
