(* ===== verification/Tokens.thy ===== *)
theory Tokens
  imports SharedTypes
begin

text \<open>
  The constructors of \<open>src/src/shared/src/types\<close> that clients of the canisters use: the canonical
  assets of the EVM chains (\<open>asset/evm.rs\<close>), the texts of payout units (\<open>payout.rs\<close>) and
  descriptions (\<open>description.rs\<close>).
\<close>

section \<open>Assets of the EVM chains\<close>

fun native_symbol :: "chain \<Rightarrow> string" where
  "native_symbol Ethereum = ''ETH''"
| "native_symbol Base = ''ETH''"
| "native_symbol Bsc = ''BNB''"
| "native_symbol Polygon = ''POL''"

definition native_of_chain :: "chain \<Rightarrow> native_evm_asset" where
  "native_of_chain c = \<lparr> nat_chain_id = chain_to_id c, nat_decimals = 18 \<rparr>"

fun usdc :: "chain \<Rightarrow> erc_token" where
  "usdc Ethereum = \<lparr> erc_token_address = ''0xA0b86991c6218b36c1d19D4a2e9Eb0cE3606eB48'',
     erc_chain_id = chain_to_id Ethereum, erc_decimals = 6 \<rparr>"
| "usdc Base = \<lparr> erc_token_address = ''0x833589fCD6eDb6E08f4c7C32D4f71b54bdA02913'',
     erc_chain_id = chain_to_id Base, erc_decimals = 6 \<rparr>"
| "usdc Bsc = \<lparr> erc_token_address = ''0x8ac76a51cc950d9822d68b83fe1ad97b32cd580d'',
     erc_chain_id = chain_to_id Bsc, erc_decimals = 18 \<rparr>"
| "usdc Polygon = \<lparr> erc_token_address = ''0x3c499c542cEF5E3811e1192ce70d8cC03d5c3359'',
     erc_chain_id = chain_to_id Polygon, erc_decimals = 6 \<rparr>"

fun usdt :: "chain \<Rightarrow> (asset_error, erc_token) result" where
  "usdt Ethereum = Ok \<lparr> erc_token_address = ''0xdAC17F958D2ee523a2206206994597C13D831ec7'',
     erc_chain_id = chain_to_id Ethereum, erc_decimals = 6 \<rparr>"
| "usdt Base = Err UnsupportedAsset"
| "usdt Bsc = Err UnsupportedAsset"
| "usdt Polygon = Err UnsupportedAsset"

text \<open>A chain is its identifier, and every canonical asset names the chain it was made for.\<close>

lemma chain_try_from_id [simp]: "chain_try_from (chain_to_id c) = Some c"
  by (cases c) (simp_all add: chain_try_from_def)

lemma chain_id_only: "chain_try_from i = Some c \<Longrightarrow> i = chain_to_id c"
  by (auto simp: chain_try_from_def split: if_splits)

lemma usdc_chain: "erc_chain_id (usdc c) = chain_to_id c"
  by (cases c) simp_all

lemma usdt_chain: "usdt c = Ok t \<Longrightarrow> erc_chain_id t = chain_to_id c"
  by (cases c) auto

lemma canonical_assets_name_their_chain:
  "chain_try_from (nat_chain_id (native_of_chain c)) = Some c"
  "chain_try_from (erc_chain_id (usdc c)) = Some c"
  "usdt c = Ok t \<Longrightarrow> chain_try_from (erc_chain_id t) = Some c"
  by (simp_all only: native_of_chain_def native_evm_asset.simps usdc_chain usdt_chain chain_try_from_id)

section \<open>Payout units\<close>

fun to_asset :: "payout_unit \<Rightarrow> (asset_error, asset) result" where
  "to_asset (PayAsset a) = Ok a"
| "to_asset (Fiat _) = Err UnsupportedAsset"
| "to_asset (NonMonetary _) = Err UnsupportedAsset"

fun non_monetary_as_str :: "non_monetary_unit \<Rightarrow> string" where
  "non_monetary_as_str Points = ''POINTS''"
| "non_monetary_as_str (SocialUnit r) = sr_title r"

section \<open>Descriptions\<close>

definition description_plain :: "string \<Rightarrow> description" where
  "description_plain t = \<lparr> desc_plain = t, desc_markdown = None, desc_html = None \<rparr>"

definition description_markdown :: "string \<Rightarrow> string \<Rightarrow> description" where
  "description_markdown t m = \<lparr> desc_plain = t, desc_markdown = Some m, desc_html = None \<rparr>"

definition description_all :: "string \<Rightarrow> string \<Rightarrow> string \<Rightarrow> description" where
  "description_all t m h = \<lparr> desc_plain = t, desc_markdown = Some m, desc_html = Some h \<rparr>"

end
