(* ===== verification/Metrics.thy ===== *)
theory Metrics
  imports SeriesRules
begin

text \<open>
  The counters for monitoring (\<open>src/src/clearing/src/api/metrics/api.rs\<close>), their rendering as text
  and the HTTP endpoint that serves it to controllers.  The text of a \<open>Nat\<close> of the crate
  \<open>candid\<close> is a parameter.
\<close>

section \<open>The order of the assets\<close>

text \<open>The derived \<open>Ord\<close> of \<open>Asset\<close>: the variant first, then its fields in their order.\<close>

fun asset_key :: "asset \<Rightarrow> nat \<times> string \<times> u64 \<times> u8" where
  "asset_key (Icrc p) = (0, p, 0, 0)"
| "asset_key (NativeEvm n) = (1, [], nat_chain_id n, nat_decimals n)"
| "asset_key (Erc20 c) = (2, erc_token_address c, erc_chain_id c, erc_decimals c)"

lemma asset_key_inject: "asset_key a = asset_key b \<longleftrightarrow> a = b"
  by (cases a; cases b) auto

instantiation asset :: linorder
begin

definition less_eq_asset :: "asset \<Rightarrow> asset \<Rightarrow> bool" where
  "less_eq_asset a b = (asset_key a \<le> asset_key b)"

definition less_asset :: "asset \<Rightarrow> asset \<Rightarrow> bool" where
  "less_asset a b = (asset_key a < asset_key b)"

instance
  by standard (auto simp: less_eq_asset_def less_asset_def asset_key_inject less_le)

end

section \<open>The counters\<close>

record stats =
  st_open_interest :: nat
  st_total_collateral_locked :: nat
  st_total_users :: u64
  st_total_series :: u64
  st_total_trades :: u64
  st_margin_balances :: "(asset, nat) btmap"
  st_event_counts :: "(string, u64) btmap"

definition balances_by_id :: "clearing \<Rightarrow> (asset_id, u128) btmap" where
  "balances_by_id s =
     fold (\<lambda>account. fold (\<lambda>domain_balances.
         fold (\<lambda>(asset_id, amount). bt_entry asset_id 0 (\<lambda>n. n + amount)) domain_balances)
       (bt_values (acc_balances account)))
     (bt_values (cl_accounts s)) []"

definition balances_by_asset :: "clearing \<Rightarrow> (asset, u128) btmap" where
  "balances_by_asset s =
     fold (\<lambda>(asset_id, amount) mapped.
         case bt_get (cl_collateral_assets s) asset_id of
           Some config \<Rightarrow> bt_insert (cac_asset config) amount mapped
         | None \<Rightarrow> mapped)
       (balances_by_id s) []"

fun event_label :: "event_type \<Rightarrow> string" where
  "event_label OrderPlaced = ''order_placed''"
| "event_label Executed = ''executed''"
| "event_label Settled = ''settled''"
| "event_label Liquidated = ''liquidated''"

definition count_event :: "event \<Rightarrow> (string, u64) btmap \<times> u64 \<Rightarrow> (string, u64) btmap \<times> u64" where
  "count_event ev acc =
     (bt_entry (event_label (ev_event_type ev)) 0 (\<lambda>n. n + 1) (fst acc),
      if ev_event_type ev = Executed then snd acc + 1 else snd acc)"

definition read_stats :: "clearing \<Rightarrow> stats" where
  "read_stats s =
     (let positions = bt_values (cl_positions s);
          (event_counts, trade_count) = fold count_event (cl_events s) ([], 0)
      in \<lparr> st_open_interest = unat (\<Sum>p\<leftarrow>positions. unsigned_abs (pos_net_qty p)),
           st_total_collateral_locked = unat (\<Sum>p\<leftarrow>positions. pos_reserved_margin_usd p),
           st_total_users = of_nat (length (cl_accounts s)),
           st_total_series = of_nat (length (cl_series s)),
           st_total_trades = trade_count,
           st_margin_balances = bt_map_values unat (balances_by_asset s),
           st_event_counts = event_counts \<rparr>)"

section \<open>The text\<close>

definition newline :: string where "newline = [char_of (10 :: nat)]"

definition quoted :: "string \<Rightarrow> string" where
  "quoted s = [char_of (34 :: nat)] @ s @ [char_of (34 :: nat)]"

text \<open>The name of an asset in the metrics is the one its own type prints.\<close>

fun asset_label :: "text_env \<Rightarrow> asset \<Rightarrow> string" where
  "asset_label t (Icrc p) = tx_principal t p"
| "asset_label t (NativeEvm n) = ''native-'' @ show_nat (unat (nat_chain_id n))"
| "asset_label t (Erc20 c) = erc_token_address c @ ''-'' @ show_nat (unat (erc_chain_id c))"

definition metric_header :: "string \<Rightarrow> string \<Rightarrow> string \<Rightarrow> string" where
  "metric_header name help kind =
     ''# HELP '' @ name @ '' '' @ help @ newline @ ''# TYPE '' @ name @ '' '' @ kind @ newline"

definition metric_line :: "string \<Rightarrow> string \<Rightarrow> string" where
  "metric_line name v = name @ '' '' @ v @ newline"

definition metrics_text :: "text_env \<Rightarrow> (nat \<Rightarrow> string) \<Rightarrow> clearing \<Rightarrow> string" where
  "metrics_text t nat_text s =
     (let st = read_stats s in
      metric_header ''clearing_open_interest'' ''Total absolute open interest across all series.''
        ''gauge'' @
      metric_line ''clearing_open_interest'' (nat_text (st_open_interest st)) @
      metric_header ''clearing_total_collateral_locked'' ''Total collateral locked in positions.''
        ''gauge'' @
      metric_line ''clearing_total_collateral_locked'' (nat_text (st_total_collateral_locked st)) @
      metric_header ''clearing_users_total'' ''Total number of unique margin accounts.'' ''gauge'' @
      metric_line ''clearing_users_total'' (show_nat (unat (st_total_users st))) @
      metric_header ''clearing_total_margin_balance''
        ''Total collateral balance per asset in margin accounts.'' ''gauge'' @
      concat (map (\<lambda>(a, balance). metric_line
          (''clearing_total_margin_balance{asset='' @ quoted (asset_label t a) @ ''}'')
          (nat_text balance)) (st_margin_balances st)) @
      metric_header ''clearing_series_total'' ''Total number of derivative series.'' ''gauge'' @
      metric_line ''clearing_series_total'' (show_nat (unat (st_total_series st))) @
      metric_header ''clearing_trade_count_total'' ''Total number of executed trades.''
        ''counter'' @
      metric_line ''clearing_trade_count_total'' (show_nat (unat (st_total_trades st))) @
      metric_header ''clearing_event_count_total'' ''Total number of events by type.'' ''counter'' @
      concat (map (\<lambda>(label, n). metric_line
          (''clearing_event_count_total{type='' @ quoted label @ ''}'') (show_nat (unat n)))
        (st_event_counts st)))"

section \<open>The endpoints\<close>

text \<open>The guard of the two queries traps for anyone but a controller.\<close>

definition stats_query :: "env \<Rightarrow> principal \<Rightarrow> clearing \<Rightarrow> (string, stats) result" where
  "stats_query e caller s = (if env_is_controller e caller then Ok (read_stats s) else Trap)"

definition metrics_query ::
  "env \<Rightarrow> text_env \<Rightarrow> (nat \<Rightarrow> string) \<Rightarrow> principal \<Rightarrow> clearing \<Rightarrow> (string, string) result" where
  "metrics_query e t nat_text caller s =
     (if env_is_controller e caller then Ok (metrics_text t nat_text s) else Trap)"

record http_request =
  hrq_url :: string
  hrq_method :: string
  hrq_body :: string
  hrq_headers :: "(string \<times> string) list"

record http_response =
  hrs_body :: string
  hrs_headers :: "(string \<times> string) list"
  hrs_status_code :: u16

definition handle_http_request ::
  "env \<Rightarrow> text_env \<Rightarrow> (nat \<Rightarrow> string) \<Rightarrow> principal \<Rightarrow> http_request \<Rightarrow> clearing \<Rightarrow> http_response" where
  "handle_http_request e t nat_text caller r s =
     (if hrq_method r \<noteq> ''GET'' \<or> hrq_url r \<noteq> ''/metrics''
      then \<lparr> hrs_body = ''Not Found'', hrs_headers = [], hrs_status_code = 404 \<rparr>
      else if \<not> env_is_controller e caller
      then \<lparr> hrs_body = ''Forbidden: Controller only'', hrs_headers = [], hrs_status_code = 403 \<rparr>
      else let body = metrics_text t nat_text s
           in \<lparr> hrs_body = body,
                hrs_headers = [(''Content-Type'', ''text/plain; version=0.0.4''),
                               (''Content-Length'', show_nat (length body))],
                hrs_status_code = 200 \<rparr>)"

section \<open>Facts\<close>

lemma count_events:
  "snd (fold count_event evs (m, n)) =
     n + of_nat (length (filter (\<lambda>ev. ev_event_type ev = Executed) evs))"
  by (induction evs arbitrary: m n) (auto simp: count_event_def)

lemma total_trades:
  "st_total_trades (read_stats s) =
     of_nat (length (filter (\<lambda>ev. ev_event_type ev = Executed) (cl_events s)))"
  using count_events [of "cl_events s" "[]" 0] by (simp add: read_stats_def split_beta Let_def)

text \<open>Whoever is not a controller learns nothing of the state.\<close>

lemma metrics_are_private:
  "\<not> env_is_controller e caller \<Longrightarrow>
   handle_http_request e t nat_text caller r s = handle_http_request e t nat_text caller r s' \<and>
   stats_query e caller s = Trap \<and> metrics_query e t nat_text caller s = Trap"
  by (simp add: handle_http_request_def stats_query_def metrics_query_def)

end
