(* ===== verification/Divergences.thy ===== *)
theory Divergences
  imports CollateralProperties EventLog Metrics Settlements Funds
begin

text \<open>
  Where the code does something else than its comments say or than it appears to mean, each as a
  lemma about the model: runs that end in a state nobody asked for, and statements of what a branch
  really returns.
\<close>

section \<open>Collateral\<close>

text \<open>
  A deposit that is called again while its transfer is in flight: the ledger answers the second
  call that it has the transfer already, both calls finalise with their own copy of the plan, and
  one transfer of 25 credits 50.
\<close>

definition overlapping :: "request \<Rightarrow> ctx \<Rightarrow> reply \<times> ctx" where
  "overlapping q c =
     (RTransfer (Ok 7),
      snd (run (answering (RTransfer (Err (Duplicate 7)))) (deposit_collateral alice deposit0) c))"

lemma overlapping_deposits_credit_twice:
  "map_option (\<lambda>a. get_balance a Settlement ''tok'')
     (bt_get (cl_accounts (snd (snd (run overlapping (deposit_collateral alice deposit0) (env0, state_c))))) alice) =
   Some 50"
  by code_simp

text \<open>
  A withdrawal called again under the same id, for another asset, while its transfer is in flight:
  the second call finds an amount reserved, so it neither checks the margin nor debits anything, and
  pays that amount of its own asset.  When the first transfer then fails, its debit is refunded, and
  alice has been paid 20 of \<open>dear\<close> with both of her balances as they were.
\<close>

definition dear :: collateral_asset_config where
  "dear = token\<lparr>cac_asset_id := ''dear'', cac_asset := Icrc ''dear-ledger''\<rparr>"

definition state_two :: clearing where
  "state_two = (put_account alice (set_balance Settlement ''dear'' 30 holder) state_c)
     \<lparr>cl_collateral_assets := [(''dear'', dear), (''tok'', token)],
      cl_asset_metrics := [(''dear'', token_price), (''tok'', token_price)]\<rparr>"

definition second_asset :: "request \<Rightarrow> ctx \<Rightarrow> reply \<times> ctx" where
  "second_asset q c =
     (case run (answering (RTransfer (Ok 7)))
             (withdraw_collateral alice ((withdrawal0 20)\<lparr>wcp_asset_id := ''dear''\<rparr>)) c of
        (Ok _, c) \<Rightarrow> (RTransfer (Err (OtherLedgerError ''InsufficientFunds'')), c)
      | (_, c) \<Rightarrow> (RTransfer (Ok 8), c))"

lemma overlapping_withdrawal_is_not_debited:
  "fst (run second_asset (withdraw_collateral alice (withdrawal0 20)) (env0, state_two)) =
     Err (AssetWithdraw (TransferError ''InsufficientFunds'')) \<and>
   map_option (\<lambda>a. (get_balance a Settlement ''tok'', get_balance a Settlement ''dear''))
     (bt_get (cl_accounts (snd (snd (run second_asset (withdraw_collateral alice (withdrawal0 20)) (env0, state_two))))) alice) =
   Some (25, 30)"
  by code_simp

section \<open>Funds\<close>

text \<open>
  A fund withdrawal that is retried pays the amount of the retry, while the fund was debited, and a
  cancellation refunds, the amount of the first call.
\<close>

definition fund0 :: "u128 \<Rightarrow> withdraw_fund_params" where
  "fund0 n = \<lparr> wfp_request_id = ''f1'', wfp_fund_type = Treasury, wfp_asset_id = ''tok'',
     wfp_amount = n, wfp_to = ''bob'' \<rparr>"

definition state_f :: clearing where
  "state_f = state_c\<lparr>cl_treasury := [(''tok'', 100)]\<rparr>"

definition unpaid :: clearing where
  "unpaid = snd (snd (run refusing (withdraw_fund ''admin'' (fund0 10)) (env0, state_f)))"

text \<open>The ledger that pays a transfer of exactly \<open>n\<close>.\<close>

definition paying :: "nat \<Rightarrow> request \<Rightarrow> ctx \<Rightarrow> reply \<times> ctx" where
  "paying n q c =
     ((case q of Icrc1Transfer _ x \<Rightarrow> if ta_amount x = n then RTransfer (Ok 7)
                                     else RTransfer (Err (OtherLedgerError ''amount''))
       | _ \<Rightarrow> CallNotSent ''no such method''), c)"

lemma retried_fund_withdrawal_pays_more:
  "fund_balance Treasury ''tok'' unpaid = 90 \<and>
   fst (run (paying 60) (withdraw_fund ''admin'' (fund0 60)) (env0, unpaid)) = Ok 7 \<and>
   fund_balance Treasury ''tok''
     (snd (snd (run (paying 60) (withdraw_fund ''admin'' (fund0 60)) (env0, unpaid)))) = 90"
  by code_simp

text \<open>
  A cancellation while the transfer is in flight refunds the fund, and the transfer is paid all the
  same.
\<close>

definition cancelling :: "request \<Rightarrow> ctx \<Rightarrow> reply \<times> ctx" where
  "cancelling q c = (RTransfer (Ok 7), fst c, snd (cancel_fund_withdrawal ''f1'' (snd c)))"

lemma cancelled_fund_withdrawal_is_paid:
  "fst (run cancelling (withdraw_fund ''admin'' (fund0 10)) (env0, state_f)) = Ok 7 \<and>
   fund_balance Treasury ''tok''
     (snd (snd (run cancelling (withdraw_fund ''admin'' (fund0 10)) (env0, state_f)))) = 100"
  by code_simp

section \<open>Complete sets\<close>

text \<open>The cost of a set wraps around: an astronomic quantity is minted for nothing.\<close>

lemma set_cost_wraps: "set_cost (2 ^ 124) = 0"
  by (simp add: set_cost_def unsigned_abs_def max_payoff_eq)

lemma minting_for_nothing:
  "fst (mint_complete_set_logic alice ''cat'' cat0 (2 ^ 124) state0) = Ok True \<and>
   get_reserved_margin_usd
     (account_or_new (snd (mint_complete_set_logic alice ''cat'' cat0 (2 ^ 124) state0)) alice) Settlement = 0"
  by code_simp

text \<open>
  The gates look for a settlement on entry only: a set is minted in a series that was settled while
  the call waited for the registry, where it can neither be settled nor redeemed.
\<close>

definition restricted_cat :: series where
  "restricted_cat = cat0\<lparr>ser_trading_access := [Restricted []]\<rparr>"

definition state_r :: clearing where
  "state_r = state0\<lparr>cl_series := bt_of_list [(''cat'', restricted_cat)]\<rparr>"

definition settling :: "request \<Rightarrow> ctx \<Rightarrow> reply \<times> ctx" where
  "settling q c =
     (RBool True, fst c, snd (settle_series_inner env0
        \<lparr> sse_series_id = ''cat'', sse_settlement = Outcome ''A'' \<rparr> (snd c)))"

definition state_stuck :: clearing where
  "state_stuck = snd (snd (run settling (mint_complete_set alice ''cat'' 5) (env0, state_r)))"

lemma minting_slips_past_settlement:
  "fst (run settling (mint_complete_set alice ''cat'' 5) (env0, state_r)) = Ok True \<and>
   get_reserved_margin_usd (account_or_new state_stuck alice) Settlement = 50000 \<and>
   map_option spl_status (bt_get (cl_settlement_plans state_stuck) ''cat'') = Some Finalised \<and>
   fst (run settling (redeem_complete_set alice ''cat'' 5) (env0, state_stuck)) = Err (SeriesAlreadySettled ''cat'')"
  by code_simp

section \<open>Position transfers\<close>

text \<open>Freezing a position takes it off the books and leaves its reserved margin on the account.\<close>

lemma freezing_strands_margin:
  "cl_accounts (snd (freeze_position_for_transfer e x s)) = cl_accounts s"
  by (auto simp: freeze_position_for_transfer_def Let_def split: option.splits)

text \<open>A transfer that is refused for its margin has added its quantity all the same.\<close>

lemma refused_transfer_adds_quantity:
  assumes "bt_get (cl_positions s) (pp_user proof, pp_series_id proof, pp_outcome_id proof) = Some p"
    and "required_margin ser v (pp_outcome_id proof) (pos_net_qty p + pp_qty proof) = Err err"
  shows "accept_position ser proof v s =
    (Err err, s\<lparr>cl_positions := bt_insert (pp_user proof, pp_series_id proof, pp_outcome_id proof)
                  (p\<lparr>pos_net_qty := pos_net_qty p + pp_qty proof\<rparr>) (cl_positions s)\<rparr>)"
  using assms by (simp add: accept_position_def Let_def)

section \<open>Payoffs\<close>

text \<open>In the Social domain nothing is reserved, and a short position is paid in full.\<close>

lemma social_short_is_paid:
  assumes "ser_balance_domain ser = Social" "ser_payoff_type ser = Binary \<or> ser_payoff_type ser = Categorical"
    and "sint (pos_net_qty pos) < 0"
  shows "get_required_margin ser p (pos_net_qty pos) oid = Ok 0"
    and "get_settlement_value ser pos st = Ok (unsigned_abs (pos_net_qty pos) * 10000)"
  using assms by (auto simp: get_settlement_value_def get_unit_payoff_def full_payout_def
      saturating_sub_def max_payoff_eq)

text \<open>A short option is paid what a long one is.\<close>

lemma short_option_is_paid:
  assumes "ser_payoff_type ser = Call \<or> ser_payoff_type ser = Put" "sint (pos_net_qty pos) < 0"
    "get_unit_payoff ser (pos_outcome_id pos) st = Ok u"
  shows "get_settlement_value ser pos st = Ok (unsigned_abs (pos_net_qty pos) * u)"
  using assms by (auto simp: get_settlement_value_def)

text \<open>A binary series pays its resolved price, not one unit.\<close>

lemma binary_pays_price: "get_unit_payoff binary0 None (Price (price_new 5000 4)) = Ok 5000"
  by code_simp

text \<open>
  A binary settlement price above one dollar is not refused: a long and a short position of 7 units,
  which reserved 70000 together, are paid 140000.
\<close>

definition seven :: "user \<Rightarrow> i128 \<Rightarrow> position" where
  "seven u q = \<lparr> pos_user = u, pos_series_id = ''bin'', pos_outcome_id = None, pos_net_qty = q,
                 pos_reserved_margin_usd = 35000 \<rparr>"

lemma binary_overpays:
  "get_settlement_value binary0 (seven alice 7) (Price (price_new 20000 4)) = Ok 140000 \<and>
   get_settlement_value binary0 (seven bob (- 7)) (Price (price_new 20000 4)) = Ok 0"
  by (rule conjI; code_simp)

section \<open>Metrics\<close>

text \<open>The counter of executed trades counts the rows of both sides.\<close>

lemma trade_counts_twice:
  assumes "execute_trade_impl e ser x s = (Ok True, s')"
    and "\<not> bt_contains_key (cl_executed_trades s) (etp_trade_id x)"
  shows "st_total_trades (read_stats s') = st_total_trades (read_stats s) + 2"
  using assms(1)
proof (cases rule: execute_trade_cases)
  case (applied td)
  obtain s1 where "apply_trade e ser x td s = record_trade e x s1" "cl_events s1 = cl_events s"
    by (rule apply_trade_record)
  then show ?thesis by (simp add: applied(6) total_trades record_trade_log)
qed (use assms in simp)

end
