(* ===== verification/RegistryDivergences.thy ===== *)
theory RegistryDivergences
  imports Deployment
begin

text \<open>
  Where the registry, or what the clearing canister makes of its answers, differs from what the rules
  for registration and access say.
\<close>

text \<open>A controller can open a Social market, which registration only admits restricted.\<close>

lemma social_market_can_be_opened:
  "map_option ser_trading_access (bt_get (reg_series (snd (update_trading_access renv0 ''admin''
     \<lparr> uta_series_id = social_id, uta_trading_access = [Open] \<rparr> registry0))) social_id) = Some [Open] \<and>
   ser_balance_domain social_series = Social"
  by code_simp

text \<open>
  Who holds no role and controls nothing forks a social market, although the documentation of the
  engines reserves forking for controllers and creators.
\<close>

definition carol_fork :: fork_series_params where
  "carol_fork = \<lparr> fsp_source_series_id = social_id, fsp_title = None, fsp_description = None,
     fsp_resolution = None, fsp_trading_access = [Restricted [''grp_0'']], fsp_engine_id = None,
     fsp_locale = None \<rparr>"

definition fork_env :: env where "fork_env = renv0\<lparr>env_sha256 := (\<lambda>m. ''f'')\<rparr>"

lemma carol_may_fork:
  "registry_caller_is_not_anonymous ''carol''" "env_now fork_env = 1000"
  "fork_tier fork_env carol_fork ''carol'' registry0 = Ok SocialTier"
  "check_social_rate_limits ''carol'' 1000 registry0 = Ok ()"
  "bt_get (reg_series registry0) (fsp_source_series_id carol_fork) = Some social_series"
  "check_fork carol_fork social_series ''carol'' registry0 = Ok 0"
  "generate_id fork_env tx0 (fork_id_params social_series ''carol'' 0) = ''66''"
  "\<not> bt_contains_key (reg_series registry0) ''66''"
  by code_simp+

lemma anyone_forks_social_market:
  "\<not> env_is_controller fork_env ''carol'' \<and> \<not> has_engine_role registry0 ''carol'' Creator \<and>
   fst (fork_series fork_env tx0 ''carol'' carol_fork registry0) = Ok ''66''"
proof (intro conjI)
  show "\<not> env_is_controller fork_env ''carol''" "\<not> has_engine_role registry0 ''carol'' Creator"
    by code_simp+
  show "fst (fork_series fork_env tx0 ''carol'' carol_fork registry0) = Ok ''66''"
    using carol_may_fork by (simp add: fork_series_def behind_def fork_series_impl_def Let_def)
qed

text \<open>
  The access list of a cached series is not refreshed: a user whom the registry no longer allows to
  trade, because an open series has been restricted, still places an order.
\<close>

definition registry_before :: registry where
  "registry_before = registry_empty\<lparr>reg_series := [(''bin'', binary0)]\<rparr>"

definition registry_after :: registry where
  "registry_after = snd (update_trading_access renv0 ''admin''
     \<lparr> uta_series_id = ''bin'', uta_trading_access = [Restricted [''grp_0'']] \<rparr> registry_before)"

definition answering :: "registry \<Rightarrow> request \<Rightarrow> ctx \<Rightarrow> reply \<times> ctx" where
  "answering r q c =
     ((case registry_answer renv0 r q of None \<Rightarrow> CallNotSent '''' | Some p \<Rightarrow> p), c)"

definition late_order :: submit_limit_order_params where
  "late_order = \<lparr> slo_order_id = ''o9'', slo_series_id = ''bin'', slo_outcome_id = None,
     slo_side = Buy, slo_qty = 10, slo_price = price_new 4000 4 \<rparr>"

lemma revoked_access_still_trades:
  "\<not> registry_is_trading_authorized renv0 alice ''bin'' registry_after \<and>
   fst (run (answering registry_after) (submit_limit_order alice late_order) (env0, state0)) = Ok True"
  by (rule conjI; code_simp)

end
