(* ===== verification/Spec2Isabelle.thy ===== *)
theory Spec2Isabelle
  imports
    TradeProperties
    SettlementProperties
    LogProperties
    BookProperties
    SetProperties
    MarketProperties
    CollateralProperties
    MigrationProperties
    ReassignmentProperties
    BoundsProperties
    TypeProperties
    SystemProperties
    DeploymentProperties
    Answers
    GuardProperties
    QueryProperties
    LeaderboardProperties
    AccountProperties
    HistoryProperties
    RegistryProperties
    RegistryRights
    LegacyState
    Minter
    Funds
    Tokens
    Divergences
    RegistryDivergences
begin

text \<open>
  Verification of ICDC, a clearing house for prediction and option markets on the Internet Computer:
  the clearing canister (\<open>src/src/clearing\<close>), the series registry (\<open>src/src/registry\<close>), the minter
  (\<open>src/src/minter\<close>) and the crate they share (\<open>src/src/shared\<close>).

  The program.  The registry holds the series, the groups, engines and oracles, and who may create
  and trade what.  The clearing canister holds the accounts (balances, cash and reserved margin per
  balance domain), the positions, the order book, and the plans of everything that spans a call to
  another canister; it asks the registry for series and access rights, and ledgers for transfers.
  A trade changes two accounts and two positions and appends to the event log; a settlement closes a
  series' books into a plan and then books the plan's lines chunk by chunk.  The leaderboard, the
  price histories and the traded volumes are projections of the log, rebuilt at an upgrade.

  Conventions.
  \<^item> A thread-local of a \<open>memory.rs\<close> is a field of the record \<open>clearing\<close> (theory ClearingState) or
    \<open>registry\<close> (theory RegistryState); structs are records, enums datatypes, \<open>BTreeMap\<close> a sorted
    association list with the laws of the locale \<open>ordered_map\<close> (theory BTree).
  \<^item> Integers keep their width.  The canisters are built with \<open>--release\<close> without overflow checks, so
    arithmetic wraps; \<open>usize\<close> is 32 bits wide.
  \<^item> A call returns \<open>Ok\<close>, \<open>Err\<close> or \<open>Trap\<close>; a panic and a call rejected by its guard are \<open>Trap\<close>, which
    undoes everything since the last await.  An asynchronous handler is a \<open>proc\<close> (theory Async): it
    ends, or awaits the answer to a request.  \<open>run\<close> executes it in a world, a function that answers
    requests and may meanwhile change the state in any way, so a theorem over all worlds covers every
    interleaving with other messages.
  \<^item> Time, the canister's own principal, the controllers and SHA-256 are the parameter \<open>env\<close>; Unicode
    case mapping, the \<open>Debug\<close> form of strings and the text of principals are \<open>text_env\<close>; the text
    of a candid \<open>Nat\<close> is \<open>nat_text\<close>; whether a backfill has used up its instruction budget is
    \<open>over_budget\<close>.  Error texts that come from outside are carried as they arrive, and candid's own
    decoding error is \<open>decode_message\<close>; where the code puts the \<open>Debug\<close> form of a value into the text
    of an error, the text here is the fixed part of it.
  \<^item> Timers are no state: the result \<open>SettleProcessing\<close> marks where a call arms one.  A stable blob is a
    constructor that names the layout that wrote it.  The standard library's sort, \<open>select_nth\<close> and
    \<open>partition_point\<close> are modelled by what they leave and return.
  \<^item> The only loop with fuel is \<open>trim\<close> (theory Prelude): the length of the string is enough, as
    \<open>trim_start_fuel_enough\<close> shows.  Every other loop of the code is structural recursion or a fold.

  The shared part.
  \<^item> Prelude, BTree, Async, Paging: integers, results and strings; ordered maps; handlers; cursor
    pagination with the locale \<open>paging\<close>, which proves that following the cursors lists everything once.
  \<^item> SharedTypes, SeriesRules, Tokens: \<open>shared/src/types\<close>: domains, prices, assets, payout units,
    series; the id, status, validation and listing of a series; canonical assets.

  The clearing canister.
  \<^item> Margin (\<open>types/margin.rs\<close>): accounts, their tables (locale \<open>register\<close>), equity with haircuts.
    Payoffs (\<open>payoffs/\<close>): unit payoffs, margins, settlement values and fees, with the locale
    \<open>full_collateral\<close>: what both sides of a unit reserve is what they are paid.
  \<^item> ClearingState, Memory, Upgrade, LegacyState (\<open>memory.rs\<close>, \<open>types/\<close>, \<open>migrations/\<close>): the state,
    the plan stores (locale \<open>plan_store\<close>), the projections of the log (locale \<open>projection\<close>) and the
    upgrade.  EventLog ties the projections to the log.
  \<^item> AssetHandlers (\<open>assets/\<close>), Access (\<open>account/reassignment.rs\<close>, \<open>utils/series.rs\<close>): requests to the
    other canisters, the reassignment guard and the gates of a trading call.
  \<^item> Execution (\<open>trade/service.rs\<close>), Trading and CompleteSets (\<open>api/trade/api.rs\<close>): the execution of a
    trade in its three phases, orders, market orders, matched trades, complete sets and transfers.
    TradeQueries: the histories and candles of the same file.
  \<^item> Settlements (\<open>api/settlement/api.rs\<close>), Collateral (\<open>api/collateral/api.rs\<close>), Migration
    (\<open>api/migration/api.rs\<close>), Reassignment (\<open>account/reassignment.rs\<close>), Funds (\<open>api/admin/api.rs\<close>),
    Accounts (\<open>api/account/\<close>), Leaderboard (\<open>types/leaderboard.rs\<close>, \<open>api/leaderboard/\<close>), with its
    types in LeaderboardTypes, and Metrics (\<open>api/metrics/\<close>).  Answers: the enums that the entry
    points answer (\<open>results.rs\<close>).

  The registry and the minter.
  \<^item> RegistryState, RegistryGroups, RegistryEngines, RegistrySeries (\<open>registry/src/memory.rs\<close>,
    \<open>guards.rs\<close>, \<open>api/\<close>) and RegistryUpgrade (\<open>migrations/\<close>, with all five stable layouts).
  \<^item> Minter (\<open>minter/src\<close>): configuration, the mint request and the upgrade hooks.

  The properties.
  \<^item> TradeProperties, MarketProperties: a trade in a fully collateralised series moves wealth between
    its two sides and nowhere else, over any sequence of trades; it happens wholly or not at all, once
    under its id, and only if both sides can cover it; accepted orders leave no arbitrage in the book.
    What concerns payouts holds for prices and unit payoffs up to one dollar, which the code does not
    enforce for a Binary settlement.
  \<^item> Backing, BookProperties: trades, orders, cancellations and market orders keep the reserved margin
    of an account the sum of what its positions and orders block (freezing a position does not, see
    Divergences); what a market order fills, and that cancelling undoes placing.  SetProperties:
    minting and redeeming complete sets give the margin back up to rounding.
  \<^item> SettlementFacts, SettlementProperties, BoundsProperties: the settlement closes the books, its
    accounting terminates and books every line once, moves exactly the plan's cash, is final, closes
    the series to trading, never takes more than the reserved margin, and its plan is exact in
    unbounded integers below the stated sizes.
  \<^item> CollateralProperties: what a deposit and a withdrawal credit and debit in any world that leaves the
    caller's account alone, what a failure leaves, and that an interrupted deposit can be completed.
    MigrationProperties, ReassignmentProperties, GuardProperties: a migration and a reassignment move
    everything and nothing else, and a call that straddles a reassignment is refused.
    TypeProperties: any sequence of such calls leaves the books well typed.
  \<^item> Interleaving, ClearingSystem, SystemProperties: the canister as a whole.  A schedule starts any
    call or timer, resumes any waiting call with any answer, in any order, and upgrades while nothing
    waits; the locale \<open>clearing_guarantee\<close> lifts what every step keeps to every schedule.  Its two
    interpretations: what is recorded is never taken back, and the books stay well typed.  An upgrade
    at any moment of a schedule restores everything but the indices, which are rebuilt from the log.
  \<^item> Deployment, DeploymentProperties: both canisters together.  The registry runs its calls, and what
    the clearing canister learns of series and rights is what the registry answered at some moment;
    the clearing canister's part is one of its schedules, its copies of series agree with the
    registry, and whoever has an order on the book was allowed to trade.
  \<^item> LogProperties: the projections agree with the log after every trade and settlement, so that an
    upgrade restores them too.  QueryProperties, HistoryProperties, LeaderboardProperties, AccountProperties: the
    optimised queries equal their plain definitions.
  \<^item> RegistryInvariant, RegistryProperties, RegistryRights: the invariant of the registry over any
    sequence of calls and upgrades (as long as its id counters do not wrap), the finality of a
    registered series, who may register, fork, trade and administer, complete listings, and upgrades
    from the older layouts that keep everybody's rights.
  \<^item> Divergences, RegistryDivergences: where the code does something else than it says or appears to mean.
  Samples, SettlementSamples and RegistrySamples hold the small states at which the theorems are applied.

  Not modelled.  The export of the entry points and the Candid interface (\<open>lib.rs\<close>), conversions
  between a newtype and its string, the constructors of the EVM RPC and signer clients (their calls
  are the definitions \<open>client_*\<close> of AssetHandlers), logging, the timers themselves, and the parameter
  structs that only carry the arguments of a definition: none of them computes anything.  What lies
  in other canisters (ledgers, the EVM RPC canister, the signer) answers anything.
\<close>

end
